(* ===== verification/Prelude.thy ===== *)
theory Prelude
  imports Main
begin

text \<open>
  Shared ground of the development: the exceptions the services raise, a sum-typed result with
  its bind, Decimal amounts as integer cents with Python's half-even rounding, JSON values,
  rendering of integers and amounts, UUID text, and the list lemmas the table operations need.

  Conventions. An operation that may raise returns \<open>py_error + 'a\<close>, with \<open>Inl\<close> for the
  exception. A \<open>@transaction.atomic\<close> operation returns the new state in the \<open>Inr\<close> case only:
  on \<open>Inl\<close> the caller keeps the state it had, which is the rollback. Instants are integers
  (microseconds), primary keys are natural numbers (the 128-bit value of the UUID), amounts of
  money are integers counting cents (every \<open>DecimalField\<close> of the code has two decimal places).
\<close>

named_theorems result_simps "inversion of successful results"
named_theorems table_simps "rows, counts and sums of updated tables"

section \<open>Exceptions and results\<close>

text \<open>The string is the message of the source, or the model or table name for ORM errors;
  \<open>TransportError\<close> stands for \<open>httpx.HTTPError\<close>.\<close>

datatype py_error =
    ValueError string
  | OutOfStockError string
  | CheckoutError string
  | DoesNotExist string
  | MultipleObjectsReturned string
  | IntegrityError string
  | DataError string
  | ValidationError string
  | AttributeError string
  | KeyError string
  | TypeError string
  | TransportError string
  | PermissionDenied
  | NotAuthenticated
  | Http404
  | NotImplementedError

definition bindE :: "'e + 'a \<Rightarrow> ('a \<Rightarrow> 'e + 'b) \<Rightarrow> 'e + 'b" where
  "bindE m f = (case m of Inl e \<Rightarrow> Inl e | Inr x \<Rightarrow> f x)"

lemma bindE_simps [simp]: "bindE (Inl e) f = Inl e" "bindE (Inr x) f = f x"
  by (simp_all add: bindE_def)

lemma bindE_Inr_iff [result_simps]: "bindE m f = Inr y \<longleftrightarrow> (\<exists>x. m = Inr x \<and> f x = Inr y)"
  by (cases m) auto

lemma bindE_Inl_iff [result_simps]:
  "bindE m f = Inl e \<longleftrightarrow> m = Inl e \<or> (\<exists>x. m = Inr x \<and> f x = Inl e)"
  by (cases m) auto

definition is_ok :: "'e + 'a \<Rightarrow> bool" where
  "is_ok m = (case m of Inl _ \<Rightarrow> False | Inr _ \<Rightarrow> True)"

lemma is_ok_simps [simp]: "is_ok (Inr x)" "\<not> is_ok (Inl e)"
  by (simp_all add: is_ok_def)

lemma is_ok_iff: "is_ok m \<longleftrightarrow> (\<exists>x. m = Inr x)"
  by (cases m) auto

section \<open>Amounts: Decimal with two places\<close>

text \<open>
  Python's default context rounds half to even. \<open>round_half_even n d\<close> is the integer nearest
  to \<open>n / d\<close>; \<open>quantize c k\<close> is \<open>(c * 10 ** -k).quantize(Decimal("0.01"))\<close> in cents.
\<close>

definition round_half_even :: "int \<Rightarrow> int \<Rightarrow> int" where
  "round_half_even n d =
     (let q = n div d; r = n mod d
      in if 2 * r < d then q
         else if d < 2 * r then q + 1
         else if even q then q else q + 1)"

definition quantize :: "int \<Rightarrow> nat \<Rightarrow> int" where
  "quantize c k = (if k \<le> 2 then c * 10 ^ (2 - k) else round_half_even c (10 ^ (k - 2)))"

lemma quantize_cents [simp]: "quantize c 2 = c"
  by (simp add: quantize_def)

lemma round_half_even_error:
  assumes "0 < d"
  shows "2 * \<bar>d * round_half_even n d - n\<bar> \<le> d"
proof -
  have split: "n = d * (n div d) + n mod d" by simp
  have r: "0 \<le> n mod d" "n mod d < d" using assms by simp_all
  have up: "d * (n div d + 1) = d * (n div d) + d" by (simp add: algebra_simps)
  show ?thesis
    unfolding round_half_even_def Let_def using split r up by (smt (verit))
qed

lemma round_half_even_le:
  assumes "0 < d" "n \<le> d * m"
  shows "round_half_even n d \<le> m"
proof (rule ccontr)
  assume "\<not> round_half_even n d \<le> m"
  then have "m + 1 \<le> round_half_even n d" by simp
  with assms(1) have "d * (m + 1) \<le> d * round_half_even n d"
    by (simp add: mult_left_mono)
  then have "d * m + d \<le> d * round_half_even n d" by (simp add: algebra_simps)
  with round_half_even_error [OF assms(1), of n] assms show False by simp
qed

lemma round_half_even_ge:
  assumes "0 < d" "d * m \<le> n"
  shows "m \<le> round_half_even n d"
proof (rule ccontr)
  assume "\<not> m \<le> round_half_even n d"
  then have "round_half_even n d + 1 \<le> m" by simp
  with assms(1) have "d * (round_half_even n d + 1) \<le> d * m"
    by (simp add: mult_left_mono)
  then have "d * round_half_even n d + d \<le> d * m" by (simp add: algebra_simps)
  with round_half_even_error [OF assms(1), of n] assms show False by simp
qed

section \<open>Text: integers, amounts, ASCII case\<close>

fun digits_of :: "nat \<Rightarrow> string" where
  "digits_of n =
     (if n < 10 then [''0123456789'' ! n]
      else digits_of (n div 10) @ [''0123456789'' ! (n mod 10)])"

declare digits_of.simps [simp del]

definition str_int :: "int \<Rightarrow> string" where
  "str_int i = (if i < 0 then ''-'' @ digits_of (nat (- i)) else digits_of (nat i))"

text \<open>\<open>str(Decimal)\<close> of an amount with two places.\<close>

definition str_money :: "int \<Rightarrow> string" where
  "str_money c =
     (let a = nat \<bar>c\<bar>
      in (if c < 0 then ''-'' else '''') @ digits_of (a div 100) @ ''.'' @
         [''0123456789'' ! (a mod 100 div 10), ''0123456789'' ! (a mod 10)])"

definition lower_char :: "char \<Rightarrow> char" where
  "lower_char c = (if 65 \<le> (of_char c :: nat) \<and> (of_char c :: nat) \<le> 90
                   then char_of ((of_char c :: nat) + 32) else c)"

definition lower :: "string \<Rightarrow> string" where
  "lower s = map lower_char s"

definition startswith :: "string \<Rightarrow> string \<Rightarrow> bool" where
  "startswith p s \<longleftrightarrow> take (length p) s = p"

section \<open>JSON values\<close>

text \<open>
  \<open>JDec c k\<close> is the number \<open>c / 10 ^ k\<close>. Objects are association lists with distinct keys.
\<close>

datatype json =
    JNull
  | JBool bool
  | JInt int
  | JDec int nat
  | JStr string
  | JList "json list"
  | JObj "(string \<times> json) list"

text \<open>Python's truth value of a decoded JSON value.\<close>

fun truthy :: "json \<Rightarrow> bool" where
  "truthy JNull = False"
| "truthy (JBool b) = b"
| "truthy (JInt i) = (i \<noteq> 0)"
| "truthy (JDec c k) = (c \<noteq> 0)"
| "truthy (JStr s) = (s \<noteq> [])"
| "truthy (JList xs) = (xs \<noteq> [])"
| "truthy (JObj kvs) = (kvs \<noteq> [])"

text \<open>\<open>v.get(key, default)\<close>: an \<open>AttributeError\<close> where \<open>v\<close> is not a dict.\<close>

fun json_get :: "json \<Rightarrow> string \<Rightarrow> json \<Rightarrow> py_error + json" where
  "json_get (JObj kvs) key dflt = Inr (case map_of kvs key of None \<Rightarrow> dflt | Some v \<Rightarrow> v)"
| "json_get _ key dflt = Inl (AttributeError ''get'')"

definition json_or :: "json \<Rightarrow> json \<Rightarrow> json" where
  "json_or a b = (if truthy a then a else b)"

text \<open>\<open>v[key]\<close>, iteration over \<open>v\<close>, and \<open>v in {...}\<close> for a set of strings.\<close>

fun json_item :: "json \<Rightarrow> string \<Rightarrow> py_error + json" where
  "json_item (JObj kvs) key = (case map_of kvs key of None \<Rightarrow> Inl (KeyError key) | Some v \<Rightarrow> Inr v)"
| "json_item _ key = Inl (TypeError ''indices'')"

fun json_iter :: "json \<Rightarrow> py_error + json list" where
  "json_iter (JList xs) = Inr xs"
| "json_iter (JObj kvs) = Inr (map (JStr \<circ> fst) kvs)"
| "json_iter (JStr s) = Inr (map (\<lambda>c. JStr [c]) s)"
| "json_iter _ = Inl (TypeError ''not iterable'')"

fun json_in :: "json \<Rightarrow> string list \<Rightarrow> py_error + bool" where
  "json_in (JStr s) xs = Inr (s \<in> set xs)"
| "json_in (JList _) xs = Inl (TypeError ''unhashable type'')"
| "json_in (JObj _) xs = Inl (TypeError ''unhashable type'')"
| "json_in _ xs = Inr False"

text \<open>
  A decoded value in an f-string, as \<open>str(v)\<close>. \<open>repr\<close> is Python's text of floats, lists and
  dicts.
\<close>

fun py_str :: "(json \<Rightarrow> string) \<Rightarrow> json \<Rightarrow> string" where
  "py_str repr (JStr s) = s"
| "py_str repr (JInt i) = str_int i"
| "py_str repr JNull = ''None''"
| "py_str repr (JBool b) = (if b then ''True'' else ''False'')"
| "py_str repr v = repr v"

section \<open>Responses\<close>

text \<open>
  What a view returns: a status code and a body. A view that raises returns \<open>Inl\<close>; unlike an
  atomic service it keeps the effects of the calls it completed, so views return the state
  beside the outcome.
\<close>

datatype response = Response (status_code: int) (resp_body: json)

definition error_response :: "int \<Rightarrow> string \<Rightarrow> string \<Rightarrow> response" where
  "error_response st code msg =
     Response st (JObj [(''error'', JObj [(''code'', JStr code), (''message'', JStr msg)])])"

end
