(* ===== verification/Core_Models.thy ===== *)
theory Core_Models
  imports Prelude
begin

text \<open>
  \<open>django_app/apps/core/models.py\<close>: the columns every entity inherits and the soft-delete
  managers. A table is the list of its rows in insertion order, dead rows included. The record
  \<open>base_model\<close> is extended by the entity records of the other theories, as
  \<open>TimeStampedUUIDModel\<close> is subclassed, so the operations here work on all of them.
\<close>

section \<open>The inherited columns and the managers\<close>

record base_model =
  pk :: nat
  created_at :: int
  updated_at :: int
  deleted_at :: "int option"

text \<open>A queryset is the predicate that selects its rows from the table.\<close>

definition update_where :: "('a \<Rightarrow> bool) \<Rightarrow> ('a \<Rightarrow> 'a) \<Rightarrow> 'a list \<Rightarrow> 'a list" where
  "update_where p f rows = map (\<lambda>r. if p r then f r else r) rows"

definition count_where :: "('a \<Rightarrow> bool) \<Rightarrow> 'a list \<Rightarrow> nat" where
  "count_where p rows = length (filter p rows)"

definition is_alive :: "('a :: type) base_model_scheme \<Rightarrow> bool" where
  "is_alive r \<longleftrightarrow> deleted_at r = None"

text \<open>\<open>SoftDeleteQuerySet.alive\<close>, \<open>SoftDeleteQuerySet.dead\<close>: they narrow the queryset.\<close>

definition qs_alive :: "('a base_model_scheme \<Rightarrow> bool) \<Rightarrow> 'a base_model_scheme \<Rightarrow> bool" where
  "qs_alive p r \<longleftrightarrow> p r \<and> deleted_at r = None"

definition qs_dead :: "('a base_model_scheme \<Rightarrow> bool) \<Rightarrow> 'a base_model_scheme \<Rightarrow> bool" where
  "qs_dead p r \<longleftrightarrow> p r \<and> deleted_at r \<noteq> None"

text \<open>\<open>SoftDeleteQuerySet.delete\<close> stamps the rows and returns how many it stamped.\<close>

definition qs_delete ::
  "int \<Rightarrow> ('a base_model_scheme \<Rightarrow> bool) \<Rightarrow> 'a base_model_scheme list
   \<Rightarrow> nat \<times> 'a base_model_scheme list" where
  "qs_delete now p tbl =
     (count_where p tbl, update_where p (\<lambda>r. r\<lparr>deleted_at := Some now\<rparr>) tbl)"

definition qs_hard_delete ::
  "('a base_model_scheme \<Rightarrow> bool) \<Rightarrow> 'a base_model_scheme list
   \<Rightarrow> nat \<times> 'a base_model_scheme list" where
  "qs_hard_delete p tbl = (count_where p tbl, filter (\<lambda>r. \<not> p r) tbl)"

text \<open>
  \<open>SoftDeleteManager.get_queryset\<close>: \<open>objects\<close> (and every related manager, which Django builds
  from the default manager's class) sees living rows only, \<open>all_objects\<close> sees all of them.
\<close>

definition get_queryset :: "bool \<Rightarrow> 'a base_model_scheme list \<Rightarrow> 'a base_model_scheme list" where
  "get_queryset alive_only tbl =
     (if alive_only then filter (\<lambda>r. deleted_at r = None) tbl else tbl)"

abbreviation objects :: "'a base_model_scheme list \<Rightarrow> 'a base_model_scheme list" where
  "objects tbl \<equiv> get_queryset True tbl"

abbreviation all_objects :: "'a base_model_scheme list \<Rightarrow> 'a base_model_scheme list" where
  "all_objects tbl \<equiv> get_queryset False tbl"

text \<open>
  \<open>instance.save(update_fields = ...)\<close> writes the named columns of the row with the instance's
  key; it goes through the plain base manager, so it reaches dead rows too.
\<close>

definition save_row ::
  "nat \<Rightarrow> ('a base_model_scheme \<Rightarrow> 'a base_model_scheme) \<Rightarrow> 'a base_model_scheme list
   \<Rightarrow> 'a base_model_scheme list" where
  "save_row k f tbl = update_where (\<lambda>r. pk r = k) f tbl"

text \<open>\<open>SoftDeleteModel.delete\<close>, \<open>hard_delete\<close> and \<open>restore\<close> of one instance.\<close>

definition delete_row :: "int \<Rightarrow> nat \<Rightarrow> 'a base_model_scheme list \<Rightarrow> 'a base_model_scheme list" where
  "delete_row now k tbl = save_row k (\<lambda>r. r\<lparr>deleted_at := Some now\<rparr>) tbl"

definition hard_delete_row :: "nat \<Rightarrow> 'a base_model_scheme list \<Rightarrow> 'a base_model_scheme list" where
  "hard_delete_row k tbl = filter (\<lambda>r. pk r \<noteq> k) tbl"

definition restore_row :: "nat \<Rightarrow> 'a base_model_scheme list \<Rightarrow> 'a base_model_scheme list" where
  "restore_row k tbl = save_row k (\<lambda>r. r\<lparr>deleted_at := None\<rparr>) tbl"

text \<open>
  \<open>uuid.uuid4\<close> as the key of a new row: a value no row of the table has. \<open>find_pk\<close> is the
  lookup of a row by key through the base manager.
\<close>

definition fresh_pk :: "'a base_model_scheme list \<Rightarrow> nat" where
  "fresh_pk tbl = Suc (foldr (\<lambda>r m. max (pk r) m) tbl 0)"

definition find_pk :: "nat \<Rightarrow> 'a base_model_scheme list \<Rightarrow> 'a base_model_scheme option" where
  "find_pk k tbl = find (\<lambda>r. pk r = k) tbl"

text \<open>
  \<open>Manager.get(...)\<close>: exactly one living row must match; and the columns a new row starts with.
\<close>

definition get_one ::
  "string \<Rightarrow> ('a base_model_scheme \<Rightarrow> bool) \<Rightarrow> 'a base_model_scheme list
   \<Rightarrow> py_error + 'a base_model_scheme" where
  "get_one model p tbl =
     (case filter p (objects tbl) of
        [] \<Rightarrow> Inl (DoesNotExist model)
      | [r] \<Rightarrow> Inr r
      | _ \<Rightarrow> Inl (MultipleObjectsReturned model))"

text \<open>
  \<open>Manager.get_or_create(**query, defaults = ...)\<close>: the living row that matches, else a new
  row. \<open>clash\<close> says whether inserting breaks a unique or foreign key constraint of the table,
  which sees dead rows too: then the \<open>IntegrityError\<close> stands, since the second \<open>get\<close> of
  Django's implementation does not find the row either.
\<close>

definition get_or_create ::
  "string \<Rightarrow> ('a base_model_scheme \<Rightarrow> bool) \<Rightarrow> bool \<Rightarrow> (nat \<Rightarrow> 'a base_model_scheme)
   \<Rightarrow> 'a base_model_scheme list
   \<Rightarrow> py_error + ('a base_model_scheme \<times> bool \<times> 'a base_model_scheme list)" where
  "get_or_create model p clash mk tbl =
     (case filter p (objects tbl) of
        [] \<Rightarrow> if clash then Inl (IntegrityError model)
              else (let r = mk (fresh_pk tbl) in Inr (r, True, tbl @ [r]))
      | [r] \<Rightarrow> Inr (r, False, tbl)
      | _ \<Rightarrow> Inl (MultipleObjectsReturned model))"

section \<open>Tables\<close>

definition distinct_pks :: "'a base_model_scheme list \<Rightarrow> bool" where
  "distinct_pks tbl \<longleftrightarrow> distinct (map pk tbl)"

lemma length_update_where [table_simps]: "length (update_where p f tbl) = length tbl"
  by (simp add: update_where_def)

lemma update_where_Nil [simp]: "update_where p f [] = []"
  by (simp add: update_where_def)

lemma update_where_Cons [simp]:
  "update_where p f (r # rs) = (if p r then f r else r) # update_where p f rs"
  by (simp add: update_where_def)

lemma set_update_where [table_simps]:
  "set (update_where p f tbl) = (\<lambda>r. if p r then f r else r) ` set tbl"
  by (simp add: update_where_def)

lemma map_pk_save_row [table_simps]:
  "(\<And>r. pk (f r) = pk r) \<Longrightarrow> map pk (save_row k f tbl) = map pk tbl"
  by (simp add: save_row_def update_where_def)

lemma map_pk_save_row_eq [table_simps]:
  "(\<And>r. pk r = k \<Longrightarrow> pk (f r) = k) \<Longrightarrow> map pk (save_row k f tbl) = map pk tbl"
  by (simp add: save_row_def update_where_def)

lemma map_pk_qs_delete [table_simps]: "map pk (snd (qs_delete now p tbl)) = map pk tbl"
  by (simp add: qs_delete_def update_where_def)

lemma save_row_notin [table_simps]: "k \<notin> pk ` set tbl \<Longrightarrow> save_row k f tbl = tbl"
  by (induction tbl) (auto simp: save_row_def)

lemma find_SomeD: "find P xs = Some x \<Longrightarrow> x \<in> set xs \<and> P x"
  by (induction xs) (auto split: if_splits)

lemma foldr_max_pk: "r \<in> set tbl \<Longrightarrow> pk r \<le> foldr (\<lambda>r m. max (pk r) m) tbl 0"
  by (induction tbl) auto

lemma fresh_pk_notin [table_simps, simp]: "fresh_pk tbl \<notin> pk ` set tbl"
  using foldr_max_pk [of _ tbl] by (fastforce simp: fresh_pk_def)

lemma distinct_pks_append_fresh [table_simps]:
  "distinct_pks tbl \<Longrightarrow> pk r = fresh_pk tbl \<Longrightarrow> distinct_pks (tbl @ [r])"
  by (auto simp: distinct_pks_def)

text \<open>A column sum over a table changes by the change of the one row that is saved.\<close>

lemma sum_save_row:
  fixes g :: "'a base_model_scheme \<Rightarrow> int"
  assumes "distinct_pks tbl" "s \<in> set tbl"
  shows "sum_list (map g (save_row (pk s) f tbl)) = sum_list (map g tbl) - g s + g (f s)"
  using assms
proof (induction tbl)
  case Nil
  then show ?case by simp
next
  case (Cons r tbl)
  show ?case
  proof (cases "r = s")
    case True
    with Cons.prems have "pk s \<notin> pk ` set tbl" by (auto simp: distinct_pks_def)
    with True show ?thesis
      using save_row_notin [of "pk s" tbl f] by (simp add: save_row_def)
  next
    case False
    with Cons.prems have "s \<in> set tbl" by simp
    moreover have "pk r \<noteq> pk s" using Cons.prems \<open>s \<in> set tbl\<close> by (auto simp: distinct_pks_def)
    ultimately show ?thesis using Cons by (simp add: save_row_def distinct_pks_def)
  qed
qed

lemma find_pk_Some: "find_pk k tbl = Some r \<Longrightarrow> r \<in> set tbl \<and> pk r = k"
  by (auto simp: find_pk_def find_Some_iff in_set_conv_nth)

lemma find_pk_in [table_simps]:
  assumes "distinct_pks tbl" "r \<in> set tbl"
  shows "find_pk (pk r) tbl = Some r"
  using assms by (induction tbl) (auto simp: find_pk_def distinct_pks_def)

lemma get_or_create_cases:
  assumes "get_or_create m p clash mk tbl = Inr (r, created, tbl')"
  obtains "\<not> created" "tbl' = tbl" "r \<in> set tbl" "p r" "is_alive r"
  | "created" "\<not> clash" "r = mk (fresh_pk tbl)" "tbl' = tbl @ [r]" "filter p (objects tbl) = []"
  using assms unfolding get_or_create_def get_queryset_def is_alive_def
  by (auto split: list.splits if_splits simp: Let_def filter_eq_Cons_iff)

lemma get_one_Inr: "get_one m p tbl = Inr r \<Longrightarrow> r \<in> set tbl \<and> p r \<and> is_alive r"
  unfolding get_one_def get_queryset_def is_alive_def
  by (auto split: list.splits simp: filter_eq_Cons_iff)

text \<open>Sums over a queryset, as sums over the whole table.\<close>

lemma sum_objects:
  fixes g :: "'a base_model_scheme \<Rightarrow> int"
  shows "sum_list (map g (filter p (objects tbl))) =
           sum_list (map (\<lambda>r. if is_alive r \<and> p r then g r else 0) tbl)"
  by (induction tbl) (auto simp: get_queryset_def is_alive_def)

lemma sum_update_where:
  fixes g :: "'a \<Rightarrow> int"
  shows "sum_list (map g (update_where p f tbl)) = sum_list (map (\<lambda>r. g (if p r then f r else r)) tbl)"
  by (induction tbl) auto

lemma set_objects [simp]: "set (objects tbl) = {r \<in> set tbl. is_alive r}"
  by (auto simp: get_queryset_def is_alive_def)

lemma distinct_pks_update_where:
  "distinct_pks tbl \<Longrightarrow> (\<And>r. pk (f r) = pk r) \<Longrightarrow> distinct_pks (update_where p f tbl)"
  by (simp add: distinct_pks_def update_where_def comp_def if_distrib [of pk] cong: if_cong)

end
