(* ===== verification/Accounts.thy ===== *)
theory Accounts
  imports Core_Models "HOL-Library.AList"
begin

text \<open>
  \<open>django_app/apps/users\<close> and \<open>core/permissions.py\<close>: users and roles, the permission classes, the
  address book, registration and the wishlist each new user gets, the views. \<open>User.objects\<close> is a
  plain manager (\<open>UserManager\<close>), so it sees soft-deleted users. Password hashing, token signing
  and the e-mail normaliser are parameters.
\<close>

section \<open>Models\<close>

record role = base_model +
  ro_code :: string
  ro_name :: string
  ro_description :: string
  ro_is_system :: bool

record user = base_model +
  us_email :: string
  us_password :: string
  us_first_name :: string
  us_last_name :: string
  us_phone :: string
  us_is_active :: bool
  us_is_staff :: bool
  us_is_superuser :: bool
  us_email_verified_at :: "int option"
  us_phone_verified_at :: "int option"
  us_last_login_ip :: "string option"
  us_roles :: "nat list"

datatype address_kind = SHIPPING | BILLING | BOTH

record address = base_model +
  ad_user :: nat
  ad_label :: string
  ad_kind :: address_kind
  ad_full_name :: string
  ad_phone :: string
  ad_country :: string
  ad_region :: string
  ad_city :: string
  ad_street :: string
  ad_apartment :: string
  ad_postal_code :: string
  ad_is_default :: bool
  ad_location :: json

record wishlist = base_model +
  wl_user :: nat
  wl_products :: "nat list"

record accounts =
  roles :: "role list"
  users :: "user list"
  addresses :: "address list"
  wishlists :: "wishlist list"

definition is_space :: "char \<Rightarrow> bool" where
  "is_space c \<longleftrightarrow> c \<in> {CHR '' '', CHR 0x09, CHR 0x0A, CHR 0x0B, CHR 0x0C, CHR 0x0D}"

definition strip :: "string \<Rightarrow> string" where
  "strip s = rev (dropWhile is_space (rev (dropWhile is_space s)))"

definition full_name :: "user \<Rightarrow> string" where
  "full_name u =
     (let s = strip (us_first_name u @ '' '' @ us_last_name u) in if s \<noteq> '''' then s else us_email u)"

text \<open>\<open>user.roles\<close> is a related manager of a soft-deletable model: living roles only.\<close>

definition roles_of :: "user \<Rightarrow> accounts \<Rightarrow> role list" where
  "roles_of u db = filter (\<lambda>r. pk r \<in> set (us_roles u)) (objects (roles db))"

definition has_role :: "user \<Rightarrow> string \<Rightarrow> accounts \<Rightarrow> bool" where
  "has_role u code db \<longleftrightarrow> (\<exists>r \<in> set (roles_of u db). ro_code r = code)"

section \<open>Permission classes\<close>

text \<open>\<open>None\<close> is an unauthenticated request.\<close>

definition HasRole :: "string list \<Rightarrow> user option \<Rightarrow> accounts \<Rightarrow> bool" where
  "HasRole required_roles usr db =
     (case usr of None \<Rightarrow> False
      | Some u \<Rightarrow> if us_is_superuser u then True
                  else let user_roles = set (map ro_code (roles_of u db)) in
                       list_ex (\<lambda>r. r \<in> user_roles) required_roles)"

definition IsCustomer :: "user option \<Rightarrow> accounts \<Rightarrow> bool" where
  "IsCustomer = HasRole [''customer'']"

definition IsStaff :: "user option \<Rightarrow> accounts \<Rightarrow> bool" where
  "IsStaff = HasRole [''staff'', ''admin'']"

definition IsAdmin :: "user option \<Rightarrow> accounts \<Rightarrow> bool" where
  "IsAdmin = HasRole [''admin'']"

definition IsVendor :: "user option \<Rightarrow> accounts \<Rightarrow> bool" where
  "IsVendor = HasRole [''vendor'']"

text \<open>
  Object level: \<open>owner\<close> is the key of the object's user, \<open>None\<close> where the object has no user.
  DRF's default \<open>has_permission\<close> is true.
\<close>

definition IsOwnerOrStaff :: "user option \<Rightarrow> nat option \<Rightarrow> bool" where
  "IsOwnerOrStaff usr owner =
     (case usr of None \<Rightarrow> False
      | Some u \<Rightarrow> if us_is_superuser u \<or> us_is_staff u then True else owner = Some (pk u))"

definition IsAuthenticated :: "user option \<Rightarrow> bool" where
  "IsAuthenticated usr = (usr \<noteq> None)"

section \<open>Creating users\<close>

text \<open>
  The keyword arguments \<open>**extra\<close> that matter: each may be absent. \<open>normalize_email\<close> and
  \<open>hash\<close> (\<open>set_password\<close>) are Django's.
\<close>

record user_extra =
  ex_first_name :: string
  ex_last_name :: string
  ex_phone :: string
  ex_is_staff :: "bool option"
  ex_is_superuser :: "bool option"
  ex_is_active :: "bool option"

definition setdefault :: "bool option \<Rightarrow> bool \<Rightarrow> bool option" where
  "setdefault v d = (case v of None \<Rightarrow> Some d | Some b \<Rightarrow> Some b)"

text \<open>The \<open>post_save\<close> receiver \<open>create_wishlist\<close>.\<close>

definition create_wishlist :: "int \<Rightarrow> nat \<Rightarrow> accounts \<Rightarrow> py_error + accounts" where
  "create_wishlist now u db =
     bindE (get_or_create ''users_wishlist'' (\<lambda>w. wl_user w = u) (\<exists>w \<in> set (wishlists db). wl_user w = u)
              (\<lambda>k. \<lparr>pk = k, created_at = now, updated_at = now, deleted_at = None,
                    wl_user = u, wl_products = []\<rparr>) (wishlists db))
       (\<lambda>(_, _, tbl). Inr (db\<lparr>wishlists := tbl\<rparr>))"

definition create_user_row ::
  "(string \<Rightarrow> string) \<Rightarrow> (string option \<Rightarrow> string) \<Rightarrow> int \<Rightarrow> string \<Rightarrow> string option \<Rightarrow> user_extra
   \<Rightarrow> accounts \<Rightarrow> py_error + (user \<times> accounts)" where
  "create_user_row normalize_email hash now email password extra db =
     (if email = '''' then Inl (ValueError ''Email is required'')
      else
        let u = \<lparr>pk = fresh_pk (users db), created_at = now, updated_at = now, deleted_at = None,
                 us_email = normalize_email email, us_password = hash password,
                 us_first_name = ex_first_name extra, us_last_name = ex_last_name extra,
                 us_phone = ex_phone extra,
                 us_is_active = (case ex_is_active extra of None \<Rightarrow> True | Some b \<Rightarrow> b),
                 us_is_staff = (case ex_is_staff extra of None \<Rightarrow> False | Some b \<Rightarrow> b),
                 us_is_superuser = (case ex_is_superuser extra of None \<Rightarrow> False | Some b \<Rightarrow> b),
                 us_email_verified_at = None, us_phone_verified_at = None,
                 us_last_login_ip = None, us_roles = []\<rparr> in
        if \<exists>x \<in> set (users db). us_email x = us_email u then Inl (IntegrityError ''users_user'')
        else bindE (create_wishlist now (pk u) (db\<lparr>users := users db @ [u]\<rparr>)) (\<lambda>db'. Inr (u, db')))"

definition create_user ::
  "(string \<Rightarrow> string) \<Rightarrow> (string option \<Rightarrow> string) \<Rightarrow> int \<Rightarrow> string \<Rightarrow> string option \<Rightarrow> user_extra
   \<Rightarrow> accounts \<Rightarrow> py_error + (user \<times> accounts)" where
  "create_user normalize_email hash now email password extra db =
     create_user_row normalize_email hash now email password
       (extra\<lparr>ex_is_staff := setdefault (ex_is_staff extra) False,
              ex_is_superuser := setdefault (ex_is_superuser extra) False\<rparr>) db"

definition create_superuser ::
  "(string \<Rightarrow> string) \<Rightarrow> (string option \<Rightarrow> string) \<Rightarrow> int \<Rightarrow> string \<Rightarrow> string option \<Rightarrow> user_extra
   \<Rightarrow> accounts \<Rightarrow> py_error + (user \<times> accounts)" where
  "create_superuser normalize_email hash now email password extra db =
     (let e = extra\<lparr>ex_is_staff := setdefault (ex_is_staff extra) True,
                    ex_is_superuser := setdefault (ex_is_superuser extra) True,
                    ex_is_active := setdefault (ex_is_active extra) True\<rparr> in
      if ex_is_staff e \<noteq> Some True then Inl (ValueError ''Superuser must have is_staff=True'')
      else if ex_is_superuser e \<noteq> Some True then Inl (ValueError ''Superuser must have is_superuser=True'')
      else create_user_row normalize_email hash now email password e db)"

text \<open>
  \<open>RegisterSerializer.create\<close>. The serializer's fields leave no way to pass a staff flag. The
  e-mail's uniqueness is validated by DRF before, exactly as given, so the constraint can only
  fail on the normalised form. Creating and adding the role are separate transactions.
\<close>

definition RegisterSerializer_create ::
  "(string \<Rightarrow> string) \<Rightarrow> (string option \<Rightarrow> string) \<Rightarrow> int \<Rightarrow> string \<Rightarrow> string
   \<Rightarrow> string \<Rightarrow> string \<Rightarrow> string \<Rightarrow> accounts \<Rightarrow> py_error + (user \<times> accounts)" where
  "RegisterSerializer_create normalize_email hash now email password first_name last_name phone db =
     bindE (create_user normalize_email hash now email (Some password)
              \<lparr>ex_first_name = first_name, ex_last_name = last_name, ex_phone = phone,
               ex_is_staff = None, ex_is_superuser = None, ex_is_active = None\<rparr> db)
       (\<lambda>(u, db').
         case get_one ''Role'' (\<lambda>r. ro_code r = ''customer'') (roles db') of
           Inr customer \<Rightarrow>
             let u' = u\<lparr>us_roles := us_roles u @ [pk customer]\<rparr> in
             Inr (u', db'\<lparr>users := save_row (pk u) (\<lambda>r. r\<lparr>us_roles := us_roles u'\<rparr>) (users db')\<rparr>)
         | Inl (DoesNotExist _) \<Rightarrow> Inr (u, db')
         | Inl e \<Rightarrow> Inl e)"

text \<open>The claims \<open>NovaTokenObtainPairSerializer.get_token\<close> adds to the token of \<open>super()\<close>.\<close>

definition get_token :: "(string \<times> json) list \<Rightarrow> user \<Rightarrow> accounts \<Rightarrow> (string \<times> json) list" where
  "get_token token u db =
     AList.update ''is_staff'' (JBool (us_is_staff u))
       (AList.update ''roles'' (JList (map (JStr \<circ> ro_code) (roles_of u db)))
         (AList.update ''email'' (JStr (us_email u)) token))"

text \<open>\<open>LogoutView.post\<close>; \<open>blacklist\<close> is whether simplejwt accepted and revoked the token.\<close>

definition LogoutView_post :: "(json \<Rightarrow> bool) \<Rightarrow> json \<Rightarrow> py_error + response" where
  "LogoutView_post blacklist data =
     bindE (json_get data ''refresh'' JNull) (\<lambda>refresh.
       if \<not> truthy refresh
       then Inr (error_response 400 ''missing_refresh'' ''refresh token required'')
       else if \<not> blacklist refresh
       then Inr (error_response 400 ''invalid_refresh'' ''invalid refresh token'')
       else Inr (Response 205 (JObj [(''detail'', JStr ''logged out'')])))"

section \<open>Seeding roles\<close>

definition SYSTEM_ROLES :: "(string \<times> string \<times> string) list" where
  "SYSTEM_ROLES =
     [(''customer'', ''Customer'', ''End-user shopping on the storefront.''),
      (''vendor'', ''Vendor'', ''Multi-vendor seller account.''),
      (''staff'', ''Staff'', ''Internal operations team member.''),
      (''admin'', ''Administrator'', ''Full administrative access.''),
      (''support'', ''Support'', ''Customer-support agent.'')]"

text \<open>\<open>update_or_create(code = ..., defaults = ...)\<close> over the living roles.\<close>

definition seed_role :: "int \<Rightarrow> string \<times> string \<times> string \<Rightarrow> role list \<Rightarrow> py_error + role list" where
  "seed_role now d tbl =
     (case d of (code, name, description) \<Rightarrow>
       bindE (get_or_create ''users_role'' (\<lambda>r. ro_code r = code) (\<exists>r \<in> set tbl. ro_code r = code)
                (\<lambda>k. \<lparr>pk = k, created_at = now, updated_at = now, deleted_at = None, ro_code = code,
                      ro_name = name, ro_description = description, ro_is_system = True\<rparr>) tbl)
         (\<lambda>(r, created, tbl').
           Inr (if created then tbl'
                else save_row (pk r) (\<lambda>x. x\<lparr>ro_name := name, ro_description := description,
                                           ro_is_system := True, updated_at := now\<rparr>) tbl')))"

fun seed_roles :: "int \<Rightarrow> (string \<times> string \<times> string) list \<Rightarrow> role list \<Rightarrow> py_error + role list" where
  "seed_roles now [] tbl = Inr tbl"
| "seed_roles now (d # ds) tbl = bindE (seed_role now d tbl) (seed_roles now ds)"

section \<open>The address book\<close>

text \<open>The user's addresses, defaults first, newest first within.\<close>

definition address_queryset :: "nat \<Rightarrow> accounts \<Rightarrow> address list" where
  "address_queryset u db =
     sort_key (\<lambda>a. (if ad_is_default a then 0 else 1 :: int))
       (sort_key (\<lambda>a. - created_at a) (filter (\<lambda>a. ad_user a = u) (objects (addresses db))))"

definition clear_defaults :: "nat \<Rightarrow> address_kind \<Rightarrow> nat option \<Rightarrow> address list \<Rightarrow> address list" where
  "clear_defaults u kind except tbl =
     update_where (\<lambda>a. is_alive a \<and> ad_user a = u \<and> ad_kind a = kind \<and> Some (pk a) \<noteq> except)
       (\<lambda>a. a\<lparr>ad_is_default := False\<rparr>) tbl"

text \<open>\<open>perform_create\<close> on a validated address, and the \<open>make_default\<close> action.\<close>

definition address_create :: "int \<Rightarrow> nat \<Rightarrow> address \<Rightarrow> accounts \<Rightarrow> address \<times> accounts" where
  "address_create now u a db =
     (let addr = a\<lparr>pk := fresh_pk (addresses db), created_at := now, updated_at := now,
                   deleted_at := None, ad_user := u\<rparr>;
          tbl = addresses db @ [addr] in
      (addr, db\<lparr>addresses := if ad_is_default addr
                             then clear_defaults u (ad_kind addr) (Some (pk addr)) tbl else tbl\<rparr>))"

definition make_default :: "nat \<Rightarrow> nat \<Rightarrow> accounts \<Rightarrow> py_error + (address \<times> accounts)" where
  "make_default u k db =
     (case find (\<lambda>a. pk a = k) (address_queryset u db) of
        None \<Rightarrow> Inl Http404
      | Some addr \<Rightarrow>
          let addr' = addr\<lparr>ad_is_default := True\<rparr>;
              tbl = clear_defaults u (ad_kind addr) None (addresses db) in
          Inr (addr', db\<lparr>addresses := save_row (pk addr) (\<lambda>a. a\<lparr>ad_is_default := True\<rparr>) tbl\<rparr>))"

text \<open>
  The inherited \<open>update\<close> saves the validated fields as they are: there is no \<open>perform_update\<close>,
  so nothing clears the other defaults. \<open>edit\<close> is the serializer's change of the instance's
  writable columns.
\<close>

definition address_update :: "int \<Rightarrow> nat \<Rightarrow> nat \<Rightarrow> (address \<Rightarrow> address) \<Rightarrow> accounts \<Rightarrow> py_error + (address \<times> accounts)" where
  "address_update now u k edit db =
     (case find (\<lambda>a. pk a = k) (address_queryset u db) of
        None \<Rightarrow> Inl Http404
      | Some addr \<Rightarrow>
          let addr' = (edit addr)\<lparr>pk := pk addr, created_at := created_at addr, updated_at := now,
                         deleted_at := deleted_at addr, ad_user := ad_user addr\<rparr> in
          Inr (addr', db\<lparr>addresses := save_row (pk addr) (\<lambda>_. addr') (addresses db)\<rparr>))"

end
