(* ===== verification/Accounts_Laws.thy ===== *)
theory Accounts_Laws
  imports Accounts
begin

text \<open>
  What registration and the address book guarantee: a registered user has no staff rights, gets the
  customer role and one wishlist; making an address the default leaves it the only default of its
  kind; editing an address does not.
\<close>

section \<open>Registration\<close>

definition accounts_ok :: "accounts \<Rightarrow> bool" where
  "accounts_ok db \<longleftrightarrow> distinct_pks (users db) \<and> distinct_pks (roles db) \<and>
     (\<forall>w \<in> set (wishlists db). wl_user w \<in> pk ` set (users db))"

lemma create_wishlist_new:
  assumes "u \<notin> wl_user ` set (wishlists db)"
  shows "\<exists>w. wl_user w = u \<and> create_wishlist now u db = Inr (db\<lparr>wishlists := wishlists db @ [w]\<rparr>)"
proof -
  have none: "\<not> (\<exists>w \<in> set (wishlists db). wl_user w = u)" using assms by auto
  then have "filter (\<lambda>w. wl_user w = u) (objects (wishlists db)) = []"
    by (auto simp: filter_empty_conv)
  with none show ?thesis
    by (intro exI [of _ "\<lparr>pk = fresh_pk (wishlists db), created_at = now, updated_at = now,
          deleted_at = None, wl_user = u, wl_products = []\<rparr>"])
       (simp add: create_wishlist_def get_or_create_def Let_def)
qed

lemma create_user_Inr:
  assumes "create_user normalize_email hash now email password extra db = Inr (u, db')" "accounts_ok db"
    and "ex_is_staff extra = None" "ex_is_superuser extra = None"
  obtains w where "users db' = users db @ [u]" "wishlists db' = wishlists db @ [w]" "wl_user w = pk u"
    "roles db' = roles db" "addresses db' = addresses db" "pk u = fresh_pk (users db)" "us_roles u = []"
    "\<not> us_is_staff u" "\<not> us_is_superuser u" "us_email u = normalize_email email" "email \<noteq> ''''"
proof -
  from assms(1,3,4) have row: "pk u = fresh_pk (users db)" "us_roles u = []" "\<not> us_is_staff u"
    "\<not> us_is_superuser u" "us_email u = normalize_email email" "email \<noteq> ''''"
    and wish: "create_wishlist now (pk u) (db\<lparr>users := users db @ [u]\<rparr>) = Inr db'"
    by (auto simp: create_user_def create_user_row_def setdefault_def Let_def result_simps split: if_splits)
  have "pk u \<notin> wl_user ` set (wishlists db)"
  proof
    assume "pk u \<in> wl_user ` set (wishlists db)"
    with assms(2) have "pk u \<in> pk ` set (users db)" by (auto simp: accounts_ok_def)
    with row(1) show False by simp
  qed
  with create_wishlist_new [of "pk u" "db\<lparr>users := users db @ [u]\<rparr>" now] wish row that show thesis by auto
qed

lemma roles_of_one:
  assumes "distinct_pks (roles db)" "r \<in> set (roles db)" "is_alive r" "us_roles u = [pk r]"
  shows "roles_of u db = [r]"
proof -
  have "filter (\<lambda>x. pk x = pk r) (objects tbl) = [r]" if "distinct_pks tbl" "r \<in> set tbl" for tbl
    using that assms(3)
    by (induction tbl)
       (auto simp: get_queryset_def is_alive_def distinct_pks_def filter_empty_conv intro: rev_image_eqI)
  with assms show ?thesis by (simp add: roles_of_def)
qed

text \<open>
  Registering grants no privilege. A registration that succeeds appends one user and one
  wishlist, theirs; the user is neither staff nor superuser, passes neither \<open>IsStaff\<close>, \<open>IsAdmin\<close>
  nor \<open>IsVendor\<close>, and passes \<open>IsCustomer\<close> exactly if a living role with that code exists.
\<close>

theorem registration_grants_nothing:
  assumes "accounts_ok db"
    and "RegisterSerializer_create normalize_email hash now email password fn ln phone db = Inr (u, db')"
  shows "users db' = users db @ [u] \<and> (\<exists>w. wishlists db' = wishlists db @ [w] \<and> wl_user w = pk u) \<and>
    \<not> us_is_staff u \<and> \<not> us_is_superuser u \<and> \<not> IsStaff (Some u) db' \<and> \<not> IsAdmin (Some u) db' \<and>
    \<not> IsVendor (Some u) db' \<and>
    (IsCustomer (Some u) db' \<longleftrightarrow> (\<exists>r \<in> set (objects (roles db)). ro_code r = ''customer''))"
proof -
  let ?extra = "\<lparr>ex_first_name = fn, ex_last_name = ln, ex_phone = phone, ex_is_staff = None,
                ex_is_superuser = None, ex_is_active = None\<rparr>"
  from assms(2) obtain u0 db0 where
    made: "create_user normalize_email hash now email (Some password) ?extra db = Inr (u0, db0)"
    and rest: "(case get_one ''Role'' (\<lambda>r. ro_code r = ''customer'') (roles db0) of
           Inr customer \<Rightarrow>
             let u' = u0\<lparr>us_roles := us_roles u0 @ [pk customer]\<rparr> in
             Inr (u', db0\<lparr>users := save_row (pk u0) (\<lambda>r. r\<lparr>us_roles := us_roles u'\<rparr>) (users db0)\<rparr>)
         | Inl (DoesNotExist _) \<Rightarrow> Inr (u0, db0)
         | Inl e \<Rightarrow> Inl e) = Inr (u, db')"
    by (auto simp: RegisterSerializer_create_def bindE_Inr_iff)
  from create_user_Inr [OF made assms(1)] obtain w where u0: "users db0 = users db @ [u0]"
    "wishlists db0 = wishlists db @ [w]" "wl_user w = pk u0" "roles db0 = roles db"
    "pk u0 = fresh_pk (users db)" "us_roles u0 = []" "\<not> us_is_staff u0" "\<not> us_is_superuser u0"
    by auto
  show ?thesis
  proof (cases "get_one ''Role'' (\<lambda>r. ro_code r = ''customer'') (roles db)")
    case (Inr c)
    then have c: "c \<in> set (roles db)" "is_alive c" "ro_code c = ''customer''"
      by (auto dest: get_one_Inr)
    have u: "u = u0\<lparr>us_roles := [pk c]\<rparr>" and db': "db' = db0\<lparr>users :=
        save_row (pk u0) (\<lambda>r. r\<lparr>us_roles := [pk c]\<rparr>) (users db0)\<rparr>"
      using rest Inr u0(4,6) by (auto simp: Let_def)
    have "save_row (pk u0) f (users db) = users db" for f
      using u0(5) by (simp add: save_row_notin)
    then have "users db' = users db @ [u]"
      by (simp add: db' u0(1) u save_row_def update_where_def)
    moreover have "roles_of u db' = [c]"
      using roles_of_one [of db' c u] c assms(1) u0(4) u db' by (simp add: accounts_ok_def)
    ultimately show ?thesis using c u0(2,3,7,8) u db' u0(4)
      by (auto simp: IsStaff_def IsAdmin_def IsVendor_def IsCustomer_def HasRole_def)
  next
    case (Inl e)
    then have "u = u0 \<and> db' = db0" and dead: "\<not> (\<exists>r \<in> set (objects (roles db)). ro_code r = ''customer'')"
      using rest u0(4)
      by (auto simp: get_one_def filter_empty_conv split: py_error.splits list.splits)
    then show ?thesis using u0
      by (auto simp: IsStaff_def IsAdmin_def IsVendor_def IsCustomer_def HasRole_def roles_of_def)
  qed
qed

definition seeded_accounts :: accounts where
  "seeded_accounts =
     \<lparr>roles = [\<lparr>pk = 1, created_at = 0, updated_at = 0, deleted_at = None, ro_code = ''customer'',
               ro_name = ''Customer'', ro_description = '''', ro_is_system = True\<rparr>,
              \<lparr>pk = 2, created_at = 0, updated_at = 0, deleted_at = None, ro_code = ''admin'',
               ro_name = ''Administrator'', ro_description = '''', ro_is_system = True\<rparr>],
      users = [], addresses = [], wishlists = []\<rparr>"

theorem registration_grants_nothing_witness:
  "\<exists>u db'. RegisterSerializer_create lower (\<lambda>_. ''hash'') 5 ''a@b.co'' ''secret'' ''A'' ''B'' '''' seeded_accounts = Inr (u, db') \<and>
     IsCustomer (Some u) db' \<and> \<not> IsAdmin (Some u) db'"
proof -
  have "is_ok (RegisterSerializer_create lower (\<lambda>_. ''hash'') 5 ''a@b.co'' ''secret'' ''A'' ''B'' '''' seeded_accounts)"
    by code_simp
  then obtain u db' where
    r: "RegisterSerializer_create lower (\<lambda>_. ''hash'') 5 ''a@b.co'' ''secret'' ''A'' ''B'' '''' seeded_accounts = Inr (u, db')"
    by (auto simp: is_ok_iff)
  have "accounts_ok seeded_accounts" by (simp add: accounts_ok_def seeded_accounts_def distinct_pks_def)
  from registration_grants_nothing [OF this r] r show ?thesis
    by (auto simp: seeded_accounts_def get_queryset_def)
qed

section \<open>Default addresses\<close>

definition defaults_of :: "nat \<Rightarrow> address_kind \<Rightarrow> accounts \<Rightarrow> address list" where
  "defaults_of u kind db =
     filter (\<lambda>a. is_alive a \<and> ad_user a = u \<and> ad_kind a = kind \<and> ad_is_default a) (addresses db)"

lemma filter_singleton:
  assumes "distinct xs" "a \<in> set xs" "P a" "\<And>x. x \<in> set xs \<Longrightarrow> P x \<Longrightarrow> x = a"
  shows "filter P xs = [a]"
  using assms
proof (induction xs)
  case (Cons x xs)
  show ?case
  proof (cases "x = a")
    case True
    have "\<forall>y \<in> set xs. \<not> P y"
      using Cons.prems(1,4) True by (metis distinct.simps(2) list.set_intros(2))
    with True Cons.prems(3) show ?thesis by simp
  next
    case False
    with Cons.prems have "\<not> P x" "a \<in> set xs" by auto
    moreover have "filter P xs = [a]"
      by (rule Cons.IH) (use Cons.prems \<open>a \<in> set xs\<close> in simp_all)
    ultimately show ?thesis by simp
  qed
qed simp

text \<open>What \<open>make_default\<close> does to a row: clear the defaults of the kind, then set the chosen one.\<close>

definition defaulted :: "address \<Rightarrow> address \<Rightarrow> address" where
  "defaulted a x =
     (let y = (if is_alive x \<and> ad_user x = ad_user a \<and> ad_kind x = ad_kind a then x\<lparr>ad_is_default := False\<rparr> else x) in
      if pk x = pk a then y\<lparr>ad_is_default := True\<rparr> else y)"

lemma defaulted_frame [simp]:
  "pk (defaulted a x) = pk x" "is_alive (defaulted a x) = is_alive x"
  "ad_user (defaulted a x) = ad_user x" "ad_kind (defaulted a x) = ad_kind x"
  "defaulted a a = a\<lparr>ad_is_default := True\<rparr>"
  by (simp_all add: defaulted_def Let_def is_alive_def)

lemma defaulted_other:
  "pk x \<noteq> pk a \<Longrightarrow> ad_user x \<noteq> ad_user a \<or> ad_kind x \<noteq> ad_kind a \<Longrightarrow> defaulted a x = x"
  "pk x \<noteq> pk a \<Longrightarrow> is_alive x \<Longrightarrow> ad_user x = ad_user a \<Longrightarrow> ad_kind x = ad_kind a \<Longrightarrow>
     \<not> ad_is_default (defaulted a x)"
  by (auto simp: defaulted_def Let_def)

lemma address_in_queryset:
  assumes "find (\<lambda>a. pk a = k) (address_queryset u db) = Some a"
  shows "a \<in> set (addresses db)" "is_alive a" "ad_user a = u" "pk a = k"
proof -
  from assms have "a \<in> set (address_queryset u db)" "pk a = k"
    by (auto simp: find_Some_iff in_set_conv_nth)
  then show "a \<in> set (addresses db)" "is_alive a" "ad_user a = u" "pk a = k"
    by (auto simp: address_queryset_def)
qed

lemma make_default_Inr:
  assumes "find (\<lambda>a. pk a = k) (address_queryset u db) = Some a"
  shows "make_default u k db =
    Inr (a\<lparr>ad_is_default := True\<rparr>, db\<lparr>addresses := map (defaulted a) (addresses db)\<rparr>)"
  using address_in_queryset [OF assms]
  by (simp add: make_default_def assms Let_def save_row_def update_where_def clear_defaults_def comp_def
      defaulted_def [abs_def] if_distrib [of pk] cong: if_cong)

lemma only_default:
  assumes "distinct_pks tbl" "a \<in> set tbl" "is_alive a"
  shows "filter (\<lambda>x. is_alive x \<and> ad_user x = ad_user a \<and> ad_kind x = ad_kind a \<and> ad_is_default x)
           (map (defaulted a) tbl) = [a\<lparr>ad_is_default := True\<rparr>]"
proof (rule filter_singleton)
  have "map pk (map (defaulted a) tbl) = map pk tbl" by simp
  with assms(1) have "distinct (map pk (map (defaulted a) tbl))" by (simp only: distinct_pks_def)
  then show "distinct (map (defaulted a) tbl)" by (simp only: distinct_map)
  show "a\<lparr>ad_is_default := True\<rparr> \<in> set (map (defaulted a) tbl)"
    using imageI [OF assms(2), of "defaulted a"] by simp
  fix y assume y: "y \<in> set (map (defaulted a) tbl)"
    "is_alive y \<and> ad_user y = ad_user a \<and> ad_kind y = ad_kind a \<and> ad_is_default y"
  then obtain x where x: "x \<in> set tbl" "y = defaulted a x" by auto
  with y(2) defaulted_other(2) [of x a] have "pk x = pk a" by auto
  with assms(1,2) x have "x = a" by (auto simp: distinct_pks_def distinct_map dest: inj_onD)
  with x(2) show "y = a\<lparr>ad_is_default := True\<rparr>" by simp
qed (use assms(3) in \<open>simp add: is_alive_def\<close>)

lemma other_addresses_kept:
  assumes "distinct_pks tbl" "a \<in> set tbl"
  shows "filter (\<lambda>x. ad_user x \<noteq> ad_user a \<or> ad_kind x \<noteq> ad_kind a) (map (defaulted a) tbl) =
    filter (\<lambda>x. ad_user x \<noteq> ad_user a \<or> ad_kind x \<noteq> ad_kind a) tbl"
proof -
  have "defaulted a x = x" if "x \<in> set tbl" "ad_user x \<noteq> ad_user a \<or> ad_kind x \<noteq> ad_kind a" for x
  proof -
    have "pk x \<noteq> pk a"
      using assms that by (auto simp: distinct_pks_def distinct_map dest: inj_onD)
    with that(2) show ?thesis by (simp add: defaulted_other(1))
  qed
  then have "map (defaulted a) (filter (\<lambda>x. ad_user x \<noteq> ad_user a \<or> ad_kind x \<noteq> ad_kind a) tbl) =
      filter (\<lambda>x. ad_user x \<noteq> ad_user a \<or> ad_kind x \<noteq> ad_kind a) tbl"
    by (intro map_idI) simp
  then show ?thesis by (simp add: filter_map comp_def)
qed

text \<open>
  One default address. \<open>make_default\<close> on one of the user's addresses leaves it the only living
  default address of its kind and touches no address of another user or another kind; and it
  refuses, changing nothing, an address that is not one of the user's living ones.
\<close>

theorem make_default_exact:
  assumes "distinct_pks (addresses db)"
  shows "case make_default u k db of
      Inl e \<Rightarrow> e = Http404 \<and> \<not> (\<exists>a \<in> set (addresses db). pk a = k \<and> is_alive a \<and> ad_user a = u)
    | Inr (a, db') \<Rightarrow> pk a = k \<and> defaults_of u (ad_kind a) db' = [a] \<and>
        filter (\<lambda>x. ad_user x \<noteq> u \<or> ad_kind x \<noteq> ad_kind a) (addresses db') =
          filter (\<lambda>x. ad_user x \<noteq> u \<or> ad_kind x \<noteq> ad_kind a) (addresses db)"
proof (cases "find (\<lambda>a. pk a = k) (address_queryset u db)")
  case None
  then have "make_default u k db = Inl Http404" by (simp add: make_default_def)
  moreover have "\<not> (\<exists>a \<in> set (addresses db). pk a = k \<and> is_alive a \<and> ad_user a = u)"
    using None by (auto simp: find_None_iff address_queryset_def)
  ultimately show ?thesis by simp
next
  case (Some a)
  note a = address_in_queryset [OF Some]
  from only_default [OF assms a(1,2)] other_addresses_kept [OF assms a(1)] show ?thesis
    by (simp add: make_default_Inr [OF Some] a(3,4) defaults_of_def)
qed

text \<open>An update through the inherited endpoint can leave two defaults of one kind.\<close>

definition demo_address :: "nat \<Rightarrow> bool \<Rightarrow> address" where
  "demo_address k dflt = \<lparr>pk = k, created_at = 0, updated_at = 0, deleted_at = None, ad_user = 7,
     ad_label = '''', ad_kind = SHIPPING, ad_full_name = ''A B'', ad_phone = '''', ad_country = ''UZ'',
     ad_region = '''', ad_city = '''', ad_street = '''', ad_apartment = '''', ad_postal_code = '''',
     ad_is_default = dflt, ad_location = JNull\<rparr>"

definition two_addresses :: accounts where
  "two_addresses = seeded_accounts\<lparr>addresses := [demo_address 1 True, demo_address 2 False]\<rparr>"

lemma update_leaves_two_defaults:
  "map_sum id (\<lambda>(a, db'). length (defaults_of 7 SHIPPING db'))
     (address_update 5 7 2 (\<lambda>a. a\<lparr>ad_is_default := True\<rparr>) two_addresses) = Inr 2"
  by code_simp

theorem make_default_exact_witness:
  "\<exists>db'. make_default 7 2 two_addresses = Inr (demo_address 2 True, db') \<and>
     defaults_of 7 SHIPPING db' = [demo_address 2 True]"
proof -
  have d: "distinct_pks (addresses two_addresses)"
    by (simp add: two_addresses_def demo_address_def distinct_pks_def)
  have "map_sum id fst (make_default 7 2 two_addresses) = Inr (demo_address 2 True)" by code_simp
  then obtain db' where m: "make_default 7 2 two_addresses = Inr (demo_address 2 True, db')"
    by (cases "make_default 7 2 two_addresses") auto
  from make_default_exact [OF d, where u = 7 and k = 2] show ?thesis by (simp add: m) (simp add: demo_address_def)
qed

end
