(* ===== verification/Catalog.thy ===== *)
theory Catalog
  imports Core_Models
begin

text \<open>
  \<open>django_app/apps/catalog/models.py\<close>: brands, categories, attributes, products, variants and
  images, the slug a save fills in, and the discount a variant displays. \<open>slugify\<close> is Django's
  and stays a parameter. Image fields are the stored path.
\<close>

section \<open>Models\<close>

record brand = base_model +
  br_name :: string
  br_slug :: string
  br_description :: string
  br_logo :: string
  br_is_active :: bool

record category = base_model +
  cat_parent :: "nat option"
  cat_name :: string
  cat_slug :: string
  cat_description :: string
  cat_image :: string
  cat_sort_order :: int
  cat_is_active :: bool

datatype attribute_kind = TEXT | NUMBER | BOOLEAN | OPTION

record attribute_def = base_model +
  at_code :: string
  at_name :: string
  at_kind :: attribute_kind
  at_is_filterable :: bool
  at_is_required :: bool

record attribute_option = base_model +
  ao_attribute :: nat
  ao_value :: string
  ao_label :: string
  ao_sort_order :: int

datatype product_status = DRAFT | ACTIVE | ARCHIVED

record product = base_model +
  pr_name :: string
  pr_slug :: string
  pr_short_description :: string
  pr_description :: string
  pr_brand :: "nat option"
  pr_categories :: "nat list"
  pr_attributes :: "nat list"
  pr_status :: product_status
  pr_is_featured :: bool
  pr_rating_avg :: int
  pr_rating_count :: int
  pr_sold_count :: int
  pr_view_count :: int
  pr_seo_title :: string
  pr_seo_description :: string
  pr_seo_keywords :: string
  pr_metadata :: json

record product_variant = base_model +
  pv_product :: nat
  pv_sku :: string
  pv_barcode :: string
  pv_name :: string
  pv_price :: int
  pv_compare_at_price :: "int option"
  pv_cost_price :: "int option"
  pv_currency :: string
  pv_weight_g :: int
  pv_length_mm :: int
  pv_width_mm :: int
  pv_height_mm :: int
  pv_is_default :: bool
  pv_is_active :: bool
  pv_attributes_snapshot :: json

record product_image = base_model +
  pi_product :: nat
  pi_variant :: "nat option"
  pi_image :: string
  pi_alt_text :: string
  pi_sort_order :: int
  pi_is_primary :: bool

record catalog =
  brands :: "brand list"
  categories :: "category list"
  products :: "product list"
  variants :: "product_variant list"
  images :: "product_image list"

section \<open>Operations\<close>

text \<open>
  \<open>super().save()\<close>: update the row with the instance's key, or insert it. A unique column that
  another row already holds (dead or not) is an \<open>IntegrityError\<close>.
\<close>

definition write_row :: "int \<Rightarrow> 'a base_model_scheme \<Rightarrow> 'a base_model_scheme list \<Rightarrow> 'a base_model_scheme list" where
  "write_row now r tbl =
     (if pk r \<in> pk ` set tbl
      then save_row (pk r) (\<lambda>_. r\<lparr>updated_at := now\<rparr>) tbl
      else tbl @ [r\<lparr>created_at := now, updated_at := now\<rparr>])"

definition taken :: "('a base_model_scheme \<Rightarrow> 'b) \<Rightarrow> 'a base_model_scheme \<Rightarrow> 'a base_model_scheme list \<Rightarrow> bool" where
  "taken col r tbl \<longleftrightarrow> (\<exists>x \<in> set tbl. pk x \<noteq> pk r \<and> col x = col r)"

definition brand_save :: "(string \<Rightarrow> string) \<Rightarrow> int \<Rightarrow> brand \<Rightarrow> brand list \<Rightarrow> py_error + brand list" where
  "brand_save slugify now b tbl =
     (let b' = (if br_slug b = [] then b\<lparr>br_slug := slugify (br_name b)\<rparr> else b) in
      if taken br_name b' tbl \<or> taken br_slug b' tbl then Inl (IntegrityError ''catalog_brand'')
      else Inr (write_row now b' tbl))"

definition category_save ::
  "(string \<Rightarrow> string) \<Rightarrow> int \<Rightarrow> category \<Rightarrow> category list \<Rightarrow> py_error + category list" where
  "category_save slugify now c tbl =
     (let c' = (if cat_slug c = [] then c\<lparr>cat_slug := slugify (cat_name c)\<rparr> else c) in
      if taken cat_slug c' tbl then Inl (IntegrityError ''catalog_category'')
      else Inr (write_row now c' tbl))"

definition product_save ::
  "(string \<Rightarrow> string) \<Rightarrow> int \<Rightarrow> product \<Rightarrow> product list \<Rightarrow> py_error + product list" where
  "product_save slugify now p tbl =
     (let p' = (if pr_slug p = [] then p\<lparr>pr_slug := slugify (pr_name p)\<rparr> else p) in
      if taken pr_slug p' tbl then Inl (IntegrityError ''catalog_product'')
      else Inr (write_row now p' tbl))"

text \<open>
  \<open>int(round((1 - price / compare) * 100))\<close>, half to even. The quotient is computed to 28
  digits; with columns of 12 digits that decides the rounding as the exact quotient does.
\<close>

definition discount_percent :: "product_variant \<Rightarrow> int" where
  "discount_percent v =
     (case pv_compare_at_price v of
        None \<Rightarrow> 0
      | Some c \<Rightarrow> if c \<noteq> 0 \<and> pv_price v < c
                  then round_half_even (100 * (c - pv_price v)) c else 0)"

text \<open>\<open>ProductVariant.objects.get(pk = ..., is_active = True)\<close> and row lookups by key.\<close>

definition get_active_variant :: "nat \<Rightarrow> catalog \<Rightarrow> py_error + product_variant" where
  "get_active_variant k cat =
     get_one ''ProductVariant'' (\<lambda>v. pk v = k \<and> pv_is_active v) (variants cat)"

definition find_variant :: "nat \<Rightarrow> catalog \<Rightarrow> product_variant option" where
  "find_variant k cat = find_pk k (variants cat)"

definition find_product :: "nat \<Rightarrow> catalog \<Rightarrow> product option" where
  "find_product k cat = find_pk k (products cat)"

section \<open>Lemmas\<close>

definition column_unique :: "('a base_model_scheme \<Rightarrow> 'b) \<Rightarrow> 'a base_model_scheme list \<Rightarrow> bool" where
  "column_unique col tbl \<longleftrightarrow> (\<forall>x \<in> set tbl. \<forall>y \<in> set tbl. col x = col y \<longrightarrow> pk x = pk y)"

lemma set_write_row:
  "set (write_row now r tbl) \<subseteq>
     {x \<in> set tbl. pk x \<noteq> pk r} \<union> {r\<lparr>updated_at := now\<rparr>, r\<lparr>created_at := now, updated_at := now\<rparr>}"
proof (cases "pk r \<in> pk ` set tbl")
  case True
  then show ?thesis by (auto simp: write_row_def save_row_def table_simps)
next
  case False
  then have "\<forall>x \<in> set tbl. pk x \<noteq> pk r" by (metis image_eqI)
  with False show ?thesis by (auto simp: write_row_def)
qed

lemma write_row_stored:
  "r\<lparr>updated_at := now\<rparr> \<in> set (write_row now r tbl) \<or>
   r\<lparr>created_at := now, updated_at := now\<rparr> \<in> set (write_row now r tbl)"
proof (cases "pk r \<in> pk ` set tbl")
  case True
  then obtain x where "x \<in> set tbl" "pk x = pk r" by (metis imageE)
  with True show ?thesis by (force simp: write_row_def save_row_def table_simps)
qed (simp add: write_row_def)

lemma column_unique_write_row:
  assumes "column_unique col tbl" "\<not> taken col r tbl"
    and "\<And>x y. col (r\<lparr>updated_at := x\<rparr>) = col r" "\<And>x y. col (r\<lparr>created_at := x, updated_at := y\<rparr>) = col r"
  shows "column_unique col (write_row now r tbl)"
  unfolding column_unique_def
proof (intro ballI impI)
  fix x y
  assume x: "x \<in> set (write_row now r tbl)" and y: "y \<in> set (write_row now r tbl)"
    and eq: "col x = col y"
  have cases: "z \<in> set tbl \<and> pk z \<noteq> pk r \<or> pk z = pk r \<and> col z = col r"
    if "z \<in> set (write_row now r tbl)" for z
    using that set_write_row [of now r tbl] assms(3,4) by auto
  from cases [OF x] show "pk x = pk y"
  proof (elim disjE)
    assume a: "x \<in> set tbl \<and> pk x \<noteq> pk r"
    from cases [OF y] show ?thesis
    proof (elim disjE)
      assume "y \<in> set tbl \<and> pk y \<noteq> pk r"
      with a eq assms(1) show ?thesis unfolding column_unique_def by blast
    next
      assume "pk y = pk r \<and> col y = col r"
      with a eq assms(2) show ?thesis unfolding taken_def by metis
    qed
  next
    assume a: "pk x = pk r \<and> col x = col r"
    from cases [OF y] show ?thesis
    proof (elim disjE)
      assume "y \<in> set tbl \<and> pk y \<noteq> pk r"
      with a eq assms(2) show ?thesis unfolding taken_def by metis
    next
      assume "pk y = pk r \<and> col y = col r"
      with a show ?thesis by simp
    qed
  qed
qed

lemma distinct_pks_write_row:
  "distinct_pks tbl \<Longrightarrow> distinct_pks (write_row now r tbl)"
  by (auto simp: distinct_pks_def write_row_def map_pk_save_row_eq)

definition catalog_ok :: "catalog \<Rightarrow> bool" where
  "catalog_ok cat \<longleftrightarrow>
     distinct_pks (brands cat) \<and> distinct_pks (categories cat) \<and> distinct_pks (products cat) \<and>
     distinct_pks (variants cat) \<and>
     column_unique br_slug (brands cat) \<and> column_unique br_name (brands cat) \<and>
     column_unique cat_slug (categories cat) \<and> column_unique pr_slug (products cat) \<and>
     column_unique pv_sku (variants cat)"

section \<open>Properties\<close>

text \<open>
  The displayed discount is a percentage: between 0 and 100 for a non-negative price, zero
  exactly when no higher comparison price is set or the reduction rounds to zero, and within half
  a point of the true reduction.
\<close>

theorem discount_percent_range:
  assumes "0 \<le> pv_price v"
  shows "0 \<le> discount_percent v \<and> discount_percent v \<le> 100 \<and>
    (case pv_compare_at_price v of
       None \<Rightarrow> discount_percent v = 0
     | Some c \<Rightarrow> if pv_price v < c
                 then 2 * \<bar>c * discount_percent v - 100 * (c - pv_price v)\<bar> \<le> c
                 else discount_percent v = 0)"
proof (cases "pv_compare_at_price v")
  case None
  then show ?thesis by (simp add: discount_percent_def)
next
  case (Some c)
  show ?thesis
  proof (cases "pv_price v < c")
    case True
    with assms have c: "0 < c" by simp
    have d: "discount_percent v = round_half_even (100 * (c - pv_price v)) c"
      using Some True c by (simp add: discount_percent_def)
    have "0 \<le> round_half_even (100 * (c - pv_price v)) c"
      using round_half_even_ge [OF c, of 0] True by simp
    moreover have "round_half_even (100 * (c - pv_price v)) c \<le> 100"
      using round_half_even_le [OF c, of _ 100] assms by simp
    ultimately show ?thesis
      using Some True d round_half_even_error [OF c] by simp
  qed (simp add: Some discount_percent_def)
qed

definition demo_variant :: "nat \<Rightarrow> nat \<Rightarrow> string \<Rightarrow> int \<Rightarrow> product_variant" where
  "demo_variant k p sku price =
     \<lparr>pk = k, created_at = 0, updated_at = 0, deleted_at = None, pv_product = p, pv_sku = sku,
      pv_barcode = '''', pv_name = '''', pv_price = price, pv_compare_at_price = Some 2499,
      pv_cost_price = None, pv_currency = ''USD'', pv_weight_g = 0, pv_length_mm = 0,
      pv_width_mm = 0, pv_height_mm = 0, pv_is_default = False, pv_is_active = True,
      pv_attributes_snapshot = JObj []\<rparr>"

theorem discount_percent_range_witness:
  "0 \<le> pv_price (demo_variant 7 1 ''NOVA-TEE-M'' 1999) \<and>
   discount_percent (demo_variant 7 1 ''NOVA-TEE-M'' 1999) = 20 \<and>
   discount_percent (demo_variant 7 1 ''NOVA-TEE-M'' 1999) \<le> 100"
proof -
  have p: "0 \<le> pv_price (demo_variant 7 1 ''NOVA-TEE-M'' 1999)" by code_simp
  have "discount_percent (demo_variant 7 1 ''NOVA-TEE-M'' 1999) = 20" by code_simp
  with p discount_percent_range [OF p] show ?thesis by blast
qed

text \<open>
  Saving a product keeps the slug an editor chose, fills an empty one from the name, stores the
  product under that slug, and keeps keys and slugs unique; a slug another product holds (a
  soft-deleted one too) is refused.
\<close>

theorem product_save_slug:
  assumes "distinct_pks tbl" "column_unique pr_slug tbl"
  shows "case product_save slugify now p tbl of
      Inl e \<Rightarrow> e = IntegrityError ''catalog_product'' \<and>
        (\<exists>x \<in> set tbl. pk x \<noteq> pk p \<and>
           pr_slug x = (if pr_slug p = [] then slugify (pr_name p) else pr_slug p))
    | Inr tbl' \<Rightarrow> distinct_pks tbl' \<and> column_unique pr_slug tbl' \<and>
        (\<exists>x. find_pk (pk p) tbl' = Some x \<and> pr_name x = pr_name p \<and>
             pr_slug x = (if pr_slug p = [] then slugify (pr_name p) else pr_slug p)) \<and>
        (\<forall>x \<in> set tbl. pk x \<noteq> pk p \<longrightarrow> x \<in> set tbl')"
proof -
  define p' where "p' = (if pr_slug p = [] then p\<lparr>pr_slug := slugify (pr_name p)\<rparr> else p)"
  have p': "pk p' = pk p" "pr_name p' = pr_name p"
    "pr_slug p' = (if pr_slug p = [] then slugify (pr_name p) else pr_slug p)"
    by (simp_all add: p'_def)
  have save: "product_save slugify now p tbl =
      (if taken pr_slug p' tbl then Inl (IntegrityError ''catalog_product'')
       else Inr (write_row now p' tbl))"
    by (simp add: product_save_def p'_def Let_def)
  show ?thesis
  proof (cases "taken pr_slug p' tbl")
    case True
    then show ?thesis by (auto simp: save taken_def p')
  next
    case False
    note d = distinct_pks_write_row [OF assms(1), of now p']
    have "\<exists>x \<in> set (write_row now p' tbl). pk x = pk p \<and> pr_name x = pr_name p \<and> pr_slug x = pr_slug p'"
    proof -
      obtain x where "x \<in> set (write_row now p' tbl)" "pk x = pk p'" "pr_name x = pr_name p'"
        "pr_slug x = pr_slug p'"
        using write_row_stored [where r = p' and now = now and tbl = tbl]
        by (elim disjE) (erule that, simp, simp, simp)+
      then show ?thesis using p'(1,2) by (intro bexI [of _ x]) simp_all
    qed
    then have "\<exists>x. find_pk (pk p) (write_row now p' tbl) = Some x \<and> pr_name x = pr_name p \<and>
        pr_slug x = pr_slug p'"
      using find_pk_in [OF d] by metis
    moreover have "x \<in> set (write_row now p' tbl)" if "x \<in> set tbl" "pk x \<noteq> pk p" for x
      using that p' by (force simp: write_row_def save_row_def table_simps)
    ultimately show ?thesis
      using False d column_unique_write_row [OF assms(2) False] by (simp add: save p')
  qed
qed

definition demo_product :: "nat \<Rightarrow> string \<Rightarrow> string \<Rightarrow> product" where
  "demo_product k name slug =
     \<lparr>pk = k, created_at = 0, updated_at = 0, deleted_at = None, pr_name = name, pr_slug = slug,
      pr_short_description = '''', pr_description = '''', pr_brand = None, pr_categories = [],
      pr_attributes = [], pr_status = ACTIVE, pr_is_featured = False, pr_rating_avg = 0,
      pr_rating_count = 0, pr_sold_count = 0, pr_view_count = 0, pr_seo_title = '''',
      pr_seo_description = '''', pr_seo_keywords = '''', pr_metadata = JObj []\<rparr>"

theorem product_save_slug_witness:
  "distinct_pks [demo_product 1 ''Tee'' ''tee''] \<and> column_unique pr_slug [demo_product 1 ''Tee'' ''tee''] \<and>
   (\<exists>tbl'. product_save lower 5 (demo_product 2 ''HAT'' '''') [demo_product 1 ''Tee'' ''tee''] = Inr tbl' \<and>
      (\<exists>x. find_pk 2 tbl' = Some x \<and> pr_slug x = ''hat''))"
proof -
  have h: "distinct_pks [demo_product 1 ''Tee'' ''tee'']"
    "column_unique pr_slug [demo_product 1 ''Tee'' ''tee'']"
    by code_simp+
  have "is_ok (product_save lower 5 (demo_product 2 ''HAT'' '''') [demo_product 1 ''Tee'' ''tee''])"
    by code_simp
  then obtain tbl' where
    ok: "product_save lower 5 (demo_product 2 ''HAT'' '''') [demo_product 1 ''Tee'' ''tee''] = Inr tbl'"
    by (auto simp: is_ok_iff)
  have "lower ''HAT'' = ''hat''" by code_simp
  with product_save_slug [OF h, where slugify = lower and now = 5 and
      p = "demo_product 2 ''HAT'' ''''"] h ok show ?thesis
    by (auto simp: demo_product_def)
qed

end
