(* ===== verification/Uuid.thy ===== *)
theory Uuid
  imports Prelude
begin

text \<open>
  Keys as text. \<open>str(obj.id)\<close> writes the 128-bit key as 32 hexadecimal digits grouped
  8-4-4-4-12; Django reads a key back with \<open>uuid.UUID(hex = text)\<close>, which drops hyphens and
  braces and wants 32 digits. Payment providers carry order keys in this form, so the round trip
  is what lets a webhook find its order.
\<close>

fun hex_fixed :: "nat \<Rightarrow> nat \<Rightarrow> string" where
  "hex_fixed 0 n = []"
| "hex_fixed (Suc w) n = hex_fixed w (n div 16) @ [''0123456789abcdef'' ! (n mod 16)]"

definition uuid_str :: "nat \<Rightarrow> string" where
  "uuid_str n =
     (let h = hex_fixed 32 n
      in take 8 h @ ''-'' @ take 4 (drop 8 h) @ ''-'' @ take 4 (drop 12 h) @ ''-'' @
         take 4 (drop 16 h) @ ''-'' @ drop 20 h)"

definition hex_val :: "char \<Rightarrow> nat option" where
  "hex_val c =
     (let k = (of_char c :: nat)
      in if 48 \<le> k \<and> k \<le> 57 then Some (k - 48)
         else if 97 \<le> k \<and> k \<le> 102 then Some (k - 87)
         else if 65 \<le> k \<and> k \<le> 70 then Some (k - 55)
         else None)"

fun hex_parse :: "nat \<Rightarrow> string \<Rightarrow> nat option" where
  "hex_parse acc [] = Some acc"
| "hex_parse acc (c # cs) =
     (case hex_val c of None \<Rightarrow> None | Some d \<Rightarrow> hex_parse (16 * acc + d) cs)"

definition uuid_parse :: "string \<Rightarrow> nat option" where
  "uuid_parse s =
     (let h = filter (\<lambda>c. c \<noteq> CHR ''-'') (dropWhile (\<lambda>c. c = CHR ''{'' \<or> c = CHR ''}'')
                (rev (dropWhile (\<lambda>c. c = CHR ''{'' \<or> c = CHR ''}'') (rev s))))
      in if length h = 32 then hex_parse 0 h else None)"

section \<open>Round trip\<close>

lemma length_hex_fixed [simp]: "length (hex_fixed w n) = w"
  by (induction w n rule: hex_fixed.induct) auto

lemma less_16_cases:
  "(d::nat) < 16 \<Longrightarrow> d \<in> {0, 1, 2, 3, 4, 5, 6, 7, 8, 9, 10, 11, 12, 13, 14, 15}"
  by simp arith

lemma hex_val_digit: "d < 16 \<Longrightarrow> hex_val (''0123456789abcdef'' ! d) = Some d"
  by (drule less_16_cases) (auto simp: hex_val_def Let_def)

lemma hex_parse_append:
  "hex_parse acc (xs @ ys) = (case hex_parse acc xs of None \<Rightarrow> None | Some a \<Rightarrow> hex_parse a ys)"
  by (induction xs arbitrary: acc) (auto split: option.splits)

lemma hex_parse_fixed: "hex_parse acc (hex_fixed w n) = Some (16 ^ w * acc + n mod 16 ^ w)"
proof (induction w n arbitrary: acc rule: hex_fixed.induct)
  case (1 n)
  then show ?case by simp
next
  case (2 w n)
  have "16 * (n div 16 mod 16 ^ w) + n mod 16 = n mod 16 ^ Suc w"
    by (simp add: mod_mult2_eq)
  then show ?case
    by (simp add: "2.IH" hex_parse_append hex_val_digit algebra_simps)
qed

lemma hex_digit_char:
  "d < 16 \<Longrightarrow> ''0123456789abcdef'' ! d \<notin> {CHR ''-'', CHR ''{'', CHR ''}''}"
  by (drule less_16_cases) auto

lemma set_hex_fixed: "c \<in> set (hex_fixed w n) \<Longrightarrow> c \<notin> {CHR ''-'', CHR ''{'', CHR ''}''}"
proof (induction w n rule: hex_fixed.induct)
  case (2 w n)
  then show ?case using hex_digit_char [of "n mod 16"] by auto
qed simp

lemma strip_noop:
  assumes "\<forall>c \<in> set s. \<not> p c"
  shows "dropWhile p (rev (dropWhile p (rev s))) = s"
proof -
  have id: "dropWhile p xs = xs" if "\<forall>c \<in> set xs. \<not> p c" for xs
    using that by (cases xs) auto
  show ?thesis using assms by (simp add: id)
qed

lemma filter_noop_pieces:
  assumes "\<forall>c \<in> set h. c \<noteq> x"
  shows "filter (\<lambda>c. c \<noteq> x) (take n h) = take n h"
    and "filter (\<lambda>c. c \<noteq> x) (drop n h) = drop n h"
    and "filter (\<lambda>c. c \<noteq> x) (take m (drop n h)) = take m (drop n h)"
  using assms by (auto intro!: filter_True dest: in_set_takeD in_set_dropD)

lemma set_dashed:
  assumes "c \<in> set (take i h @ x # take j (drop k h) @ x # take l (drop m h) @ x # take n (drop p h)
                    @ x # drop q h)"
  shows "c = x \<or> c \<in> set h"
  using assms by (auto dest: in_set_takeD in_set_dropD)

lemma uuid_pieces:
  "take 8 h @ take 4 (drop 8 h) @ take 4 (drop 12 h) @ take 4 (drop 16 h) @ drop 20 h = h"
proof -
  have step: "take m (drop n h) @ drop (m + n) h = drop n h" for m n
    by (metis append_take_drop_id drop_drop)
  show ?thesis
    using step [of 4 16] step [of 4 12] step [of 4 8] by simp
qed

text \<open>Every key survives the trip through text.\<close>

lemma uuid_round_trip:
  assumes "n < 2 ^ 128"
  shows "uuid_parse (uuid_str n) = Some n"
proof -
  let ?h = "hex_fixed 32 n"
  have clean: "\<forall>c \<in> set ?h. c \<noteq> CHR ''-''" using set_hex_fixed by fast
  have brace: "\<forall>c \<in> set (uuid_str n). \<not> (c = CHR ''{'' \<or> c = CHR ''}'')"
  proof
    fix c assume "c \<in> set (uuid_str n)"
    then have "c = CHR ''-'' \<or> c \<in> set ?h"
      unfolding uuid_str_def Let_def append_Cons append_Nil by (rule set_dashed)
    then show "\<not> (c = CHR ''{'' \<or> c = CHR ''}'')"
    proof
      assume "c \<in> set ?h"
      then show ?thesis using set_hex_fixed by blast
    qed simp
  qed
  have "filter (\<lambda>c. c \<noteq> CHR ''-'') (uuid_str n) = ?h"
    unfolding uuid_str_def Let_def
    using uuid_pieces [of ?h] by (simp add: filter_noop_pieces [OF clean])
  then show ?thesis
    using assms unfolding uuid_parse_def Let_def strip_noop [OF brace]
    by (simp add: hex_parse_fixed)
qed

lemma uuid_str_inject:
  assumes "m < 2 ^ 128" "n < 2 ^ 128" "uuid_str m = uuid_str n"
  shows "m = n"
  using uuid_round_trip [OF assms(1)] uuid_round_trip [OF assms(2)] assms(3)
  by (metis option.inject)

lemma length_uuid_str: "length (uuid_str k) = 36"
  by (simp add: uuid_str_def Let_def)

end
