(* ===== verification/Stock_Service.thy ===== *)
theory Stock_Service
  imports Prelude
begin

text \<open>
  The contract between the stock ledger and its clients (orders reserve, release and commit;
  carts read availability). \<open>avail v s\<close> is what may still be promised of variant \<open>v\<close>,
  \<open>held v s\<close> what is reserved of it. The laws say what each operation does to both, for the
  named variant and for every other one, and when it succeeds. What a client does with a list of
  order lines (\<open>each_line\<close>) is derived here once; \<open>Inventory\<close> interprets the locale.
\<close>

fun each_line :: "(nat \<Rightarrow> int \<Rightarrow> 's \<Rightarrow> 'e + 's) \<Rightarrow> (nat \<times> int) list \<Rightarrow> 's \<Rightarrow> 'e + 's" where
  "each_line f [] s = Inr s"
| "each_line f ((v, q) # ls) s = bindE (f v q s) (each_line f ls)"

definition demand :: "nat \<Rightarrow> (nat \<times> int) list \<Rightarrow> int" where
  "demand v ls = sum_list (map (\<lambda>(w, q). if w = v then q else 0) ls)"

lemma demand_simps [simp]:
  "demand v [] = 0"
  "demand v ((w, q) # ls) = (if w = v then q else 0) + demand v ls"
  "demand v (ls @ ms) = demand v ls + demand v ms"
  by (simp_all add: demand_def)

lemma demand_nonneg: "\<forall>(w, q) \<in> set ls. 0 \<le> q \<Longrightarrow> 0 \<le> demand v ls"
  by (induction ls) (auto split: if_splits)

locale stock_service =
  fixes avail :: "nat \<Rightarrow> 's \<Rightarrow> int"
    and held :: "nat \<Rightarrow> 's \<Rightarrow> int"
    and reserve :: "nat \<Rightarrow> int \<Rightarrow> 's \<Rightarrow> 'e + 's"
    and release :: "nat \<Rightarrow> int \<Rightarrow> 's \<Rightarrow> 'e + 's"
    and commit :: "nat \<Rightarrow> int \<Rightarrow> 's \<Rightarrow> 'e + 's"
    and sound :: "'s \<Rightarrow> bool"
  assumes reserve_positive: "reserve v q s = Inr s' \<Longrightarrow> 0 < q"
    and reserve_sound: "sound s \<Longrightarrow> reserve v q s = Inr s' \<Longrightarrow> sound s'"
    and reserve_avail: "sound s \<Longrightarrow> reserve v q s = Inr s' \<Longrightarrow>
          avail w s' = avail w s - (if w = v then q else 0)"
    and reserve_held: "sound s \<Longrightarrow> reserve v q s = Inr s' \<Longrightarrow>
          held w s' = held w s + (if w = v then q else 0)"
    and release_ok: "sound s \<Longrightarrow> 0 \<le> q \<Longrightarrow> q \<le> held v s \<Longrightarrow>
          \<exists>s'. release v q s = Inr s' \<and> sound s' \<and>
               (\<forall>w. avail w s' = avail w s + (if w = v then q else 0)) \<and>
               (\<forall>w. held w s' = held w s - (if w = v then q else 0))"
    and commit_ok: "sound s \<Longrightarrow> 0 \<le> q \<Longrightarrow> q \<le> held v s \<Longrightarrow>
          \<exists>s'. commit v q s = Inr s' \<and> sound s' \<and>
               (\<forall>w. avail w s' = avail w s) \<and>
               (\<forall>w. held w s' = held w s - (if w = v then q else 0))"
begin

lemma reserve_lines_positive:
  "each_line reserve ls s = Inr s' \<Longrightarrow> \<forall>(v, q) \<in> set ls. 0 < q"
proof (induction ls arbitrary: s)
  case (Cons l ls)
  then show ?case
    by (cases l) (auto simp: result_simps dest: reserve_positive)
qed simp

lemma reserve_lines:
  assumes "sound s" "each_line reserve ls s = Inr s'"
  shows "sound s' \<and> (\<forall>v. avail v s' = avail v s - demand v ls) \<and>
         (\<forall>v. held v s' = held v s + demand v ls)"
  using assms
proof (induction ls arbitrary: s)
  case (Cons l ls)
  obtain v q where l: "l = (v, q)" by (cases l)
  with Cons.prems obtain t where t: "reserve v q s = Inr t" "each_line reserve ls t = Inr s'"
    by (auto simp: result_simps)
  with Cons.IH [of t] reserve_sound [OF Cons.prems(1) t(1)]
  show ?case
    by (simp add: l reserve_avail [OF Cons.prems(1) t(1)] reserve_held [OF Cons.prems(1) t(1)])
qed simp

lemma release_lines:
  assumes "sound s" "\<forall>(v, q) \<in> set ls. 0 \<le> q" "\<forall>v. demand v ls \<le> held v s"
  shows "\<exists>s'. each_line release ls s = Inr s' \<and> sound s' \<and>
              (\<forall>v. avail v s' = avail v s + demand v ls) \<and>
              (\<forall>v. held v s' = held v s - demand v ls)"
  using assms
proof (induction ls arbitrary: s)
  case (Cons l ls)
  obtain v q where l: "l = (v, q)" by (cases l)
  have q: "0 \<le> q" and rest: "\<forall>(v, q) \<in> set ls. 0 \<le> q" using Cons.prems(2) l by auto
  have "q \<le> held v s" using Cons.prems(3) [rule_format, of v] demand_nonneg [OF rest, of v] l by simp
  then obtain t where t: "release v q s = Inr t" "sound t"
      "\<forall>w. avail w t = avail w s + (if w = v then q else 0)"
      "\<forall>w. held w t = held w s - (if w = v then q else 0)"
    using release_ok [OF Cons.prems(1) q] by blast
  have "\<forall>w. demand w ls \<le> held w t"
  proof
    fix w
    show "demand w ls \<le> held w t"
      using Cons.prems(3) [rule_format, of w] t(4) by (cases "w = v") (simp_all add: l)
  qed
  from Cons.IH [OF t(2) rest this] t show ?case by (auto simp: l)
qed simp

lemma commit_lines:
  assumes "sound s" "\<forall>(v, q) \<in> set ls. 0 \<le> q" "\<forall>v. demand v ls \<le> held v s"
  shows "\<exists>s'. each_line commit ls s = Inr s' \<and> sound s' \<and>
              (\<forall>v. avail v s' = avail v s) \<and>
              (\<forall>v. held v s' = held v s - demand v ls)"
  using assms
proof (induction ls arbitrary: s)
  case (Cons l ls)
  obtain v q where l: "l = (v, q)" by (cases l)
  have q: "0 \<le> q" and rest: "\<forall>(v, q) \<in> set ls. 0 \<le> q" using Cons.prems(2) l by auto
  have "q \<le> held v s" using Cons.prems(3) [rule_format, of v] demand_nonneg [OF rest, of v] l by simp
  then obtain t where t: "commit v q s = Inr t" "sound t" "\<forall>w. avail w t = avail w s"
      "\<forall>w. held w t = held w s - (if w = v then q else 0)"
    using commit_ok [OF Cons.prems(1) q] by blast
  have "\<forall>w. demand w ls \<le> held w t"
  proof
    fix w
    show "demand w ls \<le> held w t"
      using Cons.prems(3) [rule_format, of w] t(4) by (cases "w = v") (simp_all add: l)
  qed
  from Cons.IH [OF t(2) rest this] t show ?case by (auto simp: l)
qed simp

text \<open>Reserving a list of lines and releasing the same lines restores every availability.\<close>

lemma reserve_release_lines:
  assumes "sound s" "\<forall>v. 0 \<le> held v s" "each_line reserve ls s = Inr t"
  shows "\<exists>u. each_line release ls t = Inr u \<and> sound u \<and>
             (\<forall>v. avail v u = avail v s) \<and> (\<forall>v. held v u = held v s)"
proof -
  from reserve_lines [OF assms(1,3)]
  have t: "sound t" "\<forall>v. avail v t = avail v s - demand v ls" "\<forall>v. held v t = held v s + demand v ls"
    by auto
  have pos: "\<forall>(v, q) \<in> set ls. 0 \<le> q" using reserve_lines_positive [OF assms(3)] by auto
  from release_lines [OF t(1) pos] t(2,3) assms(2) show ?thesis by auto
qed

text \<open>Lines that were reserved can be committed, whatever else is held.\<close>

lemma reserve_commit_lines:
  assumes "sound s" "\<forall>v. 0 \<le> held v s" "each_line reserve ls s = Inr t"
  shows "\<exists>u. each_line commit ls t = Inr u \<and> sound u \<and>
             (\<forall>v. avail v u = avail v t) \<and> (\<forall>v. held v u = held v s)"
proof -
  from reserve_lines [OF assms(1,3)]
  have t: "sound t" "\<forall>v. held v t = held v s + demand v ls" by auto
  have pos: "\<forall>(v, q) \<in> set ls. 0 \<le> q" using reserve_lines_positive [OF assms(3)] by auto
  from commit_lines [OF t(1) pos] t(2) assms(2) show ?thesis by auto
qed

end

text \<open>
  The contract seen by a stocktaker, who counts what lies on the shelf as well: only sales take
  units off it.
\<close>

locale stock_ledger = stock_service avail held reserve release commit sound
  for avail held :: "nat \<Rightarrow> 's \<Rightarrow> int"
    and reserve release commit :: "nat \<Rightarrow> int \<Rightarrow> 's \<Rightarrow> 'e + 's"
    and sound :: "'s \<Rightarrow> bool" +
  fixes shelf :: "nat \<Rightarrow> 's \<Rightarrow> int"
  assumes reserve_shelf: "sound s \<Longrightarrow> reserve v q s = Inr s' \<Longrightarrow> shelf w s' = shelf w s"
    and commit_sound: "sound s \<Longrightarrow> 0 \<le> q \<Longrightarrow> commit v q s = Inr s' \<Longrightarrow> sound s'"
    and commit_shelf: "sound s \<Longrightarrow> 0 \<le> q \<Longrightarrow> commit v q s = Inr s' \<Longrightarrow>
          shelf w s' = shelf w s - (if w = v then q else 0)"
begin

lemma reserve_lines_shelf: "sound s \<Longrightarrow> each_line reserve ls s = Inr s' \<Longrightarrow> shelf w s' = shelf w s"
proof (induction ls arbitrary: s)
  case (Cons l ls)
  obtain v q where l: "l = (v, q)" by (cases l)
  with Cons.prems obtain t where t: "reserve v q s = Inr t" "each_line reserve ls t = Inr s'"
    by (auto simp: result_simps)
  with Cons.IH [of t] reserve_sound [OF Cons.prems(1) t(1)] show ?case
    by (simp add: reserve_shelf [OF Cons.prems(1) t(1)])
qed simp

lemma commit_lines_shelf:
  "sound s \<Longrightarrow> \<forall>(v, q) \<in> set ls. 0 \<le> q \<Longrightarrow> each_line commit ls s = Inr s' \<Longrightarrow>
   shelf w s' = shelf w s - demand w ls"
proof (induction ls arbitrary: s)
  case (Cons l ls)
  obtain v q where l: "l = (v, q)" by (cases l)
  with Cons.prems obtain t where t: "commit v q s = Inr t" "each_line commit ls t = Inr s'"
    by (auto simp: result_simps)
  with Cons.prems(2) l have q: "0 \<le> q" by simp
  with Cons.IH [of t] Cons.prems(1,2) t commit_sound [OF Cons.prems(1) q t(1)] show ?case
    by (simp add: l commit_shelf [OF Cons.prems(1) q t(1)])
qed simp

end

end
