(* ===== verification/Inventory.thy ===== *)
theory Inventory
  imports Core_Models Uuid Stock_Service "HOL-Library.Multiset"
begin

text \<open>
  \<open>django_app/apps/inventory\<close>: warehouses, stock rows (one per variant and warehouse) and the
  movement log, with the atomic services \<open>reserve_stock\<close>, \<open>release_reservation\<close>,
  \<open>commit_sale\<close> and \<open>adjust_stock\<close>. Each service is one transaction under
  \<open>select_for_update\<close>, so concurrent calls are a sequence of whole operations. The loops are
  shown to refine sequences of legal row writes (\<open>stock_writes\<close>); invariants, conservation and
  the laws of \<open>stock_service\<close> are proved of such sequences by rule induction.
\<close>

section \<open>Models\<close>

record warehouse = base_model +
  wh_code :: string
  wh_name :: string
  wh_address :: string
  wh_is_active :: bool
  wh_priority :: int

record stock = base_model +
  st_variant :: nat
  st_warehouse :: nat
  on_hand :: int
  reserved :: int
  safety_buffer :: int
  low_stock_threshold :: int

definition available :: "stock \<Rightarrow> int" where
  "available s = max (on_hand s - reserved s - safety_buffer s) 0"

definition is_low :: "stock \<Rightarrow> bool" where
  "is_low s \<longleftrightarrow> available s \<le> low_stock_threshold s"

datatype movement_reason =
    PURCHASE
  | SALE
  | RETURN
  | ADJUSTMENT
  | TRANSFER_IN
  | TRANSFER_OUT
  | RESERVATION
  | RESERVATION_RELEASE

record stock_movement = base_model +
  mv_stock :: nat
  mv_quantity :: int
  mv_reason :: movement_reason
  mv_reference :: string
  mv_note :: string

record inventory =
  warehouses :: "warehouse list"
  stocks :: "stock list"
  movements :: "stock_movement list"

record stock_snapshot =
  snap_variant_id :: nat
  snap_available :: int
  snap_on_hand :: int
  snap_reserved :: int

section \<open>Services\<close>

definition get_available :: "nat \<Rightarrow> inventory \<Rightarrow> int" where
  "get_available v db =
     sum_list (map available (filter (\<lambda>s. st_variant s = v) (objects (stocks db))))"

text \<open>\<open>StockMovement.objects.create(...)\<close>.\<close>

definition create_movement ::
  "int \<Rightarrow> nat \<Rightarrow> int \<Rightarrow> movement_reason \<Rightarrow> string \<Rightarrow> string \<Rightarrow> inventory \<Rightarrow> inventory" where
  "create_movement now stk qty reason ref note db =
     db\<lparr>movements := movements db @
       [\<lparr>pk = fresh_pk (movements db), created_at = now, updated_at = now, deleted_at = None,
         mv_stock = stk, mv_quantity = qty, mv_reason = reason,
         mv_reference = ref, mv_note = note\<rparr>]\<rparr>"

text \<open>\<open>stock.save(update_fields = [...])\<close> for the columns each service names.\<close>

definition save_reserved :: "int \<Rightarrow> stock \<Rightarrow> inventory \<Rightarrow> inventory" where
  "save_reserved now s db =
     db\<lparr>stocks := save_row (pk s) (\<lambda>r. r\<lparr>reserved := reserved s, updated_at := now\<rparr>) (stocks db)\<rparr>"

definition save_reserved_on_hand :: "int \<Rightarrow> stock \<Rightarrow> inventory \<Rightarrow> inventory" where
  "save_reserved_on_hand now s db =
     db\<lparr>stocks := save_row (pk s)
            (\<lambda>r. r\<lparr>reserved := reserved s, on_hand := on_hand s, updated_at := now\<rparr>) (stocks db)\<rparr>"

definition save_on_hand :: "int \<Rightarrow> stock \<Rightarrow> inventory \<Rightarrow> inventory" where
  "save_on_hand now s db =
     db\<lparr>stocks := save_row (pk s) (\<lambda>r. r\<lparr>on_hand := on_hand s, updated_at := now\<rparr>) (stocks db)\<rparr>"

text \<open>
  The joined warehouse of a row (the join does not look at \<open>deleted_at\<close>), and the locked rows in
  the order the service visits them. SQL leaves the order of equal priorities open; the model
  takes insertion order, and the loop lemmas hold for every order.
\<close>

definition warehouse_of :: "inventory \<Rightarrow> stock \<Rightarrow> warehouse option" where
  "warehouse_of db s = find_pk (st_warehouse s) (warehouses db)"

definition in_active_warehouse :: "inventory \<Rightarrow> stock \<Rightarrow> bool" where
  "in_active_warehouse db s =
     (case warehouse_of db s of None \<Rightarrow> False | Some w \<Rightarrow> wh_is_active w)"

definition priority_of :: "inventory \<Rightarrow> stock \<Rightarrow> int" where
  "priority_of db s = (case warehouse_of db s of None \<Rightarrow> 0 | Some w \<Rightarrow> wh_priority w)"

definition reserve_rows :: "nat \<Rightarrow> inventory \<Rightarrow> stock list" where
  "reserve_rows v db =
     sort_key (priority_of db)
       (filter (\<lambda>s. st_variant s = v \<and> in_active_warehouse db s) (objects (stocks db)))"

fun reserve_loop ::
  "int \<Rightarrow> string \<Rightarrow> stock list \<Rightarrow> int \<Rightarrow> int \<Rightarrow> int \<Rightarrow> inventory
   \<Rightarrow> int \<times> int \<times> int \<times> inventory" where
  "reserve_loop now ref [] remaining oh rs db = (remaining, oh, rs, db)"
| "reserve_loop now ref (s # rows) remaining oh rs db =
     (if remaining \<le> 0
      then reserve_loop now ref rows remaining (oh + on_hand s) (rs + reserved s) db
      else
        let tk = min (available s) remaining in
        if tk > 0 then
          let s' = s\<lparr>reserved := reserved s + tk\<rparr>;
              db' = create_movement now (pk s) (- tk) RESERVATION ref '''' (save_reserved now s' db)
          in reserve_loop now ref rows (remaining - tk) (oh + on_hand s) (rs + reserved s') db'
        else reserve_loop now ref rows remaining (oh + on_hand s) (rs + reserved s) db)"

text \<open>The messages of the two \<open>OutOfStockError\<close>s.\<close>

definition insufficient_message :: "nat \<Rightarrow> int \<Rightarrow> string" where
  "insufficient_message v remaining =
     ''insufficient stock for variant '' @ uuid_str v @ '': short by '' @ str_int remaining"

definition uncommitted_message :: "nat \<Rightarrow> int \<Rightarrow> int \<Rightarrow> string" where
  "uncommitted_message v quantity remaining =
     ''could not commit '' @ str_int quantity @ '' for variant '' @ uuid_str v @
     '' (short by '' @ str_int remaining @ '')''"

definition reserve_stock ::
  "int \<Rightarrow> string \<Rightarrow> nat \<Rightarrow> int \<Rightarrow> inventory \<Rightarrow> py_error + (stock_snapshot \<times> inventory)" where
  "reserve_stock now ref v quantity db =
     (if quantity \<le> 0 then Inl (ValueError ''quantity must be positive'')
      else
        let (remaining, oh, rs, db') = reserve_loop now ref (reserve_rows v db) quantity 0 0 db in
        if remaining > 0
        then Inl (OutOfStockError (insufficient_message v remaining))
        else Inr (\<lparr>snap_variant_id = v, snap_available = oh - rs,
                   snap_on_hand = oh, snap_reserved = rs\<rparr>, db'))"

text \<open>The rows with reservations, most reserved first.\<close>

definition reserved_rows :: "nat \<Rightarrow> inventory \<Rightarrow> stock list" where
  "reserved_rows v db =
     sort_key (\<lambda>s. - reserved s)
       (filter (\<lambda>s. st_variant s = v \<and> reserved s > 0) (objects (stocks db)))"

fun release_loop ::
  "int \<Rightarrow> string \<Rightarrow> stock list \<Rightarrow> int \<Rightarrow> inventory \<Rightarrow> int \<times> inventory" where
  "release_loop now ref [] remaining db = (remaining, db)"
| "release_loop now ref (s # rows) remaining db =
     (if remaining \<le> 0 then (remaining, db)
      else
        let give_back = min (reserved s) remaining in
        if give_back \<noteq> 0 then
          let s' = s\<lparr>reserved := reserved s - give_back\<rparr>;
              db' = create_movement now (pk s) give_back RESERVATION_RELEASE ref ''''
                       (save_reserved now s' db)
          in release_loop now ref rows (remaining - give_back) db'
        else release_loop now ref rows remaining db)"

definition release_reservation :: "int \<Rightarrow> string \<Rightarrow> nat \<Rightarrow> int \<Rightarrow> inventory \<Rightarrow> py_error + inventory" where
  "release_reservation now ref v quantity db =
     Inr (snd (release_loop now ref (reserved_rows v db) quantity db))"

fun commit_loop ::
  "int \<Rightarrow> string \<Rightarrow> stock list \<Rightarrow> int \<Rightarrow> inventory \<Rightarrow> int \<times> inventory" where
  "commit_loop now ref [] remaining db = (remaining, db)"
| "commit_loop now ref (s # rows) remaining db =
     (if remaining \<le> 0 then (remaining, db)
      else
        let tk = min (min (reserved s) (on_hand s)) remaining in
        if tk \<noteq> 0 then
          let s' = s\<lparr>reserved := reserved s - tk, on_hand := on_hand s - tk\<rparr>;
              db' = create_movement now (pk s) (- tk) SALE ref '''' (save_reserved_on_hand now s' db)
          in commit_loop now ref rows (remaining - tk) db'
        else commit_loop now ref rows remaining db)"

definition commit_sale :: "int \<Rightarrow> string \<Rightarrow> nat \<Rightarrow> int \<Rightarrow> inventory \<Rightarrow> py_error + inventory" where
  "commit_sale now ref v quantity db =
     (let (remaining, db') = commit_loop now ref (reserved_rows v db) quantity db in
      if remaining > 0
      then Inl (OutOfStockError (uncommitted_message v quantity remaining))
      else Inr db')"

text \<open>
  \<open>adjust_stock\<close>. The columns are 32-bit integers in PostgreSQL, so a value outside raises a
  \<open>DataError\<close> on save. \<open>variant_exists\<close> is the foreign key check against the catalog.
\<close>

definition int4 :: "int \<Rightarrow> bool" where
  "int4 i \<longleftrightarrow> - (2 ^ 31) \<le> i \<and> i < 2 ^ 31"

definition new_stock :: "int \<Rightarrow> nat \<Rightarrow> nat \<Rightarrow> nat \<Rightarrow> stock" where
  "new_stock now v w k =
     \<lparr>pk = k, created_at = now, updated_at = now, deleted_at = None, st_variant = v,
      st_warehouse = w, on_hand = 0, reserved = 0, safety_buffer = 0, low_stock_threshold = 5\<rparr>"

definition adjust_stock ::
  "int \<Rightarrow> (nat \<Rightarrow> bool) \<Rightarrow> nat \<Rightarrow> string \<Rightarrow> int \<Rightarrow> string \<Rightarrow> inventory
   \<Rightarrow> py_error + (stock \<times> inventory)" where
  "adjust_stock now variant_exists v warehouse_code delta note db =
     bindE (get_one ''Warehouse'' (\<lambda>w. wh_code w = warehouse_code) (warehouses db)) (\<lambda>w.
     bindE (get_or_create ''inventory_stock'' (\<lambda>s. st_variant s = v \<and> st_warehouse s = pk w)
              ((\<exists>s \<in> set (stocks db). st_variant s = v \<and> st_warehouse s = pk w) \<or> \<not> variant_exists v)
              (new_stock now v (pk w)) (stocks db)) (\<lambda>(s, created, tbl).
       let s' = s\<lparr>on_hand := max (on_hand s + delta) 0, updated_at := now\<rparr> in
       if \<not> int4 (on_hand s') \<or> \<not> int4 delta then Inl (DataError ''integer out of range'')
       else Inr (s', create_movement now (pk s) delta ADJUSTMENT '''' note
                       (save_on_hand now s' (db\<lparr>stocks := tbl\<rparr>)))))"

section \<open>Legal row writes\<close>

text \<open>
  What one iteration of a service loop may do to a row: the abstract specification the three
  loops refine. \<open>stock_writes v R ref n db db'\<close>: a sequence of such writes for variant \<open>v\<close>
  with reason \<open>R\<close>, moving \<open>n\<close> units in all and logging a movement for each.
\<close>

definition write_ok :: "movement_reason \<Rightarrow> stock \<Rightarrow> int \<Rightarrow> bool" where
  "write_ok R s t \<longleftrightarrow> 0 < t \<and>
     (case R of RESERVATION \<Rightarrow> t \<le> available s
      | RESERVATION_RELEASE \<Rightarrow> t \<le> reserved s
      | SALE \<Rightarrow> t \<le> reserved s \<and> t \<le> on_hand s
      | _ \<Rightarrow> False)"

definition row_write :: "movement_reason \<Rightarrow> int \<Rightarrow> int \<Rightarrow> stock \<Rightarrow> stock" where
  "row_write R t now s =
     (case R of RESERVATION \<Rightarrow> s\<lparr>reserved := reserved s + t, updated_at := now\<rparr>
      | RESERVATION_RELEASE \<Rightarrow> s\<lparr>reserved := reserved s - t, updated_at := now\<rparr>
      | SALE \<Rightarrow> s\<lparr>reserved := reserved s - t, on_hand := on_hand s - t, updated_at := now\<rparr>
      | _ \<Rightarrow> s)"

definition signed :: "movement_reason \<Rightarrow> int \<Rightarrow> int" where
  "signed R t = (if R = RESERVATION_RELEASE then t else - t)"

definition apply_write ::
  "int \<Rightarrow> movement_reason \<Rightarrow> string \<Rightarrow> stock \<Rightarrow> int \<Rightarrow> inventory \<Rightarrow> inventory" where
  "apply_write now R ref s t db =
     create_movement now (pk s) (signed R t) R ref ''''
       (db\<lparr>stocks := save_row (pk s) (row_write R t now) (stocks db)\<rparr>)"

inductive stock_writes ::
  "nat \<Rightarrow> movement_reason \<Rightarrow> string \<Rightarrow> int \<Rightarrow> inventory \<Rightarrow> inventory \<Rightarrow> bool" where
  no_write: "stock_writes v R ref 0 db db"
| one_write: "s \<in> set (stocks db) \<Longrightarrow> is_alive s \<Longrightarrow> st_variant s = v \<Longrightarrow> write_ok R s t \<Longrightarrow>
     stock_writes v R ref n (apply_write now R ref s t db) db' \<Longrightarrow>
     stock_writes v R ref (t + n) db db'"

lemma row_write_frame [simp]:
  "pk (row_write R t now s) = pk s" "st_variant (row_write R t now s) = st_variant s"
  "st_warehouse (row_write R t now s) = st_warehouse s"
  "deleted_at (row_write R t now s) = deleted_at s"
  "safety_buffer (row_write R t now s) = safety_buffer s"
  "is_alive (row_write R t now s) = is_alive s"
  by (simp_all add: row_write_def is_alive_def split: movement_reason.splits)

lemma create_movement_frame [simp]:
  "stocks (create_movement now k q R ref note db) = stocks db"
  "warehouses (create_movement now k q R ref note db) = warehouses db"
  by (simp_all add: create_movement_def)

lemma apply_write_frame [simp]:
  "stocks (apply_write now R ref s t db) = save_row (pk s) (row_write R t now) (stocks db)"
  "warehouses (apply_write now R ref s t db) = warehouses db"
  by (simp_all add: apply_write_def)

subsection \<open>Well-formed inventories\<close>

definition unique_variant_warehouse :: "stock list \<Rightarrow> bool" where
  "unique_variant_warehouse tbl \<longleftrightarrow> distinct (map (\<lambda>s. (st_variant s, st_warehouse s)) tbl)"

definition row_ok :: "stock \<Rightarrow> bool" where
  "row_ok s \<longleftrightarrow> 0 \<le> on_hand s \<and> 0 \<le> reserved s \<and> 0 \<le> safety_buffer s"

definition inventory_ok :: "inventory \<Rightarrow> bool" where
  "inventory_ok db \<longleftrightarrow>
     distinct_pks (warehouses db) \<and> distinct_pks (stocks db) \<and> distinct_pks (movements db) \<and>
     unique_variant_warehouse (stocks db) \<and> list_all row_ok (stocks db)"

text \<open>No row has promised units that it does not hold above its safety buffer.\<close>

definition covered :: "stock \<Rightarrow> bool" where
  "covered s \<longleftrightarrow> reserved s = 0 \<or> reserved s + safety_buffer s \<le> on_hand s"

definition no_deficit :: "inventory \<Rightarrow> bool" where
  "no_deficit db \<longleftrightarrow> list_all covered (stocks db)"

definition sound_inventory :: "inventory \<Rightarrow> bool" where
  "sound_inventory db \<longleftrightarrow> inventory_ok db \<and> no_deficit db"

lemma save_row_cong:
  assumes "distinct_pks tbl" "s \<in> set tbl" "f s = g s"
  shows "save_row (pk s) f tbl = save_row (pk s) g tbl"
proof -
  have "f r = g r" if "r \<in> set tbl" "pk r = pk s" for r
    using that assms by (metis distinct_pks_def distinct_map inj_onD)
  then show ?thesis by (auto simp: save_row_def update_where_def)
qed

lemma set_save_row:
  "set (save_row k f tbl) = (\<lambda>r. if pk r = k then f r else r) ` set tbl"
  by (simp add: save_row_def table_simps)

lemma list_all_save_row:
  "list_all P tbl \<Longrightarrow> (\<And>r. r \<in> set tbl \<Longrightarrow> pk r = k \<Longrightarrow> P (f r)) \<Longrightarrow> list_all P (save_row k f tbl)"
  by (auto simp: list_all_iff set_save_row)

lemma distinct_pks_save_row:
  "distinct_pks tbl \<Longrightarrow> (\<And>r. pk (f r) = pk r) \<Longrightarrow> distinct_pks (save_row k f tbl)"
  by (simp add: distinct_pks_def map_pk_save_row)

lemma row_unique:
  "distinct_pks tbl \<Longrightarrow> r \<in> set tbl \<Longrightarrow> s \<in> set tbl \<Longrightarrow> pk r = pk s \<Longrightarrow> r = s"
  by (metis distinct_pks_def distinct_map inj_onD)

lemma unique_variant_warehouse_save_row:
  "unique_variant_warehouse tbl \<Longrightarrow> (\<And>r. st_variant (f r) = st_variant r) \<Longrightarrow>
   (\<And>r. st_warehouse (f r) = st_warehouse r) \<Longrightarrow> unique_variant_warehouse (save_row k f tbl)"
  by (simp add: unique_variant_warehouse_def save_row_def update_where_def comp_def if_distrib
      cong: if_cong)

lemma create_movement_ok:
  "inventory_ok db \<Longrightarrow> inventory_ok (create_movement now k q R ref note db)"
  by (simp add: inventory_ok_def create_movement_def distinct_pks_append_fresh)

lemma row_write_row_ok: "row_ok s \<Longrightarrow> write_ok R s t \<Longrightarrow> row_ok (row_write R t now s)"
  by (auto simp: row_ok_def write_ok_def row_write_def split: movement_reason.splits)

lemma row_write_covered:
  "row_ok s \<Longrightarrow> covered s \<Longrightarrow> write_ok R s t \<Longrightarrow> covered (row_write R t now s)"
  by (auto simp: row_ok_def covered_def write_ok_def row_write_def available_def
      split: movement_reason.splits)

lemma apply_write_ok:
  assumes "inventory_ok db" "s \<in> set (stocks db)" "write_ok R s t"
  shows "inventory_ok (apply_write now R ref s t db)"
proof -
  have d: "distinct_pks (stocks db)" and all: "list_all row_ok (stocks db)"
    using assms(1) by (simp_all add: inventory_ok_def)
  have "row_ok (row_write R t now r)" if "r \<in> set (stocks db)" "pk r = pk s" for r
    using that row_unique [OF d that(1) assms(2) that(2)] row_write_row_ok assms all
    by (auto simp: list_all_iff)
  then have "list_all row_ok (save_row (pk s) (row_write R t now) (stocks db))"
    by (rule list_all_save_row [OF all])
  with assms(1) show ?thesis
    unfolding apply_write_def
    by (intro create_movement_ok)
       (simp add: inventory_ok_def distinct_pks_save_row unique_variant_warehouse_save_row)
qed

lemma apply_write_covered:
  assumes "inventory_ok db" "no_deficit db" "s \<in> set (stocks db)" "write_ok R s t"
  shows "no_deficit (apply_write now R ref s t db)"
proof -
  have d: "distinct_pks (stocks db)" and all: "list_all row_ok (stocks db)"
    and c: "list_all covered (stocks db)"
    using assms(1,2) by (simp_all add: inventory_ok_def no_deficit_def)
  have "covered (row_write R t now r)" if "r \<in> set (stocks db)" "pk r = pk s" for r
    using that row_unique [OF d that(1) assms(3) that(2)] row_write_covered assms all c
    by (auto simp: list_all_iff)
  then show ?thesis
    by (simp add: no_deficit_def list_all_save_row [OF c])
qed

lemma stock_writes_ok: "stock_writes v R ref n db db' \<Longrightarrow> inventory_ok db \<Longrightarrow> inventory_ok db'"
  by (induction rule: stock_writes.induct) (auto intro: apply_write_ok)

lemma stock_writes_no_deficit:
  "stock_writes v R ref n db db' \<Longrightarrow> inventory_ok db \<Longrightarrow> no_deficit db \<Longrightarrow> no_deficit db'"
  by (induction rule: stock_writes.induct) (auto intro: apply_write_ok apply_write_covered)

lemma stock_writes_sound:
  "stock_writes v R ref n db db' \<Longrightarrow> sound_inventory db \<Longrightarrow> sound_inventory db'"
  by (auto simp: sound_inventory_def intro: stock_writes_ok stock_writes_no_deficit)

lemma stock_writes_nonneg: "stock_writes v R ref n db db' \<Longrightarrow> 0 \<le> n"
  by (induction rule: stock_writes.induct) (auto simp: write_ok_def)

lemma stock_writes_warehouses: "stock_writes v R ref n db db' \<Longrightarrow> warehouses db' = warehouses db"
  by (induction rule: stock_writes.induct) auto

text \<open>Rows of other variants, and dead rows, stay as they are.\<close>

lemma stock_writes_frame:
  assumes "stock_writes v R ref n db db'" "inventory_ok db"
  shows "filter (\<lambda>s. st_variant s \<noteq> v \<or> \<not> is_alive s) (stocks db') =
         filter (\<lambda>s. st_variant s \<noteq> v \<or> \<not> is_alive s) (stocks db)"
  using assms
proof (induction rule: stock_writes.induct)
  case (one_write s db v R t ref n now db')
  have d: "distinct_pks (stocks db)" using one_write.prems by (simp add: inventory_ok_def)
  have "st_variant r = v \<and> is_alive r" if "r \<in> set (stocks db)" "pk r = pk s" for r
    using row_unique [OF d that(1) one_write.hyps(1) that(2)] one_write.hyps by simp
  then have "filter (\<lambda>s. st_variant s \<noteq> v \<or> \<not> is_alive s)
               (save_row (pk s) (row_write R t now) (stocks db)) =
             filter (\<lambda>s. st_variant s \<noteq> v \<or> \<not> is_alive s) (stocks db)"
    unfolding save_row_def
    by (induction "stocks db") (auto simp: update_where_def filter_map comp_def intro!: map_idI
          filter_cong)
  with one_write apply_write_ok show ?case by simp
qed simp

subsection \<open>Column totals of a variant\<close>

definition total_of :: "(stock \<Rightarrow> int) \<Rightarrow> nat \<Rightarrow> inventory \<Rightarrow> int" where
  "total_of g v db = sum_list (map g (filter (\<lambda>s. st_variant s = v) (objects (stocks db))))"

abbreviation total_reserved :: "nat \<Rightarrow> inventory \<Rightarrow> int" where
  "total_reserved \<equiv> total_of reserved"

abbreviation total_on_hand :: "nat \<Rightarrow> inventory \<Rightarrow> int" where
  "total_on_hand \<equiv> total_of on_hand"

lemma get_available_total: "get_available v db = total_of available v db"
  by (simp add: get_available_def total_of_def)

lemma total_of_all_rows:
  "total_of g v db =
     sum_list (map (\<lambda>s. if is_alive s \<and> st_variant s = v then g s else 0) (stocks db))"
proof -
  have "sum_list (map g (filter (\<lambda>s. st_variant s = v) (filter (\<lambda>r. deleted_at r = None) tbl))) =
        sum_list (map (\<lambda>s. if is_alive s \<and> st_variant s = v then g s else 0) tbl)" for tbl
    by (induction tbl) (auto simp: is_alive_def)
  then show ?thesis by (simp add: total_of_def get_queryset_def)
qed

lemma total_of_nonneg:
  assumes "inventory_ok db" "\<And>s. row_ok s \<Longrightarrow> 0 \<le> g s"
  shows "0 \<le> total_of g v db"
  using assms unfolding total_of_def inventory_ok_def get_queryset_def list_all_iff
  by (intro sum_list_nonneg) auto

lemma total_of_apply_write:
  assumes "inventory_ok db" "s \<in> set (stocks db)" "is_alive s"
  shows "total_of g w (apply_write now R ref s t db) =
         total_of g w db + (if st_variant s = w then g (row_write R t now s) - g s else 0)"
proof -
  have d: "distinct_pks (stocks db)" using assms(1) by (simp add: inventory_ok_def)
  show ?thesis
    unfolding total_of_all_rows apply_write_frame sum_save_row [OF d assms(2)]
    using assms(3) by simp
qed

text \<open>What one written unit does to a column, for each reason.\<close>

lemma row_write_reserved:
  "write_ok R s t \<Longrightarrow> reserved (row_write R t now s) - reserved s = (if R = RESERVATION then t else - t)"
  by (auto simp: write_ok_def row_write_def split: movement_reason.splits)

lemma row_write_on_hand:
  "write_ok R s t \<Longrightarrow> on_hand (row_write R t now s) - on_hand s = (if R = SALE then - t else 0)"
  by (auto simp: write_ok_def row_write_def split: movement_reason.splits)

definition avail_delta :: "movement_reason \<Rightarrow> int \<Rightarrow> int" where
  "avail_delta R t = (case R of RESERVATION \<Rightarrow> - t | RESERVATION_RELEASE \<Rightarrow> t | _ \<Rightarrow> 0)"

lemma row_write_available:
  assumes "write_ok R s t" "row_ok s" "R = RESERVATION_RELEASE \<Longrightarrow> covered s"
  shows "available (row_write R t now s) - available s = avail_delta R t"
  using assms
  by (auto simp: write_ok_def row_write_def available_def avail_delta_def covered_def row_ok_def
      split: movement_reason.splits)

lemma row_in_ok: "inventory_ok db \<Longrightarrow> s \<in> set (stocks db) \<Longrightarrow> row_ok s"
  by (simp add: inventory_ok_def list_all_iff)

lemma row_in_covered: "no_deficit db \<Longrightarrow> s \<in> set (stocks db) \<Longrightarrow> covered s"
  by (simp add: no_deficit_def list_all_iff)

lemma stock_writes_reserved:
  assumes "stock_writes v R ref n db db'" "inventory_ok db"
  shows "total_reserved w db' = total_reserved w db +
           (if w = v then (if R = RESERVATION then n else - n) else 0)"
  using assms
proof (induction rule: stock_writes.induct)
  case (one_write s db v R t ref n now db')
  from one_write.IH [OF apply_write_ok [OF one_write.prems one_write.hyps(1,4)]]
  show ?case
    using total_of_apply_write [OF one_write.prems one_write.hyps(1,2), of reserved w now R ref t]
      row_write_reserved [OF one_write.hyps(4), of now] one_write.hyps(3)
    by (auto split: if_splits)
qed simp

lemma stock_writes_on_hand:
  assumes "stock_writes v R ref n db db'" "inventory_ok db"
  shows "total_on_hand w db' = total_on_hand w db - (if w = v \<and> R = SALE then n else 0)"
  using assms
proof (induction rule: stock_writes.induct)
  case (one_write s db v R t ref n now db')
  from one_write.IH [OF apply_write_ok [OF one_write.prems one_write.hyps(1,4)]]
  show ?case
    using total_of_apply_write [OF one_write.prems one_write.hyps(1,2), of on_hand w now R ref t]
      row_write_on_hand [OF one_write.hyps(4), of now] one_write.hyps(3)
    by (auto split: if_splits)
qed simp

lemma avail_delta_add: "avail_delta R (t + n) = avail_delta R t + avail_delta R n"
  by (simp add: avail_delta_def split: movement_reason.splits)

lemma stock_writes_available:
  assumes "stock_writes v R ref n db db'" "inventory_ok db"
    and "R = RESERVATION_RELEASE \<Longrightarrow> no_deficit db"
  shows "get_available w db' = get_available w db + (if w = v then avail_delta R n else 0)"
  using assms
proof (induction rule: stock_writes.induct)
  case (no_write v R ref db)
  then show ?case by (simp add: avail_delta_def split: movement_reason.splits)
next
  case (one_write s db v R t ref n now db')
  have s: "row_ok s" "R = RESERVATION_RELEASE \<Longrightarrow> covered s"
    using one_write.prems one_write.hyps(1) by (auto dest: row_in_ok row_in_covered)
  have c: "no_deficit (apply_write now R ref s t db)" if "R = RESERVATION_RELEASE"
    by (rule apply_write_covered [OF one_write.prems(1) one_write.prems(2) [OF that]
          one_write.hyps(1,4)])
  have "get_available w db' = get_available w (apply_write now R ref s t db) +
          (if w = v then avail_delta R n else 0)"
    by (rule one_write.IH [OF apply_write_ok [OF one_write.prems(1) one_write.hyps(1,4)]]) (rule c)
  then show ?case
    using total_of_apply_write [OF one_write.prems(1) one_write.hyps(1,2), of available w now R ref t]
      row_write_available [OF one_write.hyps(4) s, of now] one_write.hyps(3)
    by (auto simp: get_available_total avail_delta_add)
qed

section \<open>The loops refine legal writes\<close>

definition loop_ready :: "nat \<Rightarrow> stock list \<Rightarrow> inventory \<Rightarrow> bool" where
  "loop_ready v rows db \<longleftrightarrow>
     inventory_ok db \<and> distinct_pks rows \<and> set rows \<subseteq> set (stocks db) \<and>
     (\<forall>s \<in> set rows. is_alive s \<and> st_variant s = v)"

lemma loop_readyD:
  assumes "loop_ready v (s # rows) db"
  shows "s \<in> set (stocks db)" "is_alive s" "st_variant s = v" "inventory_ok db" "row_ok s"
    "loop_ready v rows db"
  using assms by (auto simp: loop_ready_def distinct_pks_def dest: row_in_ok)

lemma loop_ready_write:
  assumes "loop_ready v (s # rows) db" "write_ok R s t"
  shows "loop_ready v rows (apply_write now R ref s t db)"
proof -
  have "distinct (map pk (s # rows))"
    using assms(1) by (simp only: loop_ready_def distinct_pks_def)
  then have "pk s \<notin> pk ` set rows" by simp
  then have "pk r \<noteq> pk s" if "r \<in> set rows" for r
    using that by (metis image_eqI)
  then have "set rows \<subseteq> set (save_row (pk s) (row_write R t now) (stocks db))"
    using assms(1) by (force simp: loop_ready_def set_save_row)
  then show ?thesis
    using assms loop_readyD [OF assms(1)]
    by (auto simp: loop_ready_def distinct_pks_def apply_write_ok)
qed

lemma reserve_save_is_write:
  assumes "inventory_ok db" "s \<in> set (stocks db)"
  shows "create_movement now (pk s) (- t) RESERVATION ref ''''
           (save_reserved now (s\<lparr>reserved := reserved s + t\<rparr>) db) =
         apply_write now RESERVATION ref s t db"
proof -
  have d: "distinct_pks (stocks db)" using assms(1) by (simp add: inventory_ok_def)
  have "save_row (pk s) (\<lambda>r. r\<lparr>reserved := reserved s + t, updated_at := now\<rparr>) (stocks db) =
        save_row (pk s) (row_write RESERVATION t now) (stocks db)"
    by (rule save_row_cong [OF d assms(2)]) (simp add: row_write_def)
  then show ?thesis by (simp add: apply_write_def save_reserved_def signed_def)
qed

lemma release_save_is_write:
  assumes "inventory_ok db" "s \<in> set (stocks db)"
  shows "create_movement now (pk s) t RESERVATION_RELEASE ref ''''
           (save_reserved now (s\<lparr>reserved := reserved s - t\<rparr>) db) =
         apply_write now RESERVATION_RELEASE ref s t db"
proof -
  have d: "distinct_pks (stocks db)" using assms(1) by (simp add: inventory_ok_def)
  have "save_row (pk s) (\<lambda>r. r\<lparr>reserved := reserved s - t, updated_at := now\<rparr>) (stocks db) =
        save_row (pk s) (row_write RESERVATION_RELEASE t now) (stocks db)"
    by (rule save_row_cong [OF d assms(2)]) (simp add: row_write_def)
  then show ?thesis by (simp add: apply_write_def save_reserved_def signed_def)
qed

lemma commit_save_is_write:
  assumes "inventory_ok db" "s \<in> set (stocks db)"
  shows "create_movement now (pk s) (- t) SALE ref ''''
           (save_reserved_on_hand now
              (s\<lparr>reserved := reserved s - t, on_hand := on_hand s - t\<rparr>) db) =
         apply_write now SALE ref s t db"
proof -
  have d: "distinct_pks (stocks db)" using assms(1) by (simp add: inventory_ok_def)
  have "save_row (pk s) (\<lambda>r. r\<lparr>reserved := reserved s - t, on_hand := on_hand s - t,
                              updated_at := now\<rparr>) (stocks db) =
        save_row (pk s) (row_write SALE t now) (stocks db)"
    by (rule save_row_cong [OF d assms(2)]) (simp add: row_write_def)
  then show ?thesis by (simp add: apply_write_def save_reserved_on_hand_def signed_def)
qed

lemma reserve_loop_refines:
  assumes "loop_ready v rows db" "0 \<le> rem"
    and "reserve_loop now ref rows rem oh rs db = (rem', oh', rs', db')"
  shows "stock_writes v RESERVATION ref (rem - rem') db db' \<and>
         rem' = max 0 (rem - sum_list (map available rows)) \<and>
         oh' = oh + sum_list (map on_hand rows) \<and>
         rs' = rs + sum_list (map reserved rows) + (rem - rem')"
  using assms
proof (induction rows arbitrary: rem oh rs db)
  case Nil
  then show ?case by (auto intro: no_write)
next
  case (Cons s rows)
  note s = loop_readyD [OF Cons.prems(1)]
  have rest: "0 \<le> sum_list (map available rows)"
    by (intro sum_list_nonneg) (auto simp: available_def)
  have a: "0 \<le> available s" by (simp add: available_def)
  let ?t = "min (available s) rem"
  show ?case
  proof (cases "0 < rem \<and> 0 < ?t")
    case False
    then have same: "rem = 0 \<or> available s = 0" using Cons.prems(2) a by auto
    then have "reserve_loop now ref rows rem (oh + on_hand s) (rs + reserved s) db =
                 (rem', oh', rs', db')"
      using Cons.prems(2,3) by (auto simp: Let_def split: if_splits)
    from Cons.IH [OF s(6) Cons.prems(2) this] show ?thesis
      using same rest a by auto
  next
    case True
    have w: "write_ok RESERVATION s ?t" using True by (simp add: write_ok_def)
    have "reserve_loop now ref rows (rem - ?t) (oh + on_hand s) (rs + (reserved s + ?t))
            (apply_write now RESERVATION ref s ?t db) = (rem', oh', rs', db')"
      using True Cons.prems(3) by (simp add: Let_def reserve_save_is_write [OF s(4,1)])
    from Cons.IH [OF loop_ready_write [OF Cons.prems(1) w] _ this]
    have IH: "stock_writes v RESERVATION ref (rem - ?t - rem') (apply_write now RESERVATION ref s ?t db) db'"
      "rem' = max 0 (rem - ?t - sum_list (map available rows))"
      "oh' = oh + on_hand s + sum_list (map on_hand rows)"
      "rs' = rs + (reserved s + ?t) + sum_list (map reserved rows) + (rem - ?t - rem')"
      by auto
    from one_write [OF s(1-3) w IH(1)] IH(2-4) rest a show ?thesis by auto
  qed
qed

lemma release_loop_refines:
  assumes "loop_ready v rows db" "release_loop now ref rows rem db = (rem', db')" "0 \<le> rem"
  shows "stock_writes v RESERVATION_RELEASE ref (rem - rem') db db' \<and>
         rem' = max 0 (rem - sum_list (map reserved rows))"
  using assms
proof (induction rows arbitrary: rem db)
  case Nil
  then show ?case by (auto intro: no_write)
next
  case (Cons s rows)
  note s = loop_readyD [OF Cons.prems(1)]
  have rest: "0 \<le> sum_list (map reserved rows)"
    using s(6) by (intro sum_list_nonneg) (auto simp: loop_ready_def row_ok_def dest!: row_in_ok)
  have a: "0 \<le> reserved s" using s(5) by (simp add: row_ok_def)
  let ?t = "min (reserved s) rem"
  consider "rem = 0" | "0 < rem" "reserved s = 0" | "0 < ?t" "0 < rem"
    using Cons.prems(3) a by linarith
  then show ?case
  proof cases
    case 1
    then show ?thesis using Cons.prems(2) rest a by (auto intro: no_write)
  next
    case 2
    with Cons.prems(2) have "release_loop now ref rows rem db = (rem', db')" by simp
    from Cons.IH [OF s(6) this Cons.prems(3)] 2 show ?thesis by auto
  next
    case 3
    have w: "write_ok RESERVATION_RELEASE s ?t" using 3 by (simp add: write_ok_def)
    have "release_loop now ref rows (rem - ?t) (apply_write now RESERVATION_RELEASE ref s ?t db) =
            (rem', db')"
      using 3 Cons.prems(2) by (simp add: Let_def release_save_is_write [OF s(4,1)] split: if_splits)
    from Cons.IH [OF loop_ready_write [OF Cons.prems(1) w] this]
    have IH: "stock_writes v RESERVATION_RELEASE ref (rem - ?t - rem')
                (apply_write now RESERVATION_RELEASE ref s ?t db) db'"
      "rem' = max 0 (rem - ?t - sum_list (map reserved rows))"
      by auto
    from one_write [OF s(1-3) w IH(1)] IH(2) rest a show ?thesis by auto
  qed
qed

abbreviation committable :: "stock \<Rightarrow> int" where
  "committable s \<equiv> min (reserved s) (on_hand s)"

lemma commit_loop_refines:
  assumes "loop_ready v rows db" "commit_loop now ref rows rem db = (rem', db')" "0 \<le> rem"
  shows "stock_writes v SALE ref (rem - rem') db db' \<and>
         rem' = max 0 (rem - sum_list (map committable rows))"
  using assms
proof (induction rows arbitrary: rem db)
  case Nil
  then show ?case by (auto intro: no_write)
next
  case (Cons s rows)
  note s = loop_readyD [OF Cons.prems(1)]
  have rest: "0 \<le> sum_list (map committable rows)"
    using s(6) by (intro sum_list_nonneg) (auto simp: loop_ready_def row_ok_def dest!: row_in_ok)
  have a: "0 \<le> committable s" using s(5) by (simp add: row_ok_def)
  let ?t = "min (committable s) rem"
  consider "rem = 0" | "0 < rem" "committable s = 0" | "0 < ?t" "0 < rem"
    using Cons.prems(3) a by linarith
  then show ?case
  proof cases
    case 1
    then show ?thesis using Cons.prems(2) rest a by (auto intro: no_write)
  next
    case 2
    with Cons.prems(2) have "commit_loop now ref rows rem db = (rem', db')" by simp
    from Cons.IH [OF s(6) this Cons.prems(3)] 2 show ?thesis by auto
  next
    case 3
    have w: "write_ok SALE s ?t" using 3 by (auto simp: write_ok_def min_def)
    have "commit_loop now ref rows (rem - ?t) (apply_write now SALE ref s ?t db) = (rem', db')"
      using 3 Cons.prems(2) by (simp add: Let_def commit_save_is_write [OF s(4,1)] split: if_splits)
    from Cons.IH [OF loop_ready_write [OF Cons.prems(1) w] this]
    have IH: "stock_writes v SALE ref (rem - ?t - rem') (apply_write now SALE ref s ?t db) db'"
      "rem' = max 0 (rem - ?t - sum_list (map committable rows))"
      by auto
    from one_write [OF s(1-3) w IH(1)] IH(2) rest a show ?thesis by auto
  qed
qed

text \<open>The rows each service selects are fit for its loop.\<close>

lemma sort_key_ready:
  assumes "inventory_ok db"
  shows "loop_ready v (sort_key k (filter (\<lambda>s. st_variant s = v \<and> P s) (objects (stocks db)))) db"
proof -
  have "distinct (map pk (stocks db))"
    using assms by (simp add: inventory_ok_def distinct_pks_def)
  then have "distinct (map pk (sort_key k (filter (\<lambda>s. st_variant s = v \<and> P s) (objects (stocks db)))))"
    by (auto simp: distinct_map get_queryset_def intro: inj_on_subset)
  with assms show ?thesis
    by (auto simp: loop_ready_def distinct_pks_def get_queryset_def is_alive_def)
qed

lemma reserve_rows_ready: "inventory_ok db \<Longrightarrow> loop_ready v (reserve_rows v db) db"
  unfolding reserve_rows_def by (rule sort_key_ready)

lemma reserved_rows_ready: "inventory_ok db \<Longrightarrow> loop_ready v (reserved_rows v db) db"
  unfolding reserved_rows_def by (rule sort_key_ready)

text \<open>What the service may promise of a variant: the availability in active warehouses.\<close>

definition reservable :: "nat \<Rightarrow> inventory \<Rightarrow> int" where
  "reservable v db =
     sum_list (map available (filter (\<lambda>s. st_variant s = v \<and> in_active_warehouse db s)
                                     (objects (stocks db))))"

lemma sum_list_sort_key:
  fixes f :: "'a \<Rightarrow> int"
  shows "sum_list (map f (sort_key k xs)) = sum_list (map f xs)"
proof -
  have "mset (map f (sort_key k xs)) = mset (map f xs)" by simp
  then show ?thesis by (metis sum_mset_sum_list)
qed

lemma sum_reserved_rows: "sum_list (map available (reserve_rows v db)) = reservable v db"
  by (simp add: reserve_rows_def reservable_def sum_list_sort_key)

lemma sum_list_filter_zero:
  fixes f :: "'a \<Rightarrow> int"
  assumes "\<forall>x \<in> set xs. P x \<longrightarrow> \<not> Q x \<longrightarrow> f x = 0"
  shows "sum_list (map f (filter (\<lambda>x. P x \<and> Q x) xs)) = sum_list (map f (filter P xs))"
  using assms by (induction xs) auto

lemma sum_total_reserved:
  assumes "inventory_ok db"
  shows "sum_list (map reserved (reserved_rows v db)) = total_reserved v db"
  unfolding reserved_rows_def total_of_def sum_list_sort_key
  using assms row_in_ok [OF assms]
  by (intro sum_list_filter_zero) (force simp: get_queryset_def row_ok_def)

definition total_committable :: "nat \<Rightarrow> inventory \<Rightarrow> int" where
  "total_committable v db = total_of committable v db"

lemma sum_total_committable:
  assumes "inventory_ok db"
  shows "sum_list (map committable (reserved_rows v db)) = total_committable v db"
  unfolding reserved_rows_def total_of_def sum_list_sort_key total_committable_def
  using assms row_in_ok [OF assms]
  by (intro sum_list_filter_zero) (force simp: get_queryset_def row_ok_def)

lemma total_committable_covered:
  assumes "sound_inventory db"
  shows "total_committable v db = total_reserved v db"
proof -
  have "committable s = reserved s" if "s \<in> set (stocks db)" for s
    using assms that row_in_ok [of db s] row_in_covered [of db s]
    by (auto simp: sound_inventory_def covered_def row_ok_def)
  then show ?thesis
    unfolding total_committable_def total_of_def get_queryset_def
    by (intro arg_cong [where f = sum_list] map_cong) auto
qed

section \<open>What the services do\<close>

lemma reserve_stock_Inr:
  assumes "inventory_ok db" "reserve_stock now ref v q db = Inr (snap, db')"
  shows "0 < q" "q \<le> reservable v db" "stock_writes v RESERVATION ref q db db'"
    "snap = \<lparr>snap_variant_id = v,
             snap_available = sum_list (map on_hand (reserve_rows v db)) -
                              sum_list (map reserved (reserve_rows v db)) - q,
             snap_on_hand = sum_list (map on_hand (reserve_rows v db)),
             snap_reserved = sum_list (map reserved (reserve_rows v db)) + q\<rparr>"
proof -
  obtain rem oh rs db1 where loop:
    "reserve_loop now ref (reserve_rows v db) q 0 0 db = (rem, oh, rs, db1)"
    by (metis prod_cases4)
  have q: "0 < q" using assms(2) by (auto simp: reserve_stock_def split: if_splits)
  have r: "\<not> rem > 0" and eqs: "db' = db1"
    "snap = \<lparr>snap_variant_id = v, snap_available = oh - rs, snap_on_hand = oh, snap_reserved = rs\<rparr>"
    using assms(2) q by (auto simp: reserve_stock_def loop split: if_splits)
  from reserve_loop_refines [OF reserve_rows_ready [OF assms(1)] _ loop] q
  have ref: "stock_writes v RESERVATION ref (q - rem) db db1"
    "rem = max 0 (q - reservable v db)"
    "oh = sum_list (map on_hand (reserve_rows v db))"
    "rs = sum_list (map reserved (reserve_rows v db)) + (q - rem)"
    by (auto simp: sum_reserved_rows)
  have "rem = 0" using r ref(2) by simp
  with q ref eqs show "0 < q" "q \<le> reservable v db" "stock_writes v RESERVATION ref q db db'"
    "snap = \<lparr>snap_variant_id = v,
             snap_available = sum_list (map on_hand (reserve_rows v db)) -
                              sum_list (map reserved (reserve_rows v db)) - q,
             snap_on_hand = sum_list (map on_hand (reserve_rows v db)),
             snap_reserved = sum_list (map reserved (reserve_rows v db)) + q\<rparr>"
    by auto
qed

lemma reserve_stock_Inl:
  assumes "inventory_ok db" "reserve_stock now ref v q db = Inl e"
  shows "q \<le> 0 \<and> e = ValueError ''quantity must be positive'' \<or>
         0 < q \<and> reservable v db < q \<and>
         e = OutOfStockError (insufficient_message v (q - reservable v db))"
proof (cases "q \<le> 0")
  case True
  with assms show ?thesis by (simp add: reserve_stock_def)
next
  case False
  obtain rem oh rs db1 where loop:
    "reserve_loop now ref (reserve_rows v db) q 0 0 db = (rem, oh, rs, db1)"
    by (metis prod_cases4)
  from reserve_loop_refines [OF reserve_rows_ready [OF assms(1)] _ loop] False
  have rem: "rem = max 0 (q - reservable v db)" by (simp add: sum_reserved_rows)
  have "rem > 0" and e: "e = OutOfStockError (insufficient_message v rem)"
    using assms(2) False by (auto simp: reserve_stock_def loop split: if_splits)
  then have "rem = q - reservable v db" using rem by simp
  with e \<open>rem > 0\<close> False show ?thesis by simp
qed

lemma reserve_stock_ok_iff:
  assumes "inventory_ok db" "0 < q"
  shows "is_ok (reserve_stock now ref v q db) \<longleftrightarrow> q \<le> reservable v db"
proof (cases "reserve_stock now ref v q db")
  case (Inl e)
  with reserve_stock_Inl [OF assms(1) Inl] assms(2) show ?thesis by auto
next
  case (Inr r)
  obtain snap db' where "r = (snap, db')" by (cases r)
  with reserve_stock_Inr [OF assms(1)] Inr show ?thesis by auto
qed

lemma release_reservation_writes:
  assumes "inventory_ok db" "0 \<le> q" "release_reservation now ref v q db = Inr db'"
  shows "stock_writes v RESERVATION_RELEASE ref (min q (total_reserved v db)) db db'"
proof -
  obtain rem db1 where loop: "release_loop now ref (reserved_rows v db) q db = (rem, db1)"
    by (metis surj_pair)
  from release_loop_refines [OF reserved_rows_ready [OF assms(1)] loop assms(2)]
  have "stock_writes v RESERVATION_RELEASE ref (q - rem) db db1"
    "rem = max 0 (q - total_reserved v db)"
    by (auto simp: sum_total_reserved [OF assms(1)])
  moreover have "db' = db1" using assms(3) by (simp add: release_reservation_def loop)
  moreover have "q - max 0 (q - total_reserved v db) = min q (total_reserved v db)" by simp
  ultimately show ?thesis by metis
qed

lemma release_nonpositive:
  assumes "q \<le> 0"
  shows "release_reservation now ref v q db = Inr db"
proof -
  have "release_loop now ref rows q db = (q, db)" for rows
    using assms by (cases rows) auto
  then show ?thesis by (simp add: release_reservation_def)
qed

lemma commit_sale_Inr:
  assumes "inventory_ok db" "0 \<le> q" "commit_sale now ref v q db = Inr db'"
  shows "stock_writes v SALE ref q db db'" "q \<le> total_committable v db"
proof -
  obtain rem db1 where loop: "commit_loop now ref (reserved_rows v db) q db = (rem, db1)"
    by (metis surj_pair)
  from commit_loop_refines [OF reserved_rows_ready [OF assms(1)] loop assms(2)]
  have w: "stock_writes v SALE ref (q - rem) db db1"
    and rem: "rem = max 0 (q - total_committable v db)"
    by (auto simp: sum_total_committable [OF assms(1)])
  have "\<not> rem > 0" "db' = db1"
    using assms(3) by (auto simp: commit_sale_def loop split: if_splits)
  with w rem show "stock_writes v SALE ref q db db'" "q \<le> total_committable v db" by auto
qed

lemma commit_sale_Inl:
  assumes "inventory_ok db" "0 \<le> q" "commit_sale now ref v q db = Inl e"
  shows "total_committable v db < q \<and>
         e = OutOfStockError (uncommitted_message v q (q - total_committable v db))"
proof -
  obtain rem db1 where loop: "commit_loop now ref (reserved_rows v db) q db = (rem, db1)"
    by (metis surj_pair)
  from commit_loop_refines [OF reserved_rows_ready [OF assms(1)] loop assms(2)]
  have rem: "rem = max 0 (q - total_committable v db)"
    by (auto simp: sum_total_committable [OF assms(1)])
  have pos: "rem > 0" and e: "e = OutOfStockError (uncommitted_message v q rem)"
    using assms(3) by (auto simp: commit_sale_def loop split: if_splits)
  from pos rem have "rem = q - total_committable v db" by simp
  with pos e show ?thesis by simp
qed

lemma commit_sale_ok_iff:
  assumes "inventory_ok db" "0 \<le> q"
  shows "is_ok (commit_sale now ref v q db) \<longleftrightarrow> q \<le> total_committable v db"
proof (cases "commit_sale now ref v q db")
  case (Inl e)
  with commit_sale_Inl [OF assms Inl] show ?thesis by simp
next
  case (Inr db')
  with commit_sale_Inr(2) [OF assms Inr] show ?thesis by simp
qed

lemma commit_sale_nonpositive:
  assumes "q \<le> 0"
  shows "commit_sale now ref v q db = Inr db"
proof -
  have "commit_loop now ref rows q db = (q, db)" for rows
    using assms by (cases rows) auto
  then show ?thesis using assms by (simp add: commit_sale_def)
qed

text \<open>The stock ledger keeps the contract its clients rely on.\<close>

definition reserve_units :: "int \<Rightarrow> string \<Rightarrow> nat \<Rightarrow> int \<Rightarrow> inventory \<Rightarrow> py_error + inventory" where
  "reserve_units now ref v q db = bindE (reserve_stock now ref v q db) (\<lambda>(snap, db'). Inr db')"

lemma reserve_units_Inr:
  "reserve_units now ref v q db = Inr db' \<longleftrightarrow> (\<exists>snap. reserve_stock now ref v q db = Inr (snap, db'))"
  by (auto simp: reserve_units_def result_simps split: prod.splits)

interpretation ledger: stock_service get_available total_reserved "reserve_units now ref"
  "release_reservation now ref" "commit_sale now ref" sound_inventory for now ref
proof (unfold_locales, goal_cases)
  case (1 v q s s')
  then show ?case
    by (auto simp: reserve_units_def result_simps reserve_stock_def split: if_splits prod.splits)
next
  case (2 s v q s')
  then obtain snap where ok: "inventory_ok s" and r: "reserve_stock now ref v q s = Inr (snap, s')"
    by (auto simp: reserve_units_Inr sound_inventory_def)
  from stock_writes_sound [OF reserve_stock_Inr(3) [OF ok r] 2(1)] show ?case .
next
  case (3 s v q s' w)
  then obtain snap where ok: "inventory_ok s" and r: "reserve_stock now ref v q s = Inr (snap, s')"
    by (auto simp: reserve_units_Inr sound_inventory_def)
  from stock_writes_available [OF reserve_stock_Inr(3) [OF ok r] ok] show ?case
    by (simp add: avail_delta_def)
next
  case (4 s v q s' w)
  then obtain snap where ok: "inventory_ok s" and r: "reserve_stock now ref v q s = Inr (snap, s')"
    by (auto simp: reserve_units_Inr sound_inventory_def)
  from stock_writes_reserved [OF reserve_stock_Inr(3) [OF ok r] ok] show ?case by simp
next
  case (5 s q v)
  then have ok: "inventory_ok s" "no_deficit s" by (auto simp: sound_inventory_def)
  obtain s' where s': "release_reservation now ref v q s = Inr s'"
    by (simp add: release_reservation_def)
  have w: "stock_writes v RESERVATION_RELEASE ref q s s'"
    using release_reservation_writes [OF ok(1) 5(2) s'] 5(3) by (simp add: min_def split: if_splits)
  show ?case
    using s' stock_writes_sound [OF w 5(1)] stock_writes_reserved [OF w ok(1)]
      stock_writes_available [OF w ok(1)] ok(2)
    by (auto simp: avail_delta_def)
next
  case (6 s q v)
  then have ok: "inventory_ok s" by (simp add: sound_inventory_def)
  have "is_ok (commit_sale now ref v q s)"
    using 6 by (simp add: commit_sale_ok_iff [OF ok] total_committable_covered)
  then obtain s' where s': "commit_sale now ref v q s = Inr s'" by (auto simp: is_ok_iff)
  note w = commit_sale_Inr(1) [OF ok 6(2) s']
  show ?case
    using s' stock_writes_sound [OF w 6(1)] stock_writes_reserved [OF w ok]
      stock_writes_available [OF w ok]
    by (auto simp: avail_delta_def)
qed

interpretation stocktake: stock_ledger get_available total_reserved "reserve_units now ref"
  "release_reservation now ref" "commit_sale now ref" sound_inventory total_on_hand for now ref
proof (unfold_locales, goal_cases)
  case (1 s v q s' w)
  then obtain snap where ok: "inventory_ok s" and r: "reserve_stock now ref v q s = Inr (snap, s')"
    by (auto simp: reserve_units_Inr sound_inventory_def)
  from stock_writes_on_hand [OF reserve_stock_Inr(3) [OF ok r] ok] show ?case by simp
next
  case (2 s q v s')
  then have ok: "inventory_ok s" by (simp add: sound_inventory_def)
  from stock_writes_sound [OF commit_sale_Inr(1) [OF ok 2(2,3)] 2(1)] show ?case .
next
  case (3 s q v s' w)
  then have ok: "inventory_ok s" by (simp add: sound_inventory_def)
  from stock_writes_on_hand [OF commit_sale_Inr(1) [OF ok 3(2,3)] ok] show ?case by simp
qed

section \<open>Which rows a reservation takes from\<close>

lemma find_pk_save_row:
  assumes "\<And>r. pk (f r) = pk r"
  shows "find_pk k (save_row j f tbl) = (if k = j then map_option f (find_pk k tbl) else find_pk k tbl)"
  using assms by (induction tbl) (auto simp: find_pk_def save_row_def)

lemma find_pk_apply_write:
  "find_pk k (stocks (apply_write now R ref s t db)) =
     (if k = pk s then map_option (row_write R t now) (find_pk k (stocks db)) else find_pk k (stocks db))"
  by (simp add: find_pk_save_row)

lemma sum_available_nonneg: "0 \<le> sum_list (map available xs)"
  by (intro sum_list_nonneg) (auto simp: available_def)

lemma reserve_loop_other:
  assumes "reserve_loop now ref rows rem oh rs db = (rem', oh', rs', db')" "k \<notin> pk ` set rows"
  shows "find_pk k (stocks db') = find_pk k (stocks db)"
  using assms
proof (induction rows arbitrary: rem oh rs db)
  case (Cons s rows)
  have "find_pk k (save_row (pk s) (\<lambda>r. r\<lparr>reserved := x, updated_at := now\<rparr>) (stocks db)) =
          find_pk k (stocks db)" for x
    using Cons.prems(2) by (simp add: find_pk_save_row)
  with Cons show ?case
    by (auto simp: Let_def save_reserved_def split: if_splits)
qed simp

lemma reserve_loop_takes:
  assumes "loop_ready v rows db" "0 \<le> rem"
    and "reserve_loop now ref rows rem oh rs db = (rem', oh', rs', db')"
    and "rows = xs @ s # ys"
  shows "\<exists>s'. find_pk (pk s) (stocks db') = Some s' \<and> on_hand s' = on_hand s \<and>
              safety_buffer s' = safety_buffer s \<and>
              reserved s' = reserved s + min (available s) (max 0 (rem - sum_list (map available xs)))"
  using assms
proof (induction rows arbitrary: rem oh rs db xs)
  case (Cons r rows)
  note r = loop_readyD [OF Cons.prems(1)]
  have d: "distinct_pks (stocks db)" using r(4) by (simp add: inventory_ok_def)
  have out: "pk r \<notin> pk ` set rows"
    using Cons.prems(1) by (simp add: loop_ready_def distinct_pks_def)
  have a: "0 \<le> available r" by (simp add: available_def)
  let ?t = "min (available r) rem"
  show ?case
  proof (cases "0 < rem \<and> 0 < ?t")
    case False
    then have same: "rem = 0 \<or> available r = 0" using Cons.prems(2) a by auto
    then have loop: "reserve_loop now ref rows rem (oh + on_hand r) (rs + reserved r) db =
                 (rem', oh', rs', db')"
      using Cons.prems(2,3) by (auto simp: Let_def split: if_splits)
    show ?thesis
    proof (cases xs)
      case Nil
      with Cons.prems(4) have "s = r" by simp
      then show ?thesis
        using reserve_loop_other [OF loop out] find_pk_in [OF d r(1)] same Cons.prems(2) a Nil
        by auto
    next
      case (Cons x xs')
      with Cons.prems(4) have "r = x" "rows = xs' @ s # ys" by simp_all
      moreover have "max 0 (rem - sum_list (map available xs)) =
                     max 0 (rem - sum_list (map available xs'))"
        using same a \<open>r = x\<close> Cons sum_available_nonneg [of xs'] by auto
      ultimately show ?thesis
        using Cons.IH [OF r(6) Cons.prems(2) loop] by simp
    qed
  next
    case True
    have w: "write_ok RESERVATION r ?t" using True by (simp add: write_ok_def)
    have loop: "reserve_loop now ref rows (rem - ?t) (oh + on_hand r) (rs + (reserved r + ?t))
            (apply_write now RESERVATION ref r ?t db) = (rem', oh', rs', db')"
      using True Cons.prems(3) by (simp add: Let_def reserve_save_is_write [OF r(4,1)])
    show ?thesis
    proof (cases xs)
      case Nil
      with Cons.prems(4) have "s = r" by simp
      then show ?thesis
        using reserve_loop_other [OF loop out] find_pk_in [OF d r(1)] True Nil
        by (simp add: find_pk_apply_write row_write_def del: apply_write_frame)
    next
      case (Cons x xs')
      with Cons.prems(4) have eq: "r = x" "rows = xs' @ s # ys" by simp_all
      have "0 \<le> rem - ?t" by simp
      from Cons.IH [OF loop_ready_write [OF Cons.prems(1) w] this loop eq(2)] show ?thesis
        using eq(1) Cons a sum_available_nonneg [of xs'] by (auto simp: max_def min_def split: if_splits)
    qed
  qed
qed simp

lemma sorted_before:
  assumes "sorted (map k xs)" "a \<in> set xs" "b \<in> set xs" "k a < k b"
  shows "\<exists>us vs ws. xs = us @ a # vs @ b # ws"
proof -
  obtain as bs where xs: "xs = as @ b # bs" using assms(3) split_list by fast
  have "a \<in> set as"
    using assms(1,2,4) by (auto simp: xs sorted_append)
  then obtain us vs where "as = us @ a # vs" using split_list by fast
  with xs show ?thesis by auto
qed

section \<open>The movement log accounts for every change\<close>

definition log_sum :: "nat \<Rightarrow> movement_reason list \<Rightarrow> inventory \<Rightarrow> int" where
  "log_sum k Rs db =
     sum_list (map mv_quantity
       (filter (\<lambda>m. mv_stock m = k \<and> List.member Rs (mv_reason m)) (movements db)))"

definition row_column :: "(stock \<Rightarrow> int) \<Rightarrow> nat \<Rightarrow> inventory \<Rightarrow> int" where
  "row_column g k db = (case find_pk k (stocks db) of None \<Rightarrow> 0 | Some s \<Rightarrow> g s)"

text \<open>What a row's column and the signed log of the row add up to.\<close>

definition reserved_balance :: "nat \<Rightarrow> inventory \<Rightarrow> int" where
  "reserved_balance k db =
     row_column reserved k db + log_sum k [RESERVATION, RESERVATION_RELEASE] db - log_sum k [SALE] db"

definition on_hand_balance :: "nat \<Rightarrow> inventory \<Rightarrow> int" where
  "on_hand_balance k db = row_column on_hand k db - log_sum k [SALE, ADJUSTMENT] db"

lemma log_sum_create_movement:
  "log_sum k Rs (create_movement now j q R ref note db) =
     log_sum k Rs db + (if k = j \<and> R \<in> set Rs then q else 0)"
  by (auto simp: log_sum_def create_movement_def)

lemma log_sum_stocks [simp]: "log_sum k Rs (db\<lparr>stocks := tbl\<rparr>) = log_sum k Rs db"
  by (simp add: log_sum_def)

lemma apply_write_balances:
  assumes "inventory_ok db" "s \<in> set (stocks db)" "write_ok R s t"
  shows "reserved_balance k (apply_write now R ref s t db) = reserved_balance k db"
    "on_hand_balance k (apply_write now R ref s t db) = on_hand_balance k db"
proof -
  have "find_pk (pk s) (stocks db) = Some s"
    using assms(1,2) by (simp add: inventory_ok_def find_pk_in)
  then have col: "row_column g k (apply_write now R ref s t db) =
      (if k = pk s then g (row_write R t now s) else row_column g k db)" for g
    by (simp add: row_column_def find_pk_apply_write del: apply_write_frame)
  have base: "row_column g (pk s) db = g s" for g
    using \<open>find_pk (pk s) (stocks db) = Some s\<close> by (simp add: row_column_def)
  have log: "log_sum k Rs (apply_write now R ref s t db) =
      log_sum k Rs db + (if k = pk s \<and> R \<in> set Rs then signed R t else 0)" for Rs
    by (simp add: apply_write_def log_sum_create_movement)
  have R: "R = RESERVATION \<or> R = RESERVATION_RELEASE \<or> R = SALE"
    using assms(3) by (auto simp: write_ok_def split: movement_reason.splits)
  then show "reserved_balance k (apply_write now R ref s t db) = reserved_balance k db"
    by (auto simp: reserved_balance_def col log signed_def row_write_def base)
  from R show "on_hand_balance k (apply_write now R ref s t db) = on_hand_balance k db"
    by (auto simp: on_hand_balance_def col log signed_def row_write_def base)
qed

lemma stock_writes_balances:
  assumes "stock_writes v R ref n db db'" "inventory_ok db"
  shows "reserved_balance k db' = reserved_balance k db \<and> on_hand_balance k db' = on_hand_balance k db"
  using assms
proof (induction rule: stock_writes.induct)
  case (one_write s db v R t ref n now db')
  with apply_write_ok [OF one_write.prems one_write.hyps(1,4)]
    apply_write_balances [OF one_write.prems one_write.hyps(1,4)]
  show ?case by simp
qed simp

section \<open>Adjustments\<close>

lemma find_pk_append:
  "find_pk k (tbl @ [r]) =
     (case find_pk k tbl of None \<Rightarrow> if pk r = k then Some r else None | Some x \<Rightarrow> Some x)"
  by (induction tbl) (auto simp: find_pk_def)

lemma adjust_stock_Inr:
  assumes "adjust_stock now fk v code delta note db = Inr (s', db')"
  obtains w s created tbl where
    "get_one ''Warehouse'' (\<lambda>w. wh_code w = code) (warehouses db) = Inr w"
    "get_or_create ''inventory_stock'' (\<lambda>s. st_variant s = v \<and> st_warehouse s = pk w)
       ((\<exists>s \<in> set (stocks db). st_variant s = v \<and> st_warehouse s = pk w) \<or> \<not> fk v)
       (new_stock now v (pk w)) (stocks db) = Inr (s, created, tbl)"
    "s' = s\<lparr>on_hand := max (on_hand s + delta) 0, updated_at := now\<rparr>"
    "int4 (on_hand s')" "int4 delta"
    "db' = create_movement now (pk s) delta ADJUSTMENT '''' note
             (db\<lparr>stocks := save_row (pk s) (\<lambda>r. r\<lparr>on_hand := on_hand s', updated_at := now\<rparr>) tbl\<rparr>)"
  using assms
  by (auto simp: adjust_stock_def result_simps save_on_hand_def Let_def split: if_splits prod.splits)

lemma new_stock_simps [simp]:
  "pk (new_stock now v w k) = k" "st_variant (new_stock now v w k) = v"
  "st_warehouse (new_stock now v w k) = w" "row_ok (new_stock now v w k)"
  "covered (new_stock now v w k)" "is_alive (new_stock now v w k)"
  "on_hand (new_stock now v w k) = 0" "reserved (new_stock now v w k) = 0"
  by (simp_all add: new_stock_def row_ok_def covered_def is_alive_def)

text \<open>The table after the \<open>get_or_create\<close> of the adjusted row.\<close>

lemma adjusted_table:
  assumes "inventory_ok db"
    and "get_or_create ''inventory_stock'' (\<lambda>s. st_variant s = v \<and> st_warehouse s = w)
       ((\<exists>s \<in> set (stocks db). st_variant s = v \<and> st_warehouse s = w) \<or> \<not> fk)
       (new_stock now v w) (stocks db) = Inr (s, created, tbl)"
  shows "distinct_pks tbl" "unique_variant_warehouse tbl" "list_all row_ok tbl" "s \<in> set tbl"
    "no_deficit db \<Longrightarrow> list_all covered tbl" "st_variant s = v" "is_alive s"
    "row_column on_hand k db = (case find_pk k tbl of None \<Rightarrow> 0 | Some r \<Rightarrow> on_hand r)"
    "row_column reserved k db = (case find_pk k tbl of None \<Rightarrow> 0 | Some r \<Rightarrow> reserved r)"
proof -
  have "distinct_pks tbl \<and> unique_variant_warehouse tbl \<and> list_all row_ok tbl \<and> s \<in> set tbl \<and>
     (no_deficit db \<longrightarrow> list_all covered tbl) \<and> st_variant s = v \<and> is_alive s \<and>
     row_column on_hand k db = (case find_pk k tbl of None \<Rightarrow> 0 | Some r \<Rightarrow> on_hand r) \<and>
     row_column reserved k db = (case find_pk k tbl of None \<Rightarrow> 0 | Some r \<Rightarrow> reserved r)"
    using assms(2)
  proof (cases rule: get_or_create_cases)
    case 1
    with assms(1) show ?thesis
      by (auto simp: inventory_ok_def no_deficit_def row_column_def)
  next
    case 2
    from 2 have "unique_variant_warehouse tbl"
      using assms(1) by (auto simp: inventory_ok_def unique_variant_warehouse_def)
    then show ?thesis
      using assms(1) 2
      by (auto simp: inventory_ok_def no_deficit_def row_column_def table_simps find_pk_append
          split: option.splits)
  qed
  then show "distinct_pks tbl" "unique_variant_warehouse tbl" "list_all row_ok tbl" "s \<in> set tbl"
    "no_deficit db \<Longrightarrow> list_all covered tbl" "st_variant s = v" "is_alive s"
    "row_column on_hand k db = (case find_pk k tbl of None \<Rightarrow> 0 | Some r \<Rightarrow> on_hand r)"
    "row_column reserved k db = (case find_pk k tbl of None \<Rightarrow> 0 | Some r \<Rightarrow> reserved r)"
    by auto
qed

lemma adjust_stock_keeps:
  assumes "inventory_ok db" "adjust_stock now fk v code delta note db = Inr (s', db')"
  shows "inventory_ok db'" "0 \<le> delta \<Longrightarrow> no_deficit db \<Longrightarrow> no_deficit db'"
    "reserved_balance k db' = reserved_balance k db"
    "on_hand_balance k db' = on_hand_balance k db +
       (if k = pk s' then max 0 (- (row_column on_hand k db + delta)) else 0)"
    "on_hand s' = max 0 (row_column on_hand (pk s') db + delta)"
proof -
  from assms(2) obtain w :: warehouse and s created tbl where
    g: "get_or_create ''inventory_stock'' (\<lambda>s. st_variant s = v \<and> st_warehouse s = pk w)
       ((\<exists>s \<in> set (stocks db). st_variant s = v \<and> st_warehouse s = pk w) \<or> \<not> fk v)
       (new_stock now v (pk w)) (stocks db) = Inr (s, created, tbl)"
    and s': "s' = s\<lparr>on_hand := max (on_hand s + delta) 0, updated_at := now\<rparr>"
    and db': "db' = create_movement now (pk s) delta ADJUSTMENT '''' note
             (db\<lparr>stocks := save_row (pk s) (\<lambda>r. r\<lparr>on_hand := on_hand s', updated_at := now\<rparr>) tbl\<rparr>)"
    by (rule adjust_stock_Inr)
  note t = adjusted_table [OF assms(1) g]
  let ?f = "\<lambda>r :: stock. r\<lparr>on_hand := on_hand s', updated_at := now\<rparr>"
  have s_eq: "r = s" if "r \<in> set tbl" "pk r = pk s" for r
    using row_unique [OF t(1) that(1) t(4) that(2)] .
  have "list_all row_ok (save_row (pk s) ?f tbl)"
    by (rule list_all_save_row [OF t(3)])
       (use t(3) in \<open>auto simp: s' row_ok_def list_all_iff\<close>)
  then show "inventory_ok db'"
    unfolding db' using assms(1) t(1,2)
    by (intro create_movement_ok)
       (simp add: inventory_ok_def distinct_pks_save_row unique_variant_warehouse_save_row)
  have f: "find_pk (pk s) tbl = Some s" by (rule find_pk_in [OF t(1,4)])
  show "on_hand s' = max 0 (row_column on_hand (pk s') db + delta)"
    using t(8) [of "pk s"] f by (simp add: s' max.commute)
  show "reserved_balance k db' = reserved_balance k db"
    unfolding reserved_balance_def t(9)
    by (auto simp: db' log_sum_create_movement row_column_def find_pk_save_row split: option.splits)
  show "on_hand_balance k db' = on_hand_balance k db +
       (if k = pk s' then max 0 (- (row_column on_hand k db + delta)) else 0)"
    unfolding on_hand_balance_def t(8) using f
    by (auto simp: db' s' log_sum_create_movement row_column_def find_pk_save_row split: option.splits)
  show "no_deficit db'" if "0 \<le> delta" "no_deficit db"
  proof -
    have "covered (?f r)" if "r \<in> set tbl" "pk r = pk s" for r
      using s_eq [OF that] t(3,4,5) \<open>no_deficit db\<close> \<open>0 \<le> delta\<close>
      by (auto simp: s' covered_def row_ok_def list_all_iff)
    then show ?thesis
      using t(5) that by (simp add: db' no_deficit_def list_all_save_row)
  qed
qed

section \<open>Runs of the service\<close>

text \<open>
  A history of calls. Each call is one transaction; a call that raises leaves the ledger as it
  was. \<open>fk\<close> says which variants the catalog holds.
\<close>

datatype ledger_call =
    Reserve int string nat int
  | Release int string nat int
  | Commit int string nat int
  | Adjust int nat string int string

fun run_call :: "(nat \<Rightarrow> bool) \<Rightarrow> ledger_call \<Rightarrow> inventory \<Rightarrow> py_error + inventory" where
  "run_call fk (Reserve now ref v q) db = reserve_units now ref v q db"
| "run_call fk (Release now ref v q) db = release_reservation now ref v q db"
| "run_call fk (Commit now ref v q) db = commit_sale now ref v q db"
| "run_call fk (Adjust now v code delta note) db =
     bindE (adjust_stock now fk v code delta note db) (\<lambda>(s, db'). Inr db')"

fun run_calls :: "(nat \<Rightarrow> bool) \<Rightarrow> ledger_call list \<Rightarrow> inventory \<Rightarrow> inventory" where
  "run_calls fk [] db = db"
| "run_calls fk (c # cs) db =
     run_calls fk cs (case run_call fk c db of Inl e \<Rightarrow> db | Inr db' \<Rightarrow> db')"

fun only_restocks :: "ledger_call \<Rightarrow> bool" where
  "only_restocks (Adjust now v code delta note) = (0 \<le> delta)"
| "only_restocks _ = True"

lemma release_reservation_keeps:
  assumes "inventory_ok db" "release_reservation now ref v q db = Inr db'"
  shows "inventory_ok db'" "no_deficit db \<Longrightarrow> no_deficit db'"
    "reserved_balance k db' = reserved_balance k db \<and> on_hand_balance k db' = on_hand_balance k db"
proof -
  have "\<exists>n. stock_writes v RESERVATION_RELEASE ref n db db'"
    using release_reservation_writes [OF assms(1) _ assms(2)] release_nonpositive [of q] assms(2)
    by (cases "0 \<le> q") (auto intro: no_write)
  then show "inventory_ok db'" "no_deficit db \<Longrightarrow> no_deficit db'"
    "reserved_balance k db' = reserved_balance k db \<and> on_hand_balance k db' = on_hand_balance k db"
    using assms(1) by (auto dest: stock_writes_ok stock_writes_no_deficit stock_writes_balances)
qed

lemma commit_sale_keeps:
  assumes "inventory_ok db" "commit_sale now ref v q db = Inr db'"
  shows "inventory_ok db'" "no_deficit db \<Longrightarrow> no_deficit db'"
    "reserved_balance k db' = reserved_balance k db \<and> on_hand_balance k db' = on_hand_balance k db"
proof -
  have "\<exists>n. stock_writes v SALE ref n db db'"
    using commit_sale_Inr(1) [OF assms(1) _ assms(2)] commit_sale_nonpositive [of q] assms(2)
    by (cases "0 \<le> q") (auto intro: no_write)
  then show "inventory_ok db'" "no_deficit db \<Longrightarrow> no_deficit db'"
    "reserved_balance k db' = reserved_balance k db \<and> on_hand_balance k db' = on_hand_balance k db"
    using assms(1) by (auto dest: stock_writes_ok stock_writes_no_deficit stock_writes_balances)
qed

lemma reserve_units_keeps:
  assumes "inventory_ok db" "reserve_units now ref v q db = Inr db'"
  shows "inventory_ok db'" "no_deficit db \<Longrightarrow> no_deficit db'"
    "reserved_balance k db' = reserved_balance k db \<and> on_hand_balance k db' = on_hand_balance k db"
proof -
  have "stock_writes v RESERVATION ref q db db'"
    using assms(2) reserve_stock_Inr(3) [OF assms(1)] by (auto simp: reserve_units_Inr)
  then show "inventory_ok db'" "no_deficit db \<Longrightarrow> no_deficit db'"
    "reserved_balance k db' = reserved_balance k db \<and> on_hand_balance k db' = on_hand_balance k db"
    using assms(1) by (auto dest: stock_writes_ok stock_writes_no_deficit stock_writes_balances)
qed

lemma run_call_keeps:
  assumes "inventory_ok db" "run_call fk c db = Inr db'"
  shows "inventory_ok db' \<and> (only_restocks c \<longrightarrow> no_deficit db \<longrightarrow> no_deficit db') \<and>
         reserved_balance k db' = reserved_balance k db"
proof (cases c)
  case (Reserve now ref v q)
  with assms(2) have "reserve_units now ref v q db = Inr db'" by simp
  from reserve_units_keeps [OF assms(1) this] show ?thesis by blast
next
  case (Release now ref v q)
  with assms(2) have "release_reservation now ref v q db = Inr db'" by simp
  from release_reservation_keeps [OF assms(1) this] show ?thesis by blast
next
  case (Commit now ref v q)
  with assms(2) have "commit_sale now ref v q db = Inr db'" by simp
  from commit_sale_keeps [OF assms(1) this] show ?thesis by blast
next
  case (Adjust now v code delta msg)
  with assms(2) obtain s where "adjust_stock now fk v code delta msg db = Inr (s, db')"
    by (auto simp: result_simps)
  note k = adjust_stock_keeps [OF assms(1) this]
  show ?thesis using k(1) k(2) k(3) [of k] Adjust by simp
qed

lemma run_calls_ok: "inventory_ok db \<Longrightarrow> inventory_ok (run_calls fk cs db)"
  by (induction cs arbitrary: db) (auto split: sum.splits dest: run_call_keeps)

lemma run_calls_sound:
  "sound_inventory db \<Longrightarrow> list_all only_restocks cs \<Longrightarrow> sound_inventory (run_calls fk cs db)"
  unfolding sound_inventory_def
  by (induction cs arbitrary: db) (auto split: sum.splits dest: run_call_keeps)

lemma run_calls_reserved_balance:
  "inventory_ok db \<Longrightarrow> reserved_balance k (run_calls fk cs db) = reserved_balance k db"
proof (induction cs arbitrary: db)
  case (Cons c cs)
  show ?case
  proof (cases "run_call fk c db")
    case (Inl e)
    with Cons show ?thesis by simp
  next
    case (Inr db')
    with Cons run_call_keeps [OF Cons.prems Inr] show ?thesis by simp
  qed
qed simp

section \<open>A concrete ledger\<close>

text \<open>Variant 7 in two warehouses (the second one has the better priority), and a third, closed.\<close>

definition demo_warehouse :: "nat \<Rightarrow> string \<Rightarrow> bool \<Rightarrow> int \<Rightarrow> warehouse" where
  "demo_warehouse k code active prio =
     \<lparr>pk = k, created_at = 0, updated_at = 0, deleted_at = None, wh_code = code, wh_name = code,
      wh_address = '''', wh_is_active = active, wh_priority = prio\<rparr>"

definition demo_stock :: "nat \<Rightarrow> nat \<Rightarrow> nat \<Rightarrow> int \<Rightarrow> int \<Rightarrow> int \<Rightarrow> stock" where
  "demo_stock k v w oh res buf =
     \<lparr>pk = k, created_at = 0, updated_at = 0, deleted_at = None, st_variant = v, st_warehouse = w,
      on_hand = oh, reserved = res, safety_buffer = buf, low_stock_threshold = 5\<rparr>"

definition demo_ledger :: inventory where
  "demo_ledger =
     \<lparr>warehouses = [demo_warehouse 1 ''main'' True 10, demo_warehouse 2 ''near'' True 1,
                    demo_warehouse 3 ''old'' False 5],
      stocks = [demo_stock 1 7 1 50 0 0, demo_stock 2 7 2 10 2 3, demo_stock 3 7 3 20 0 0],
      movements = []\<rparr>"

lemma demo_ledger_sound: "sound_inventory demo_ledger"
  by code_simp

lemma demo_ledger_ok: "inventory_ok demo_ledger"
  using demo_ledger_sound by (simp add: sound_inventory_def)

section \<open>Properties\<close>

text \<open>
  C5. \<open>reserve_stock\<close> succeeds exactly when the quantity is positive and the active warehouses
  can cover it; then the variant's availability falls and its reservations rise by exactly that
  quantity, every other variant, and everything on hand, is untouched. Otherwise it raises the
  error and message of the source, naming the exact shortfall.
\<close>

theorem reserve_stock_exact:
  assumes "inventory_ok db"
  shows "case reserve_stock now ref v q db of
      Inl e \<Rightarrow> (if q \<le> 0 then e = ValueError ''quantity must be positive''
                else reservable v db < q \<and>
                     e = OutOfStockError (insufficient_message v (q - reservable v db)))
    | Inr (snap, db') \<Rightarrow>
        0 < q \<and> q \<le> reservable v db \<and> inventory_ok db' \<and>
        (\<forall>w. get_available w db' = get_available w db - (if w = v then q else 0)) \<and>
        (\<forall>w. total_reserved w db' = total_reserved w db + (if w = v then q else 0)) \<and>
        (\<forall>w. total_on_hand w db' = total_on_hand w db) \<and>
        filter (\<lambda>s. st_variant s \<noteq> v) (stocks db') = filter (\<lambda>s. st_variant s \<noteq> v) (stocks db)"
proof (cases "reserve_stock now ref v q db")
  case (Inl e)
  with reserve_stock_Inl [OF assms Inl] show ?thesis by auto
next
  case (Inr r)
  obtain snap db' where r: "r = (snap, db')" by (cases r)
  note ok = reserve_stock_Inr [OF assms Inr [unfolded r]]
  have split: "filter (\<lambda>s. st_variant s \<noteq> v) tbl =
        filter (\<lambda>s. st_variant s \<noteq> v) (filter (\<lambda>s. st_variant s \<noteq> v \<or> \<not> is_alive s) tbl)" for tbl
    by (induction tbl) auto
  have "filter (\<lambda>s. st_variant s \<noteq> v) (stocks db') = filter (\<lambda>s. st_variant s \<noteq> v) (stocks db)"
    by (subst (1 2) split) (simp only: stock_writes_frame [OF ok(3) assms])
  moreover have "get_available w db' = get_available w db - (if w = v then q else 0)" for w
    using stock_writes_available [OF ok(3) assms, of w] by (simp add: avail_delta_def)
  moreover have "total_reserved w db' = total_reserved w db + (if w = v then q else 0)" for w
    using stock_writes_reserved [OF ok(3) assms, of w] by simp
  moreover have "total_on_hand w db' = total_on_hand w db" for w
    using stock_writes_on_hand [OF ok(3) assms, of w] by simp
  ultimately show ?thesis
    using Inr r ok(1,2) stock_writes_ok [OF ok(3) assms] by simp
qed

theorem reserve_stock_exact_witness:
  "inventory_ok demo_ledger \<and>
   (\<exists>snap db'. reserve_stock 9 ''o1'' 7 12 demo_ledger = Inr (snap, db') \<and>
      get_available 7 db' = get_available 7 demo_ledger - 12)"
proof -
  have "is_ok (reserve_stock 9 ''o1'' 7 12 demo_ledger)" by code_simp
  then obtain snap db' where "reserve_stock 9 ''o1'' 7 12 demo_ledger = Inr (snap, db')"
    by (auto simp: is_ok_iff)
  then show ?thesis
    using reserve_stock_exact [OF demo_ledger_ok, where now = 9 and ref = "''o1''" and v = 7 and q = 12]
      demo_ledger_ok by simp
qed

text \<open>
  Reservations go to warehouses in priority order: when a reservation takes units from a row,
  every row of a warehouse with a strictly better (lower) priority has nothing available left.
\<close>

theorem reserve_stock_priority:
  assumes "inventory_ok db" "reserve_stock now ref v q db = Inr (snap, db')"
    and "s \<in> set (reserve_rows v db)" "t \<in> set (reserve_rows v db)"
    and "priority_of db s < priority_of db t"
    and "find_pk (pk s) (stocks db') = Some s'" "find_pk (pk t) (stocks db') = Some t'"
    and "reserved t' \<noteq> reserved t"
  shows "available s' = 0"
proof -
  obtain rem oh rs db1 where loop:
    "reserve_loop now ref (reserve_rows v db) q 0 0 db = (rem, oh, rs, db1)"
    by (metis prod_cases4)
  have q: "0 < q" and db1: "db' = db1"
    using assms(2) by (auto simp: reserve_stock_def loop split: if_splits)
  have "sorted (map (priority_of db) (reserve_rows v db))" by (simp add: reserve_rows_def)
  from sorted_before [OF this assms(3-5)] obtain us vs ws where
    rows: "reserve_rows v db = us @ s # vs @ t # ws" by auto
  note takes = reserve_loop_takes [OF reserve_rows_ready [OF assms(1)] _ loop]
  have s': "reserved s' = reserved s + min (available s) (max 0 (q - sum_list (map available us)))"
      "on_hand s' = on_hand s" "safety_buffer s' = safety_buffer s"
    using takes [OF _ rows] q assms(6) db1 by auto
  have "rows = (us @ s # vs) @ t # ws" if "rows = us @ s # vs @ t # ws" for rows
    using that by simp
  from takes [OF _ this [OF rows]] q assms(7,8) db1
  have "min (available t) (max 0 (q - sum_list (map available (us @ s # vs)))) \<noteq> 0" by auto
  moreover have "0 \<le> available t" by (simp add: available_def)
  ultimately have "0 < q - sum_list (map available us) - available s - sum_list (map available vs)"
    by (auto simp: min_def max_def split: if_splits)
  then have "available s \<le> q - sum_list (map available us)"
    using sum_available_nonneg [of vs] by linarith
  then have "reserved s' = reserved s + available s"
    using s'(1) sum_available_nonneg [of "[s]"] by (auto simp: min_def max_def split: if_splits)
  then show ?thesis using s'(2,3) by (auto simp: available_def)
qed

theorem reserve_stock_priority_witness:
  "\<exists>snap db' s' t'. reserve_stock 9 ''o1'' 7 12 demo_ledger = Inr (snap, db') \<and>
     find_pk 2 (stocks db') = Some s' \<and> find_pk 1 (stocks db') = Some t' \<and>
     reserved t' = 7 \<and> available s' = 0"
proof -
  let ?r = "reserve_stock 9 ''o1'' 7 12 demo_ledger"
  let ?s = "demo_stock 2 7 2 10 2 3" and ?t = "demo_stock 1 7 1 50 0 0"
  have "case ?r of Inl e \<Rightarrow> False | Inr (snap, db') \<Rightarrow>
          map_option reserved (find_pk 1 (stocks db')) = Some 7 \<and> find_pk 2 (stocks db') \<noteq> None"
    by code_simp
  then obtain snap db' s' t' where ok: "?r = Inr (snap, db')"
      "find_pk 2 (stocks db') = Some s'" "find_pk 1 (stocks db') = Some t'" "reserved t' = 7"
    by (auto split: sum.splits)
  have in_rows: "?s \<in> set (reserve_rows 7 demo_ledger)" "?t \<in> set (reserve_rows 7 demo_ledger)"
      "priority_of demo_ledger ?s < priority_of demo_ledger ?t"
    by code_simp+
  have "pk ?s = 2" "pk ?t = 1" "reserved ?t = 0" by (simp_all add: demo_stock_def)
  with reserve_stock_priority [OF demo_ledger_ok ok(1) in_rows, of s' t'] ok show ?thesis by auto
qed

text \<open>
  Releasing gives back exactly what was reserved, up to the requested quantity: the variant's
  reservations fall by the smaller of the two (never below zero), nothing on hand changes, and on
  a ledger without deficits the variant's availability rises by the same amount. It never raises.
\<close>

theorem release_reservation_exact:
  assumes "sound_inventory db" "0 \<le> q"
  shows "\<exists>db'. release_reservation now ref v q db = Inr db' \<and> sound_inventory db' \<and>
    (\<forall>w. total_reserved w db' = total_reserved w db - (if w = v then min q (total_reserved v db) else 0)) \<and>
    (\<forall>w. get_available w db' = get_available w db + (if w = v then min q (total_reserved v db) else 0)) \<and>
    (\<forall>w. total_on_hand w db' = total_on_hand w db)"
proof -
  have ok: "inventory_ok db" "no_deficit db" using assms(1) by (auto simp: sound_inventory_def)
  obtain db' where r: "release_reservation now ref v q db = Inr db'"
    by (simp add: release_reservation_def)
  note w = release_reservation_writes [OF ok(1) assms(2) r]
  show ?thesis
    using r stock_writes_sound [OF w assms(1)] stock_writes_reserved [OF w ok(1)]
      stock_writes_available [OF w ok(1)] stock_writes_on_hand [OF w ok(1)] ok(2)
    by (auto simp: avail_delta_def)
qed

theorem release_reservation_exact_witness:
  "sound_inventory demo_ledger \<and>
   (\<exists>db'. release_reservation 9 ''o1'' 7 5 demo_ledger = Inr db' \<and> total_reserved 7 db' = 0)"
proof -
  have "total_reserved 7 demo_ledger = 2" by code_simp
  then show ?thesis
    using release_reservation_exact [OF demo_ledger_sound, where q = 5 and now = 9 and ref = "''o1''" and v = 7] demo_ledger_sound
    by auto
qed

text \<open>
  \<open>commit_sale\<close> succeeds exactly when the reserved units that are on hand cover the quantity;
  then reservations and stock on hand both fall by it, so what is available to others does not
  move. Otherwise it raises with the exact shortfall.
\<close>

theorem commit_sale_exact:
  assumes "inventory_ok db" "0 \<le> q"
  shows "case commit_sale now ref v q db of
      Inl e \<Rightarrow> total_committable v db < q \<and>
               e = OutOfStockError (uncommitted_message v q (q - total_committable v db))
    | Inr db' \<Rightarrow>
        q \<le> total_committable v db \<and> inventory_ok db' \<and>
        (\<forall>w. total_reserved w db' = total_reserved w db - (if w = v then q else 0)) \<and>
        (\<forall>w. total_on_hand w db' = total_on_hand w db - (if w = v then q else 0)) \<and>
        (\<forall>w. get_available w db' = get_available w db)"
proof (cases "commit_sale now ref v q db")
  case (Inl e)
  with commit_sale_Inl [OF assms Inl] show ?thesis by simp
next
  case (Inr db')
  note w = commit_sale_Inr [OF assms Inr]
  have "get_available u db' = get_available u db" for u
    using stock_writes_available [OF w(1) assms(1), of u] by (simp add: avail_delta_def)
  then show ?thesis
    using Inr w(2) stock_writes_ok [OF w(1) assms(1)] stock_writes_reserved [OF w(1) assms(1)]
      stock_writes_on_hand [OF w(1) assms(1)]
    by simp
qed

theorem commit_sale_exact_witness:
  "inventory_ok demo_ledger \<and>
   (\<exists>db'. commit_sale 9 ''o1'' 7 2 demo_ledger = Inr db' \<and>
          total_on_hand 7 db' = total_on_hand 7 demo_ledger - 2 \<and>
          get_available 7 db' = get_available 7 demo_ledger)"
proof -
  have "is_ok (commit_sale 9 ''o1'' 7 2 demo_ledger)" by code_simp
  then obtain db' where "commit_sale 9 ''o1'' 7 2 demo_ledger = Inr db'" by (auto simp: is_ok_iff)
  then show ?thesis
    using commit_sale_exact [OF demo_ledger_ok, where q = 2 and now = 9 and ref = "''o1''" and v = 7] demo_ledger_ok by auto
qed

text \<open>
  In every history of reservations, releases, sales and adjustments, failed calls included,
  no stock column goes negative, keys stay unique, and no variant has two rows in a warehouse.
\<close>

theorem ledger_history_invariant:
  assumes "inventory_ok db"
  shows "distinct_pks (stocks (run_calls fk cs db)) \<and>
    unique_variant_warehouse (stocks (run_calls fk cs db)) \<and>
    list_all (\<lambda>s. 0 \<le> on_hand s \<and> 0 \<le> reserved s \<and> 0 \<le> safety_buffer s)
      (stocks (run_calls fk cs db))"
  using run_calls_ok [OF assms, of fk cs]
  by (simp add: inventory_ok_def row_ok_def [abs_def])

theorem ledger_history_invariant_witness:
  "inventory_ok demo_ledger \<and>
   list_all (\<lambda>s. 0 \<le> on_hand s \<and> 0 \<le> reserved s \<and> 0 \<le> safety_buffer s)
     (stocks (run_calls (\<lambda>v. True) [Adjust 1 7 ''main'' (-80) '''', Reserve 2 ''o1'' 7 3,
                                   Commit 3 ''o1'' 7 3] demo_ledger))"
  using ledger_history_invariant [OF demo_ledger_ok] demo_ledger_ok by blast

text \<open>
  C6. No oversell: as long as adjustments only add stock, in every history every row keeps its
  reservations within what it holds above its safety buffer, and a variant's reservations within
  its stock on hand.
\<close>

theorem never_oversold:
  assumes "sound_inventory db" "list_all only_restocks cs"
  shows "list_all (\<lambda>s. reserved s = 0 \<or> reserved s + safety_buffer s \<le> on_hand s)
           (stocks (run_calls fk cs db)) \<and>
         total_reserved v (run_calls fk cs db) \<le> total_on_hand v (run_calls fk cs db)"
proof -
  have s: "sound_inventory (run_calls fk cs db)" by (rule run_calls_sound [OF assms])
  have le: "reserved r \<le> on_hand r" if "r \<in> set (stocks (run_calls fk cs db))" for r
    using s that row_in_ok [of _ r] row_in_covered [of _ r]
    by (fastforce simp: sound_inventory_def covered_def row_ok_def)
  have "total_reserved v (run_calls fk cs db) \<le> total_on_hand v (run_calls fk cs db)"
    unfolding total_of_def by (rule sum_list_mono) (use le in \<open>auto simp: get_queryset_def\<close>)
  with s show ?thesis by (simp add: sound_inventory_def no_deficit_def covered_def [abs_def])
qed

theorem never_oversold_witness:
  "sound_inventory demo_ledger \<and>
   total_reserved 7 (run_calls (\<lambda>v. True) [Reserve 1 ''o1'' 7 40, Reserve 2 ''o2'' 7 40] demo_ledger)
   \<le> total_on_hand 7 (run_calls (\<lambda>v. True) [Reserve 1 ''o1'' 7 40, Reserve 2 ''o2'' 7 40] demo_ledger)"
proof -
  have "list_all only_restocks [Reserve 1 ''o1'' 7 40, Reserve 2 ''o2'' 7 40]" by simp
  from never_oversold [OF demo_ledger_sound this] demo_ledger_sound show ?thesis by blast
qed

text \<open>
  The movement log is an exact account of reservations: in every history, a row's \<open>reserved\<close>
  column plus its logged reservations and releases minus its logged sales never changes.
\<close>

theorem movement_log_accounts_for_reserved:
  assumes "inventory_ok db"
  shows "reserved_balance k (run_calls fk cs db) = reserved_balance k db"
  by (rule run_calls_reserved_balance [OF assms])

theorem movement_log_accounts_for_reserved_witness:
  "inventory_ok demo_ledger \<and>
   reserved_balance 2 (run_calls (\<lambda>v. True) [Reserve 1 ''o1'' 7 12, Commit 2 ''o1'' 7 12] demo_ledger) = 2"
proof -
  have "reserved_balance 2 demo_ledger = 2" by code_simp
  then show ?thesis
    using movement_log_accounts_for_reserved [OF demo_ledger_ok] demo_ledger_ok by metis
qed

text \<open>
  \<open>adjust_stock\<close> sets the row to the old stock plus the delta, clamped at zero, but logs the
  whole delta: stock minus logged sales and adjustments grows by exactly the clamped part, so the
  log accounts for the stock on hand only as long as no adjustment is clamped.
\<close>

theorem adjust_stock_clamp_unlogged:
  assumes "inventory_ok db" "adjust_stock now fk v code delta msg db = Inr (s, db')"
  shows "on_hand s = max 0 (row_column on_hand (pk s) db + delta) \<and>
    on_hand_balance (pk s) db' =
      on_hand_balance (pk s) db + max 0 (- (row_column on_hand (pk s) db + delta)) \<and>
    (\<forall>k. k \<noteq> pk s \<longrightarrow> on_hand_balance k db' = on_hand_balance k db) \<and> inventory_ok db'"
  using adjust_stock_keeps [OF assms] by simp

theorem adjust_stock_clamp_unlogged_witness:
  "\<exists>s db'. adjust_stock 5 (\<lambda>v. True) 7 ''near'' (-15) '''' demo_ledger = Inr (s, db') \<and>
     on_hand s = 0 \<and> on_hand_balance 2 db' = on_hand_balance 2 demo_ledger + 5"
proof -
  have "case adjust_stock 5 (\<lambda>v. True) 7 ''near'' (-15) '''' demo_ledger of
          Inl e \<Rightarrow> False | Inr (s, db') \<Rightarrow> pk s = 2" by code_simp
  then obtain s db' where a: "adjust_stock 5 (\<lambda>v. True) 7 ''near'' (-15) '''' demo_ledger = Inr (s, db')"
    "pk s = 2" by (auto split: sum.splits)
  have "row_column on_hand 2 demo_ledger = 10" by code_simp
  with adjust_stock_clamp_unlogged [OF demo_ledger_ok a(1)] a show ?thesis by auto
qed

text \<open>
  What carts are told is available is what orders can reserve plus the availability in
  inactive warehouses: \<open>get_available\<close> does not look at \<open>is_active\<close>, \<open>reserve_stock\<close> does.
\<close>

theorem available_counts_inactive_warehouses:
  "get_available v db = reservable v db +
     sum_list (map available (filter (\<lambda>s. st_variant s = v \<and> \<not> in_active_warehouse db s)
                                     (objects (stocks db))))"
proof -
  have "sum_list (map available (filter P xs)) =
        sum_list (map available (filter (\<lambda>s. P s \<and> Q s) xs)) +
        sum_list (map available (filter (\<lambda>s. P s \<and> \<not> Q s) xs))" for P Q xs
    by (induction xs) auto
  then show ?thesis by (simp add: get_available_def reservable_def)
qed

text \<open>The two figures differ on the concrete ledger, and the snapshot ignores the safety buffer.\<close>

lemma inactive_warehouse_promised:
  "get_available 7 demo_ledger = 75 \<and> reservable 7 demo_ledger = 55 \<and>
   reserve_stock 9 '''' 7 60 demo_ledger = Inl (OutOfStockError (insufficient_message 7 5))"
  by code_simp

lemma snapshot_ignores_buffer:
  "case reserve_stock 9 '''' 7 55 demo_ledger of Inl e \<Rightarrow> False
   | Inr (snap, db') \<Rightarrow> snap_available snap = 3 \<and> reservable 7 db' = 0"
  by code_simp

end
