(* ===== verification/Cart.thy ===== *)
theory Cart
  imports Catalog Inventory
begin

text \<open>
  \<open>django_app/apps/cart\<close>: carts of users and of anonymous sessions, their items, the atomic
  services of \<open>services.py\<close> and the views. A removed item is a dead row that still holds the
  unique pair of cart and variant. The services refine operations on the map from variants to
  quantities (\<open>quantity_of\<close>).
\<close>

section \<open>Models\<close>

record cart = base_model +
  ct_user :: "nat option"
  ct_session_key :: string
  ct_currency :: string
  ct_coupon :: "nat option"
  ct_metadata :: json
  ct_last_active_at :: int

record cart_item = base_model +
  ci_cart :: nat
  ci_variant :: nat
  ci_quantity :: int
  ci_unit_price :: int

record cart_store =
  carts :: "cart list"
  cart_items :: "cart_item list"

definition line_total :: "cart_item \<Rightarrow> int" where
  "line_total it = quantize (ci_unit_price it * ci_quantity it) 2"

text \<open>\<open>cart.items.all()\<close>, \<open>Cart.subtotal\<close> and \<open>Cart.total_items\<close>.\<close>

definition items_of :: "nat \<Rightarrow> cart_store \<Rightarrow> cart_item list" where
  "items_of c db = filter (\<lambda>it. ci_cart it = c) (objects (cart_items db))"

definition subtotal :: "cart \<Rightarrow> cart_store \<Rightarrow> int" where
  "subtotal c db = sum_list (map line_total (items_of (pk c) db))"

definition total_items :: "cart \<Rightarrow> cart_store \<Rightarrow> int" where
  "total_items c db = sum_list (map ci_quantity (items_of (pk c) db))"

section \<open>Services\<close>

definition new_cart :: "int \<Rightarrow> nat option \<Rightarrow> string \<Rightarrow> string \<Rightarrow> nat \<Rightarrow> cart" where
  "new_cart now usr key cur k =
     \<lparr>pk = k, created_at = now, updated_at = now, deleted_at = None, ct_user = usr,
      ct_session_key = key, ct_currency = cur, ct_coupon = None, ct_metadata = JObj [],
      ct_last_active_at = now\<rparr>"

text \<open>The user is \<open>Some\<close> key where \<open>user and user.is_authenticated\<close> holds.\<close>

definition get_or_create_cart ::
  "int \<Rightarrow> nat option \<Rightarrow> string \<Rightarrow> cart_store \<Rightarrow> py_error + (cart \<times> cart_store)" where
  "get_or_create_cart now user session_key db =
     (case user of
        Some u \<Rightarrow>
          bindE (get_or_create ''Cart'' (\<lambda>c. ct_user c = Some u) False
                   (new_cart now (Some u) '''' ''USD'') (carts db))
            (\<lambda>(c, _, tbl). Inr (c, db\<lparr>carts := tbl\<rparr>))
      | None \<Rightarrow>
          if session_key = '''' then Inl (ValueError ''session_key required for anonymous carts'')
          else
            bindE (get_or_create ''Cart'' (\<lambda>c. ct_session_key c = session_key \<and> ct_user c = None) False
                     (new_cart now None session_key ''USD'') (carts db))
              (\<lambda>(c, _, tbl). Inr (c, db\<lparr>carts := tbl\<rparr>)))"

definition new_item :: "int \<Rightarrow> nat \<Rightarrow> nat \<Rightarrow> int \<Rightarrow> int \<Rightarrow> nat \<Rightarrow> cart_item" where
  "new_item now c v q price k =
     \<lparr>pk = k, created_at = now, updated_at = now, deleted_at = None, ci_cart = c, ci_variant = v,
      ci_quantity = q, ci_unit_price = price\<rparr>"

text \<open>The unique constraint on (cart, variant), which sees dead rows.\<close>

definition pair_taken :: "nat \<Rightarrow> nat \<Rightarrow> cart_store \<Rightarrow> bool" where
  "pair_taken c v db \<longleftrightarrow> (\<exists>it \<in> set (cart_items db). ci_cart it = c \<and> ci_variant it = v)"

definition requested_message :: "int \<Rightarrow> int \<Rightarrow> string \<Rightarrow> string" where
  "requested_message new_qty avail sku =
     ''requested '' @ str_int new_qty @ '', only '' @ str_int avail @ '' available for '' @ sku"

definition only_message :: "int \<Rightarrow> string \<Rightarrow> string" where
  "only_message avail sku = ''only '' @ str_int avail @ '' available for '' @ sku"

definition save_item :: "cart_item \<Rightarrow> cart_store \<Rightarrow> cart_store" where
  "save_item it db = db\<lparr>cart_items := save_row (pk it) (\<lambda>_. it) (cart_items db)\<rparr>"

definition add_item ::
  "int \<Rightarrow> catalog \<Rightarrow> inventory \<Rightarrow> cart \<Rightarrow> nat \<Rightarrow> int \<Rightarrow> cart_store
   \<Rightarrow> py_error + (cart_item \<times> cart_store)" where
  "add_item now cat stk c v quantity db =
     (if quantity \<le> 0 then Inl (ValueError ''quantity must be positive'')
      else
        bindE (get_active_variant v cat) (\<lambda>variant.
        bindE (get_or_create ''cart_item'' (\<lambda>it. ci_cart it = pk c \<and> ci_variant it = v)
                 (pair_taken (pk c) v db) (new_item now (pk c) v 0 (pv_price variant)) (cart_items db))
          (\<lambda>(it, created, tbl).
            let new_qty = ci_quantity it + quantity;
                avail = get_available v stk;
                it' = it\<lparr>ci_quantity := new_qty, ci_unit_price := pv_price variant, updated_at := now\<rparr>
            in if new_qty > avail
               then Inl (OutOfStockError (requested_message new_qty avail (pv_sku variant)))
               else if \<not> int4 new_qty then Inl (DataError ''integer out of range'')
               else Inr (it', save_item it' (db\<lparr>cart_items := tbl\<rparr>)))))"

text \<open>\<open>item.variant\<close>: the joined row, dead or alive.\<close>

definition variant_of :: "cart_item \<Rightarrow> catalog \<Rightarrow> py_error + product_variant" where
  "variant_of it cat =
     (case find_variant (ci_variant it) cat of
        None \<Rightarrow> Inl (DoesNotExist ''ProductVariant'') | Some v \<Rightarrow> Inr v)"

definition update_item ::
  "int \<Rightarrow> catalog \<Rightarrow> inventory \<Rightarrow> cart \<Rightarrow> nat \<Rightarrow> int \<Rightarrow> cart_store
   \<Rightarrow> py_error + (cart_item option \<times> cart_store)" where
  "update_item now cat stk c item_id quantity db =
     bindE (get_one ''CartItem'' (\<lambda>it. pk it = item_id \<and> ci_cart it = pk c) (cart_items db)) (\<lambda>it.
       if quantity \<le> 0
       then Inr (None, db\<lparr>cart_items := delete_row now (pk it) (cart_items db)\<rparr>)
       else
         let avail = get_available (ci_variant it) stk in
         if quantity > avail
         then bindE (variant_of it cat) (\<lambda>v. Inl (OutOfStockError (only_message avail (pv_sku v))))
         else if \<not> int4 quantity then Inl (DataError ''integer out of range'')
         else Inr (Some (it\<lparr>ci_quantity := quantity, updated_at := now\<rparr>),
                   db\<lparr>cart_items := save_row (pk it)
                        (\<lambda>r. r\<lparr>ci_quantity := quantity, updated_at := now\<rparr>) (cart_items db)\<rparr>))"

definition remove_item :: "int \<Rightarrow> cart \<Rightarrow> nat \<Rightarrow> cart_store \<Rightarrow> cart_store" where
  "remove_item now c item_id db =
     db\<lparr>cart_items :=
       snd (qs_delete now (qs_alive (\<lambda>it. pk it = item_id \<and> ci_cart it = pk c)) (cart_items db))\<rparr>"

definition clear_cart :: "int \<Rightarrow> cart \<Rightarrow> cart_store \<Rightarrow> cart_store" where
  "clear_cart now c db =
     db\<lparr>cart_items := snd (qs_delete now (qs_alive (\<lambda>it. ci_cart it = pk c)) (cart_items db)),
        carts := save_row (pk c) (\<lambda>r. r\<lparr>ct_coupon := None\<rparr>) (carts db)\<rparr>"

text \<open>
  One iteration of the merge loop, and the merge. \<open>.first()\<close> orders by key; the unique constraint
  leaves at most one candidate.
\<close>

definition merge_one :: "int \<Rightarrow> catalog \<Rightarrow> cart \<Rightarrow> cart_item \<Rightarrow> cart_store \<Rightarrow> py_error + cart_store" where
  "merge_one now cat user_cart it db =
     bindE (variant_of it cat) (\<lambda>v.
       case filter (\<lambda>e. ci_variant e = pk v) (items_of (pk user_cart) db) of
         existing # _ \<Rightarrow>
           let e' = existing\<lparr>ci_quantity := ci_quantity existing + ci_quantity it,
                             ci_unit_price := pv_price v, updated_at := now\<rparr> in
           if \<not> int4 (ci_quantity e') then Inl (DataError ''integer out of range'')
           else Inr (save_item e' db)
       | [] \<Rightarrow>
           if pair_taken (pk user_cart) (pk v) db then Inl (IntegrityError ''cart_item'')
           else Inr (db\<lparr>cart_items := cart_items db @
                  [new_item now (pk user_cart) (pk v) (ci_quantity it) (pv_price v)
                     (fresh_pk (cart_items db))]\<rparr>))"

fun merge_items :: "int \<Rightarrow> catalog \<Rightarrow> cart \<Rightarrow> cart_item list \<Rightarrow> cart_store \<Rightarrow> py_error + cart_store" where
  "merge_items now cat user_cart [] db = Inr db"
| "merge_items now cat user_cart (it # its) db =
     bindE (merge_one now cat user_cart it db) (merge_items now cat user_cart its)"

definition merge_anonymous_into_user ::
  "int \<Rightarrow> catalog \<Rightarrow> string \<Rightarrow> nat \<Rightarrow> cart_store \<Rightarrow> py_error + (cart option \<times> cart_store)" where
  "merge_anonymous_into_user now cat session_key user db =
     (if session_key = '''' then Inr (None, db)
      else case get_one ''Cart'' (\<lambda>c. ct_session_key c = session_key \<and> ct_user c = None) (carts db) of
        Inl (DoesNotExist _) \<Rightarrow> Inr (None, db)
      | Inl e \<Rightarrow> Inl e
      | Inr anon \<Rightarrow>
          bindE (get_or_create ''Cart'' (\<lambda>c. ct_user c = Some user) False
                   (new_cart now (Some user) '''' (ct_currency anon)) (carts db))
            (\<lambda>(user_cart, _, tbl).
              bindE (merge_items now cat user_cart (items_of (pk anon) db) (db\<lparr>carts := tbl\<rparr>)) (\<lambda>db'.
                Inr (Some user_cart, db'\<lparr>carts := delete_row now (pk anon) (carts db')\<rparr>))))"

section \<open>Well-formed carts\<close>

definition one_per_owner :: "cart list \<Rightarrow> bool" where
  "one_per_owner tbl \<longleftrightarrow>
     (\<forall>x \<in> set tbl. \<forall>y \<in> set tbl. is_alive x \<and> is_alive y \<and> ct_user x = ct_user y \<and>
        (ct_user x = None \<longrightarrow> ct_session_key x = ct_session_key y) \<longrightarrow> pk x = pk y)"

definition carts_table_ok :: "cart list \<Rightarrow> bool" where
  "carts_table_ok tbl \<longleftrightarrow> distinct_pks tbl \<and> one_per_owner tbl"

definition pair_unique :: "cart_item list \<Rightarrow> bool" where
  "pair_unique tbl \<longleftrightarrow> distinct (map (\<lambda>it. (ci_cart it, ci_variant it)) tbl)"

definition items_table_ok :: "cart_item list \<Rightarrow> bool" where
  "items_table_ok tbl \<longleftrightarrow>
     distinct_pks tbl \<and> pair_unique tbl \<and> list_all (\<lambda>it. 0 < ci_quantity it) tbl"

definition carts_ok :: "cart_store \<Rightarrow> bool" where
  "carts_ok db \<longleftrightarrow> carts_table_ok (carts db) \<and> items_table_ok (cart_items db)"

text \<open>The abstract cart: how many units of each variant it holds.\<close>

definition quantity_of :: "nat \<Rightarrow> cart_store \<Rightarrow> nat \<Rightarrow> int" where
  "quantity_of c db v =
     sum_list (map ci_quantity (filter (\<lambda>it. ci_variant it = v) (items_of c db)))"

lemma quantity_of_sum:
  "quantity_of c db v = sum_list (map (\<lambda>it. if is_alive it \<and> ci_cart it = c \<and> ci_variant it = v
     then ci_quantity it else 0) (cart_items db))"
proof -
  have "filter (\<lambda>it. ci_variant it = v) (items_of c db) =
        filter (\<lambda>it. ci_cart it = c \<and> ci_variant it = v) (objects (cart_items db))"
    by (simp add: items_of_def conj_commute)
  then show ?thesis by (simp add: quantity_of_def sum_objects)
qed

lemma quantity_of_carts [simp]: "quantity_of c (db\<lparr>carts := tbl\<rparr>) = quantity_of c db"
  by (simp add: quantity_of_def items_of_def fun_eq_iff)

lemma items_of_carts [simp]: "items_of c (db\<lparr>carts := tbl\<rparr>) = items_of c db"
  by (simp add: items_of_def)

lemma quantity_of_append:
  assumes "is_alive it"
  shows "quantity_of c (db\<lparr>cart_items := cart_items db @ [it]\<rparr>) v =
           quantity_of c db v + (if ci_cart it = c \<and> ci_variant it = v then ci_quantity it else 0)"
  using assms by (simp add: quantity_of_sum)

text \<open>Saving a row of the table: the quantity moves by the change of that row.\<close>

definition counted :: "nat \<Rightarrow> nat \<Rightarrow> cart_item \<Rightarrow> int" where
  "counted c v it = (if is_alive it \<and> ci_cart it = c \<and> ci_variant it = v then ci_quantity it else 0)"

lemma quantity_of_counted: "quantity_of c db v = sum_list (map (counted c v) (cart_items db))"
  by (simp add: quantity_of_sum counted_def [abs_def])

lemma quantity_of_save_row:
  assumes "distinct_pks (cart_items db)" "it \<in> set (cart_items db)"
  shows "quantity_of c (db\<lparr>cart_items := save_row (pk it) f (cart_items db)\<rparr>) v =
           quantity_of c db v - counted c v it + counted c v (f it)"
  using sum_save_row [OF assms, of "counted c v" f] by (simp add: quantity_of_counted)

lemma save_row_appended:
  "pk r \<notin> pk ` set tbl \<Longrightarrow> save_row (pk r) f (tbl @ [r]) = tbl @ [f r]"
  using save_row_notin [of "pk r" tbl f] by (simp add: save_row_def update_where_def)

lemma items_table_ok_save:
  assumes "items_table_ok tbl" "it \<in> set tbl" "pk (f it) = pk it" "ci_cart (f it) = ci_cart it"
    "ci_variant (f it) = ci_variant it" "0 < ci_quantity (f it)"
  shows "items_table_ok (save_row (pk it) f tbl)"
proof -
  have d: "distinct_pks tbl" using assms(1) by (simp add: items_table_ok_def)
  have same: "r = it" if "r \<in> set tbl" "pk r = pk it" for r
    using row_unique [OF d that(1) assms(2)] that(2) by simp
  have "map (\<lambda>it. (ci_cart it, ci_variant it)) (save_row (pk it) f tbl) =
        map (\<lambda>it. (ci_cart it, ci_variant it)) tbl"
    "map pk (save_row (pk it) f tbl) = map pk tbl"
    using same assms(3-5) by (auto simp: save_row_def update_where_def)
  moreover have "list_all (\<lambda>it. 0 < ci_quantity it) (save_row (pk it) f tbl)"
    using assms(1,6) same by (intro list_all_save_row) (auto simp: items_table_ok_def)
  ultimately show ?thesis
    using assms(1) by (simp add: items_table_ok_def pair_unique_def distinct_pks_def)
qed

lemma items_table_ok_append:
  assumes "items_table_ok tbl" "pk it = fresh_pk tbl" "0 < ci_quantity it"
    "\<forall>r \<in> set tbl. \<not> (ci_cart r = ci_cart it \<and> ci_variant r = ci_variant it)"
  shows "items_table_ok (tbl @ [it])"
  using assms distinct_pks_append_fresh [of tbl it]
  by (auto simp: items_table_ok_def pair_unique_def)

lemma items_table_ok_delete:
  assumes "items_table_ok tbl"
  shows "items_table_ok (update_where p (\<lambda>r. r\<lparr>deleted_at := d\<rparr>) tbl)"
proof -
  have "map pk (update_where p (\<lambda>r. r\<lparr>deleted_at := d\<rparr>) tbl) = map pk tbl"
    "map (\<lambda>it. (ci_cart it, ci_variant it)) (update_where p (\<lambda>r. r\<lparr>deleted_at := d\<rparr>) tbl) =
     map (\<lambda>it. (ci_cart it, ci_variant it)) tbl"
    by (simp_all add: update_where_def)
  moreover have "list_all (\<lambda>it. 0 < ci_quantity it) (update_where p (\<lambda>r. r\<lparr>deleted_at := d\<rparr>) tbl)"
    using assms by (auto simp: items_table_ok_def list_all_iff table_simps)
  ultimately show ?thesis
    using assms by (simp add: items_table_ok_def pair_unique_def distinct_pks_def)
qed

lemma filter_objects_unique:
  assumes "distinct_pks tbl"
    and "\<And>x y. x \<in> set tbl \<Longrightarrow> y \<in> set tbl \<Longrightarrow> is_alive x \<Longrightarrow> is_alive y \<Longrightarrow> p x \<Longrightarrow> p y \<Longrightarrow> pk x = pk y"
  shows "filter p (objects tbl) = [] \<or> (\<exists>r. filter p (objects tbl) = [r])"
proof (cases "filter p (objects tbl)")
  case (Cons x xs)
  show ?thesis
  proof (cases xs)
    case Nil
    with Cons show ?thesis by simp
  next
    case ys: (Cons y ys)
    have mem: "z \<in> set tbl \<and> is_alive z \<and> p z" if "z \<in> {x, y}" for z
    proof -
      have "z \<in> set (filter p (objects tbl))" using Cons ys that by auto
      then show ?thesis by simp
    qed
    have "distinct (map pk (filter p (objects tbl)))"
      using assms(1) by (simp add: distinct_pks_def distinct_map_filter get_queryset_def)
    then have "pk x \<noteq> pk y" using Cons ys by simp
    with assms(2) [of x y] mem show ?thesis by simp
  qed
qed simp

section \<open>Lemmas about the services\<close>

lemma get_active_variant_Inr:
  "get_active_variant v cat = Inr w \<Longrightarrow> w \<in> set (variants cat) \<and> pk w = v \<and> pv_is_active w \<and> is_alive w"
  unfolding get_active_variant_def by (auto dest: get_one_Inr)

lemma variant_of_Inr: "variant_of it cat = Inr w \<Longrightarrow> pk w = ci_variant it"
  by (auto simp: variant_of_def find_variant_def dest!: find_pk_Some split: option.splits)

lemma new_item_simps [simp]:
  "pk (new_item now c v q price k) = k" "ci_cart (new_item now c v q price k) = c"
  "ci_variant (new_item now c v q price k) = v" "ci_quantity (new_item now c v q price k) = q"
  "ci_unit_price (new_item now c v q price k) = price" "is_alive (new_item now c v q price k)"
  by (simp_all add: new_item_def is_alive_def)

lemma is_alive_item_update [simp]:
  "is_alive (it\<lparr>ci_quantity := q, ci_unit_price := p, updated_at := t\<rparr>) = is_alive it"
  "is_alive (it\<lparr>ci_quantity := q, updated_at := t\<rparr>) = is_alive it"
  by (simp_all add: is_alive_def)

text \<open>What a successful \<open>add_item\<close> did: it raised the one living item, or inserted one.\<close>

lemma add_item_Inr:
  assumes "add_item now cat stk c v q db = Inr (it', db')"
  obtains (raised) w it where "0 < q" "get_active_variant v cat = Inr w"
      "it \<in> set (cart_items db)" "is_alive it" "ci_cart it = pk c" "ci_variant it = v"
      "ci_quantity it + q \<le> get_available v stk"
      "it' = it\<lparr>ci_quantity := ci_quantity it + q, ci_unit_price := pv_price w, updated_at := now\<rparr>"
      "db' = save_item it' db"
  | (inserted) w where "0 < q" "get_active_variant v cat = Inr w" "\<not> pair_taken (pk c) v db"
      "q \<le> get_available v stk"
      "it' = new_item now (pk c) v q (pv_price w) (fresh_pk (cart_items db))"
      "db' = db\<lparr>cart_items := cart_items db @ [it']\<rparr>"
proof -
  from assms obtain w it created tbl where w: "0 < q" "get_active_variant v cat = Inr w"
    and g: "get_or_create ''cart_item'' (\<lambda>it. ci_cart it = pk c \<and> ci_variant it = v)
              (pair_taken (pk c) v db) (new_item now (pk c) v 0 (pv_price w)) (cart_items db)
            = Inr (it, created, tbl)"
    and le: "ci_quantity it + q \<le> get_available v stk"
    and it': "it' = it\<lparr>ci_quantity := ci_quantity it + q, ci_unit_price := pv_price w, updated_at := now\<rparr>"
    and db': "db' = save_item it' (db\<lparr>cart_items := tbl\<rparr>)"
    unfolding add_item_def by (auto simp: result_simps Let_def split: if_splits)
  from g show ?thesis
  proof (cases rule: get_or_create_cases)
    case 1
    then have "tbl = cart_items db" by simp
    with 1 w le it' db' show ?thesis by (intro raised [of w it]) auto
  next
    case 2
    then have fresh: "pk it \<notin> pk ` set (cart_items db)" by simp
    have "it' = new_item now (pk c) v q (pv_price w) (fresh_pk (cart_items db))"
      using 2 it' by (simp add: new_item_def)
    moreover have "db' = db\<lparr>cart_items := cart_items db @ [it']\<rparr>"
      using 2 it' db' save_row_appended [OF fresh, of "\<lambda>_. it'"] by (simp add: save_item_def)
    moreover have "q \<le> get_available v stk" using 2 le by simp
    ultimately show ?thesis using w 2 by (intro inserted [of w]) auto
  qed
qed

lemma items_ok_pks: "carts_ok db \<Longrightarrow> distinct_pks (cart_items db)"
  by (simp add: carts_ok_def items_table_ok_def)

lemma items_ok_positive: "carts_ok db \<Longrightarrow> it \<in> set (cart_items db) \<Longrightarrow> 0 < ci_quantity it"
  by (simp add: carts_ok_def items_table_ok_def list_all_iff)

lemma carts_ok_items: "carts_ok db \<Longrightarrow> items_table_ok tbl \<Longrightarrow> carts_ok (db\<lparr>cart_items := tbl\<rparr>)"
  by (simp add: carts_ok_def)

lemma add_item_ok:
  assumes "carts_ok db" "add_item now cat stk c v q db = Inr (it', db')"
  shows "carts_ok db'"
  using assms(2)
proof (cases rule: add_item_Inr)
  case (raised w it)
  have "items_table_ok (save_row (pk it) (\<lambda>_. it') (cart_items db))"
    using assms(1) raised items_ok_positive [OF assms(1) raised(3)]
    by (intro items_table_ok_save) (auto simp: carts_ok_def)
  with assms(1) raised show ?thesis by (simp add: save_item_def carts_ok_items)
next
  case (inserted w)
  have "items_table_ok (cart_items db @ [it'])"
    using assms(1) inserted by (intro items_table_ok_append) (auto simp: carts_ok_def pair_taken_def)
  with assms(1) inserted show ?thesis by (simp add: carts_ok_items)
qed

lemma quantity_of_save_item:
  assumes "carts_ok db" "it \<in> set (cart_items db)" "pk it' = pk it"
  shows "quantity_of c (save_item it' db) v = quantity_of c db v - counted c v it + counted c v it'"
  using quantity_of_save_row [OF items_ok_pks [OF assms(1)] assms(2), of c "\<lambda>_. it'" v] assms(3)
  by (simp add: save_item_def)

lemma add_item_quantity:
  assumes "carts_ok db" "add_item now cat stk c v q db = Inr (it', db')"
  shows "quantity_of k db' u = quantity_of k db u + (if k = pk c \<and> u = v then q else 0)"
  using assms(2)
proof (cases rule: add_item_Inr)
  case (raised w it)
  then show ?thesis
    using quantity_of_save_item [OF assms(1) raised(3), of it' k u] by (auto simp: counted_def)
next
  case (inserted w)
  then show ?thesis using quantity_of_append [of it' k db u] by auto
qed

text \<open>At most one living item carries the pair, so it is the quantity of the pair.\<close>

lemma counted_absent:
  "\<forall>r \<in> set tbl. \<not> (is_alive r \<and> ci_cart r = c \<and> ci_variant r = v) \<Longrightarrow>
   sum_list (map (counted c v) tbl) = 0"
  by (induction tbl) (auto simp: counted_def)

lemma counted_present:
  assumes "pair_unique tbl" "it \<in> set tbl" "is_alive it"
  shows "sum_list (map (counted (ci_cart it) (ci_variant it)) tbl) = ci_quantity it"
  using assms
proof (induction tbl)
  case (Cons r tbl)
  have u: "pair_unique tbl" "(ci_cart r, ci_variant r) \<notin> (\<lambda>it. (ci_cart it, ci_variant it)) ` set tbl"
    using Cons.prems(1) by (simp_all add: pair_unique_def)
  show ?case
  proof (cases "r = it")
    case True
    have "\<not> (is_alive x \<and> ci_cart x = ci_cart it \<and> ci_variant x = ci_variant it)"
      if "x \<in> set tbl" for x
      using u(2) True that by (auto simp: image_iff)
    with True Cons.prems(3) show ?thesis by (simp add: counted_absent counted_def [of _ _ it])
  next
    case False
    then have it: "it \<in> set tbl" using Cons.prems(2) by simp
    have "\<not> (ci_cart r = ci_cart it \<and> ci_variant r = ci_variant it)"
      using u(2) it by (auto simp: image_iff)
    then have "counted (ci_cart it) (ci_variant it) r = 0" by (auto simp: counted_def)
    with Cons.IH [OF u(1) it Cons.prems(3)] show ?thesis by simp
  qed
qed simp

lemma pairs_ok: "carts_ok db \<Longrightarrow> pair_unique (cart_items db)"
  by (simp add: carts_ok_def items_table_ok_def)

lemma quantity_of_item:
  "carts_ok db \<Longrightarrow> it \<in> set (cart_items db) \<Longrightarrow> is_alive it \<Longrightarrow>
   quantity_of (ci_cart it) db (ci_variant it) = ci_quantity it"
  by (simp add: quantity_of_counted counted_present pairs_ok)

lemma pair_row:
  assumes "carts_ok db" "x \<in> set (cart_items db)" "y \<in> set (cart_items db)"
    "ci_cart x = ci_cart y" "ci_variant x = ci_variant y"
  shows "x = y"
  using pairs_ok [OF assms(1)] assms(2-5) unfolding pair_unique_def distinct_map inj_on_def by auto

lemma no_living_item:
  assumes "filter (\<lambda>it. ci_cart it = c \<and> ci_variant it = v) (objects (cart_items db)) = []"
  shows "quantity_of c db v = 0"
  using assms by (auto simp: quantity_of_counted filter_empty_conv intro: counted_absent)

lemma item_lookup:
  assumes "carts_ok db"
  shows "filter (\<lambda>it. ci_cart it = c \<and> ci_variant it = v) (objects (cart_items db)) = [] \<or>
    (\<exists>r. filter (\<lambda>it. ci_cart it = c \<and> ci_variant it = v) (objects (cart_items db)) = [r] \<and>
         r \<in> set (cart_items db) \<and> is_alive r \<and> ci_cart r = c \<and> ci_variant r = v)"
proof -
  have "filter (\<lambda>it. ci_cart it = c \<and> ci_variant it = v) (objects (cart_items db)) = [] \<or>
        (\<exists>r. filter (\<lambda>it. ci_cart it = c \<and> ci_variant it = v) (objects (cart_items db)) = [r])"
    using assms by (intro filter_objects_unique items_ok_pks) (auto dest: pair_row)
  moreover have "r \<in> set (cart_items db) \<and> is_alive r \<and> ci_cart r = c \<and> ci_variant r = v"
    if "filter (\<lambda>it. ci_cart it = c \<and> ci_variant it = v) (objects (cart_items db)) = [r]" for r
  proof -
    have "r \<in> set (filter (\<lambda>it. ci_cart it = c \<and> ci_variant it = v) (objects (cart_items db)))"
      using that by simp
    then show ?thesis by simp
  qed
  ultimately show ?thesis by blast
qed

text \<open>Every way \<open>add_item\<close> can fail.\<close>

lemma add_item_Inl:
  assumes "carts_ok db" "add_item now cat stk c v q db = Inl e" "0 < q" "get_active_variant v cat = Inr w"
  shows "e = IntegrityError ''cart_item'' \<and> pair_taken (pk c) v db \<and> quantity_of (pk c) db v = 0 \<or>
    e = OutOfStockError (requested_message (quantity_of (pk c) db v + q) (get_available v stk) (pv_sku w)) \<and>
      get_available v stk < quantity_of (pk c) db v + q \<or>
    e = DataError ''integer out of range'' \<and> \<not> int4 (quantity_of (pk c) db v + q)"
  using item_lookup [OF assms(1), of "pk c" v]
proof (elim disjE exE conjE)
  assume none: "filter (\<lambda>it. ci_cart it = pk c \<and> ci_variant it = v) (objects (cart_items db)) = []"
  with assms no_living_item [OF none] show ?thesis
    by (auto simp: add_item_def get_or_create_def result_simps Let_def split: if_splits)
next
  fix r assume one: "filter (\<lambda>it. ci_cart it = pk c \<and> ci_variant it = v) (objects (cart_items db)) = [r]"
    and r: "r \<in> set (cart_items db)" "is_alive r" "ci_cart r = pk c" "ci_variant r = v"
  have "quantity_of (pk c) db v = ci_quantity r" using quantity_of_item [OF assms(1) r(1,2)] r by simp
  with one assms show ?thesis
    by (auto simp: add_item_def get_or_create_def result_simps Let_def split: if_splits)
qed

text \<open>Deleting: a stamped row no longer counts.\<close>

lemma counted_dead [simp]: "counted c v (it\<lparr>deleted_at := Some t\<rparr>) = 0"
  by (simp add: counted_def is_alive_def)

lemma counted_updated [simp]:
  "counted c v (it\<lparr>ci_quantity := q, updated_at := t\<rparr>) =
     (if is_alive it \<and> ci_cart it = c \<and> ci_variant it = v then q else 0)"
  by (simp add: counted_def)

lemma get_item_Inr:
  "get_one m (\<lambda>it. pk it = k \<and> ci_cart it = c) (cart_items db) = Inr it \<Longrightarrow>
   it \<in> set (cart_items db) \<and> pk it = k \<and> ci_cart it = c \<and> is_alive it"
  by (drule get_one_Inr) simp

lemma update_item_Inr:
  assumes "update_item now cat stk c k q db = Inr (r, db')"
  obtains it where "it \<in> set (cart_items db)" "pk it = k" "ci_cart it = pk c" "is_alive it"
    "q \<le> 0 \<Longrightarrow> r = None \<and> db' = db\<lparr>cart_items := delete_row now (pk it) (cart_items db)\<rparr>"
    "0 < q \<Longrightarrow> q \<le> get_available (ci_variant it) stk \<and>
       r = Some (it\<lparr>ci_quantity := q, updated_at := now\<rparr>) \<and>
       db' = db\<lparr>cart_items := save_row (pk it) (\<lambda>r. r\<lparr>ci_quantity := q, updated_at := now\<rparr>) (cart_items db)\<rparr>"
proof -
  obtain it where it: "get_one ''CartItem'' (\<lambda>it. pk it = k \<and> ci_cart it = pk c) (cart_items db) = Inr it"
    using assms unfolding update_item_def by (auto simp: result_simps)
  show ?thesis
    using get_item_Inr [OF it] assms it
    by (intro that [of it]) (auto simp: update_item_def result_simps Let_def split: if_splits)
qed

lemma update_item_ok:
  assumes "carts_ok db" "update_item now cat stk c k q db = Inr (r, db')"
  shows "carts_ok db'"
  using assms(2)
proof (cases rule: update_item_Inr)
  case (1 it)
  show ?thesis
  proof (cases "q \<le> 0")
    case True
    with 1 show ?thesis
      using items_table_ok_delete [of "cart_items db" "\<lambda>r. pk r = pk it" "Some now"] assms(1)
      by (simp add: delete_row_def save_row_def carts_ok_def)
  next
    case False
    with 1 show ?thesis
      using items_table_ok_save [of "cart_items db" it "\<lambda>r. r\<lparr>ci_quantity := q, updated_at := now\<rparr>"]
        assms(1) by (simp add: carts_ok_def)
  qed
qed

lemma update_item_quantity:
  assumes "carts_ok db" "update_item now cat stk c k q db = Inr (r, db')"
  shows "\<exists>v. (\<forall>j u. quantity_of j db' u =
             (if j = pk c \<and> u = v then max q 0 else quantity_of j db u)) \<and>
             0 < quantity_of (pk c) db v \<and> (0 < q \<longrightarrow> q \<le> get_available v stk)"
  using assms(2)
proof (cases rule: update_item_Inr)
  case (1 it)
  have one: "quantity_of (pk c) db (ci_variant it) = ci_quantity it"
    using quantity_of_item [OF assms(1) 1(1) 1(4)] 1(3) by simp
  have pos: "0 < ci_quantity it" by (rule items_ok_positive [OF assms(1) 1(1)])
  note step = quantity_of_save_row [OF items_ok_pks [OF assms(1)] 1(1)]
  have "quantity_of j db' u = (if j = pk c \<and> u = ci_variant it then max q 0 else quantity_of j db u)"
    for j u
    using 1 step [of j "\<lambda>r. r\<lparr>deleted_at := Some now\<rparr>" u] one
      step [of j "\<lambda>r. r\<lparr>ci_quantity := q, updated_at := now\<rparr>" u]
    by (cases "q \<le> 0") (auto simp: delete_row_def counted_def [of _ _ it])
  with one pos 1 show ?thesis by (intro exI [of _ "ci_variant it"]) auto
qed

lemma sum_counted_delete:
  "sum_list (map (counted c v) (update_where p (\<lambda>r. r\<lparr>deleted_at := Some t\<rparr>) tbl)) =
   sum_list (map (\<lambda>r. if p r then 0 else counted c v r) tbl)"
  by (induction tbl) auto

lemma remove_item_ok: "carts_ok db \<Longrightarrow> carts_ok (remove_item now c k db)"
  by (simp add: remove_item_def qs_delete_def carts_ok_def items_table_ok_delete)

lemma remove_item_quantity:
  "quantity_of j (remove_item now c k db) v =
     sum_list (map (\<lambda>r. if pk r = k \<and> ci_cart r = pk c then 0 else counted j v r) (cart_items db))"
proof -
  have "(if qs_alive (\<lambda>it. pk it = k \<and> ci_cart it = pk c) r then 0 else counted j v r) =
        (if pk r = k \<and> ci_cart r = pk c then 0 else counted j v r)" for r
    by (simp add: qs_alive_def counted_def is_alive_def)
  then show ?thesis
    by (simp add: quantity_of_counted remove_item_def qs_delete_def sum_counted_delete)
qed

lemma carts_table_ok_map:
  assumes "carts_table_ok tbl"
    and "\<And>r. pk (f r) = pk r" "\<And>r. ct_user (f r) = ct_user r"
    "\<And>r. ct_session_key (f r) = ct_session_key r" "\<And>r. is_alive (f r) \<Longrightarrow> is_alive r"
  shows "carts_table_ok (update_where p f tbl)"
proof -
  have "one_per_owner (update_where p f tbl)"
    unfolding one_per_owner_def
  proof (intro ballI impI, elim conjE)
    fix x y
    assume xy: "x \<in> set (update_where p f tbl)" "y \<in> set (update_where p f tbl)"
      "is_alive x" "is_alive y" "ct_user x = ct_user y"
      "ct_user x = None \<longrightarrow> ct_session_key x = ct_session_key y"
    have origin: "\<exists>r \<in> set tbl. pk r = pk z \<and> ct_user r = ct_user z \<and>
        ct_session_key r = ct_session_key z \<and> is_alive r"
      if "z \<in> set (update_where p f tbl)" "is_alive z" for z
    proof -
      from that(1) obtain r where r: "r \<in> set tbl" "z = (if p r then f r else r)"
        by (auto simp: table_simps)
      with assms(2-5) that(2) show ?thesis by (intro bexI [of _ r]) (auto split: if_splits)
    qed
    from origin [OF xy(1,3)] origin [OF xy(2,4)] xy(5,6) assms(1) show "pk x = pk y"
      unfolding carts_table_ok_def one_per_owner_def by metis
  qed
  with assms(1,2) show ?thesis by (simp add: carts_table_ok_def distinct_pks_update_where)
qed

lemma carts_table_ok_delete: "carts_table_ok tbl \<Longrightarrow> carts_table_ok (delete_row now k tbl)"
  unfolding delete_row_def save_row_def by (rule carts_table_ok_map) (simp_all add: is_alive_def)

lemma carts_table_ok_coupon:
  "carts_table_ok tbl \<Longrightarrow> carts_table_ok (save_row k (\<lambda>r. r\<lparr>ct_coupon := x\<rparr>) tbl)"
  unfolding save_row_def by (rule carts_table_ok_map) (simp_all add: is_alive_def)

lemma clear_cart_ok: "carts_ok db \<Longrightarrow> carts_ok (clear_cart now c db)"
  by (simp add: clear_cart_def qs_delete_def carts_ok_def items_table_ok_delete carts_table_ok_coupon)

lemma clear_cart_quantity:
  "quantity_of j (clear_cart now c db) v = (if j = pk c then 0 else quantity_of j db v)"
proof -
  have "(if qs_alive (\<lambda>it. ci_cart it = pk c) r then 0 else counted j v r) =
        (if j = pk c then 0 else counted j v r)" for r
    by (auto simp: qs_alive_def counted_def is_alive_def)
  then show ?thesis
    by (simp add: clear_cart_def qs_delete_def quantity_of_counted sum_counted_delete)
qed

text \<open>Creating carts.\<close>

lemma one_per_ownerD:
  assumes "one_per_owner tbl" "x \<in> set tbl" "y \<in> set tbl" "is_alive x" "is_alive y"
    "ct_user x = ct_user y" "ct_user x = None \<longrightarrow> ct_session_key x = ct_session_key y"
  shows "pk x = pk y"
  by (rule mp [OF bspec [OF bspec [OF assms(1) [unfolded one_per_owner_def] assms(2)] assms(3)]])
    (intro conjI assms(4-7))

lemma carts_table_ok_append:
  assumes "carts_table_ok tbl" "pk c = fresh_pk tbl"
    and "\<forall>r \<in> set tbl. \<not> (is_alive r \<and> ct_user r = ct_user c \<and>
           (ct_user r = None \<longrightarrow> ct_session_key r = ct_session_key c))"
  shows "carts_table_ok (tbl @ [c])"
proof -
  have "one_per_owner (tbl @ [c])"
    unfolding one_per_owner_def
  proof (intro ballI impI, elim conjE)
    fix x y
    assume xy: "x \<in> set (tbl @ [c])" "y \<in> set (tbl @ [c])" "is_alive x" "is_alive y"
      "ct_user x = ct_user y" "ct_user x = None \<longrightarrow> ct_session_key x = ct_session_key y"
    from xy(1,2) consider "x \<in> set tbl" "y \<in> set tbl" | "x = c" "y = c"
      | "x \<in> set tbl" "y = c" | "x = c" "y \<in> set tbl" by auto
    then show "pk x = pk y"
    proof cases
      case 1
      show ?thesis
        by (rule one_per_ownerD [OF conjunct2 [OF assms(1) [unfolded carts_table_ok_def]] 1 xy(3-6)])
    next
      case 3
      with bspec [OF assms(3) 3(1)] xy show ?thesis by simp
    next
      case 4
      with bspec [OF assms(3) 4(2)] xy show ?thesis by simp
    qed simp
  qed
  with assms(1,2) show ?thesis by (simp add: carts_table_ok_def distinct_pks_append_fresh)
qed

definition owned_by :: "nat option \<Rightarrow> string \<Rightarrow> cart \<Rightarrow> bool" where
  "owned_by user key c \<longleftrightarrow>
     (case user of Some u \<Rightarrow> ct_user c = Some u | None \<Rightarrow> ct_session_key c = key \<and> ct_user c = None)"

lemma get_or_create_cart_alt:
  "user \<noteq> None \<or> key \<noteq> '''' \<Longrightarrow> get_or_create_cart now user key db =
     bindE (get_or_create ''Cart'' (owned_by user key) False
              (new_cart now user (if user = None then key else '''') ''USD'') (carts db))
       (\<lambda>(c, _, tbl). Inr (c, db\<lparr>carts := tbl\<rparr>))"
  by (cases user) (simp_all add: get_or_create_cart_def owned_by_def [abs_def])

lemma owner_lookup:
  assumes "carts_table_ok tbl"
  shows "filter (owned_by user key) (objects tbl) = [] \<or>
         (\<exists>r. filter (owned_by user key) (objects tbl) = [r])"
proof (rule filter_objects_unique)
  show "distinct_pks tbl" using assms by (simp add: carts_table_ok_def)
  fix x y
  assume a: "x \<in> set tbl" "y \<in> set tbl" "is_alive x" "is_alive y"
    "owned_by user key x" "owned_by user key y"
  have "ct_user x = ct_user y" "ct_user x = None \<longrightarrow> ct_session_key x = ct_session_key y"
    using a(5,6) by (auto simp: owned_by_def split: option.splits)
  from one_per_ownerD [OF conjunct2 [OF assms [unfolded carts_table_ok_def]] a(1-4) this]
  show "pk x = pk y" .
qed

lemma new_cart_owned [simp]:
  "owned_by user key (new_cart now user (if user = None then key else '''') cur k)"
  "is_alive (new_cart now user key cur k)" "pk (new_cart now user key cur k) = k"
  "ct_user (new_cart now user key cur k) = user" "ct_session_key (new_cart now user key cur k) = key"
  by (auto simp: owned_by_def new_cart_def is_alive_def split: option.splits)

lemma carts_table_ok_new:
  assumes "carts_table_ok tbl" "filter (owned_by user key) (objects tbl) = []"
  shows "carts_table_ok (tbl @ [new_cart now user (if user = None then key else '''') cur (fresh_pk tbl)])"
  using assms
  by (intro carts_table_ok_append) (auto simp: filter_empty_conv owned_by_def split: option.splits)

lemma get_or_create_cart_Inr:
  assumes "carts_ok db" "user \<noteq> None \<or> key \<noteq> ''''"
  obtains c where "get_or_create_cart now user key db = Inr (c, db)" "c \<in> set (carts db)"
      "owned_by user key c" "is_alive c"
  | c where "get_or_create_cart now user key db = Inr (c, db\<lparr>carts := carts db @ [c]\<rparr>)"
      "carts_ok (db\<lparr>carts := carts db @ [c]\<rparr>)" "owned_by user key c" "is_alive c"
      "filter (owned_by user key) (objects (carts db)) = []"
proof -
  have t: "carts_table_ok (carts db)" using assms(1) by (simp add: carts_ok_def)
  from owner_lookup [OF t, of user key] show ?thesis
  proof (elim disjE exE)
    assume none: "filter (owned_by user key) (objects (carts db)) = []"
    show ?thesis
      using none carts_table_ok_new [OF t none, of now "''USD''"] assms
      by (intro that(2) [of "new_cart now user (if user = None then key else '''') ''USD'' (fresh_pk (carts db))"])
        (simp_all add: get_or_create_cart_alt get_or_create_def Let_def carts_ok_def)
  next
    fix r assume one: "filter (owned_by user key) (objects (carts db)) = [r]"
    have "r \<in> set (filter (owned_by user key) (objects (carts db)))" by (simp add: one)
    then have "r \<in> set (carts db)" "owned_by user key r" "is_alive r" by auto
    with one assms(2) show ?thesis
      by (intro that(1) [of r]) (simp_all add: get_or_create_cart_alt get_or_create_def)
  qed
qed

text \<open>The merge loop adds the quantities of the items it visits.\<close>

lemma merge_one_keeps:
  assumes "carts_ok db" "0 < ci_quantity it" "merge_one now cat uc it db = Inr db'"
  shows "carts_ok db' \<and> carts db' = carts db \<and>
    (\<forall>j v. quantity_of j db' v =
       quantity_of j db v + (if j = pk uc \<and> v = ci_variant it then ci_quantity it else 0))"
proof -
  obtain w where w: "variant_of it cat = Inr w" "pk w = ci_variant it"
    using assms(3) variant_of_Inr unfolding merge_one_def by (auto simp: result_simps)
  have items: "filter (\<lambda>e. ci_variant e = ci_variant it) (items_of (pk uc) db) =
      filter (\<lambda>e. ci_cart e = pk uc \<and> ci_variant e = ci_variant it) (objects (cart_items db))"
    by (simp add: items_of_def conj_commute)
  from item_lookup [OF assms(1), of "pk uc" "ci_variant it"] show ?thesis
  proof (elim disjE exE conjE)
    assume none: "filter (\<lambda>e. ci_cart e = pk uc \<and> ci_variant e = ci_variant it) (objects (cart_items db)) = []"
    define n where "n = new_item now (pk uc) (ci_variant it) (ci_quantity it) (pv_price w) (fresh_pk (cart_items db))"
    have db': "db' = db\<lparr>cart_items := cart_items db @ [n]\<rparr>" and free: "\<not> pair_taken (pk uc) (ci_variant it) db"
      using assms(3) w none items by (auto simp: merge_one_def n_def split: if_splits)
    have "items_table_ok (cart_items db @ [n])"
      using assms(1,2) free by (intro items_table_ok_append) (auto simp: carts_ok_def pair_taken_def n_def)
    with assms(1) have "carts_ok db'" by (simp add: db' carts_ok_items)
    then show ?thesis using quantity_of_append [of n _ db] by (auto simp: db' n_def)
  next
    fix e assume one: "filter (\<lambda>e. ci_cart e = pk uc \<and> ci_variant e = ci_variant it) (objects (cart_items db)) = [e]"
      and e: "e \<in> set (cart_items db)" "is_alive e" "ci_cart e = pk uc" "ci_variant e = ci_variant it"
    define e' where "e' = e\<lparr>ci_quantity := ci_quantity e + ci_quantity it, ci_unit_price := pv_price w,
                           updated_at := now\<rparr>"
    have e': "pk e' = pk e" "is_alive e'" "ci_cart e' = ci_cart e" "ci_variant e' = ci_variant e"
      "ci_quantity e' = ci_quantity e + ci_quantity it"
      using e(2) by (simp_all add: e'_def)
    have db': "db' = save_item e' db"
      using assms(3) w one items by (auto simp: merge_one_def Let_def e'_def split: if_splits)
    have "items_table_ok (save_row (pk e) (\<lambda>_. e') (cart_items db))"
      using assms(1,2) e e' items_ok_positive [OF assms(1) e(1)]
      by (intro items_table_ok_save) (auto simp: carts_ok_def)
    with assms(1) have "carts_ok db'" by (simp add: db' save_item_def e' carts_ok_items)
    then show ?thesis
      using quantity_of_save_item [OF assms(1) e(1) e'(1)] e e'
      by (auto simp: db' counted_def save_item_def)
  qed
qed

lemma merge_items_keeps:
  assumes "carts_ok db" "\<forall>it \<in> set its. 0 < ci_quantity it" "merge_items now cat uc its db = Inr db'"
  shows "carts_ok db' \<and> carts db' = carts db \<and>
    (\<forall>j v. quantity_of j db' v = quantity_of j db v +
       (if j = pk uc then sum_list (map ci_quantity (filter (\<lambda>it. ci_variant it = v) its)) else 0))"
  using assms
proof (induction its arbitrary: db)
  case (Cons it its)
  from Cons.prems(3) obtain mid where
    mid: "merge_one now cat uc it db = Inr mid" "merge_items now cat uc its mid = Inr db'"
    by (auto simp: result_simps)
  from merge_one_keeps [OF Cons.prems(1) _ mid(1)] Cons.prems(2) Cons.IH [OF _ _ mid(2)]
  show ?case by auto
qed simp

text \<open>What a merge that returned a cart did.\<close>

lemma merge_Inr:
  assumes "carts_ok db" "merge_anonymous_into_user now cat key user db = Inr (Some uc, db')"
  obtains anon where "anon \<in> set (carts db)" "is_alive anon" "ct_session_key anon = key"
    "ct_user anon = None" "ct_user uc = Some user" "is_alive uc" "pk uc \<noteq> pk anon" "carts_ok db'"
    "\<forall>j v. quantity_of j db' v =
       quantity_of j db v + (if j = pk uc then quantity_of (pk anon) db v else 0)"
    "\<exists>tbl. carts db' = delete_row now (pk anon) tbl \<and> (tbl = carts db \<or> tbl = carts db @ [uc])"
proof -
  have key: "key \<noteq> ''''" using assms(2) by (auto simp: merge_anonymous_into_user_def)
  obtain anon where g: "get_one ''Cart'' (\<lambda>c. ct_session_key c = key \<and> ct_user c = None) (carts db) = Inr anon"
    using assms(2) key by (auto simp: merge_anonymous_into_user_def split: sum.splits py_error.splits)
  note anon = get_one_Inr [OF g]
  from assms(2) key g obtain created tbl mid where
    u: "get_or_create ''Cart'' (\<lambda>c. ct_user c = Some user) False
          (new_cart now (Some user) '''' (ct_currency anon)) (carts db) = Inr (uc, created, tbl)"
    and m: "merge_items now cat uc (items_of (pk anon) db) (db\<lparr>carts := tbl\<rparr>) = Inr mid"
    and db': "db' = mid\<lparr>carts := delete_row now (pk anon) (carts mid)\<rparr>"
    by (auto simp: merge_anonymous_into_user_def result_simps)
  have own: "(\<lambda>c. ct_user c = Some user) = owned_by (Some user) ''''"
    by (simp add: owned_by_def fun_eq_iff)
  have t: "carts_table_ok (carts db)" using assms(1) by (simp add: carts_ok_def)
  from u have "carts_ok (db\<lparr>carts := tbl\<rparr>) \<and> ct_user uc = Some user \<and> is_alive uc \<and>
      pk uc \<noteq> pk anon \<and> (tbl = carts db \<or> tbl = carts db @ [uc])"
  proof (cases rule: get_or_create_cases)
    case 1
    have "pk uc \<noteq> pk anon"
      using row_unique [of "carts db" uc anon] 1 anon t by (auto simp: carts_table_ok_def)
    with 1 assms(1) show ?thesis by simp
  next
    case 2
    have none: "filter (owned_by (Some user) '''') (objects (carts db)) = []" using 2 by (simp add: own)
    have "pk uc = fresh_pk (carts db)" using 2 by simp
    then have "pk uc \<noteq> pk anon" using anon fresh_pk_notin [of "carts db"] by (metis image_eqI)
    with 2 carts_table_ok_new [OF t none, of now "ct_currency anon"] assms(1) show ?thesis
      by (simp add: carts_ok_def)
  qed
  moreover have "\<forall>it \<in> set (items_of (pk anon) db). 0 < ci_quantity it"
    using items_ok_positive [OF assms(1)] by (simp add: items_of_def)
  ultimately have k: "carts_ok mid" "carts mid = tbl"
      "\<forall>j v. quantity_of j mid v = quantity_of j db v +
         (if j = pk uc then quantity_of (pk anon) db v else 0)"
    using merge_items_keeps [OF _ _ m] by (simp_all add: quantity_of_def [of "pk anon" db])
  from k(1) have "carts_ok db'" by (simp add: db' carts_ok_def carts_table_ok_delete)
  with anon k(2,3) \<open>carts_ok (db\<lparr>carts := tbl\<rparr>) \<and> _\<close> show ?thesis
    by (intro that [of anon]) (auto simp: db')
qed

lemma merge_ok:
  assumes "carts_ok db" "merge_anonymous_into_user now cat key user db = Inr (r, db')"
  shows "carts_ok db'"
proof (cases r)
  case None
  then have "db' = db"
    using assms(2) by (auto simp: merge_anonymous_into_user_def result_simps
        split: if_splits sum.splits py_error.splits)
  with assms(1) show ?thesis by simp
next
  case (Some uc)
  from assms(2) [unfolded Some] show ?thesis by (rule merge_Inr [OF assms(1)])
qed

section \<open>Histories of calls\<close>

datatype cart_call =
    GetCart "nat option" string
  | AddItem cart nat int
  | UpdateItem cart nat int
  | RemoveItem cart nat
  | ClearCart cart
  | MergeCart string nat

fun run_cart_call ::
  "int \<Rightarrow> catalog \<Rightarrow> inventory \<Rightarrow> cart_call \<Rightarrow> cart_store \<Rightarrow> py_error + cart_store" where
  "run_cart_call now cat stk (GetCart user key) db =
     bindE (get_or_create_cart now user key db) (\<lambda>(_, db'). Inr db')"
| "run_cart_call now cat stk (AddItem c v q) db =
     bindE (add_item now cat stk c v q db) (\<lambda>(_, db'). Inr db')"
| "run_cart_call now cat stk (UpdateItem c k q) db =
     bindE (update_item now cat stk c k q db) (\<lambda>(_, db'). Inr db')"
| "run_cart_call now cat stk (RemoveItem c k) db = Inr (remove_item now c k db)"
| "run_cart_call now cat stk (ClearCart c) db = Inr (clear_cart now c db)"
| "run_cart_call now cat stk (MergeCart key user) db =
     bindE (merge_anonymous_into_user now cat key user db) (\<lambda>(_, db'). Inr db')"

text \<open>Every call sees the catalog and the stock of its own moment; an error rolls it back.\<close>

fun run_cart_calls ::
  "(int \<times> catalog \<times> inventory \<times> cart_call) list \<Rightarrow> cart_store \<Rightarrow> cart_store" where
  "run_cart_calls [] db = db"
| "run_cart_calls ((now, cat, stk, c) # cs) db =
     run_cart_calls cs (case run_cart_call now cat stk c db of Inl _ \<Rightarrow> db | Inr db' \<Rightarrow> db')"

lemma get_or_create_cart_ok:
  assumes "carts_ok db" "get_or_create_cart now user key db = Inr (c, db')"
  shows "carts_ok db'"
proof (cases "user \<noteq> None \<or> key \<noteq> ''''")
  case True
  from assms(1) True show ?thesis
    by (rule get_or_create_cart_Inr [where now = now]) (use assms in auto)
next
  case False
  with assms(2) show ?thesis by (simp add: get_or_create_cart_def)
qed

lemma run_cart_call_ok:
  assumes "carts_ok db" "run_cart_call now cat stk c db = Inr db'"
  shows "carts_ok db'"
  using assms
  by (cases c) (auto simp: result_simps remove_item_ok clear_cart_ok intro: get_or_create_cart_ok
      add_item_ok update_item_ok merge_ok)

lemma run_cart_calls_ok: "carts_ok db \<Longrightarrow> carts_ok (run_cart_calls cs db)"
  by (induction cs db rule: run_cart_calls.induct)
    (auto split: sum.splits dest: run_cart_call_ok)

section \<open>Concrete carts\<close>

definition demo_catalog :: catalog where
  "demo_catalog =
     \<lparr>brands = [], categories = [], products = [demo_product 1 ''Tee'' ''tee''],
      variants = [demo_variant 7 1 ''NOVA-TEE-M'' 1999, demo_variant 8 1 ''NOVA-TEE-L'' 2099],
      images = []\<rparr>"

definition demo_cart :: "nat \<Rightarrow> nat option \<Rightarrow> string \<Rightarrow> cart" where
  "demo_cart k usr key =
     \<lparr>pk = k, created_at = 0, updated_at = 0, deleted_at = None, ct_user = usr, ct_session_key = key,
      ct_currency = ''USD'', ct_coupon = None, ct_metadata = JObj [], ct_last_active_at = 0\<rparr>"

definition demo_item :: "nat \<Rightarrow> nat \<Rightarrow> nat \<Rightarrow> int \<Rightarrow> int \<Rightarrow> cart_item" where
  "demo_item k c v q price =
     \<lparr>pk = k, created_at = 0, updated_at = 0, deleted_at = None, ci_cart = c, ci_variant = v,
      ci_quantity = q, ci_unit_price = price\<rparr>"

text \<open>Cart 1 of user 5 holds two of variant 7; cart 2 of session ''s'' holds three of it.\<close>

definition demo_carts :: cart_store where
  "demo_carts =
     \<lparr>carts = [demo_cart 1 (Some 5) '''', demo_cart 2 None ''s''],
      cart_items = [demo_item 1 1 7 2 1999, demo_item 2 2 7 3 1999]\<rparr>"

lemma demo_carts_ok: "carts_ok demo_carts"
  by code_simp

section \<open>Properties\<close>

text \<open>
  C16. \<open>add_item\<close> refines adding to a map of quantities: it succeeds only for a positive quantity
  of an active variant whose total in the cart stays within the stock that may be promised, then
  the cart holds exactly that many more of the variant at its current price, and every other
  quantity and cart is untouched. Each failure is one of the source's errors, for its reason.
\<close>

theorem add_item_exact:
  assumes "carts_ok db"
  shows "case add_item now cat stk c v q db of
      Inl e \<Rightarrow>
        q \<le> 0 \<and> e = ValueError ''quantity must be positive'' \<or>
        0 < q \<and> get_active_variant v cat = Inl e \<or>
        0 < q \<and> (\<exists>w. get_active_variant v cat = Inr w \<and>
          (e = IntegrityError ''cart_item'' \<and> pair_taken (pk c) v db \<and> quantity_of (pk c) db v = 0 \<or>
           e = OutOfStockError (requested_message (quantity_of (pk c) db v + q)
                                  (get_available v stk) (pv_sku w)) \<and>
             get_available v stk < quantity_of (pk c) db v + q \<or>
           e = DataError ''integer out of range'' \<and> \<not> int4 (quantity_of (pk c) db v + q)))
    | Inr (it, db') \<Rightarrow>
        0 < q \<and> quantity_of (pk c) db v + q \<le> get_available v stk \<and> carts_ok db' \<and>
        (\<exists>w. get_active_variant v cat = Inr w \<and> ci_unit_price it = pv_price w) \<and>
        quantity_of (pk c) db' = (quantity_of (pk c) db)(v := quantity_of (pk c) db v + q) \<and>
        (\<forall>k. k \<noteq> pk c \<longrightarrow> quantity_of k db' = quantity_of k db)"
proof (cases "add_item now cat stk c v q db")
  case (Inl e)
  show ?thesis
  proof (cases "q \<le> 0")
    case True
    with Inl show ?thesis by (simp add: add_item_def)
  next
    case q: False
    show ?thesis
    proof (cases "get_active_variant v cat")
      case bad: (Inl e')
      with q Inl show ?thesis by (simp add: add_item_def)
    next
      case (Inr w)
      with q add_item_Inl [OF assms Inl _ Inr] Inl show ?thesis by simp
    qed
  qed
next
  case (Inr r)
  obtain it db' where r: "r = (it, db')" by (cases r)
  note ok = Inr [unfolded r]
  have q: "0 < q \<and> (\<exists>w. get_active_variant v cat = Inr w \<and> ci_unit_price it = pv_price w)"
    by (rule add_item_Inr [OF ok]) auto
  have "ci_quantity it \<le> get_available v stk \<and> it \<in> set (cart_items db') \<and> is_alive it \<and>
      ci_cart it = pk c \<and> ci_variant it = v"
  proof (rule add_item_Inr [OF ok])
    fix w i
    assume "i \<in> set (cart_items db)" "is_alive i" "ci_cart i = pk c" "ci_variant i = v"
      "ci_quantity i + q \<le> get_available v stk"
      "it = i\<lparr>ci_quantity := ci_quantity i + q, ci_unit_price := pv_price w, updated_at := now\<rparr>"
      "db' = save_item it db"
    then show ?thesis by (auto simp: save_item_def set_save_row image_iff)
  qed auto
  then have "quantity_of (pk c) db' v \<le> get_available v stk"
    using quantity_of_item [OF add_item_ok [OF assms ok], of it] by auto
  with q r Inr add_item_ok [OF assms ok] add_item_quantity [OF assms ok] show ?thesis
    by (auto simp: fun_eq_iff)
qed

theorem add_item_exact_witness:
  "carts_ok demo_carts \<and>
   (\<exists>it db'. add_item 9 demo_catalog demo_ledger (demo_cart 1 (Some 5) '''') 7 4 demo_carts = Inr (it, db') \<and>
      quantity_of 1 db' 7 = quantity_of 1 demo_carts 7 + 4)"
proof -
  have "is_ok (add_item 9 demo_catalog demo_ledger (demo_cart 1 (Some 5) '''') 7 4 demo_carts)" by code_simp
  then obtain it db' where
    "add_item 9 demo_catalog demo_ledger (demo_cart 1 (Some 5) '''') 7 4 demo_carts = Inr (it, db')"
    by (auto simp: is_ok_iff)
  then show ?thesis
    using add_item_exact [OF demo_carts_ok, where now = 9 and cat = demo_catalog and stk = demo_ledger
        and c = "demo_cart 1 (Some 5) ''''" and v = 7 and q = 4] demo_carts_ok
    by (simp add: demo_cart_def)
qed

text \<open>
  A removed item cannot come back: once \<open>remove_item\<close> has taken a variant out of a cart, every
  later \<open>add_item\<close> of that variant to the cart raises \<open>IntegrityError\<close>, whatever the quantity and
  the stock, because the dead row still holds the unique pair of cart and variant.
\<close>

theorem removed_item_cannot_return:
  assumes "carts_ok db" "it \<in> set (cart_items db)" "ci_cart it = pk c"
    and "get_active_variant (ci_variant it) cat = Inr w" "0 < q"
  shows "add_item t cat stk c (ci_variant it) q (remove_item now c (pk it) db) =
           Inl (IntegrityError ''cart_item'')"
proof -
  let ?db = "remove_item now c (pk it) db" and ?v = "ci_variant it"
  have dead: "\<not> is_alive r" if r: "r \<in> set (cart_items ?db)" "ci_cart r = pk c" "ci_variant r = ?v" for r
  proof -
    from r(1) obtain x where x: "x \<in> set (cart_items db)"
      "r = (if qs_alive (\<lambda>i. pk i = pk it \<and> ci_cart i = pk c) x then x\<lparr>deleted_at := Some now\<rparr> else x)"
      by (auto simp: remove_item_def qs_delete_def table_simps)
    then have "x = it" using pair_row [OF assms(1) x(1) assms(2)] r(2,3) assms(3) by (auto split: if_splits)
    with x assms(3) show ?thesis by (auto simp: qs_alive_def is_alive_def)
  qed
  then have "filter (\<lambda>r. ci_cart r = pk c \<and> ci_variant r = ?v) (objects (cart_items ?db)) = []"
    by (auto simp: filter_empty_conv)
  moreover have "pair_taken (pk c) ?v ?db"
  proof -
    let ?f = "\<lambda>r. if qs_alive (\<lambda>i. pk i = pk it \<and> ci_cart i = pk c) r then r\<lparr>deleted_at := Some now\<rparr> else r"
    have "cart_items ?db = map ?f (cart_items db)"
      by (simp add: remove_item_def qs_delete_def update_where_def)
    then have "?f it \<in> set (cart_items ?db)" using assms(2) by (simp only: set_map) (rule imageI)
    moreover have "ci_cart (?f it) = pk c" "ci_variant (?f it) = ?v" using assms(3) by simp_all
    ultimately show ?thesis unfolding pair_taken_def by blast
  qed
  ultimately show ?thesis using assms(4,5) by (simp add: add_item_def get_or_create_def)
qed

theorem removed_item_cannot_return_witness:
  "add_item 20 demo_catalog demo_ledger (demo_cart 1 (Some 5) '''') 7 1
     (remove_item 10 (demo_cart 1 (Some 5) '''') 1 demo_carts) = Inl (IntegrityError ''cart_item'')"
proof -
  have v: "get_active_variant (ci_variant (demo_item 1 1 7 2 1999)) demo_catalog =
      Inr (demo_variant 7 1 ''NOVA-TEE-M'' 1999)" by code_simp
  have "demo_item 1 1 7 2 1999 \<in> set (cart_items demo_carts)" by (simp add: demo_carts_def)
  from removed_item_cannot_return [OF demo_carts_ok this _ v, where c = "demo_cart 1 (Some 5) ''''"
      and q = 1 and t = 20 and now = 10 and stk = demo_ledger]
  show ?thesis by (simp add: demo_item_def demo_cart_def)
qed

text \<open>
  C24. Merging a session's cart on login adds up: the user's cart ends with the sum of both carts'
  quantities for every variant, no other cart changes, the session's cart is gone, and a user
  still owns at most one living cart.
\<close>

theorem merge_adds_quantities:
  assumes "carts_ok db" "merge_anonymous_into_user now cat key user db = Inr (Some uc, db')"
  shows "carts_ok db' \<and> ct_user uc = Some user \<and>
    (\<exists>anon \<in> set (carts db). ct_session_key anon = key \<and> ct_user anon = None \<and> is_alive anon \<and>
       (\<forall>v. quantity_of (pk uc) db' v = quantity_of (pk uc) db v + quantity_of (pk anon) db v) \<and>
       (\<forall>j. j \<noteq> pk uc \<longrightarrow> quantity_of j db' = quantity_of j db) \<and>
       (\<forall>x \<in> set (carts db'). pk x = pk anon \<longrightarrow> \<not> is_alive x))"
proof (rule merge_Inr [OF assms])
  fix anon
  assume a: "anon \<in> set (carts db)" "is_alive anon" "ct_session_key anon = key" "ct_user anon = None"
    "ct_user uc = Some user" "carts_ok db'"
    "\<forall>j v. quantity_of j db' v = quantity_of j db v + (if j = pk uc then quantity_of (pk anon) db v else 0)"
    "\<exists>tbl. carts db' = delete_row now (pk anon) tbl \<and> (tbl = carts db \<or> tbl = carts db @ [uc])"
  have "\<forall>x \<in> set (carts db'). pk x = pk anon \<longrightarrow> \<not> is_alive x"
    using a(8) by (auto simp: delete_row_def set_save_row is_alive_def)
  with a show ?thesis by (auto simp: fun_eq_iff intro!: bexI [of _ anon])
qed

theorem merge_adds_quantities_witness:
  "\<exists>uc db'. merge_anonymous_into_user 9 demo_catalog ''s'' 5 demo_carts = Inr (Some uc, db') \<and>
     carts_ok db' \<and> ct_user uc = Some 5"
proof -
  have "(case merge_anonymous_into_user 9 demo_catalog ''s'' 5 demo_carts of
     Inl _ \<Rightarrow> False | Inr (uc, _) \<Rightarrow> uc \<noteq> None)" by code_simp
  then obtain uc db' where "merge_anonymous_into_user 9 demo_catalog ''s'' 5 demo_carts = Inr (Some uc, db')"
    by (auto split: sum.splits)
  with merge_adds_quantities [OF demo_carts_ok this] show ?thesis by blast
qed

text \<open>
  In every history of cart calls, failed ones included, each user and each anonymous session
  owns at most one living cart, no cart holds a variant twice, and every quantity is positive;
  so \<open>get_or_create_cart\<close> always returns the owner's cart and asking again returns the same one.
\<close>

theorem cart_history_invariant:
  assumes "carts_ok db" "user \<noteq> None \<or> key \<noteq> ''''"
  shows "carts_ok (run_cart_calls cs db) \<and>
    (\<exists>c db'. get_or_create_cart now user key (run_cart_calls cs db) = Inr (c, db') \<and>
       owned_by user key c \<and> carts_ok db' \<and> get_or_create_cart t user key db' = Inr (c, db'))"
proof -
  let ?s = "run_cart_calls cs db"
  have ok: "carts_ok ?s" by (rule run_cart_calls_ok [OF assms(1)])
  have again: "get_or_create_cart t user key d = Inr (c, d)"
    if d: "carts_ok d" "c \<in> set (carts d)" "owned_by user key c" "is_alive c" for c d
  proof -
    let ?F = "filter (owned_by user key) (objects (carts d))"
    have "c \<in> set ?F" using d by simp
    moreover have "?F = [] \<or> (\<exists>r. ?F = [r])" using d(1) by (intro owner_lookup) (simp add: carts_ok_def)
    ultimately have "?F = [c]" by (metis empty_iff empty_set set_ConsD)
    with assms(2) show ?thesis by (simp add: get_or_create_cart_alt get_or_create_def)
  qed
  from ok assms(2) show ?thesis
    by (rule get_or_create_cart_Inr [where now = now]) (use ok again in auto)
qed

theorem cart_history_invariant_witness:
  "carts_ok (run_cart_calls [(9, demo_catalog, demo_ledger, AddItem (demo_cart 1 (Some 5) '''') 7 4),
       (10, demo_catalog, demo_ledger, MergeCart ''s'' 5)] demo_carts)"
proof -
  have u: "Some (5 :: nat) \<noteq> None \<or> '''' \<noteq> ''''" by simp
  show ?thesis by (rule conjunct1 [OF cart_history_invariant [OF demo_carts_ok u]])
qed

end
