(* ===== verification/Coupons.thy ===== *)
theory Coupons
  imports Core_Models
begin

text \<open>
  \<open>django_app/apps/coupons/models.py\<close>: promotion codes, their validity window and the discount
  they give. Amounts are cents; a percentage \<open>value\<close> has two decimal places as well, so 10 percent
  is \<open>1000\<close>. Lookup by code ignores case (\<open>code__iexact\<close>), while uniqueness does not.
\<close>

section \<open>Model\<close>

datatype coupon_kind = PERCENT | FIXED | FREE_SHIPPING

record coupon = base_model +
  cp_code :: string
  cp_name :: string
  cp_kind :: coupon_kind
  cp_value :: int
  cp_min_subtotal :: int
  cp_max_discount :: "int option"
  cp_max_uses :: int
  cp_used_count :: int
  cp_per_user_limit :: int
  cp_starts_at :: "int option"
  cp_ends_at :: "int option"
  cp_is_active :: bool

definition is_valid_now :: "int \<Rightarrow> coupon \<Rightarrow> bool" where
  "is_valid_now now c =
     (if \<not> cp_is_active c then False
      else if (case cp_starts_at c of None \<Rightarrow> False | Some t \<Rightarrow> now < t) then False
      else if (case cp_ends_at c of None \<Rightarrow> False | Some t \<Rightarrow> t < now) then False
      else if cp_max_uses c \<noteq> 0 \<and> cp_max_uses c \<le> cp_used_count c then False
      else True)"

text \<open>
  The product of two amounts has four decimal places and the division by 100 shifts by two more,
  so the percentage is \<open>quantize (subtotal * value) 6\<close>. A cap of zero is false in Python, like
  no cap.
\<close>

definition calculate_discount :: "coupon \<Rightarrow> int \<Rightarrow> int" where
  "calculate_discount c subtotal =
     (if subtotal < cp_min_subtotal c then 0
      else case cp_kind c of
        PERCENT \<Rightarrow>
          (let disc = quantize (subtotal * cp_value c) 6 in
           case cp_max_discount c of
             None \<Rightarrow> disc
           | Some m \<Rightarrow> if m \<noteq> 0 then min disc m else disc)
      | FIXED \<Rightarrow> min (cp_value c) subtotal
      | FREE_SHIPPING \<Rightarrow> 0)"

text \<open>\<open>Coupon.objects.get(code__iexact = code)\<close>.\<close>

definition get_coupon :: "string \<Rightarrow> coupon list \<Rightarrow> py_error + coupon" where
  "get_coupon code tbl = get_one ''Coupon'' (\<lambda>c. lower (cp_code c) = lower code) tbl"

section \<open>Lemmas\<close>

text \<open>A coupon whose columns are in the ranges their help texts name.\<close>

definition coupon_in_range :: "coupon \<Rightarrow> bool" where
  "coupon_in_range c \<longleftrightarrow>
     0 \<le> cp_value c \<and> (cp_kind c = PERCENT \<longrightarrow> cp_value c \<le> 10000) \<and>
     (case cp_max_discount c of None \<Rightarrow> True | Some m \<Rightarrow> 0 \<le> m)"

lemma quantize_percent_bounds:
  assumes "0 \<le> s" "0 \<le> v" "v \<le> 10000"
  shows "0 \<le> quantize (s * v) 6" "quantize (s * v) 6 \<le> s"
proof -
  have "s * v \<le> s * 10000" using assms by (intro mult_left_mono) auto
  then have "s * v \<le> 10000 * s" by simp
  then show "quantize (s * v) 6 \<le> s"
    by (simp add: quantize_def round_half_even_le)
  show "0 \<le> quantize (s * v) 6"
    using assms by (simp add: quantize_def round_half_even_ge)
qed

lemma calculate_discount_bounds:
  assumes "coupon_in_range c" "0 \<le> s"
  shows "0 \<le> calculate_discount c s" "calculate_discount c s \<le> s"
  using assms quantize_percent_bounds [of s "cp_value c"]
  by (auto simp: calculate_discount_def coupon_in_range_def Let_def
      split: coupon_kind.splits option.splits)

lemma get_coupon_in: "get_coupon code tbl = Inr c \<Longrightarrow> c \<in> set tbl \<and> is_alive c"
  unfolding get_coupon_def by (blast dest: get_one_Inr)

section \<open>Concrete coupons\<close>

definition demo_coupon :: "string \<Rightarrow> coupon_kind \<Rightarrow> int \<Rightarrow> int option \<Rightarrow> coupon" where
  "demo_coupon code kind v cap =
     \<lparr>pk = 1, created_at = 0, updated_at = 0, deleted_at = None, cp_code = code, cp_name = '''',
      cp_kind = kind, cp_value = v, cp_min_subtotal = 0, cp_max_discount = cap, cp_max_uses = 0,
      cp_used_count = 0, cp_per_user_limit = 1, cp_starts_at = None, cp_ends_at = None,
      cp_is_active = True\<rparr>"

section \<open>Properties\<close>

text \<open>
  A discount never exceeds the subtotal and is never negative, for every kind of coupon whose
  value is in the range its help text names (a percentage of at most 100, no negative cap).
\<close>

theorem discount_within_subtotal:
  assumes "coupon_in_range c" "0 \<le> subtotal"
  shows "0 \<le> calculate_discount c subtotal \<and> calculate_discount c subtotal \<le> subtotal"
  using calculate_discount_bounds [OF assms] by simp

theorem discount_within_subtotal_witness:
  "coupon_in_range (demo_coupon ''SALE10'' PERCENT 1000 None) \<and>
   calculate_discount (demo_coupon ''SALE10'' PERCENT 1000 None) 1995 = 200 \<and>
   calculate_discount (demo_coupon ''SALE10'' PERCENT 1000 None) 1995 \<le> 1995"
proof -
  have r: "coupon_in_range (demo_coupon ''SALE10'' PERCENT 1000 None)" by code_simp
  have "calculate_discount (demo_coupon ''SALE10'' PERCENT 1000 None) 1995 = 200" by code_simp
  with discount_within_subtotal [OF r, of 1995] r show ?thesis by simp
qed

text \<open>
  A percentage discount is the exact percentage rounded to the nearest cent (the error is at
  most half a cent), then limited by a non-zero cap; below the minimum subtotal there is none.
\<close>

theorem percent_discount_accurate:
  assumes "cp_kind c = PERCENT" "cp_min_subtotal c \<le> subtotal"
  shows "\<exists>d. 2 * \<bar>10000 * d - subtotal * cp_value c\<bar> \<le> 10000 \<and>
             calculate_discount c subtotal =
               (case cp_max_discount c of None \<Rightarrow> d | Some m \<Rightarrow> if m = 0 then d else min d m)"
proof (intro exI conjI)
  show "2 * \<bar>10000 * round_half_even (subtotal * cp_value c) 10000 - subtotal * cp_value c\<bar> \<le> 10000"
    by (rule round_half_even_error) simp
  show "calculate_discount c subtotal =
          (case cp_max_discount c of None \<Rightarrow> round_half_even (subtotal * cp_value c) 10000
           | Some m \<Rightarrow> if m = 0 then round_half_even (subtotal * cp_value c) 10000
                       else min (round_half_even (subtotal * cp_value c) 10000) m)"
    using assms by (simp add: calculate_discount_def quantize_def Let_def split: option.splits)
qed

theorem percent_discount_accurate_witness:
  "cp_kind (demo_coupon ''BIG'' PERCENT 5000 (Some 2000)) = PERCENT \<and>
   (\<exists>d. 2 * \<bar>10000 * d - 10000 * 5000\<bar> \<le> 10000 \<and>
        calculate_discount (demo_coupon ''BIG'' PERCENT 5000 (Some 2000)) 10000 = min d 2000)"
proof -
  have k: "cp_kind (demo_coupon ''BIG'' PERCENT 5000 (Some 2000)) = PERCENT"
    "cp_min_subtotal (demo_coupon ''BIG'' PERCENT 5000 (Some 2000)) \<le> 10000"
    by (simp_all add: demo_coupon_def)
  from percent_discount_accurate [OF k] k(1) show ?thesis by (simp add: demo_coupon_def)
qed

text \<open>The ranges are not enforced: a percentage above 100 discounts more than the subtotal.\<close>

lemma percent_above_100_exceeds_subtotal:
  "calculate_discount (demo_coupon ''OOPS'' PERCENT 15000 None) 10000 = 15000"
  by code_simp

lemma zero_cap_is_no_cap:
  "calculate_discount (demo_coupon ''ZERO'' PERCENT 5000 (Some 0)) 10000 = 5000"
  by code_simp

end
