(* ===== verification/Orders.thy ===== *)
theory Orders
  imports Cart Coupons
begin

text \<open>
  \<open>django_app/apps/orders\<close>: orders, their items and events, \<open>create_order_from_cart\<close>,
  \<open>transition_status\<close> and the broadcasts of \<open>signals.py\<close>. Orders are the client of the stock
  contract: what happens to their lines comes from the lemmas of \<open>stock_service\<close>.
  The random order number is a parameter. The shop record is the part of the database the
  services share.
\<close>

section \<open>Models\<close>

datatype order_status = PENDING | PAID | PACKED | SHIPPED | DELIVERED | CANCELLED | REFUNDED

fun status_value :: "order_status \<Rightarrow> string" where
  "status_value PENDING = ''pending''"
| "status_value PAID = ''paid''"
| "status_value PACKED = ''packed''"
| "status_value SHIPPED = ''shipped''"
| "status_value DELIVERED = ''delivered''"
| "status_value CANCELLED = ''cancelled''"
| "status_value REFUNDED = ''refunded''"

fun ALLOWED_TRANSITIONS :: "order_status \<Rightarrow> order_status list" where
  "ALLOWED_TRANSITIONS PENDING = [PAID, CANCELLED]"
| "ALLOWED_TRANSITIONS PAID = [PACKED, CANCELLED, REFUNDED]"
| "ALLOWED_TRANSITIONS PACKED = [SHIPPED, CANCELLED, REFUNDED]"
| "ALLOWED_TRANSITIONS SHIPPED = [DELIVERED, REFUNDED]"
| "ALLOWED_TRANSITIONS DELIVERED = [REFUNDED]"
| "ALLOWED_TRANSITIONS CANCELLED = []"
| "ALLOWED_TRANSITIONS REFUNDED = []"

record order = base_model +
  od_number :: string
  od_user :: "nat option"
  od_email_snapshot :: string
  od_phone_snapshot :: string
  od_status :: order_status
  od_currency :: string
  od_subtotal :: int
  od_shipping_total :: int
  od_tax_total :: int
  od_discount_total :: int
  od_grand_total :: int
  od_coupon_code :: string
  od_shipping_address :: json
  od_billing_address :: json
  od_payment_provider :: string
  od_payment_reference :: string
  od_paid_at :: "int option"
  od_cancelled_at :: "int option"
  od_refunded_at :: "int option"
  od_notes_internal :: string
  od_notes_customer :: string
  od_metadata :: json

record order_item = base_model +
  oi_order :: nat
  oi_variant :: "nat option"
  oi_sku :: string
  oi_name_snapshot :: string
  oi_attributes_snapshot :: json
  oi_quantity :: int
  oi_unit_price :: int
  oi_line_total :: int

record order_event = base_model +
  oe_order :: nat
  oe_code :: string
  oe_message :: string
  oe_actor :: "nat option"
  oe_payload :: json

definition can_transition_to :: "order \<Rightarrow> order_status \<Rightarrow> bool" where
  "can_transition_to o' new \<longleftrightarrow> new \<in> set (ALLOWED_TRANSITIONS (od_status o'))"

text \<open>\<open>broadcasts\<close> is what was handed to the channel layer: group name and payload.\<close>

record shop =
  catalog_db :: catalog
  stock_db :: inventory
  coupon_tbl :: "coupon list"
  cart_db :: cart_store
  orders :: "order list"
  order_items :: "order_item list"
  order_events :: "order_event list"
  broadcasts :: "(string \<times> json) list"

record checkout_input =
  ck_email :: string
  ck_phone :: string
  ck_shipping_address :: json
  ck_billing_address :: json
  ck_coupon_code :: string
  ck_shipping_method :: string
  ck_notes_customer :: string

section \<open>Checkout\<close>

definition calculate_shipping :: "string \<Rightarrow> int \<Rightarrow> int" where
  "calculate_shipping meth sub =
     (if 20000 \<le> sub then 0
      else case map_of [(''standard'', 999), (''express'', 1999), (''pickup'', 0)] meth of
        None \<Rightarrow> 999 | Some fee \<Rightarrow> fee)"

definition calculate_tax :: "int \<Rightarrow> int" where
  "calculate_tax sub = 0"

text \<open>A value that fits a column of 12 digits, two of them decimal places.\<close>

definition fits12 :: "int \<Rightarrow> bool" where
  "fits12 c \<longleftrightarrow> \<bar>c\<bar> < 10 ^ 12"

text \<open>\<open>broadcast_order_event\<close>, run by the \<open>post_save\<close> signal of a created event.\<close>

definition event_payload :: "order_event \<Rightarrow> order \<Rightarrow> json" where
  "event_payload ev o' =
     JObj [(''type'', JStr ''order.event''), (''order_id'', JStr (uuid_str (oe_order ev))),
           (''code'', JStr (oe_code ev)), (''message'', JStr (oe_message ev)),
           (''status'', JStr (status_value (od_status o')))]"

definition broadcast_order_event :: "order_event \<Rightarrow> order \<Rightarrow> (string \<times> json) list" where
  "broadcast_order_event ev o' =
     (''order.'' @ uuid_str (oe_order ev), event_payload ev o') #
     (case od_user o' of None \<Rightarrow> []
      | Some u \<Rightarrow> [(''user.'' @ uuid_str u, event_payload ev o')])"

definition create_event ::
  "int \<Rightarrow> order \<Rightarrow> string \<Rightarrow> string \<Rightarrow> nat option \<Rightarrow> shop \<Rightarrow> shop" where
  "create_event now o' cd msg actor db =
     (let ev = \<lparr>pk = fresh_pk (order_events db), created_at = now, updated_at = now, deleted_at = None,
               oe_order = pk o', oe_code = cd, oe_message = msg, oe_actor = actor,
               oe_payload = JObj []\<rparr> in
      db\<lparr>order_events := order_events db @ [ev],
         broadcasts := broadcasts db @ broadcast_order_event ev o'\<rparr>)"

definition product_of :: "product_variant \<Rightarrow> catalog \<Rightarrow> py_error + product" where
  "product_of v cat =
     (case find_product (pv_product v) cat of None \<Rightarrow> Inl (DoesNotExist ''Product'') | Some p \<Rightarrow> Inr p)"

definition order_line :: "int \<Rightarrow> nat \<Rightarrow> cart_item \<Rightarrow> product_variant \<Rightarrow> product \<Rightarrow> nat \<Rightarrow> order_item" where
  "order_line now ord it v p k =
     \<lparr>pk = k, created_at = now, updated_at = now, deleted_at = None, oi_order = ord,
      oi_variant = Some (pk v), oi_sku = pv_sku v, oi_name_snapshot = pr_name p,
      oi_attributes_snapshot = pv_attributes_snapshot v, oi_quantity = ci_quantity it,
      oi_unit_price = ci_unit_price it, oi_line_total = line_total it\<rparr>"

text \<open>The loop of \<open>create_order_from_cart\<close>: reserve the line, then write its order item.\<close>

fun write_lines ::
  "int \<Rightarrow> nat \<Rightarrow> catalog \<Rightarrow> cart_item list \<Rightarrow> inventory \<Rightarrow> order_item list
   \<Rightarrow> py_error + (inventory \<times> order_item list)" where
  "write_lines now ord cat [] stk tbl = Inr (stk, tbl)"
| "write_lines now ord cat (it # its) stk tbl =
     (case reserve_stock now (uuid_str ord) (ci_variant it) (ci_quantity it) stk of
        Inl (OutOfStockError m) \<Rightarrow> Inl (CheckoutError m)
      | Inl e \<Rightarrow> Inl e
      | Inr (_, stk') \<Rightarrow>
          bindE (variant_of it cat) (\<lambda>v.
          bindE (product_of v cat) (\<lambda>p.
            if \<not> fits12 (line_total it) then Inl (DataError ''numeric field overflow'')
            else write_lines now ord cat its stk' (tbl @ [order_line now ord it v p (fresh_pk tbl)]))))"

definition find_coupon :: "int \<Rightarrow> string \<Rightarrow> coupon list \<Rightarrow> py_error + coupon option" where
  "find_coupon now code tbl =
     (if code = '''' then Inr None
      else case get_coupon code tbl of
        Inl (DoesNotExist _) \<Rightarrow> Inl (CheckoutError ''invalid coupon'')
      | Inl e \<Rightarrow> Inl e
      | Inr c \<Rightarrow> if is_valid_now now c then Inr (Some c)
                 else Inl (CheckoutError ''coupon expired or inactive''))"

definition new_order ::
  "int \<Rightarrow> string \<Rightarrow> nat option \<Rightarrow> string \<Rightarrow> checkout_input \<Rightarrow> coupon option \<Rightarrow> int \<Rightarrow> nat \<Rightarrow> order" where
  "new_order now number usr cur p coupon sub k =
     (let discount = (case coupon of None \<Rightarrow> 0 | Some c \<Rightarrow> calculate_discount c sub);
          shipping = calculate_shipping (ck_shipping_method p) (sub - discount);
          tax = calculate_tax (sub - discount + shipping) in
      \<lparr>pk = k, created_at = now, updated_at = now, deleted_at = None, od_number = number,
       od_user = usr, od_email_snapshot = ck_email p, od_phone_snapshot = ck_phone p,
       od_status = PENDING, od_currency = cur, od_subtotal = sub, od_shipping_total = shipping,
       od_tax_total = tax, od_discount_total = discount,
       od_grand_total = quantize (sub - discount + shipping + tax) 2,
       od_coupon_code = (case coupon of None \<Rightarrow> '''' | Some c \<Rightarrow> cp_code c),
       od_shipping_address = ck_shipping_address p,
       od_billing_address = json_or (ck_billing_address p) (ck_shipping_address p),
       od_payment_provider = '''', od_payment_reference = '''', od_paid_at = None,
       od_cancelled_at = None, od_refunded_at = None, od_notes_internal = '''',
       od_notes_customer = ck_notes_customer p,
       od_metadata = JObj [(''shipping_method'', JStr (ck_shipping_method p))]\<rparr>)"

definition order_fits :: "order \<Rightarrow> bool" where
  "order_fits o' \<longleftrightarrow> fits12 (od_subtotal o') \<and> fits12 (od_shipping_total o') \<and> fits12 (od_tax_total o') \<and>
     fits12 (od_discount_total o') \<and> fits12 (od_grand_total o')"

definition create_order_from_cart ::
  "int \<Rightarrow> string \<Rightarrow> cart \<Rightarrow> nat option \<Rightarrow> checkout_input \<Rightarrow> shop \<Rightarrow> py_error + (order \<times> shop)" where
  "create_order_from_cart now number c usr p db =
     (if items_of (pk c) (cart_db db) = [] then Inl (CheckoutError ''cart is empty'')
      else
        let sub = subtotal c (cart_db db) in
        bindE (find_coupon now (ck_coupon_code p) (coupon_tbl db)) (\<lambda>coupon.
          let o' = new_order now number usr (ct_currency c) p coupon sub (fresh_pk (orders db)) in
          if \<not> order_fits o' then Inl (DataError ''numeric field overflow'')
          else if number \<in> od_number ` set (orders db) then Inl (IntegrityError ''orders_order'')
          else
            bindE (write_lines now (pk o') (catalog_db db) (items_of (pk c) (cart_db db))
                     (stock_db db) (order_items db)) (\<lambda>(stk, tbl).
              let db1 = db\<lparr>orders := orders db @ [o'], stock_db := stk, order_items := tbl,
                           coupon_tbl := (case coupon of None \<Rightarrow> coupon_tbl db
                             | Some cp \<Rightarrow> save_row (pk cp) (\<lambda>r. r\<lparr>cp_used_count := cp_used_count cp + 1\<rparr>)
                                           (coupon_tbl db))\<rparr>;
                  db2 = create_event now o' ''created'' ''Order created'' usr db1 in
              Inr (o', db2\<lparr>cart_db := clear_cart now c (cart_db db2)\<rparr>))))"

text \<open>
  The same checkout, statement by statement. PostgreSQL's default level is READ COMMITTED: each
  statement reads what is committed when it starts, and \<open>create_order_from_cart\<close> locks neither the
  cart nor its items. So \<open>items.exists()\<close>, \<open>cart.subtotal()\<close> and the loop's query may see three
  different states \<open>seen0\<close>, \<open>seen1\<close>, \<open>seen2\<close>. The coupon and the stock rows are read with
  \<open>select_for_update\<close>, which waits for their writers and keeps others off until the commit; the other
  statements are writes. All these act on the state \<open>db\<close> the transaction commits to.
\<close>

definition checkout_over ::
  "int \<Rightarrow> string \<Rightarrow> cart \<Rightarrow> nat option \<Rightarrow> checkout_input \<Rightarrow> shop \<Rightarrow> shop \<Rightarrow> shop \<Rightarrow> shop
   \<Rightarrow> py_error + (order \<times> shop)" where
  "checkout_over now number c usr p seen0 seen1 seen2 db =
     (if items_of (pk c) (cart_db seen0) = [] then Inl (CheckoutError ''cart is empty'')
      else
        let sub = subtotal c (cart_db seen1) in
        bindE (find_coupon now (ck_coupon_code p) (coupon_tbl db)) (\<lambda>coupon.
          let o' = new_order now number usr (ct_currency c) p coupon sub (fresh_pk (orders db)) in
          if \<not> order_fits o' then Inl (DataError ''numeric field overflow'')
          else if number \<in> od_number ` set (orders db) then Inl (IntegrityError ''orders_order'')
          else
            bindE (write_lines now (pk o') (catalog_db seen2) (items_of (pk c) (cart_db seen2))
                     (stock_db db) (order_items db)) (\<lambda>(stk, tbl).
              let db1 = db\<lparr>orders := orders db @ [o'], stock_db := stk, order_items := tbl,
                           coupon_tbl := (case coupon of None \<Rightarrow> coupon_tbl db
                             | Some cp \<Rightarrow> save_row (pk cp) (\<lambda>r. r\<lparr>cp_used_count := cp_used_count cp + 1\<rparr>)
                                           (coupon_tbl db))\<rparr>;
                  db2 = create_event now o' ''created'' ''Order created'' usr db1 in
              Inr (o', db2\<lparr>cart_db := clear_cart now c (cart_db db2)\<rparr>))))"

lemma create_order_is_checkout_over:
  "create_order_from_cart now number c usr p db = checkout_over now number c usr p db db db db"
  by (simp add: create_order_from_cart_def checkout_over_def)

section \<open>Status transitions\<close>

definition refused_message :: "order \<Rightarrow> order_status \<Rightarrow> string" where
  "refused_message o' new = ''cannot transition order '' @ od_number o' @ '' from '' @
     status_value (od_status o') @ '' to '' @ status_value new"

text \<open>\<open>order.items.all()\<close> with a variant, as the lines the loops visit.\<close>

definition lines_of :: "nat \<Rightarrow> order_item list \<Rightarrow> (nat \<times> int) list" where
  "lines_of k tbl =
     map (\<lambda>it. (the (oi_variant it), oi_quantity it))
       (filter (\<lambda>it. oi_variant it \<noteq> None) (filter (\<lambda>it. oi_order it = k) (objects tbl)))"

text \<open>The stock loops of the two transitions that have one.\<close>

definition move_stock :: "int \<Rightarrow> order_status \<Rightarrow> nat \<Rightarrow> order_item list \<Rightarrow> inventory \<Rightarrow> py_error + inventory" where
  "move_stock now new k tbl stk =
     (if new = PAID then each_line (commit_sale now (uuid_str k)) (lines_of k tbl) stk
      else if new = CANCELLED then each_line (release_reservation now (uuid_str k)) (lines_of k tbl) stk
      else Inr stk)"

text \<open>The columns \<open>transition_status\<close> sets, which are those it names in \<open>update_fields\<close>.\<close>

definition with_status :: "int \<Rightarrow> order_status \<Rightarrow> order \<Rightarrow> order" where
  "with_status now new o' =
     (let o1 = o'\<lparr>od_status := new, updated_at := now\<rparr> in
      if new = PAID then o1\<lparr>od_paid_at := Some now\<rparr>
      else if new = CANCELLED then o1\<lparr>od_cancelled_at := Some now\<rparr>
      else if new = REFUNDED then o1\<lparr>od_refunded_at := Some now\<rparr>
      else o1)"

definition transition_status ::
  "int \<Rightarrow> nat \<Rightarrow> order_status \<Rightarrow> nat option \<Rightarrow> string \<Rightarrow> shop \<Rightarrow> py_error + (order \<times> shop)" where
  "transition_status now k new actor message db =
     bindE (get_one ''Order'' (\<lambda>o'. pk o' = k) (orders db)) (\<lambda>o'.
       if \<not> can_transition_to o' new then Inl (CheckoutError (refused_message o' new))
       else
         bindE (move_stock now new (pk o') (order_items db) (stock_db db)) (\<lambda>stk.
           let o1 = with_status now new o';
               db1 = db\<lparr>stock_db := stk, orders := save_row (pk o') (with_status now new) (orders db)\<rparr> in
           Inr (o1, create_event now o1 (''status:'' @ status_value new)
                      (if message = '''' then ''Status changed to '' @ status_value new else message)
                      actor db1)))"

section \<open>Lemmas: the state machine\<close>

text \<open>Each transition strictly raises the rank, so every order settles.\<close>

fun rank :: "order_status \<Rightarrow> nat" where
  "rank PENDING = 0"
| "rank PAID = 1"
| "rank PACKED = 2"
| "rank SHIPPED = 3"
| "rank DELIVERED = 4"
| "rank CANCELLED = 5"
| "rank REFUNDED = 5"

inductive reaches :: "order_status \<Rightarrow> order_status \<Rightarrow> bool" where
  here: "reaches s s"
| further: "reaches s t \<Longrightarrow> u \<in> set (ALLOWED_TRANSITIONS t) \<Longrightarrow> reaches s u"

inductive_cases reachesE: "reaches s t"

lemma allowed_rank: "u \<in> set (ALLOWED_TRANSITIONS t) \<Longrightarrow> rank t < rank u"
  by (cases t) auto

lemma reaches_rank: "reaches s t \<Longrightarrow> s = t \<or> rank s < rank t"
  by (induction rule: reaches.induct) (auto dest: allowed_rank)

lemma never_back_to_pending: "PENDING \<notin> set (ALLOWED_TRANSITIONS t)"
  by (cases t) auto

lemma reaches_trans: "reaches s t \<Longrightarrow> reaches t u \<Longrightarrow> reaches s u"
  by (rotate_tac, induction rule: reaches.induct) (auto intro: reaches.intros)

lemma reaches_terminal: "reaches s t \<Longrightarrow> ALLOWED_TRANSITIONS s = [] \<Longrightarrow> t = s"
  by (induction rule: reaches.induct) auto

section \<open>Lemmas: order lines and stock\<close>

definition cart_lines :: "cart_item list \<Rightarrow> (nat \<times> int) list" where
  "cart_lines its = map (\<lambda>it. (ci_variant it, ci_quantity it)) its"

lemma product_of_Inr: "product_of v cat = Inr p \<Longrightarrow> p \<in> set (products cat) \<and> pk p = pv_product v"
  by (auto simp: product_of_def find_product_def dest!: find_pk_Some split: option.splits)

lemma order_line_simps [simp]:
  "pk (order_line now ord it v p k) = k" "oi_order (order_line now ord it v p k) = ord"
  "oi_variant (order_line now ord it v p k) = Some (pk v)"
  "oi_quantity (order_line now ord it v p k) = ci_quantity it"
  "oi_line_total (order_line now ord it v p k) = line_total it"
  "oi_unit_price (order_line now ord it v p k) = ci_unit_price it"
  "oi_sku (order_line now ord it v p k) = pv_sku v"
  "is_alive (order_line now ord it v p k)"
  by (simp_all add: order_line_def is_alive_def)

text \<open>
  What the loop wrote: it reserved the cart's lines one by one and appended an order item for
  each, in the same order.
\<close>

lemma write_lines_Inr:
  assumes "write_lines now ord cat its stk tbl = Inr (stk', tbl')"
  shows "each_line (reserve_units now (uuid_str ord)) (cart_lines its) stk = Inr stk' \<and>
    (\<exists>new. tbl' = tbl @ new \<and> map oi_line_total new = map line_total its \<and>
       list_all (\<lambda>r. oi_order r = ord \<and> is_alive r \<and> fits12 (oi_line_total r)) new \<and>
       map (\<lambda>r. (the (oi_variant r), oi_quantity r)) new = cart_lines its \<and>
       list_all (\<lambda>r. oi_variant r \<noteq> None) new \<and>
       (distinct_pks tbl \<longrightarrow> distinct_pks tbl'))"
  using assms
proof (induction its arbitrary: stk tbl)
  case (Cons it its)
  from Cons.prems obtain snap mid v p where
    r: "reserve_stock now (uuid_str ord) (ci_variant it) (ci_quantity it) stk = Inr (snap, mid)"
    and v: "variant_of it cat = Inr v" and fit: "fits12 (line_total it)"
    and rest: "write_lines now ord cat its mid (tbl @ [order_line now ord it v p (fresh_pk tbl)]) = Inr (stk', tbl')"
    by (auto simp: result_simps split: sum.splits py_error.splits if_splits)
  let ?r = "order_line now ord it v p (fresh_pk tbl)"
  from Cons.IH [OF rest] obtain new where new:
    "each_line (reserve_units now (uuid_str ord)) (cart_lines its) mid = Inr stk'"
    "tbl' = (tbl @ [?r]) @ new" "map oi_line_total new = map line_total its"
    "list_all (\<lambda>r. oi_order r = ord \<and> is_alive r \<and> fits12 (oi_line_total r)) new"
    "map (\<lambda>r. (the (oi_variant r), oi_quantity r)) new = cart_lines its"
    "list_all (\<lambda>r. oi_variant r \<noteq> None) new"
    "distinct_pks (tbl @ [?r]) \<longrightarrow> distinct_pks tbl'" by blast
  have "distinct_pks tbl \<Longrightarrow> distinct_pks (tbl @ [?r])" by (rule distinct_pks_append_fresh) simp_all
  moreover have "reserve_units now (uuid_str ord) (ci_variant it) (ci_quantity it) stk = Inr mid"
    using r by (auto simp: reserve_units_Inr)
  ultimately show ?case
    using new variant_of_Inr [OF v] fit
    by (intro conjI exI [of _ "?r # new"]) (auto simp: cart_lines_def)
qed (simp add: cart_lines_def)

lemma lines_of_append: "lines_of k (tbl @ new) = lines_of k tbl @ lines_of k new"
  by (simp add: lines_of_def get_queryset_def)

lemma lines_of_other: "\<forall>r \<in> set new. oi_order r \<noteq> k \<Longrightarrow> lines_of k new = []"
  by (simp add: lines_of_def filter_empty_conv)

lemma lines_of_new:
  assumes "list_all (\<lambda>r. oi_order r = k \<and> is_alive r \<and> fits12 (oi_line_total r)) new"
    "list_all (\<lambda>r. oi_variant r \<noteq> None) new"
  shows "lines_of k new = map (\<lambda>r. (the (oi_variant r), oi_quantity r)) new"
proof -
  have "filter (\<lambda>r. deleted_at r = None) new = new" "filter (\<lambda>it. oi_order it = k) new = new"
    "filter (\<lambda>it. \<exists>y. oi_variant it = Some y) new = new"
    using assms by (auto simp: list_all_iff is_alive_def)
  then show ?thesis by (simp add: lines_of_def get_queryset_def)
qed

section \<open>The shop invariant\<close>

text \<open>The timestamps an order's status implies.\<close>

definition times_ok :: "order \<Rightarrow> bool" where
  "times_ok o' \<longleftrightarrow>
     (od_cancelled_at o' \<noteq> None \<longleftrightarrow> od_status o' = CANCELLED) \<and>
     (od_refunded_at o' \<noteq> None \<longleftrightarrow> od_status o' = REFUNDED) \<and>
     (od_status o' = PENDING \<longrightarrow> od_paid_at o' = None) \<and>
     (od_status o' \<in> {PAID, PACKED, SHIPPED, DELIVERED, REFUNDED} \<longrightarrow> od_paid_at o' \<noteq> None)"

definition totals_ok :: "order \<Rightarrow> order_item list \<Rightarrow> bool" where
  "totals_ok o' tbl \<longleftrightarrow>
     od_subtotal o' = sum_list (map oi_line_total (filter (\<lambda>r. oi_order r = pk o') tbl)) \<and>
     od_grand_total o' = od_subtotal o' - od_discount_total o' + od_shipping_total o' + od_tax_total o'"

definition orders_ok :: "shop \<Rightarrow> bool" where
  "orders_ok db \<longleftrightarrow>
     distinct_pks (orders db) \<and> distinct (map od_number (orders db)) \<and>
     (\<forall>r \<in> set (order_items db). oi_order r \<in> pk ` set (orders db) \<and> 0 < oi_quantity r) \<and>
     (\<forall>o' \<in> set (orders db). times_ok o' \<and> totals_ok o' (order_items db))"

text \<open>
  The part of the invariant the reservations rest on: every order item belongs to an order, and
  the ledger is sound.
\<close>

definition linked :: "shop \<Rightarrow> bool" where
  "linked db \<longleftrightarrow> distinct_pks (orders db) \<and>
     (\<forall>r \<in> set (order_items db). oi_order r \<in> pk ` set (orders db) \<and> 0 < oi_quantity r)"

text \<open>What the living pending orders have reserved.\<close>

definition pending_lines :: "order_item list \<Rightarrow> order \<Rightarrow> (nat \<times> int) list" where
  "pending_lines tbl o' =
     (if is_alive o' \<and> od_status o' = PENDING then lines_of (pk o') tbl else [])"

definition pending_demand :: "nat \<Rightarrow> shop \<Rightarrow> int" where
  "pending_demand v db =
     sum_list (map (\<lambda>o'. demand v (pending_lines (order_items db) o')) (orders db))"

definition shop_ok :: "shop \<Rightarrow> bool" where
  "shop_ok db \<longleftrightarrow> sound_inventory (stock_db db) \<and> carts_ok (cart_db db) \<and> orders_ok db"

definition ledger_ok :: "shop \<Rightarrow> bool" where
  "ledger_ok db \<longleftrightarrow> sound_inventory (stock_db db) \<and> linked db"

lemma orders_ok_linked: "orders_ok db \<Longrightarrow> linked db"
  by (simp add: orders_ok_def linked_def)

lemma shop_ok_ledger: "shop_ok db \<Longrightarrow> ledger_ok db"
  by (simp add: shop_ok_def ledger_ok_def orders_ok_linked)

definition reservations_match :: "shop \<Rightarrow> bool" where
  "reservations_match db \<longleftrightarrow> (\<forall>v. total_reserved v (stock_db db) = pending_demand v db)"

section \<open>Lemmas: checkout\<close>

lemma create_event_frame [simp]:
  "orders (create_event now o' cd msg actor db) = orders db"
  "order_items (create_event now o' cd msg actor db) = order_items db"
  "stock_db (create_event now o' cd msg actor db) = stock_db db"
  "cart_db (create_event now o' cd msg actor db) = cart_db db"
  "catalog_db (create_event now o' cd msg actor db) = catalog_db db"
  "coupon_tbl (create_event now o' cd msg actor db) = coupon_tbl db"
  by (simp_all add: create_event_def Let_def)

lemma new_order_simps [simp]:
  "pk (new_order now number usr cur p coupon sub k) = k"
  "od_number (new_order now number usr cur p coupon sub k) = number"
  "od_status (new_order now number usr cur p coupon sub k) = PENDING"
  "od_subtotal (new_order now number usr cur p coupon sub k) = sub"
  "is_alive (new_order now number usr cur p coupon sub k)"
  "times_ok (new_order now number usr cur p coupon sub k)"
  by (simp_all add: new_order_def Let_def is_alive_def times_ok_def)

lemma new_order_grand:
  "od_grand_total (new_order now number usr cur p coupon sub k) =
     od_subtotal (new_order now number usr cur p coupon sub k)
     - od_discount_total (new_order now number usr cur p coupon sub k)
     + od_shipping_total (new_order now number usr cur p coupon sub k)
     + od_tax_total (new_order now number usr cur p coupon sub k)"
  by (simp add: new_order_def Let_def)

text \<open>Everything a successful checkout did, whatever its statements saw.\<close>

lemma checkout_over_Inr:
  assumes "checkout_over now number c usr p seen0 seen1 seen2 db = Inr (o', db')"
  obtains coupon new where
    "items_of (pk c) (cart_db seen0) \<noteq> []"
    "find_coupon now (ck_coupon_code p) (coupon_tbl db) = Inr coupon"
    "o' = new_order now number usr (ct_currency c) p coupon (subtotal c (cart_db seen1)) (fresh_pk (orders db))"
    "order_fits o'" "number \<notin> od_number ` set (orders db)"
    "each_line (reserve_units now (uuid_str (pk o'))) (cart_lines (items_of (pk c) (cart_db seen2)))
       (stock_db db) = Inr (stock_db db')"
    "orders db' = orders db @ [o']" "order_items db' = order_items db @ new"
    "map oi_line_total new = map line_total (items_of (pk c) (cart_db seen2))"
    "lines_of (pk o') new = cart_lines (items_of (pk c) (cart_db seen2))"
    "list_all (\<lambda>r. oi_order r = pk o') new"
    "map oi_quantity new = map ci_quantity (items_of (pk c) (cart_db seen2))"
    "cart_db db' = clear_cart now c (cart_db db)" "catalog_db db' = catalog_db db"
    "coupon_tbl db' = (case coupon of None \<Rightarrow> coupon_tbl db | Some cp \<Rightarrow>
       save_row (pk cp) (\<lambda>r. r\<lparr>cp_used_count := cp_used_count cp + 1\<rparr>) (coupon_tbl db))"
proof -
  from assms obtain coupon stk tbl where
    a: "items_of (pk c) (cart_db seen0) \<noteq> []"
    "find_coupon now (ck_coupon_code p) (coupon_tbl db) = Inr coupon"
    "o' = new_order now number usr (ct_currency c) p coupon (subtotal c (cart_db seen1)) (fresh_pk (orders db))"
    "order_fits o'" "number \<notin> od_number ` set (orders db)"
    and w: "write_lines now (pk o') (catalog_db seen2) (items_of (pk c) (cart_db seen2)) (stock_db db)
         (order_items db) = Inr (stk, tbl)"
    and db': "orders db' = orders db @ [o']" "stock_db db' = stk" "order_items db' = tbl"
      "cart_db db' = clear_cart now c (cart_db db)" "catalog_db db' = catalog_db db"
      "coupon_tbl db' = (case coupon of None \<Rightarrow> coupon_tbl db | Some cp \<Rightarrow>
         save_row (pk cp) (\<lambda>r. r\<lparr>cp_used_count := cp_used_count cp + 1\<rparr>) (coupon_tbl db))"
    unfolding checkout_over_def
    by (auto simp: result_simps Let_def split: if_splits)
  from write_lines_Inr [OF w] obtain new where
    n: "each_line (reserve_units now (uuid_str (pk o'))) (cart_lines (items_of (pk c) (cart_db seen2)))
          (stock_db db) = Inr stk"
    "tbl = order_items db @ new" "map oi_line_total new = map line_total (items_of (pk c) (cart_db seen2))"
    "list_all (\<lambda>r. oi_order r = pk o' \<and> is_alive r \<and> fits12 (oi_line_total r)) new"
    "map (\<lambda>r. (the (oi_variant r), oi_quantity r)) new = cart_lines (items_of (pk c) (cart_db seen2))"
    "list_all (\<lambda>r. oi_variant r \<noteq> None) new" by blast
  have "lines_of (pk o') new = cart_lines (items_of (pk c) (cart_db seen2))"
    using lines_of_new [OF n(4,6)] n(5) by simp
  moreover have "list_all (\<lambda>r. oi_order r = pk o') new" using n(4) by (auto simp: list_all_iff)
  moreover have "map oi_quantity new = map ci_quantity (items_of (pk c) (cart_db seen2))"
    using arg_cong [OF n(5), of "map snd"] by (simp add: cart_lines_def comp_def)
  ultimately show ?thesis using a n db' by (intro that [of coupon new]) auto
qed

lemma create_order_Inr:
  assumes "create_order_from_cart now number c usr p db = Inr (o', db')"
  obtains coupon new where
    "items_of (pk c) (cart_db db) \<noteq> []"
    "find_coupon now (ck_coupon_code p) (coupon_tbl db) = Inr coupon"
    "o' = new_order now number usr (ct_currency c) p coupon (subtotal c (cart_db db)) (fresh_pk (orders db))"
    "order_fits o'" "number \<notin> od_number ` set (orders db)"
    "each_line (reserve_units now (uuid_str (pk o'))) (cart_lines (items_of (pk c) (cart_db db)))
       (stock_db db) = Inr (stock_db db')"
    "orders db' = orders db @ [o']" "order_items db' = order_items db @ new"
    "map oi_line_total new = map line_total (items_of (pk c) (cart_db db))"
    "lines_of (pk o') new = cart_lines (items_of (pk c) (cart_db db))"
    "list_all (\<lambda>r. oi_order r = pk o') new"
    "map oi_quantity new = map ci_quantity (items_of (pk c) (cart_db db))"
    "cart_db db' = clear_cart now c (cart_db db)" "catalog_db db' = catalog_db db"
    "coupon_tbl db' = (case coupon of None \<Rightarrow> coupon_tbl db | Some cp \<Rightarrow>
       save_row (pk cp) (\<lambda>r. r\<lparr>cp_used_count := cp_used_count cp + 1\<rparr>) (coupon_tbl db))"
  by (rule checkout_over_Inr [OF assms [unfolded create_order_is_checkout_over]]) (rule that)

lemma pending_lines_append_other:
  assumes "list_all (\<lambda>r. oi_order r = k) new" "pk o' \<noteq> k"
  shows "pending_lines (tbl @ new) o' = pending_lines tbl o'"
  using assms lines_of_other [of new "pk o'"] by (auto simp: pending_lines_def lines_of_append list_all_iff)

lemma fresh_pk_neq: "r \<in> set tbl \<Longrightarrow> pk r \<noteq> fresh_pk tbl"
  using fresh_pk_notin [of tbl] by (metis image_eqI)

lemma demand_cart_lines: "demand v (cart_lines (items_of c cs)) = quantity_of c cs v"
proof -
  have "demand v (cart_lines its) = sum_list (map ci_quantity (filter (\<lambda>it. ci_variant it = v) its))" for its
    by (induction its) (simp_all add: cart_lines_def)
  then show ?thesis by (simp add: quantity_of_def)
qed

lemma linked_no_lines_yet:
  assumes "linked db"
  shows "lines_of (fresh_pk (orders db)) (order_items db) = []"
proof (rule lines_of_other, rule ballI)
  fix r assume "r \<in> set (order_items db)"
  then have "oi_order r \<in> pk ` set (orders db)" using assms by (simp add: linked_def)
  then show "oi_order r \<noteq> fresh_pk (orders db)" using fresh_pk_notin [of "orders db"] by metis
qed

lemmas no_lines_yet = linked_no_lines_yet [OF orders_ok_linked]

text \<open>An order that is added with its items adds their demand.\<close>

lemma pending_demand_new_order:
  assumes "linked db" "orders db' = orders db @ [o']" "order_items db' = order_items db @ new"
    and k: "pk o' = fresh_pk (orders db)" "is_alive o'" "od_status o' = PENDING"
    and new: "list_all (\<lambda>r. oi_order r = pk o') new"
  shows "pending_demand v db' = pending_demand v db + demand v (lines_of (pk o') new)"
proof -
  have "pending_lines (order_items db @ new) x = pending_lines (order_items db) x"
    if "x \<in> set (orders db)" for x
    by (rule pending_lines_append_other [OF new]) (use k(1) fresh_pk_neq [OF that] in simp)
  then have "sum_list (map (\<lambda>x. demand v (pending_lines (order_items db @ new) x)) (orders db)) =
      pending_demand v db"
    unfolding pending_demand_def by (intro arg_cong [of _ _ sum_list] map_cong) auto
  moreover have "pending_lines (order_items db @ new) o' = lines_of (pk o') new"
    using k linked_no_lines_yet [OF assms(1)] by (simp add: pending_lines_def lines_of_append)
  ultimately show ?thesis using assms(2,3) by (simp add: pending_demand_def)
qed

lemma pending_demand_create:
  assumes "orders_ok db" "create_order_from_cart now number c usr p db = Inr (o', db')"
  shows "pending_demand v db' = pending_demand v db + demand v (cart_lines (items_of (pk c) (cart_db db)))"
  using assms(2)
proof (cases rule: create_order_Inr)
  case (1 coupon new)
  have "pk o' = fresh_pk (orders db)" "is_alive o'" "od_status o' = PENDING" using 1 by simp_all
  from pending_demand_new_order [OF orders_ok_linked [OF assms(1)] 1(7,8) this 1(11)] 1(10)
  show ?thesis by simp
qed

section \<open>Lemmas: transitions\<close>

lemma with_status_frame [simp]:
  "pk (with_status now new o') = pk o'" "od_number (with_status now new o') = od_number o'"
  "is_alive (with_status now new o') = is_alive o'" "od_status (with_status now new o') = new"
  "od_subtotal (with_status now new o') = od_subtotal o'"
  "od_user (with_status now new o') = od_user o'"
  "od_grand_total (with_status now new o') = od_grand_total o'"
  "od_discount_total (with_status now new o') = od_discount_total o'"
  "od_shipping_total (with_status now new o') = od_shipping_total o'"
  "od_tax_total (with_status now new o') = od_tax_total o'"
  by (simp_all add: with_status_def Let_def is_alive_def)

lemma with_status_times:
  "times_ok o' \<Longrightarrow> can_transition_to o' new \<Longrightarrow> times_ok (with_status now new o')"
  by (cases "od_status o'") (auto simp: times_ok_def can_transition_to_def with_status_def Let_def)

lemma transition_Inr:
  assumes "transition_status now k new actor msg db = Inr (o', db')"
  obtains o0 where "o0 \<in> set (orders db)" "pk o0 = k" "is_alive o0" "can_transition_to o0 new"
    "o' = with_status now new o0"
    "move_stock now new k (order_items db) (stock_db db) = Inr (stock_db db')"
    "orders db' = save_row k (with_status now new) (orders db)"
    "order_items db' = order_items db" "cart_db db' = cart_db db" "catalog_db db' = catalog_db db"
    "coupon_tbl db' = coupon_tbl db"
proof -
  from assms obtain o0 stk where
    "get_one ''Order'' (\<lambda>o'. pk o' = k) (orders db) = Inr o0" "can_transition_to o0 new"
    "move_stock now new (pk o0) (order_items db) (stock_db db) = Inr stk"
    "o' = with_status now new o0" "orders db' = save_row (pk o0) (with_status now new) (orders db)"
    "stock_db db' = stk" "order_items db' = order_items db" "cart_db db' = cart_db db"
    "catalog_db db' = catalog_db db" "coupon_tbl db' = coupon_tbl db"
    unfolding transition_status_def by (auto simp: result_simps Let_def split: if_splits)
  then show ?thesis using get_one_Inr [of _ _ "orders db" o0] by (intro that [of o0]) auto
qed

lemma linked_demand_transition:
  assumes "linked db" "transition_status now k new actor msg db = Inr (o', db')"
    and "o0 \<in> set (orders db)" "pk o0 = k"
  shows "pending_demand v db' = pending_demand v db - demand v (pending_lines (order_items db) o0)"
  using assms(2)
proof (cases rule: transition_Inr)
  case (1 o1)
  have d: "distinct_pks (orders db)" using assms(1) by (simp add: linked_def)
  have same: "o1 = o0" using row_unique [OF d 1(1) assms(3)] 1(2) assms(4) by simp
  have "new \<noteq> PENDING" using 1(4) never_back_to_pending by (auto simp: can_transition_to_def)
  then have "pending_lines (order_items db) (with_status now new o0) = []"
    by (simp add: pending_lines_def)
  with sum_save_row [OF d assms(3), of "\<lambda>x. demand v (pending_lines (order_items db) x)" "with_status now new"]
  show ?thesis using 1(7,8) assms(4) by (simp add: pending_demand_def)
qed

lemmas pending_demand_transition = linked_demand_transition [OF orders_ok_linked]

section \<open>Lemmas: every operation keeps the invariant\<close>

lemma each_line_keeps:
  assumes "\<And>v q s s'. P s \<Longrightarrow> f v q s = Inr s' \<Longrightarrow> P s'"
  shows "P s \<Longrightarrow> each_line f ls s = Inr s' \<Longrightarrow> P s'"
proof (induction ls arbitrary: s)
  case (Cons l ls)
  then show ?case by (cases l) (auto simp: result_simps dest: assms)
qed simp

lemma move_stock_sound:
  assumes "sound_inventory stk" "move_stock now new k tbl stk = Inr stk'"
  shows "sound_inventory stk'"
proof -
  have c: "sound_inventory t" if "sound_inventory s" "commit_sale now ref v q s = Inr t" for ref v q s t
    using commit_sale_keeps [of s now ref v q t] that by (simp add: sound_inventory_def)
  have r: "sound_inventory t" if "sound_inventory s" "release_reservation now ref v q s = Inr t" for ref v q s t
    using release_reservation_keeps [of s now ref v q t] that by (simp add: sound_inventory_def)
  show ?thesis
    using assms each_line_keeps [where P = sound_inventory, OF c]
      each_line_keeps [where P = sound_inventory, OF r]
    by (auto simp: move_stock_def split: if_splits)
qed

lemma items_positive: "carts_ok cs \<Longrightarrow> it \<in> set (items_of c cs) \<Longrightarrow> 0 < ci_quantity it"
  by (simp add: items_of_def items_ok_positive)

lemma totals_ok_append_other:
  "list_all (\<lambda>r. oi_order r = k) new \<Longrightarrow> pk o' \<noteq> k \<Longrightarrow> totals_ok o' (tbl @ new) = totals_ok o' tbl"
  by (simp add: totals_ok_def list_all_iff filter_empty_conv)

lemma no_items_yet:
  "orders_ok db \<Longrightarrow> filter (\<lambda>r. oi_order r = fresh_pk (orders db)) (order_items db) = []"
  unfolding orders_ok_def filter_empty_conv by (metis fresh_pk_notin)

lemma create_order_ok:
  assumes "shop_ok db" "create_order_from_cart now number c usr p db = Inr (o', db')"
  shows "shop_ok db'"
  using assms(2)
proof (cases rule: create_order_Inr)
  case (1 coupon new)
  have ok: "sound_inventory (stock_db db)" "carts_ok (cart_db db)" "orders_ok db"
    using assms(1) by (simp_all add: shop_ok_def)
  have k: "pk o' = fresh_pk (orders db)" "od_number o' = number" "times_ok o'"
    "od_subtotal o' = subtotal c (cart_db db)" using 1(3) by simp_all
  have all: "filter (\<lambda>r. oi_order r = pk o') new = new" using 1(11) by (simp add: list_all_iff)
  have "totals_ok o' (order_items db @ new)"
    using no_items_yet [OF ok(3)] all 1(9) k new_order_grand [of now number usr "ct_currency c" p coupon
        "subtotal c (cart_db db)" "fresh_pk (orders db)"] 1(3)
    by (simp add: totals_ok_def subtotal_def)
  moreover have "totals_ok x (order_items db @ new)" if "x \<in> set (orders db)" for x
    using totals_ok_append_other [OF 1(11)] fresh_pk_neq [OF that] k(1) ok(3) that
    by (simp add: orders_ok_def)
  moreover have "0 < oi_quantity r" if "r \<in> set new" for r
  proof -
    have "oi_quantity r \<in> set (map ci_quantity (items_of (pk c) (cart_db db)))"
      using that unfolding 1(12) [symmetric] by simp
    then show ?thesis using items_positive [OF ok(2)] by auto
  qed
  ultimately have "orders_ok db'"
    using ok(3) 1(5,7,8,11) k distinct_pks_append_fresh [of "orders db" o']
    by (auto simp: orders_ok_def list_all_iff)
  then show ?thesis
    using ledger.reserve_lines [OF ok(1) 1(6)] clear_cart_ok [OF ok(2)] 1(13) by (simp add: shop_ok_def)
qed

lemma ledger_transition_ok:
  assumes "ledger_ok db" "transition_status now k new actor msg db = Inr (o', db')"
  shows "ledger_ok db'"
  using assms(2)
proof (cases rule: transition_Inr)
  case (1 o0)
  have "map pk (orders db') = map pk (orders db)"
    using 1(7) by (simp add: save_row_def update_where_def)
  then have "distinct_pks (orders db') = distinct_pks (orders db)" "pk ` set (orders db') = pk ` set (orders db)"
    by (simp_all add: distinct_pks_def flip: set_map)
  with assms(1) 1(8) move_stock_sound [OF _ 1(6)] show ?thesis
    by (simp add: ledger_ok_def linked_def)
qed

lemma transition_ok:
  assumes "shop_ok db" "transition_status now k new actor msg db = Inr (o', db')"
  shows "shop_ok db'"
  using assms(2)
proof (cases rule: transition_Inr)
  case (1 o0)
  have ok: "orders_ok db" using assms(1) by (simp add: shop_ok_def)
  have one: "x = o0" if "x \<in> set (orders db)" "pk x = k" for x
    using row_unique [of "orders db" x o0] 1(1,2) that ok by (simp add: orders_ok_def)
  have num: "map od_number (save_row k (with_status now new) (orders db)) = map od_number (orders db)"
    "map pk (save_row k (with_status now new) (orders db)) = map pk (orders db)"
    by (simp_all add: save_row_def update_where_def)
  have rows: "times_ok x \<and> totals_ok x (order_items db)"
    if "x \<in> set (save_row k (with_status now new) (orders db))" for x
  proof -
    obtain y where y: "y \<in> set (orders db)" "x = (if pk y = k then with_status now new y else y)"
      using \<open>x \<in> set _\<close> by (auto simp: set_save_row)
    have "times_ok y" "totals_ok y (order_items db)" using ok y(1) by (simp_all add: orders_ok_def)
    with y one [of y] 1(4) with_status_times [of y new now] show ?thesis
      by (auto simp: totals_ok_def)
  qed
  have "pk ` set (save_row k (with_status now new) (orders db)) = pk ` set (orders db)"
    using arg_cong [OF num(2), of set] by simp
  then have "orders_ok db'"
    using ok rows num 1(7,8) by (simp add: orders_ok_def distinct_pks_def)
  then show ?thesis
    using assms(1) move_stock_sound [OF _ 1(6)] 1(9) by (simp add: shop_ok_def)
qed

section \<open>Reservations are the pending orders\<close>

lemma create_order_matches:
  assumes "shop_ok db" "reservations_match db" "create_order_from_cart now number c usr p db = Inr (o', db')"
  shows "reservations_match db'"
  using assms(3)
proof (cases rule: create_order_Inr)
  case (1 coupon new)
  have "sound_inventory (stock_db db)" using assms(1) by (simp add: shop_ok_def)
  from ledger.reserve_lines [OF this 1(6)] assms pending_demand_create [OF _ assms(3)]
  show ?thesis by (simp add: reservations_match_def shop_ok_def)
qed

text \<open>A pending order's lines are part of the reservations, so its demand is covered.\<close>

lemma linked_lines_positive:
  "linked db \<Longrightarrow> \<forall>(v, q) \<in> set (lines_of k (order_items db)). 0 \<le> q"
  by (fastforce simp: lines_of_def linked_def)

lemmas lines_of_positive = linked_lines_positive [OF orders_ok_linked]

lemma pending_lines_positive:
  "linked db \<Longrightarrow> \<forall>(v, q) \<in> set (pending_lines (order_items db) o'). 0 \<le> q"
  using linked_lines_positive [of db "pk o'"] by (simp add: pending_lines_def)

lemma member_le_sum_list:
  "x \<in> set xs \<Longrightarrow> (\<And>y. y \<in> set xs \<Longrightarrow> 0 \<le> f y) \<Longrightarrow> f x \<le> sum_list (map f xs)" for f :: "'a \<Rightarrow> int"
proof (induction xs)
  case (Cons y ys)
  have "0 \<le> sum_list (map f ys)" using Cons.prems(2) by (intro sum_list_nonneg) auto
  with Cons show ?case by fastforce
qed simp

lemma ledger_pending_covered:
  assumes "ledger_ok db" "reservations_match db" "o' \<in> set (orders db)" "is_alive o'" "od_status o' = PENDING"
  shows "demand v (lines_of (pk o') (order_items db)) \<le> total_reserved v (stock_db db)"
proof -
  have ok: "linked db" using assms(1) by (simp add: ledger_ok_def)
  have "demand v (pending_lines (order_items db) o') \<le> pending_demand v db"
    unfolding pending_demand_def
    by (rule member_le_sum_list [OF assms(3)]) (rule demand_nonneg [OF pending_lines_positive [OF ok]])
  with assms show ?thesis by (simp add: pending_lines_def reservations_match_def)
qed

text \<open>What the stock loop of a transition out of PENDING does.\<close>

lemma ledger_pending_move_stock:
  assumes "ledger_ok db" "reservations_match db" "o' \<in> set (orders db)" "is_alive o'" "od_status o' = PENDING"
    and "new \<in> {PAID, CANCELLED}"
  shows "\<exists>stk. move_stock now new (pk o') (order_items db) (stock_db db) = Inr stk \<and>
    (\<forall>v. total_reserved v stk = total_reserved v (stock_db db) - demand v (lines_of (pk o') (order_items db))) \<and>
    (\<forall>v. get_available v stk = get_available v (stock_db db) +
       (if new = CANCELLED then demand v (lines_of (pk o') (order_items db)) else 0))"
proof -
  have s: "sound_inventory (stock_db db)" and ok: "linked db" using assms(1) by (simp_all add: ledger_ok_def)
  have d: "\<forall>v. demand v (lines_of (pk o') (order_items db)) \<le> total_reserved v (stock_db db)"
    using ledger_pending_covered [OF assms(1-5)] by blast
  from ledger.commit_lines [OF s linked_lines_positive [OF ok] d, of now "uuid_str (pk o')"]
    ledger.release_lines [OF s linked_lines_positive [OF ok] d, of now "uuid_str (pk o')"] assms(6)
  show ?thesis by (auto simp: move_stock_def)
qed

lemma ledger_transition_matches:
  assumes "ledger_ok db" "reservations_match db" "transition_status now k new actor msg db = Inr (o', db')"
    and "o0 \<in> set (orders db)" "pk o0 = k" "new \<noteq> CANCELLED \<or> od_status o0 = PENDING"
  shows "reservations_match db'"
  using assms(3)
proof (cases rule: transition_Inr)
  case (1 o1)
  have ok: "linked db" using assms(1) by (simp add: ledger_ok_def)
  have same: "o1 = o0"
    using row_unique [of "orders db" o1 o0] 1(1,2) assms(4,5) ok by (simp add: linked_def)
  note pd = linked_demand_transition [OF ok assms(3) assms(4,5)]
  show ?thesis
  proof (cases "od_status o0 = PENDING")
    case True
    have "new \<in> {PAID, CANCELLED}" using 1(4) same True by (auto simp: can_transition_to_def)
    with ledger_pending_move_stock [OF assms(1,2) assms(4) _ True this, of now] 1(3,6) same assms(5) True
    have "\<forall>v. total_reserved v (stock_db db') =
        total_reserved v (stock_db db) - demand v (lines_of k (order_items db))" by auto
    with pd assms(2) True 1(3) same assms(5) show ?thesis
      by (simp add: reservations_match_def pending_lines_def)
  next
    case False
    then have "new \<noteq> PAID" "new \<noteq> CANCELLED"
      using 1(4) same assms(6) by (cases "od_status o0"; auto simp: can_transition_to_def)+
    then have "stock_db db' = stock_db db" using 1(6) by (simp add: move_stock_def)
    with pd assms(2) False show ?thesis by (simp add: reservations_match_def pending_lines_def)
  qed
qed

lemmas pending_covered = ledger_pending_covered [OF shop_ok_ledger]
lemmas pending_move_stock = ledger_pending_move_stock [OF shop_ok_ledger]
lemmas transition_matches = ledger_transition_matches [OF shop_ok_ledger]

text \<open>Adjusting stock does not touch reservations.\<close>

lemma adjust_stock_reserved:
  assumes "inventory_ok stk" "adjust_stock now fk v code delta txt stk = Inr (s', stk')"
  shows "total_reserved w stk' = total_reserved w stk"
  using assms(2)
proof (rule adjust_stock_Inr)
  fix wh s created tbl
  assume g: "get_or_create ''inventory_stock'' (\<lambda>s. st_variant s = v \<and> st_warehouse s = pk wh)
       ((\<exists>s \<in> set (stocks stk). st_variant s = v \<and> st_warehouse s = pk wh) \<or> \<not> fk v)
       (new_stock now v (pk wh)) (stocks stk) = Inr (s, created, tbl)"
    and stk': "stk' = create_movement now (pk s) delta ADJUSTMENT '''' txt
             (stk\<lparr>stocks := save_row (pk s) (\<lambda>r. r\<lparr>on_hand := on_hand s', updated_at := now\<rparr>) tbl\<rparr>)"
  have "total_reserved w stk' = total_reserved w (stk\<lparr>stocks := tbl\<rparr>)"
    using adjusted_table(1,4) [OF assms(1) g]
    by (cases "deleted_at s"; simp add: total_of_all_rows stk' sum_save_row is_alive_def)
  moreover have "total_reserved w (stk\<lparr>stocks := tbl\<rparr>) = total_reserved w stk"
    using g by (rule get_or_create_cases) (auto simp: total_of_all_rows)
  ultimately show ?thesis by simp
qed

section \<open>Histories of the shop\<close>

text \<open>
  One call that committed. \<open>late\<close> says whether cancelling an order that is no longer pending is
  among the calls.
\<close>

inductive shop_step :: "bool \<Rightarrow> shop \<Rightarrow> shop \<Rightarrow> bool" for late where
  checkout_step: "create_order_from_cart now number c usr p db = Inr (o', db') \<Longrightarrow> shop_step late db db'"
| status_step: "transition_status now k new actor msg db = Inr (o', db') \<Longrightarrow>
     o0 \<in> set (orders db) \<Longrightarrow> pk o0 = k \<Longrightarrow> late \<or> new \<noteq> CANCELLED \<or> od_status o0 = PENDING \<Longrightarrow>
     shop_step late db db'"
| restock_step: "adjust_stock now fk v code delta txt (stock_db db) = Inr (s, stk) \<Longrightarrow> 0 \<le> delta \<Longrightarrow>
     shop_step late db (db\<lparr>stock_db := stk\<rparr>)"
| cart_step: "run_cart_call now (catalog_db db) (stock_db db) call (cart_db db) = Inr cs \<Longrightarrow>
     shop_step late db (db\<lparr>cart_db := cs\<rparr>)"
| catalog_step: "shop_step late db (db\<lparr>catalog_db := cat\<rparr>)"

inductive shop_steps :: "bool \<Rightarrow> shop \<Rightarrow> shop \<Rightarrow> bool" for late where
  no_step: "shop_steps late db db"
| more_steps: "shop_steps late db mid \<Longrightarrow> shop_step late mid db' \<Longrightarrow> shop_steps late db db'"

inductive_cases shop_stepE: "shop_step late db db'"

lemma shop_step_ok:
  assumes "shop_step late db db'" "shop_ok db"
  shows "shop_ok db'"
  using assms
proof cases
  case (restock_step now fk v cd delta nt s stk)
  then show ?thesis
    using assms(2) adjust_stock_keeps(1,2) [of "stock_db db" now fk v cd delta nt s stk]
    by (simp add: shop_ok_def sound_inventory_def orders_ok_def)
next
  case (cart_step now call cs)
  then show ?thesis
    using assms(2) run_cart_call_ok by (auto simp: shop_ok_def orders_ok_def)
next
  case (catalog_step cat)
  then show ?thesis using assms(2) by (simp add: shop_ok_def orders_ok_def)
next
  case (checkout_step now number c usr p o')
  then show ?thesis using create_order_ok [OF assms(2)] by blast
next
  case (status_step now k new actor msg o' o0)
  then show ?thesis using transition_ok [OF assms(2)] by blast
qed

lemma shop_step_matches:
  assumes "shop_step False db db'" "shop_ok db" "reservations_match db"
  shows "reservations_match db'"
  using assms
proof cases
  case (restock_step now fk v cd delta nt s stk)
  then show ?thesis
    using assms(2,3) adjust_stock_reserved [of "stock_db db" now fk v cd delta nt s stk]
    by (simp add: shop_ok_def sound_inventory_def reservations_match_def pending_demand_def)
next
  case (status_step now k new actor msg o' o0)
  then show ?thesis using transition_matches [OF assms(2,3)] by blast
next
  case (checkout_step now number c usr p o')
  then show ?thesis using create_order_matches [OF assms(2,3)] by blast
qed (use assms(3) in \<open>simp_all add: reservations_match_def pending_demand_def\<close>)

lemma shop_steps_ok: "shop_steps late db db' \<Longrightarrow> shop_ok db \<Longrightarrow> shop_ok db'"
  by (induction rule: shop_steps.induct) (auto intro: shop_step_ok)

lemma shop_steps_matches:
  "shop_steps False db db' \<Longrightarrow> shop_ok db \<Longrightarrow> reservations_match db \<Longrightarrow> reservations_match db'"
  by (induction rule: shop_steps.induct) (auto intro: shop_step_matches shop_steps_ok)

lemma get_one_pk:
  assumes "distinct_pks tbl" "r \<in> set tbl" "is_alive r"
  shows "get_one m (\<lambda>x. pk x = pk r) tbl = Inr r"
proof -
  let ?F = "filter (\<lambda>x. pk x = pk r) (objects tbl)"
  have "r \<in> set ?F" using assms by simp
  moreover have "?F = [] \<or> (\<exists>x. ?F = [x])" by (rule filter_objects_unique [OF assms(1)]) simp
  ultimately have "?F = [r]" by (metis empty_iff empty_set set_ConsD)
  then show ?thesis by (simp add: get_one_def)
qed

lemma linked_transition_living:
  assumes "linked db" "o0 \<in> set (orders db)" "is_alive o0"
  shows "transition_status now (pk o0) new actor msg db =
    (if \<not> can_transition_to o0 new then Inl (CheckoutError (refused_message o0 new))
     else bindE (move_stock now new (pk o0) (order_items db) (stock_db db)) (\<lambda>stk.
       Inr (with_status now new o0, create_event now (with_status now new o0) (''status:'' @ status_value new)
              (if msg = '''' then ''Status changed to '' @ status_value new else msg) actor
              (db\<lparr>stock_db := stk, orders := save_row (pk o0) (with_status now new) (orders db)\<rparr>))))"
  using get_one_pk [of "orders db" o0 "''Order''"] assms
  by (simp add: transition_status_def linked_def Let_def)

lemmas transition_living = linked_transition_living [OF orders_ok_linked]

lemma ledger_pending_payable:
  assumes "ledger_ok db" "reservations_match db" "o0 \<in> set (orders db)" "is_alive o0"
    "od_status o0 = PENDING" "new \<in> {PAID, CANCELLED}"
  shows "is_ok (transition_status now (pk o0) new actor msg db)"
proof -
  have "linked db" using assms(1) by (simp add: ledger_ok_def)
  from linked_transition_living [OF this assms(3,4)] ledger_pending_move_stock [OF assms, of now] assms(5,6)
  show ?thesis by (auto simp: can_transition_to_def)
qed

lemmas pending_payable = ledger_pending_payable [OF shop_ok_ledger]

text \<open>A release gives back what is held, at most.\<close>

lemma release_held:
  assumes "sound_inventory s" "0 \<le> q" "release_reservation now ref v q s = Inr t"
  shows "sound_inventory t" "total_reserved w t = (if w = v then max 0 (total_reserved v s - q) else total_reserved w s)"
    "total_on_hand w t = total_on_hand w s"
proof -
  have ok: "inventory_ok s" using assms(1) by (simp add: sound_inventory_def)
  have "0 \<le> total_reserved v s" by (rule total_of_nonneg [OF ok]) (simp add: row_ok_def)
  note w = release_reservation_writes [OF ok assms(2,3)]
  from stock_writes_sound [OF w assms(1)] show "sound_inventory t" .
  show "total_reserved w t = (if w = v then max 0 (total_reserved v s - q) else total_reserved w s)"
    using stock_writes_reserved [OF w ok, of w] by auto
  show "total_on_hand w t = total_on_hand w s"
    using stock_writes_on_hand [OF w ok, of w] by simp
qed

lemma release_lines_held:
  assumes "sound_inventory s" "\<forall>(v, q) \<in> set ls. 0 \<le> q" "each_line (release_reservation now ref) ls s = Inr t"
  shows "total_reserved w t = max 0 (total_reserved w s - demand w ls) \<and> total_on_hand w t = total_on_hand w s"
  using assms
proof (induction ls arbitrary: s)
  case Nil
  have "0 \<le> total_reserved w s"
    by (rule total_of_nonneg) (use Nil in \<open>auto simp: sound_inventory_def row_ok_def\<close>)
  with Nil show ?case by simp
next
  case (Cons l ls)
  obtain v q where l: "l = (v, q)" by (cases l)
  from Cons.prems l obtain m where m: "release_reservation now ref v q s = Inr m"
    "each_line (release_reservation now ref) ls m = Inr t" and q: "0 \<le> q" "\<forall>(v, q) \<in> set ls. 0 \<le> q"
    by (auto simp: result_simps)
  note h = release_held [OF Cons.prems(1) q(1) m(1)]
  from Cons.IH [OF h(1) q(2) m(2)] h(2,3) [of w] demand_nonneg [OF q(2), of w] show ?case
    by (auto simp: l)
qed

text \<open>What later calls may do to an order: move its status along, never its amounts.\<close>

definition progressed :: "order \<Rightarrow> order \<Rightarrow> bool" where
  "progressed a b \<longleftrightarrow> pk b = pk a \<and> od_number b = od_number a \<and> od_user b = od_user a \<and>
     od_subtotal b = od_subtotal a \<and> od_grand_total b = od_grand_total a \<and>
     reaches (od_status a) (od_status b)"

lemma progressed_refl: "progressed a a"
  by (simp add: progressed_def reaches.here)

lemma progressed_trans: "progressed a b \<Longrightarrow> progressed b c \<Longrightarrow> progressed a c"
  unfolding progressed_def by (auto intro: reaches_trans)

lemma shop_step_progress:
  assumes "shop_step late db db'" "shop_ok db" "a \<in> set (orders db)"
  shows "\<exists>b \<in> set (orders db'). progressed a b"
  using assms(1)
proof cases
  case (checkout_step now number c usr p o')
  from checkout_step have "a \<in> set (orders db')"
    using assms(3) by (auto elim: create_order_Inr)
  then show ?thesis using progressed_refl by blast
next
  case (status_step now k new actor msg o' o0)
  from status_step(1) show ?thesis
  proof (cases rule: transition_Inr)
    case (1 o1)
    let ?f = "\<lambda>r. if pk r = k then with_status now new r else r"
    have "?f a \<in> set (orders db')" using assms(3) unfolding 1(7) set_save_row by (rule imageI)
    moreover have "progressed a (?f a)"
    proof (cases "pk a = k")
      case True
      have "orders_ok db" using assms(2) by (simp add: shop_ok_def)
      then have "a = o1" using row_unique [of "orders db" a o1] 1(1,2) True assms(3)
        by (simp add: orders_ok_def)
      with 1(4) show ?thesis
        by (auto simp: progressed_def can_transition_to_def intro: reaches.intros)
    qed (simp add: progressed_refl)
    ultimately show ?thesis by blast
  qed
qed (use assms(3) progressed_refl in auto)

lemma shop_steps_progress:
  "shop_steps late db db' \<Longrightarrow> shop_ok db \<Longrightarrow> a \<in> set (orders db) \<Longrightarrow>
   \<exists>b \<in> set (orders db'). progressed a b"
proof (induction rule: shop_steps.induct)
  case (more_steps db mid db')
  then obtain b where b: "b \<in> set (orders mid)" "progressed a b" by auto
  from shop_step_progress [OF more_steps.hyps(2) _ b(1)] shop_steps_ok [OF more_steps.hyps(1)]
    more_steps.prems(1) obtain c where "c \<in> set (orders db')" "progressed b c" by auto
  with b(2) show ?case using progressed_trans by blast
qed (use progressed_refl in blast)

text \<open>The number of uses of a coupon.\<close>

definition uses_ok :: "coupon list \<Rightarrow> bool" where
  "uses_ok tbl \<longleftrightarrow> distinct_pks tbl \<and> list_all (\<lambda>c. cp_max_uses c = 0 \<or> cp_used_count c \<le> cp_max_uses c) tbl"

lemma find_coupon_Inr:
  assumes "find_coupon now code tbl = Inr (Some c)"
  shows "c \<in> set tbl" "is_valid_now now c"
proof -
  have "get_coupon code tbl = Inr c \<and> is_valid_now now c"
    using assms unfolding find_coupon_def by (auto split: if_splits sum.splits py_error.splits)
  then show "c \<in> set tbl" "is_valid_now now c" using get_coupon_in by blast+
qed

lemma shop_step_uses:
  assumes "shop_step late db db'" "uses_ok (coupon_tbl db)"
  shows "uses_ok (coupon_tbl db')"
  using assms(1)
proof cases
  case (checkout_step now number c usr p o')
  from checkout_step show ?thesis
  proof (cases rule: create_order_Inr)
    case (1 coupon new)
    show ?thesis
    proof (cases coupon)
      case (Some cp)
      have cp: "cp \<in> set (coupon_tbl db)" "is_valid_now now cp"
        using find_coupon_Inr 1(2) Some by blast+
      then have lt: "cp_max_uses cp = 0 \<or> cp_used_count cp < cp_max_uses cp"
        by (auto simp: is_valid_now_def split: if_splits)
      have d: "distinct_pks (coupon_tbl db)" using assms(2) by (simp add: uses_ok_def)
      have "cp_max_uses r = 0 \<or> cp_used_count cp + 1 \<le> cp_max_uses r"
        if "r \<in> set (coupon_tbl db)" "pk r = pk cp" for r
        using row_unique [OF d that(1) cp(1) that(2)] lt by auto
      with assms(2) show ?thesis
        unfolding 1(15) Some option.case uses_ok_def
        by (intro conjI list_all_save_row distinct_pks_save_row) simp_all
    qed (use assms(2) 1 in simp)
  qed
next
  case (status_step now k new actor msg o' o0)
  from status_step(1) have "coupon_tbl db' = coupon_tbl db" by (cases rule: transition_Inr)
  with assms(2) show ?thesis by simp
qed (use assms(2) in simp_all)

lemma shop_steps_uses: "shop_steps late db db' \<Longrightarrow> uses_ok (coupon_tbl db) \<Longrightarrow> uses_ok (coupon_tbl db')"
  by (induction rule: shop_steps.induct) (auto intro: shop_step_uses)

section \<open>A concrete shop\<close>

definition demo_shop :: shop where
  "demo_shop =
     \<lparr>catalog_db = demo_catalog, stock_db = demo_ledger, coupon_tbl = [demo_coupon ''SALE10'' PERCENT 1000 None],
      cart_db = demo_carts, orders = [], order_items = [], order_events = [], broadcasts = []\<rparr>"

definition demo_checkout :: "string \<Rightarrow> checkout_input" where
  "demo_checkout code =
     \<lparr>ck_email = ''a@b.co'', ck_phone = ''1'', ck_shipping_address = JObj [(''city'', JStr ''Tashkent'')],
      ck_billing_address = JNull, ck_coupon_code = code, ck_shipping_method = ''standard'',
      ck_notes_customer = ''''\<rparr>"

text \<open>The demo ledger with nothing reserved, which is what no orders have reserved.\<close>

definition idle_shop :: shop where
  "idle_shop = demo_shop\<lparr>stock_db := demo_ledger\<lparr>stocks := [demo_stock 1 7 1 50 0 0, demo_stock 2 7 2 10 0 3]\<rparr>\<rparr>"

lemma idle_shop_ok: "shop_ok idle_shop"
  by code_simp

lemma idle_shop_matches: "reservations_match idle_shop"
  by (simp add: reservations_match_def pending_demand_def idle_shop_def demo_shop_def demo_ledger_def
      demo_stock_def total_of_def get_queryset_def)

lemma idle_checkout:
  "is_ok (create_order_from_cart 9 ''N1'' (demo_cart 1 (Some 5) '''') (Some 5) (demo_checkout ''sale10'') idle_shop)"
  by code_simp

section \<open>Properties\<close>

text \<open>
  C2. In every history of checkouts, status changes, restocking and cart calls in which only pending
  orders are cancelled, the units reserved of each variant are exactly the quantities of the
  living pending orders; hence every pending order can be paid and can be cancelled.
\<close>

theorem reservations_are_pending_orders:
  assumes "shop_ok db" "reservations_match db" "shop_steps False db db'"
  shows "shop_ok db' \<and> (\<forall>v. total_reserved v (stock_db db') = pending_demand v db') \<and>
    (\<forall>o' \<in> set (orders db'). is_alive o' \<longrightarrow> od_status o' = PENDING \<longrightarrow>
       (\<forall>now actor msg. is_ok (transition_status now (pk o') PAID actor msg db') \<and>
                        is_ok (transition_status now (pk o') CANCELLED actor msg db')))"
proof -
  have "shop_ok db'" "reservations_match db'"
    using shop_steps_ok [OF assms(3,1)] shop_steps_matches [OF assms(3,1,2)] .
  then show ?thesis using pending_payable by (auto simp: reservations_match_def)
qed

theorem reservations_are_pending_orders_witness:
  "\<exists>o' db'. create_order_from_cart 9 ''N1'' (demo_cart 1 (Some 5) '''') (Some 5) (demo_checkout ''sale10'')
       idle_shop = Inr (o', db') \<and> shop_ok db' \<and> total_reserved 7 (stock_db db') = pending_demand 7 db'"
proof -
  from idle_checkout obtain o' db' where c: "create_order_from_cart 9 ''N1'' (demo_cart 1 (Some 5) '''')
      (Some 5) (demo_checkout ''sale10'') idle_shop = Inr (o', db')"
    by (auto simp: is_ok_iff)
  have "shop_steps False idle_shop db'"
    by (rule more_steps [OF no_step]) (rule checkout_step [OF c])
  from reservations_are_pending_orders [OF idle_shop_ok idle_shop_matches this] c show ?thesis by blast
qed

text \<open>
  C1. A successful checkout turns the cart into a pending order: one item per cart line with its
  quantity, a grand total that is subtotal minus discount plus shipping and tax, stock
  reserved for exactly those lines, the cart emptied, and nothing of any other cart or variant
  touched.
\<close>

theorem checkout_exact:
  assumes "shop_ok db" "create_order_from_cart now number c usr p db = Inr (o', db')"
  shows "shop_ok db' \<and> orders db' = orders db @ [o'] \<and> od_status o' = PENDING \<and> od_number o' = number \<and>
    lines_of (pk o') (order_items db') = cart_lines (items_of (pk c) (cart_db db)) \<and>
    od_subtotal o' = subtotal c (cart_db db) \<and>
    od_grand_total o' = od_subtotal o' - od_discount_total o' + od_shipping_total o' + od_tax_total o' \<and>
    (\<forall>v. get_available v (stock_db db') = get_available v (stock_db db) - quantity_of (pk c) (cart_db db) v) \<and>
    (\<forall>v. total_reserved v (stock_db db') = total_reserved v (stock_db db) + quantity_of (pk c) (cart_db db) v) \<and>
    items_of (pk c) (cart_db db') = [] \<and>
    (\<forall>k. k \<noteq> pk c \<longrightarrow> quantity_of k (cart_db db') = quantity_of k (cart_db db))"
  using assms(2)
proof (cases rule: create_order_Inr)
  case (1 coupon new)
  have s: "sound_inventory (stock_db db)" and ok: "orders_ok db" using assms(1) by (simp_all add: shop_ok_def)
  have "lines_of (pk o') (order_items db') = cart_lines (items_of (pk c) (cart_db db))"
    using no_lines_yet [OF ok] 1(3,8,10) by (simp add: lines_of_append)
  moreover have "items_of (pk c) (cart_db db') = []"
    unfolding 1(13) clear_cart_def qs_delete_def items_of_def
    by (auto simp: filter_empty_conv table_simps qs_alive_def is_alive_def split: if_splits)
  moreover have "quantity_of k (cart_db db') = quantity_of k (cart_db db)" if "k \<noteq> pk c" for k
    using that 1(13) by (simp add: clear_cart_quantity fun_eq_iff)
  ultimately show ?thesis
    using ledger.reserve_lines [OF s 1(6)] create_order_ok [OF assms] 1(3,7) new_order_grand
    by (simp add: demand_cart_lines)
qed

theorem checkout_exact_witness:
  "shop_ok idle_shop \<and>
   (\<exists>o' db'. create_order_from_cart 9 ''N1'' (demo_cart 1 (Some 5) '''') (Some 5) (demo_checkout ''sale10'')
        idle_shop = Inr (o', db') \<and>
      get_available 7 (stock_db db') = get_available 7 (stock_db idle_shop) - quantity_of 1 (cart_db idle_shop) 7)"
proof -
  from idle_checkout obtain o' db' where c: "create_order_from_cart 9 ''N1'' (demo_cart 1 (Some 5) '''')
      (Some 5) (demo_checkout ''sale10'') idle_shop = Inr (o', db')"
    by (auto simp: is_ok_iff)
  have "pk (demo_cart 1 (Some 5) '''') = 1" by (simp add: demo_cart_def)
  with checkout_exact [OF idle_shop_ok c] c idle_shop_ok show ?thesis by auto
qed




definition demo_order :: "nat \<Rightarrow> order_status \<Rightarrow> order" where
  "demo_order k st =
     \<lparr>pk = k, created_at = 0, updated_at = 0, deleted_at = None, od_number = digits_of k,
      od_user = Some 5, od_email_snapshot = ''a@b.co'', od_phone_snapshot = '''', od_status = st,
      od_currency = ''USD'', od_subtotal = 3998, od_shipping_total = 999, od_tax_total = 0,
      od_discount_total = 0, od_grand_total = 4997, od_coupon_code = '''',
      od_shipping_address = JObj [], od_billing_address = JObj [], od_payment_provider = '''',
      od_payment_reference = '''', od_paid_at = (if st = PENDING then None else Some 1),
      od_cancelled_at = None, od_refunded_at = None,
      od_notes_internal = '''', od_notes_customer = '''', od_metadata = JObj []\<rparr>"

definition demo_line :: "nat \<Rightarrow> nat \<Rightarrow> nat \<Rightarrow> int \<Rightarrow> order_item" where
  "demo_line k ord v q =
     \<lparr>pk = k, created_at = 0, updated_at = 0, deleted_at = None, oi_order = ord, oi_variant = Some v,
      oi_sku = '''', oi_name_snapshot = '''', oi_attributes_snapshot = JObj [], oi_quantity = q,
      oi_unit_price = 1999, oi_line_total = 3998\<rparr>"

text \<open>Order 1 is paid (its two units have left), order 2 is pending and holds two units.\<close>

definition busy_shop :: shop where
  "busy_shop = idle_shop\<lparr>stock_db := demo_ledger\<lparr>stocks := [demo_stock 1 7 1 50 2 0]\<rparr>,
     orders := [demo_order 1 PAID, demo_order 2 PENDING],
     order_items := [demo_line 1 1 7 2, demo_line 2 2 7 2]\<rparr>"

lemma busy_shop_ok: "shop_ok busy_shop"
  by code_simp

lemma busy_shop_matches: "reservations_match busy_shop"
  by (auto simp: reservations_match_def pending_demand_def pending_lines_def lines_of_def busy_shop_def
      idle_shop_def demo_shop_def demo_ledger_def demo_stock_def total_of_def get_queryset_def
      demo_order_def demo_line_def is_alive_def)


text \<open>
  C9. \<open>transition_status\<close> on a living order refuses exactly the moves the table does not list, with
  the source's message; a listed move out of a status other than PENDING to one other than
  CANCELLED changes the order and no stock; and every accepted move appends one event naming the
  new status and broadcasts it to the order's group and, for an order with a user, to that user's.
\<close>

theorem transition_exact:
  assumes "orders_ok db" "o0 \<in> set (orders db)" "is_alive o0"
  shows "case transition_status now (pk o0) new actor msg db of
      Inl e \<Rightarrow>
        if can_transition_to o0 new
        then new \<in> {PAID, CANCELLED} \<and> move_stock now new (pk o0) (order_items db) (stock_db db) = Inl e
        else e = CheckoutError (refused_message o0 new)
    | Inr (o1, db') \<Rightarrow>
        can_transition_to o0 new \<and> o1 = with_status now new o0 \<and> o1 \<in> set (orders db') \<and>
        (\<forall>x \<in> set (orders db). pk x \<noteq> pk o0 \<longrightarrow> x \<in> set (orders db')) \<and>
        (new \<notin> {PAID, CANCELLED} \<longrightarrow> stock_db db' = stock_db db) \<and>
        (\<exists>ev. order_events db' = order_events db @ [ev] \<and> oe_order ev = pk o0 \<and>
              oe_code ev = ''status:'' @ status_value new \<and> oe_actor ev = actor \<and>
              broadcasts db' = broadcasts db @ (''order.'' @ uuid_str (pk o0), event_payload ev o1) #
                (case od_user o0 of None \<Rightarrow> [] | Some u \<Rightarrow> [(''user.'' @ uuid_str u, event_payload ev o1)]))"
proof (cases "can_transition_to o0 new")
  case False
  with transition_living [OF assms] show ?thesis by simp
next
  case True
  note t = transition_living [OF assms, of now new actor msg]
  show ?thesis
  proof (cases "move_stock now new (pk o0) (order_items db) (stock_db db)")
    case (Inl e)
    then have "new \<in> {PAID, CANCELLED}" by (auto simp: move_stock_def split: if_splits)
    with t True Inl show ?thesis by simp
  next
    case (Inr stk)
    let ?f = "\<lambda>r. if pk r = pk o0 then with_status now new r else r"
    have "?f x \<in> set (save_row (pk o0) (with_status now new) (orders db))" if "x \<in> set (orders db)" for x
      unfolding set_save_row using that by (rule imageI)
    from this [OF assms(2)] this
    have "with_status now new o0 \<in> set (save_row (pk o0) (with_status now new) (orders db))"
      "\<forall>x \<in> set (orders db). pk x \<noteq> pk o0 \<longrightarrow> x \<in> set (save_row (pk o0) (with_status now new) (orders db))"
      by (simp, fastforce)
    moreover have "new \<notin> {PAID, CANCELLED} \<longrightarrow> stk = stock_db db"
      using Inr by (auto simp: move_stock_def)
    ultimately show ?thesis
      using t True Inr by (simp add: create_event_def broadcast_order_event_def Let_def)
  qed
qed

theorem transition_exact_witness:
  "orders_ok busy_shop \<and> demo_order 2 PENDING \<in> set (orders busy_shop) \<and>
   transition_status 3 (pk (demo_order 2 PENDING)) SHIPPED None '''' busy_shop =
     Inl (CheckoutError (refused_message (demo_order 2 PENDING) SHIPPED))"
proof -
  have ok: "orders_ok busy_shop" using busy_shop_ok by (simp add: shop_ok_def)
  have m: "demo_order 2 PENDING \<in> set (orders busy_shop)" "is_alive (demo_order 2 PENDING)"
    "\<not> can_transition_to (demo_order 2 PENDING) SHIPPED"
    by (simp_all add: busy_shop_def demo_order_def is_alive_def can_transition_to_def)
  from transition_exact [OF ok m(1,2), where now = 3 and new = SHIPPED and actor = None and msg = "''''"] m(3) ok m(1) show ?thesis
    by (auto split: sum.splits)
qed

text \<open>
  C27. Cancelling a paid or packed order takes other orders' reservations: its own units have left
  the warehouse, so the release comes out of what pending orders hold. Nothing returns to the
  shelf, the pending demand is unchanged, and the reservations fall below it by the cancelled
  order's quantity (down to zero).
\<close>

theorem late_cancel_takes_foreign_reservations:
  assumes "shop_ok db" "reservations_match db" "o0 \<in> set (orders db)" "is_alive o0"
    and "od_status o0 \<in> {PAID, PACKED}" "transition_status now (pk o0) CANCELLED actor msg db = Inr (o1, db')"
  shows "total_on_hand v (stock_db db') = total_on_hand v (stock_db db) \<and>
    pending_demand v db' = pending_demand v db \<and>
    total_reserved v (stock_db db') =
      max 0 (pending_demand v db - demand v (lines_of (pk o0) (order_items db)))"
  using assms(6)
proof (cases rule: transition_Inr)
  case (1 x)
  have s: "sound_inventory (stock_db db)" and ok: "orders_ok db" using assms(1) by (simp_all add: shop_ok_def)
  have "each_line (release_reservation now (uuid_str (pk o0))) (lines_of (pk o0) (order_items db))
      (stock_db db) = Inr (stock_db db')"
    using 1(6) by (simp add: move_stock_def)
  from release_lines_held [OF s lines_of_positive [OF ok] this, of v]
    pending_demand_transition [OF ok assms(6,3) refl, of v] assms(2,5)
  show ?thesis by (auto simp: reservations_match_def pending_lines_def)
qed

theorem late_cancel_takes_foreign_reservations_witness:
  "\<exists>o1 db'. transition_status 3 1 CANCELLED None '''' busy_shop = Inr (o1, db') \<and>
     pending_demand 7 db' = pending_demand 7 busy_shop \<and>
     total_reserved 7 (stock_db db') = max 0 (pending_demand 7 busy_shop - 2)"
proof -
  have "is_ok (transition_status 3 1 CANCELLED None '''' busy_shop)" by code_simp
  then obtain o1 db' where t: "transition_status 3 1 CANCELLED None '''' busy_shop = Inr (o1, db')"
    by (auto simp: is_ok_iff)
  have a: "demo_order 1 PAID \<in> set (orders busy_shop)" "is_alive (demo_order 1 PAID)"
    "od_status (demo_order 1 PAID) \<in> {PAID, PACKED}" "pk (demo_order 1 PAID) = 1"
    by (simp_all add: busy_shop_def demo_order_def is_alive_def)
  have "demand 7 (lines_of 1 (order_items busy_shop)) = 2" by code_simp
  with late_cancel_takes_foreign_reservations [OF busy_shop_ok busy_shop_matches a(1-3), of 3 None "''''" o1 db' 7]
    t a(4) show ?thesis by auto
qed

text \<open>After it, the pending order that lost its units can no longer be paid.\<close>

lemma late_cancel_blocks_payment:
  "(case transition_status 3 1 CANCELLED None '''' busy_shop of Inl _ \<Rightarrow> False
    | Inr (_, db') \<Rightarrow> \<not> is_ok (transition_status 4 2 PAID None '''' db'))"
  by code_simp

text \<open>
  C28. The totals of an order stay in range: with coupons in the range of their help texts, a
  checkout of a cart with a non-negative subtotal has a discount between 0 and the subtotal, a
  shipping fee of 0, 9.99 or 19.99 (0 from 200.00 on), no tax, and a grand total between 0 and
  subtotal plus 19.99.
\<close>

theorem checkout_totals_in_range:
  assumes "create_order_from_cart now number c usr p db = Inr (o', db')"
    and "list_all coupon_in_range (coupon_tbl db)" "0 \<le> subtotal c (cart_db db)"
  shows "0 \<le> od_discount_total o' \<and> od_discount_total o' \<le> od_subtotal o' \<and>
    od_shipping_total o' \<in> {0, 999, 1999} \<and> od_tax_total o' = 0 \<and>
    (20000 \<le> od_subtotal o' - od_discount_total o' \<longrightarrow> od_shipping_total o' = 0) \<and>
    0 \<le> od_grand_total o' \<and> od_grand_total o' \<le> od_subtotal o' + 1999"
  using assms(1)
proof (cases rule: create_order_Inr)
  case (1 coupon new)
  let ?s = "subtotal c (cart_db db)"
  define d where "d = (case coupon of None \<Rightarrow> 0 | Some cp \<Rightarrow> calculate_discount cp ?s)"
  have d: "0 \<le> d \<and> d \<le> ?s"
  proof (cases coupon)
    case (Some cp)
    have "cp \<in> set (coupon_tbl db)" using find_coupon_Inr(1) 1(2) Some by blast
    then have "coupon_in_range cp" using assms(2) by (simp add: list_all_iff)
    with calculate_discount_bounds assms(3) Some show ?thesis by (simp add: d_def)
  qed (use assms(3) in \<open>simp add: d_def\<close>)
  have ship: "calculate_shipping m x \<in> {0, 999, 1999} \<and> (20000 \<le> x \<longrightarrow> calculate_shipping m x = 0)" for m x
    by (simp add: calculate_shipping_def split: option.splits)
  have "od_discount_total o' = d" "od_shipping_total o' = calculate_shipping (ck_shipping_method p) (?s - d)"
    "od_tax_total o' = 0" "od_subtotal o' = ?s" "od_grand_total o' = ?s - d + od_shipping_total o'"
    using 1(3) by (simp_all add: new_order_def d_def Let_def calculate_tax_def)
  with d ship [of "ck_shipping_method p" "?s - d"] show ?thesis by auto
qed

theorem checkout_totals_in_range_witness:
  "list_all coupon_in_range (coupon_tbl idle_shop) \<and>
   (\<exists>o' db'. create_order_from_cart 9 ''N1'' (demo_cart 1 (Some 5) '''') (Some 5) (demo_checkout ''sale10'')
        idle_shop = Inr (o', db') \<and> 0 \<le> od_grand_total o' \<and> od_grand_total o' \<le> od_subtotal o' + 1999)"
proof -
  from idle_checkout obtain o' db' where c: "create_order_from_cart 9 ''N1'' (demo_cart 1 (Some 5) '''')
      (Some 5) (demo_checkout ''sale10'') idle_shop = Inr (o', db')"
    by (auto simp: is_ok_iff)
  have r: "list_all coupon_in_range (coupon_tbl idle_shop)"
    "0 \<le> subtotal (demo_cart 1 (Some 5) '''') (cart_db idle_shop)" by code_simp+
  from checkout_totals_in_range [OF c r] c r show ?thesis by blast
qed

text \<open>
  A FREE_SHIPPING coupon changes nothing but its own counter: the order it is used on carries
  no discount and the same shipping fee and grand total as an order without a coupon.
\<close>

theorem free_shipping_has_no_effect:
  assumes "create_order_from_cart now number c usr p db = Inr (o', db')"
    and "find_coupon now (ck_coupon_code p) (coupon_tbl db) = Inr (Some cp)" "cp_kind cp = FREE_SHIPPING"
  shows "od_discount_total o' = 0 \<and>
    od_shipping_total o' = calculate_shipping (ck_shipping_method p) (subtotal c (cart_db db)) \<and>
    od_grand_total o' = od_grand_total (new_order now number usr (ct_currency c) p None
                          (subtotal c (cart_db db)) (fresh_pk (orders db)))"
  using assms(1)
proof (cases rule: create_order_Inr)
  case (1 coupon new)
  with assms(2,3) show ?thesis
    by (simp add: new_order_def calculate_discount_def Let_def)
qed

definition free_shop :: shop where
  "free_shop = idle_shop\<lparr>coupon_tbl := [demo_coupon ''SHIP'' FREE_SHIPPING 0 None]\<rparr>"

theorem free_shipping_has_no_effect_witness:
  "\<exists>o' db'. create_order_from_cart 9 ''N1'' (demo_cart 1 (Some 5) '''') (Some 5) (demo_checkout ''ship'')
        free_shop = Inr (o', db') \<and> od_shipping_total o' = 999"
proof -
  have "is_ok (create_order_from_cart 9 ''N1'' (demo_cart 1 (Some 5) '''') (Some 5) (demo_checkout ''ship'') free_shop)"
    by code_simp
  then obtain o' db' where c: "create_order_from_cart 9 ''N1'' (demo_cart 1 (Some 5) '''') (Some 5)
      (demo_checkout ''ship'') free_shop = Inr (o', db')"
    by (auto simp: is_ok_iff)
  have f: "find_coupon 9 (ck_coupon_code (demo_checkout ''ship'')) (coupon_tbl free_shop) =
      Inr (Some (demo_coupon ''SHIP'' FREE_SHIPPING 0 None))" by code_simp
  have k: "cp_kind (demo_coupon ''SHIP'' FREE_SHIPPING 0 None) = FREE_SHIPPING" by code_simp
  have "calculate_shipping (ck_shipping_method (demo_checkout ''ship''))
      (subtotal (demo_cart 1 (Some 5) '''') (cart_db free_shop)) = 999" by code_simp
  with free_shipping_has_no_effect [OF c f k] c show ?thesis by auto
qed

text \<open>
  No history uses a coupon more often than its \<open>max_uses\<close> (when that is not zero).
\<close>

theorem coupon_uses_bounded:
  assumes "shop_steps late db db'" "uses_ok (coupon_tbl db)"
  shows "\<forall>c \<in> set (coupon_tbl db'). cp_max_uses c = 0 \<or> cp_used_count c \<le> cp_max_uses c"
  using shop_steps_uses [OF assms] by (simp add: uses_ok_def list_all_iff)

theorem coupon_uses_bounded_witness:
  "\<exists>o' db'. create_order_from_cart 9 ''N1'' (demo_cart 1 (Some 5) '''') (Some 5) (demo_checkout ''sale10'')
       idle_shop = Inr (o', db') \<and>
     (\<forall>c \<in> set (coupon_tbl db'). cp_max_uses c = 0 \<or> cp_used_count c \<le> cp_max_uses c)"
proof -
  from idle_checkout obtain o' db' where c: "create_order_from_cart 9 ''N1'' (demo_cart 1 (Some 5) '''')
      (Some 5) (demo_checkout ''sale10'') idle_shop = Inr (o', db')"
    by (auto simp: is_ok_iff)
  have s: "shop_steps False idle_shop db'" by (rule more_steps [OF no_step]) (rule checkout_step [OF c])
  have "uses_ok (coupon_tbl idle_shop)" by code_simp
  from coupon_uses_bounded [OF s this] c show ?thesis by blast
qed

end
