(* ===== verification/Providers.thy ===== *)
theory Providers
  imports Uuid
begin

text \<open>
  \<open>django_app/apps/payments/providers\<close>: the five payment providers, what each asks of its service
  and how it reads a callback, and the registry. Hashes, base64, \<open>json.loads\<close>, \<open>parse_qs\<close>, the
  Stripe SDK and HTTP are parameters (\<open>provider_env\<close>); the settings are the record
  \<open>provider_settings\<close>, where an unset one is the empty string. The contract the payment services
  rely on is the locale \<open>payment_provider\<close>, interpreted for each provider.
\<close>

section \<open>Values exchanged with providers\<close>

record charge_intent =
  ci_order_id :: string
  ci_order_number :: string
  ci_amount :: int
  ci_currency :: string
  ci_customer_email :: string
  ci_success_url :: string
  ci_cancel_url :: string
  ci_metadata :: json

record charge_result =
  cr_success :: bool
  cr_provider_reference :: string
  cr_redirect_url :: string
  cr_intent_id :: string
  cr_raw :: json
  cr_error :: string

record webhook_result =
  wr_accepted :: bool
  wr_event_type :: json
  wr_order_id :: json
  wr_payment_reference :: json
  wr_new_status :: string
  wr_raw :: json
  wr_error :: string

definition charge_failed :: "string \<Rightarrow> charge_result" where
  "charge_failed e =
     \<lparr>cr_success = False, cr_provider_reference = '''', cr_redirect_url = '''', cr_intent_id = '''',
      cr_raw = JObj [], cr_error = e\<rparr>"

definition webhook_refused :: "string \<Rightarrow> json \<Rightarrow> webhook_result" where
  "webhook_refused e raw =
     \<lparr>wr_accepted = False, wr_event_type = JStr '''', wr_order_id = JStr '''',
      wr_payment_reference = JStr '''', wr_new_status = '''', wr_raw = raw, wr_error = e\<rparr>"

text \<open>\<open>json.loads\<close> of the body: \<open>JSONDecodeError\<close> is caught by the providers, bad UTF-8 is not.\<close>

datatype loads_result = Loaded json | JSONDecodeError string | UnicodeDecodeError string

text \<open>A reply is the status and the decoded body, or the text of the decoding error.\<close>

datatype http_result = HTTPError string | Reply int "string + json"

record provider_env =
  md5_hex :: "string \<Rightarrow> string"
  b64encode :: "string \<Rightarrow> string"
  b64decode :: "string \<Rightarrow> string option"
  json_loads :: "string \<Rightarrow> loads_result"
  parse_qs :: "string \<Rightarrow> (string \<times> string list) list"
  http_post :: "string \<Rightarrow> json \<Rightarrow> http_result"
  stripe_sdk :: bool
  stripe_session :: "json \<Rightarrow> string + (string \<times> string \<times> string \<times> json)"
  stripe_event :: "string \<Rightarrow> string \<Rightarrow> string \<Rightarrow> string + (bool \<times> json)"
  json_str :: "json \<Rightarrow> string"

record provider_settings =
  STRIPE_API_KEY :: string
  STRIPE_WEBHOOK_SECRET :: string
  PAYPAL_CLIENT_ID :: string
  PAYPAL_CLIENT_SECRET :: string
  PAYPAL_MODE :: string
  CLICK_SERVICE_ID :: string
  CLICK_MERCHANT_ID :: string
  CLICK_SECRET_KEY :: string
  PAYME_MERCHANT_ID :: string
  PAYME_SECRET_KEY :: string

type_synonym headers = "(string \<times> string) list"

text \<open>\<open>headers.get(a) or headers.get(b, "")\<close>.\<close>

definition header :: "string \<Rightarrow> string \<Rightarrow> headers \<Rightarrow> string" where
  "header a b hs =
     (let fallback = (case map_of hs b of None \<Rightarrow> '''' | Some v \<Rightarrow> v) in
      case map_of hs a of None \<Rightarrow> fallback | Some v \<Rightarrow> if v = '''' then fallback else v)"

text \<open>\<open>json.loads(body or b"{}")\<close>.\<close>

definition load_body :: "provider_env \<Rightarrow> string \<Rightarrow> loads_result" where
  "load_body env body = (if body = '''' then Loaded (JObj []) else json_loads env body)"

text \<open>\<open>BasePaymentProvider.refund\<close>, which all providers but PayPal inherit.\<close>

definition base_refund :: "string \<Rightarrow> int \<Rightarrow> py_error + json" where
  "base_refund provider_reference amount = Inl NotImplementedError"

section \<open>Manual\<close>

definition manual_create_charge :: "charge_intent \<Rightarrow> py_error + charge_result" where
  "manual_create_charge i =
     Inr \<lparr>cr_success = True, cr_provider_reference = ''manual:'' @ ci_order_id i, cr_redirect_url = '''',
          cr_intent_id = '''', cr_raw = JObj [], cr_error = ''''\<rparr>"

definition manual_parse_webhook :: "headers \<Rightarrow> string \<Rightarrow> py_error + webhook_result" where
  "manual_parse_webhook hs body = Inr (webhook_refused ''no webhook for manual provider'' (JObj []))"

section \<open>Click\<close>

definition click_create_charge :: "provider_settings \<Rightarrow> charge_intent \<Rightarrow> py_error + charge_result" where
  "click_create_charge cfg i =
     (if CLICK_SERVICE_ID cfg = '''' then Inr (charge_failed ''click not configured'')
      else Inr \<lparr>cr_success = True, cr_provider_reference = ci_order_number i,
                cr_redirect_url =
                  ''https://my.click.uz/services/pay'' @
                  ''?service_id='' @ CLICK_SERVICE_ID cfg @ ''&merchant_id='' @ CLICK_MERCHANT_ID cfg @
                  ''&amount='' @ str_money (ci_amount i) @ ''&transaction_param='' @ ci_order_number i @
                  ''&return_url='' @ ci_success_url i,
                cr_intent_id = '''', cr_raw = JObj [], cr_error = ''''\<rparr>)"

definition param :: "string \<Rightarrow> string \<Rightarrow> (string \<times> string) list \<Rightarrow> string" where
  "param key dflt p = (case map_of p key of None \<Rightarrow> dflt | Some v \<Rightarrow> v)"

definition expected_sign :: "provider_env \<Rightarrow> provider_settings \<Rightarrow> (string \<times> string) list \<Rightarrow> int \<Rightarrow> string" where
  "expected_sign env cfg p act =
     md5_hex env (concat (
       [param ''click_trans_id'' '''' p, param ''service_id'' '''' p, CLICK_SECRET_KEY cfg,
        param ''merchant_trans_id'' '''' p] @
       (if act = 1 then [param ''merchant_prepare_id'' '''' p] else []) @
       [param ''amount'' '''' p, str_int act, param ''sign_time'' '''' p]))"

text \<open>
  \<open>int(text)\<close> for ASCII text: surrounding spaces, a sign, digits with single underscores between
  them; \<open>None\<close> is the \<open>ValueError\<close>.
\<close>

fun int_digits :: "bool \<Rightarrow> nat \<Rightarrow> string \<Rightarrow> nat option" where
  "int_digits after_digit acc [] = (if after_digit then Some acc else None)"
| "int_digits after_digit acc (c # cs) =
     (let k = (of_char c :: nat) in
      if 48 \<le> k \<and> k \<le> 57 then int_digits True (10 * acc + (k - 48)) cs
      else if c = CHR ''_'' \<and> after_digit then int_digits False acc cs
      else None)"

definition ascii_space :: "char \<Rightarrow> bool" where
  "ascii_space c \<longleftrightarrow> (let k = (of_char c :: nat) in k = 32 \<or> (9 \<le> k \<and> k \<le> 13) \<or> (28 \<le> k \<and> k \<le> 31))"

definition py_int :: "string \<Rightarrow> int option" where
  "py_int text =
     (case rev (dropWhile ascii_space (rev (dropWhile ascii_space text))) of
        [] \<Rightarrow> None
      | c # cs \<Rightarrow>
          if c = CHR ''-'' then map_option (\<lambda>n. - int n) (int_digits False 0 cs)
          else if c = CHR ''+'' then map_option int (int_digits False 0 cs)
          else map_option int (int_digits False 0 (c # cs)))"

definition click_parse_webhook ::
  "provider_env \<Rightarrow> provider_settings \<Rightarrow> headers \<Rightarrow> string \<Rightarrow> py_error + webhook_result" where
  "click_parse_webhook env cfg hs body =
     (let params = map (\<lambda>(k, v). (k, hd v)) (parse_qs env body) in
      case py_int (param ''action'' ''0'' params) of
        None \<Rightarrow> Inr (webhook_refused ''bad action'' (JObj []))
      | Some act \<Rightarrow>
          let raw = JObj (map (\<lambda>(k, v). (k, JStr v)) params) in
          if lower (expected_sign env cfg params act) \<noteq> lower (param ''sign_string'' '''' params)
          then Inr (webhook_refused ''signature mismatch'' raw)
          else Inr \<lparr>wr_accepted = True, wr_event_type = JStr (''click.action.'' @ str_int act),
                    wr_order_id = JStr '''',
                    wr_payment_reference = JStr (param ''merchant_trans_id'' '''' params),
                    wr_new_status = (if act = 0 then ''authorized'' else if act = 1 then ''captured'' else ''''),
                    wr_raw = raw, wr_error = ''''\<rparr>)"

section \<open>Payme\<close>

definition payme_create_charge ::
  "provider_env \<Rightarrow> provider_settings \<Rightarrow> charge_intent \<Rightarrow> py_error + charge_result" where
  "payme_create_charge env cfg i =
     (if PAYME_MERCHANT_ID cfg = '''' then Inr (charge_failed ''payme not configured'')
      else
        let params = ''m='' @ PAYME_MERCHANT_ID cfg @ '';'' @ ''ac.order_id='' @ ci_order_id i @ '';'' @
                     ''a='' @ str_int (ci_amount i) @ '';'' @ ''l=en'' in
        Inr \<lparr>cr_success = True, cr_provider_reference = ci_order_id i,
             cr_redirect_url = ''https://checkout.paycom.uz/'' @ b64encode env params,
             cr_intent_id = '''', cr_raw = JObj [], cr_error = ''''\<rparr>)"

definition before_colon :: "string \<Rightarrow> string" where
  "before_colon s = takeWhile (\<lambda>c. c \<noteq> CHR '':'') s"

definition after_colon :: "string \<Rightarrow> string" where
  "after_colon s = drop 1 (dropWhile (\<lambda>c. c \<noteq> CHR '':'') s)"

definition verify_basic_auth :: "provider_env \<Rightarrow> provider_settings \<Rightarrow> headers \<Rightarrow> bool" where
  "verify_basic_auth env cfg hs =
     (let auth = header ''Authorization'' ''authorization'' hs in
      if \<not> startswith ''basic '' (lower auth) then False
      else case b64decode env (drop 1 (dropWhile (\<lambda>c. c \<noteq> CHR '' '') auth)) of
             None \<Rightarrow> False
           | Some decoded \<Rightarrow> before_colon decoded = ''Paycom'' \<and> after_colon decoded = PAYME_SECRET_KEY cfg)"

definition payme_status :: "json \<Rightarrow> string" where
  "payme_status meth =
     (if meth = JStr ''PerformTransaction'' then ''captured''
      else if meth = JStr ''CreateTransaction'' then ''authorized''
      else if meth = JStr ''CancelTransaction'' then ''cancelled'' else '''')"

definition payme_parse_webhook ::
  "provider_env \<Rightarrow> provider_settings \<Rightarrow> headers \<Rightarrow> string \<Rightarrow> py_error + webhook_result" where
  "payme_parse_webhook env cfg hs body =
     (if \<not> verify_basic_auth env cfg hs then Inr (webhook_refused ''basic auth failed'' (JObj []))
      else case load_body env body of
        JSONDecodeError e \<Rightarrow> Inr (webhook_refused e (JObj []))
      | UnicodeDecodeError e \<Rightarrow> Inl (ValueError e)
      | Loaded payload \<Rightarrow>
          bindE (json_get payload ''method'' (JStr '''')) (\<lambda>meth.
          bindE (json_get payload ''params'' (JObj [])) (\<lambda>params.
          bindE (json_get params ''account'' JNull) (\<lambda>account.
          bindE (json_get (json_or account (JObj [])) ''order_id'' (JStr '''')) (\<lambda>order_id.
          bindE (json_get params ''id'' (JStr '''')) (\<lambda>ref.
            Inr \<lparr>wr_accepted = True, wr_event_type = meth, wr_order_id = order_id,
                 wr_payment_reference = ref, wr_new_status = payme_status meth, wr_raw = payload,
                 wr_error = ''''\<rparr>))))))"

section \<open>PayPal\<close>

definition paypal_base :: "provider_settings \<Rightarrow> string" where
  "paypal_base cfg =
     (if lower (if PAYPAL_MODE cfg = '''' then ''sandbox'' else PAYPAL_MODE cfg) = ''live''
      then ''https://api-m.paypal.com'' else ''https://api-m.sandbox.paypal.com'')"

text \<open>
  \<open>_token\<close>: \<open>Inl (Inl e)\<close> is an \<open>httpx.HTTPError\<close> with its text, which \<open>create_charge\<close>
  catches; \<open>Inl (Inr e)\<close> is any other exception. \<open>status_error\<close> is httpx's text for a status that is
  not 2xx.
\<close>

definition paypal_token ::
  "provider_env \<Rightarrow> (int \<Rightarrow> string) \<Rightarrow> provider_settings \<Rightarrow> (string + py_error) + json" where
  "paypal_token env status_error cfg =
     (case http_post env (paypal_base cfg @ ''/v1/oauth2/token'')
             (JObj [(''auth'', JList [JStr (PAYPAL_CLIENT_ID cfg), JStr (PAYPAL_CLIENT_SECRET cfg)]),
                    (''data'', JObj [(''grant_type'', JStr ''client_credentials'')])]) of
        HTTPError e \<Rightarrow> Inl (Inl e)
      | Reply st rbody \<Rightarrow>
          if st < 200 \<or> 300 \<le> st then Inl (Inl (status_error st))
          else case rbody of
                 Inl e \<Rightarrow> Inl (Inr (ValueError e))
               | Inr j \<Rightarrow> (case json_item j ''access_token'' of Inl e \<Rightarrow> Inl (Inr e) | Inr tok \<Rightarrow> Inr tok))"

definition paypal_order_body :: "charge_intent \<Rightarrow> json" where
  "paypal_order_body i =
     JObj [(''intent'', JStr ''CAPTURE''),
           (''purchase_units'', JList [JObj
              [(''reference_id'', JStr (ci_order_id i)),
               (''description'', JStr (''Order '' @ ci_order_number i)),
               (''amount'', JObj [(''currency_code'', JStr (ci_currency i)),
                                  (''value'', JStr (str_money (ci_amount i)))])]]),
           (''application_context'', JObj [(''return_url'', JStr (ci_success_url i)),
                                           (''cancel_url'', JStr (ci_cancel_url i))])]"

text \<open>The first link whose \<open>rel\<close> is \<open>approve\<close>.\<close>

fun approve_link :: "json list \<Rightarrow> py_error + json" where
  "approve_link [] = Inr (JStr '''')"
| "approve_link (lk # lks) =
     bindE (json_get lk ''rel'' JNull) (\<lambda>rel.
       if rel = JStr ''approve'' then json_item lk ''href'' else approve_link lks)"

text \<open>A JSON value stored in a character column is its text.\<close>

definition paypal_create_charge ::
  "provider_env \<Rightarrow> (int \<Rightarrow> string) \<Rightarrow> provider_settings \<Rightarrow> charge_intent \<Rightarrow> py_error + charge_result" where
  "paypal_create_charge env status_error cfg i =
     (if PAYPAL_CLIENT_ID cfg = '''' \<or> PAYPAL_CLIENT_SECRET cfg = ''''
      then Inr (charge_failed ''paypal not configured'')
      else case paypal_token env status_error cfg of
        Inl (Inl e) \<Rightarrow> Inr (charge_failed (''paypal auth: '' @ e))
      | Inl (Inr e) \<Rightarrow> Inl e
      | Inr tok \<Rightarrow>
          (case http_post env (paypal_base cfg @ ''/v2/checkout/orders'')
                  (JObj [(''headers'', JObj [(''Authorization'', JStr (''Bearer '' @ py_str (json_str env) tok)),
                                             (''Content-Type'', JStr ''application/json'')]),
                         (''json'', paypal_order_body i)]) of
             HTTPError e \<Rightarrow> Inl (TransportError e)
           | Reply st (Inl e) \<Rightarrow> Inl (ValueError e)
           | Reply st (Inr data) \<Rightarrow>
               if 400 \<le> st
               then Inr ((charge_failed (py_str (json_str env) data))\<lparr>cr_raw := data\<rparr>)
               else
                 bindE (json_get data ''links'' (JList [])) (\<lambda>links.
                 bindE (json_iter links) (\<lambda>lks.
                 bindE (approve_link lks) (\<lambda>approve.
                 bindE (json_get data ''id'' (JStr '''')) (\<lambda>ref.
                   Inr \<lparr>cr_success = True, cr_provider_reference = py_str (json_str env) ref,
                        cr_redirect_url = py_str (json_str env) approve, cr_intent_id = '''',
                        cr_raw = data, cr_error = ''''\<rparr>))))))"

text \<open>
  \<open>refund\<close>: neither PayPal's error of the token request nor a status that is not 2xx of the refund
  itself is caught or looked at; the caller gets whatever JSON came back.
\<close>

definition paypal_refund ::
  "provider_env \<Rightarrow> (int \<Rightarrow> string) \<Rightarrow> provider_settings \<Rightarrow> string \<Rightarrow> int \<Rightarrow> py_error + json" where
  "paypal_refund env status_error cfg provider_reference amount =
     (case paypal_token env status_error cfg of
        Inl (Inl e) \<Rightarrow> Inl (TransportError e)
      | Inl (Inr e) \<Rightarrow> Inl e
      | Inr tok \<Rightarrow>
          (case http_post env (paypal_base cfg @ ''/v2/payments/captures/'' @ provider_reference @ ''/refund'')
                  (JObj [(''headers'', JObj [(''Authorization'', JStr (''Bearer '' @ py_str (json_str env) tok)),
                                             (''Content-Type'', JStr ''application/json'')]),
                         (''json'', JObj [(''amount'', JObj [(''value'', JStr (str_money amount)),
                                                             (''currency_code'', JStr ''USD'')])])]) of
             HTTPError e \<Rightarrow> Inl (TransportError e)
           | Reply st (Inl e) \<Rightarrow> Inl (ValueError e)
           | Reply st (Inr data) \<Rightarrow> Inr data))"

fun first_reference :: "json list \<Rightarrow> py_error + json" where
  "first_reference [] = Inr (JStr '''')"
| "first_reference (pu # pus) =
     bindE (json_get pu ''reference_id'' JNull) (\<lambda>r. if truthy r then Inr r else first_reference pus)"

definition paypal_status :: "json \<Rightarrow> py_error + string" where
  "paypal_status etype =
     bindE (json_in etype [''PAYMENT.CAPTURE.COMPLETED'', ''CHECKOUT.ORDER.APPROVED'']) (\<lambda>a.
       if a then Inr ''captured'' else
     bindE (json_in etype [''PAYMENT.CAPTURE.DENIED'', ''PAYMENT.CAPTURE.REVERSED'']) (\<lambda>b.
       if b then Inr ''failed'' else
     bindE (json_in etype [''PAYMENT.CAPTURE.REFUNDED'']) (\<lambda>c.
       if c then Inr ''refunded'' else Inr '''')))"

definition paypal_parse_webhook ::
  "provider_env \<Rightarrow> provider_settings \<Rightarrow> headers \<Rightarrow> string \<Rightarrow> py_error + webhook_result" where
  "paypal_parse_webhook env cfg hs body =
     (if PAYPAL_CLIENT_ID cfg = '''' then Inr (webhook_refused ''paypal not configured'' (JObj []))
      else case load_body env body of
        JSONDecodeError e \<Rightarrow> Inr (webhook_refused e (JObj []))
      | UnicodeDecodeError e \<Rightarrow> Inl (ValueError e)
      | Loaded payload \<Rightarrow>
          bindE (json_get payload ''event_type'' (JStr '''')) (\<lambda>etype.
          bindE (json_get payload ''resource'' (JObj [])) (\<lambda>resource0.
          (let resource = json_or resource0 (JObj []) in
          bindE (json_get resource ''id'' (JStr '''')) (\<lambda>ref.
          bindE (json_get resource ''purchase_units'' (JList [])) (\<lambda>units.
          bindE (json_iter (json_or units (JList []))) (\<lambda>pus.
          bindE (first_reference pus) (\<lambda>order_id.
          bindE (paypal_status etype) (\<lambda>new_status.
            Inr \<lparr>wr_accepted = True, wr_event_type = etype, wr_order_id = order_id,
                 wr_payment_reference = ref, wr_new_status = new_status, wr_raw = payload,
                 wr_error = ''''\<rparr>))))))))) "

section \<open>Stripe\<close>

definition stripe_request :: "charge_intent \<Rightarrow> json" where
  "stripe_request i =
     JObj [(''mode'', JStr ''payment''),
           (''line_items'', JList [JObj
              [(''quantity'', JInt 1),
               (''price_data'', JObj
                  [(''currency'', JStr (lower (ci_currency i))), (''unit_amount'', JInt (ci_amount i)),
                   (''product_data'', JObj [(''name'', JStr (''Order '' @ ci_order_number i))])])]]),
           (''customer_email'', JStr (ci_customer_email i)),
           (''client_reference_id'', JStr (ci_order_id i)),
           (''success_url'', JStr (if ci_success_url i = '''' then ''https://example.com/success'' else ci_success_url i)),
           (''cancel_url'', JStr (if ci_cancel_url i = '''' then ''https://example.com/cancel'' else ci_cancel_url i)),
           (''metadata'', JObj [(''order_id'', JStr (ci_order_id i)), (''order_number'', JStr (ci_order_number i))])]"

text \<open>The SDK's session is (id, payment intent, url, dict), with a missing one empty.\<close>

definition stripe_create_charge ::
  "provider_env \<Rightarrow> provider_settings \<Rightarrow> charge_intent \<Rightarrow> py_error + charge_result" where
  "stripe_create_charge env cfg i =
     (if STRIPE_API_KEY cfg = '''' then Inr (charge_failed ''stripe not configured'')
      else if \<not> stripe_sdk env then Inr (charge_failed ''stripe sdk not installed'')
      else case stripe_session env (stripe_request i) of
        Inl e \<Rightarrow> Inr (charge_failed e)
      | Inr (sid, pint, url, dict) \<Rightarrow>
          Inr \<lparr>cr_success = True, cr_provider_reference = sid, cr_redirect_url = url,
               cr_intent_id = pint, cr_raw = dict, cr_error = ''''\<rparr>)"

text \<open>
  \<open>_map_event\<close>: \<open>is_dict\<close> is \<open>isinstance(event, dict)\<close>. \<open>event.get("type")\<close> of a dict without
  the key is \<open>None\<close>.
\<close>

definition map_event :: "bool \<Rightarrow> json \<Rightarrow> py_error + webhook_result" where
  "map_event is_dict event =
     bindE (if is_dict then json_get event ''type'' JNull else json_item event ''type'') (\<lambda>etype.
     bindE (if is_dict
            then bindE (json_get event ''data'' JNull) (\<lambda>d. json_get (json_or d (JObj [])) ''object'' (JObj []))
            else Inr (JObj [])) (\<lambda>data.
     bindE (json_get data ''metadata'' JNull) (\<lambda>meta.
     bindE (json_get (json_or meta (JObj [])) ''order_id'' (JStr '''')) (\<lambda>order_id.
     bindE (json_get data ''id'' (JStr '''')) (\<lambda>ref.
     bindE (json_in etype [''checkout.session.completed'', ''payment_intent.succeeded'']) (\<lambda>a.
     bindE (json_in etype [''payment_intent.payment_failed'', ''checkout.session.expired'']) (\<lambda>b.
     bindE (json_in etype [''charge.refunded'', ''refund.created'']) (\<lambda>c.
       if a \<or> b \<or> c
       then Inr \<lparr>wr_accepted = True, wr_event_type = etype, wr_order_id = order_id,
                 wr_payment_reference = ref,
                 wr_new_status = (if a then ''captured'' else if b then ''failed'' else ''refunded''),
                 wr_raw = data, wr_error = ''''\<rparr>
       else Inr \<lparr>wr_accepted = True, wr_event_type = etype, wr_order_id = JStr '''',
                 wr_payment_reference = JStr '''', wr_new_status = '''', wr_raw = data, wr_error = ''''\<rparr>))))))))"

text \<open>A helper nothing calls: \<open>hmac.compare_digest\<close> of the encoded texts is their equality.\<close>

definition constant_time_compare :: "string \<Rightarrow> string \<Rightarrow> bool" where
  "constant_time_compare a b \<longleftrightarrow> a = b"

text \<open>No caller passes \<open>raw_signature\<close>, so the signature is the header.\<close>

definition stripe_parse_webhook ::
  "provider_env \<Rightarrow> provider_settings \<Rightarrow> headers \<Rightarrow> string \<Rightarrow> py_error + webhook_result" where
  "stripe_parse_webhook env cfg hs body =
     (if STRIPE_WEBHOOK_SECRET cfg = ''''
      then Inr (webhook_refused ''stripe webhook secret not configured'' (JObj []))
      else if \<not> stripe_sdk env then Inr (webhook_refused ''stripe sdk not installed'' (JObj []))
      else case stripe_event env body (header ''Stripe-Signature'' ''stripe-signature'' hs)
                  (STRIPE_WEBHOOK_SECRET cfg) of
        Inl e \<Rightarrow> Inr (webhook_refused (''signature: '' @ e) (JObj []))
      | Inr (is_dict, event) \<Rightarrow> map_event is_dict event)"

section \<open>The registry\<close>

record provider =
  create_charge :: "charge_intent \<Rightarrow> py_error + charge_result"
  parse_webhook :: "headers \<Rightarrow> string \<Rightarrow> py_error + webhook_result"
  refund :: "string \<Rightarrow> int \<Rightarrow> py_error + json"

definition REGISTRY :: "provider_env \<Rightarrow> (int \<Rightarrow> string) \<Rightarrow> provider_settings \<Rightarrow> (string \<times> provider) list" where
  "REGISTRY env status_error cfg =
     [(''stripe'', \<lparr>create_charge = stripe_create_charge env cfg, parse_webhook = stripe_parse_webhook env cfg,
                    refund = base_refund\<rparr>),
      (''paypal'', \<lparr>create_charge = paypal_create_charge env status_error cfg,
                    parse_webhook = paypal_parse_webhook env cfg,
                    refund = paypal_refund env status_error cfg\<rparr>),
      (''click'', \<lparr>create_charge = click_create_charge cfg, parse_webhook = click_parse_webhook env cfg,
                   refund = base_refund\<rparr>),
      (''payme'', \<lparr>create_charge = payme_create_charge env cfg, parse_webhook = payme_parse_webhook env cfg,
                   refund = base_refund\<rparr>),
      (''manual'', \<lparr>create_charge = manual_create_charge, parse_webhook = manual_parse_webhook,
                    refund = base_refund\<rparr>)]"

definition get_provider ::
  "provider_env \<Rightarrow> (int \<Rightarrow> string) \<Rightarrow> provider_settings \<Rightarrow> string \<Rightarrow> py_error + provider" where
  "get_provider env status_error cfg name =
     (case map_of (REGISTRY env status_error cfg) name of
        None \<Rightarrow> Inl (ValueError (''unknown payment provider: '' @ name))
      | Some p \<Rightarrow> Inr p)"

text \<open>
  Only PayPal can refund; and an answer of PayPal with an error status is handed back like a
  successful one.
\<close>

lemma only_paypal_refunds:
  assumes "get_provider env status_error cfg name = Inr p" "name \<noteq> ''paypal''"
  shows "refund p ref amount = Inl NotImplementedError"
  using assms by (auto simp: get_provider_def REGISTRY_def base_refund_def split: if_splits)

lemma paypal_refund_ignores_status:
  assumes "paypal_token env status_error cfg = Inr tok"
    and "\<And>b. http_post env (paypal_base cfg @ ''/v2/payments/captures/'' @ ref @ ''/refund'') b = Reply st (Inr data)"
  shows "paypal_refund env status_error cfg ref amount = Inr data"
  using assms by (simp add: paypal_refund_def)

section \<open>The contract of a provider\<close>

definition webhook_vocabulary :: "string list" where
  "webhook_vocabulary = ['''', ''authorized'', ''captured'', ''failed'', ''cancelled'', ''refunded'']"

locale payment_provider =
  fixes charge :: "charge_intent \<Rightarrow> py_error + charge_result"
    and webhook :: "headers \<Rightarrow> string \<Rightarrow> py_error + webhook_result"
  assumes charge_error: "charge i = Inr r \<Longrightarrow> \<not> cr_success r \<Longrightarrow> cr_provider_reference r = ''''"
    and webhook_status: "webhook hs body = Inr w \<Longrightarrow> wr_new_status w \<in> set webhook_vocabulary"
    and webhook_refusal: "webhook hs body = Inr w \<Longrightarrow> \<not> wr_accepted w \<Longrightarrow>
          wr_new_status w = '''' \<and> \<not> truthy (wr_order_id w) \<and> \<not> truthy (wr_payment_reference w)"
begin

text \<open>A callback that names a status was accepted.\<close>

lemma status_accepted: "webhook hs body = Inr w \<Longrightarrow> wr_new_status w \<noteq> '''' \<Longrightarrow> wr_accepted w"
  using webhook_refusal by blast

text \<open>The status the services write to the payment row is one of the model's choices.\<close>

lemma stored_status:
  "webhook hs body = Inr w \<Longrightarrow>
   (if wr_new_status w = '''' then ''pending'' else wr_new_status w)
     \<in> {''pending'', ''authorized'', ''captured'', ''failed'', ''cancelled'', ''refunded''}"
  using webhook_status [of hs body w] by (auto simp: webhook_vocabulary_def)

end

section \<open>Every provider keeps the contract\<close>

lemma webhook_refused_simps [simp]:
  "\<not> wr_accepted (webhook_refused e raw)" "wr_new_status (webhook_refused e raw) = ''''"
  "wr_order_id (webhook_refused e raw) = JStr ''''" "wr_payment_reference (webhook_refused e raw) = JStr ''''"
  by (simp_all add: webhook_refused_def)

lemma charge_failed_simps [simp]:
  "\<not> cr_success (charge_failed e)" "cr_provider_reference (charge_failed e) = ''''"
  by (simp_all add: charge_failed_def)

lemma vocabulary_simps [simp]:
  "'''' \<in> set webhook_vocabulary" "''authorized'' \<in> set webhook_vocabulary"
  "''captured'' \<in> set webhook_vocabulary" "''failed'' \<in> set webhook_vocabulary"
  "''cancelled'' \<in> set webhook_vocabulary" "''refunded'' \<in> set webhook_vocabulary"
  by (simp_all add: webhook_vocabulary_def)

lemma payme_status_vocabulary [simp]: "payme_status m \<in> set webhook_vocabulary"
  unfolding payme_status_def by (simp split: if_splits)

lemma paypal_status_vocabulary: "paypal_status t = Inr s \<Longrightarrow> s \<in> set webhook_vocabulary"
  unfolding paypal_status_def by (auto simp: result_simps split: if_splits)

interpretation manual_provider: payment_provider manual_create_charge manual_parse_webhook
  by unfold_locales (auto simp: manual_create_charge_def manual_parse_webhook_def)

interpretation click_provider: payment_provider "click_create_charge cfg" "click_parse_webhook env cfg"
  for env cfg
proof unfold_locales
  fix i r assume "click_create_charge cfg i = Inr r" "\<not> cr_success r"
  then show "cr_provider_reference r = ''''" by (auto simp: click_create_charge_def split: if_splits)
next
  fix hs body w assume w: "click_parse_webhook env cfg hs body = Inr w"
  show "wr_new_status w \<in> set webhook_vocabulary"
    using w unfolding click_parse_webhook_def Let_def by (auto split: option.splits if_splits)
  assume "\<not> wr_accepted w"
  with w show "wr_new_status w = '''' \<and> \<not> truthy (wr_order_id w) \<and> \<not> truthy (wr_payment_reference w)"
    unfolding click_parse_webhook_def Let_def by (auto split: option.splits if_splits)
qed

interpretation payme_provider: payment_provider "payme_create_charge env cfg" "payme_parse_webhook env cfg"
  for env cfg
proof unfold_locales
  fix i r assume "payme_create_charge env cfg i = Inr r" "\<not> cr_success r"
  then show "cr_provider_reference r = ''''" by (auto simp: payme_create_charge_def Let_def split: if_splits)
next
  fix hs body w assume w: "payme_parse_webhook env cfg hs body = Inr w"
  show "wr_new_status w \<in> set webhook_vocabulary"
    using w unfolding payme_parse_webhook_def by (auto simp: result_simps split: if_splits loads_result.splits)
  assume "\<not> wr_accepted w"
  with w show "wr_new_status w = '''' \<and> \<not> truthy (wr_order_id w) \<and> \<not> truthy (wr_payment_reference w)"
    unfolding payme_parse_webhook_def by (auto simp: result_simps split: if_splits loads_result.splits)
qed

interpretation paypal_provider: payment_provider "paypal_create_charge env status_error cfg"
  "paypal_parse_webhook env cfg" for env status_error cfg
proof unfold_locales
  fix i r assume "paypal_create_charge env status_error cfg i = Inr r" "\<not> cr_success r"
  then show "cr_provider_reference r = ''''"
    unfolding paypal_create_charge_def
    by (auto simp: result_simps split: if_splits sum.splits http_result.splits)
next
  fix hs body w assume w: "paypal_parse_webhook env cfg hs body = Inr w"
  show "wr_new_status w \<in> set webhook_vocabulary"
    using w unfolding paypal_parse_webhook_def Let_def
    by (auto simp: result_simps split: if_splits loads_result.splits dest: paypal_status_vocabulary)
  assume "\<not> wr_accepted w"
  with w show "wr_new_status w = '''' \<and> \<not> truthy (wr_order_id w) \<and> \<not> truthy (wr_payment_reference w)"
    unfolding paypal_parse_webhook_def Let_def by (auto simp: result_simps split: if_splits loads_result.splits)
qed

lemma map_event_Inr:
  "map_event d ev = Inr w \<Longrightarrow> wr_accepted w \<and> wr_new_status w \<in> set webhook_vocabulary"
  unfolding map_event_def by (auto simp: result_simps split: if_splits)

interpretation stripe_provider: payment_provider "stripe_create_charge env cfg" "stripe_parse_webhook env cfg"
  for env cfg
proof unfold_locales
  fix i r assume "stripe_create_charge env cfg i = Inr r" "\<not> cr_success r"
  then show "cr_provider_reference r = ''''"
    unfolding stripe_create_charge_def by (auto split: if_splits sum.splits)
next
  fix hs body w assume w: "stripe_parse_webhook env cfg hs body = Inr w"
  show "wr_new_status w \<in> set webhook_vocabulary"
    using w unfolding stripe_parse_webhook_def
    by (auto split: if_splits sum.splits dest: map_event_Inr)
  assume "\<not> wr_accepted w"
  with w show "wr_new_status w = '''' \<and> \<not> truthy (wr_order_id w) \<and> \<not> truthy (wr_payment_reference w)"
    unfolding stripe_parse_webhook_def by (auto split: if_splits sum.splits dest: map_event_Inr)
qed

text \<open>Whatever the registry returns keeps the contract.\<close>

lemma registered_provider:
  assumes "get_provider env status_error cfg name = Inr p"
  shows "payment_provider (create_charge p) (parse_webhook p)"
proof -
  have "p \<in> snd ` set (REGISTRY env status_error cfg)"
    using assms by (auto simp: get_provider_def dest!: map_of_SomeD split: option.splits intro: rev_image_eqI)
  then show ?thesis
    by (auto simp: REGISTRY_def manual_provider.payment_provider_axioms click_provider.payment_provider_axioms
        payme_provider.payment_provider_axioms paypal_provider.payment_provider_axioms
        stripe_provider.payment_provider_axioms)
qed

section \<open>Properties\<close>

text \<open>
  A signed Click callback is accepted exactly when its \<open>action\<close> is an integer and its
  \<open>sign_string\<close> is the digest of the other parameters and the secret key; then the reference it
  carries is the merchant transaction, which \<open>create_charge\<close> set to the order number, and actions 0
  and 1 mean authorized and captured.
\<close>

theorem click_webhook_exact:
  assumes "params = map (\<lambda>(k, v). (k, hd v)) (parse_qs env body)"
  shows "\<exists>w. click_parse_webhook env cfg hs body = Inr w \<and>
    (wr_accepted w \<longleftrightarrow>
       (\<exists>act. py_int (param ''action'' ''0'' params) = Some act \<and>
          lower (param ''sign_string'' '''' params) = lower (expected_sign env cfg params act))) \<and>
    (wr_accepted w \<longrightarrow>
       wr_payment_reference w = JStr (param ''merchant_trans_id'' '''' params) \<and>
       (wr_new_status w = ''captured'' \<longleftrightarrow> py_int (param ''action'' ''0'' params) = Some 1) \<and>
       (wr_new_status w = ''authorized'' \<longleftrightarrow> py_int (param ''action'' ''0'' params) = Some 0))"
proof (cases "py_int (param ''action'' ''0'' params)")
  case None
  then show ?thesis using assms by (simp add: click_parse_webhook_def Let_def)
next
  case (Some act)
  then show ?thesis using assms by (auto simp: click_parse_webhook_def Let_def)
qed

definition demo_env :: "(string \<times> string list) list \<Rightarrow> json \<Rightarrow> provider_env" where
  "demo_env qs j =
     \<lparr>md5_hex = (\<lambda>s. s), b64encode = (\<lambda>s. s), b64decode = Some, json_loads = (\<lambda>_. Loaded j),
      parse_qs = (\<lambda>_. qs), http_post = (\<lambda>_ _. HTTPError ''down''), stripe_sdk = False,
      stripe_session = (\<lambda>_. Inl ''none''), stripe_event = (\<lambda>_ _ _. Inl ''none''), json_str = (\<lambda>_. '''')\<rparr>"

definition demo_settings :: "string \<Rightarrow> provider_settings" where
  "demo_settings secret =
     \<lparr>STRIPE_API_KEY = '''', STRIPE_WEBHOOK_SECRET = '''', PAYPAL_CLIENT_ID = ''id'',
      PAYPAL_CLIENT_SECRET = '''', PAYPAL_MODE = '''', CLICK_SERVICE_ID = ''1'', CLICK_MERCHANT_ID = ''2'',
      CLICK_SECRET_KEY = secret, PAYME_MERCHANT_ID = ''m'', PAYME_SECRET_KEY = secret\<rparr>"

definition demo_qs :: "(string \<times> string list) list" where
  "demo_qs = [(''action'', [''1'']), (''merchant_trans_id'', [''N1'']), (''amount'', [''10'']),
     (''sign_string'', [''kN1101''])]"

theorem click_webhook_exact_witness:
  "\<exists>w. click_parse_webhook (demo_env demo_qs JNull) (demo_settings ''k'') [] ''b'' = Inr w \<and> wr_accepted w \<and>
     wr_payment_reference w = JStr ''N1'' \<and> wr_new_status w = ''captured''"
proof -
  let ?p = "map (\<lambda>(k, v). (k, hd v)) (parse_qs (demo_env demo_qs JNull) ''b'')"
  have "py_int (param ''action'' ''0'' ?p) = Some 1" by code_simp
  moreover have "lower (param ''sign_string'' '''' ?p) =
      lower (expected_sign (demo_env demo_qs JNull) (demo_settings ''k'') ?p 1)" by code_simp
  moreover have "param ''merchant_trans_id'' '''' ?p = ''N1''" by code_simp
  ultimately show ?thesis
    using click_webhook_exact [where params = ?p and env = "demo_env demo_qs JNull" and body = "''b''" and
        cfg = "demo_settings ''k''" and hs = "[]", OF refl] by metis
qed

text \<open>
  PayPal callbacks are not authenticated: what \<open>parse_webhook\<close> makes of a body does not depend
  on the headers, so a body any client sends, without a signature, is read as PayPal's, and one
  that says a capture completed is accepted as captured.
\<close>

theorem paypal_webhook_unauthenticated:
  assumes "PAYPAL_CLIENT_ID cfg \<noteq> ''''" "body \<noteq> ''''"
    and "json_loads env body = Loaded (JObj [(''event_type'', JStr ''PAYMENT.CAPTURE.COMPLETED''),
           (''resource'', JObj [(''purchase_units'', JList [JObj [(''reference_id'', JStr (uuid_str k))]])])])"
  shows "\<exists>w. (\<forall>hs. paypal_parse_webhook env cfg hs body = Inr w) \<and> wr_accepted w \<and>
    wr_new_status w = ''captured'' \<and> wr_order_id w = JStr (uuid_str k)"
  using assms
  by (simp add: paypal_parse_webhook_def load_body_def json_or_def paypal_status_def uuid_str_def Let_def)

theorem paypal_webhook_unauthenticated_witness:
  "\<exists>w. (\<forall>hs. paypal_parse_webhook (demo_env [] (JObj [(''event_type'', JStr ''PAYMENT.CAPTURE.COMPLETED''),
           (''resource'', JObj [(''purchase_units'', JList [JObj [(''reference_id'', JStr (uuid_str 1))]])])]))
         (demo_settings '''') hs ''b'' = Inr w) \<and> wr_accepted w \<and> wr_new_status w = ''captured''"
  using paypal_webhook_unauthenticated [where cfg = "demo_settings ''''" and body = "''b''" and k = 1 and
      env = "demo_env [] (JObj [(''event_type'', JStr ''PAYMENT.CAPTURE.COMPLETED''),
           (''resource'', JObj [(''purchase_units'', JList [JObj [(''reference_id'', JStr (uuid_str 1))]])])])"]
  by (auto simp: demo_env_def demo_settings_def)

text \<open>
  A Payme callback is accepted only with Basic credentials whose user is \<open>Paycom\<close> and whose
  password is the configured key. With the key left unset the password to give is empty, so
  a header anybody can write passes.
\<close>

theorem payme_requires_credentials:
  assumes "payme_parse_webhook env cfg hs body = Inr w" "wr_accepted w"
  shows "(\<exists>decoded. b64decode env (drop 1 (dropWhile (\<lambda>c. c \<noteq> CHR '' '') (header ''Authorization'' ''authorization'' hs)))
             = Some decoded \<and> before_colon decoded = ''Paycom'' \<and> after_colon decoded = PAYME_SECRET_KEY cfg) \<and>
    (PAYME_SECRET_KEY cfg = '''' \<longrightarrow> b64decode env ''UGF5Y29tOg=='' = Some ''Paycom:'' \<longrightarrow>
       verify_basic_auth env cfg [(''Authorization'', ''Basic UGF5Y29tOg=='')])"
proof
  have "verify_basic_auth env cfg hs"
    using assms unfolding payme_parse_webhook_def by (auto split: if_splits)
  then show "\<exists>decoded. b64decode env (drop 1 (dropWhile (\<lambda>c. c \<noteq> CHR '' '') (header ''Authorization'' ''authorization'' hs)))
             = Some decoded \<and> before_colon decoded = ''Paycom'' \<and> after_colon decoded = PAYME_SECRET_KEY cfg"
    unfolding verify_basic_auth_def Let_def by (auto split: if_splits option.splits)
  have h: "header ''Authorization'' ''authorization'' [(''Authorization'', ''Basic UGF5Y29tOg=='')] = ''Basic UGF5Y29tOg==''"
    "startswith ''basic '' (lower ''Basic UGF5Y29tOg=='')"
    "drop 1 (dropWhile (\<lambda>c. c \<noteq> CHR '' '') ''Basic UGF5Y29tOg=='') = ''UGF5Y29tOg==''"
    "before_colon ''Paycom:'' = ''Paycom''" "after_colon ''Paycom:'' = ''''"
    by code_simp+
  show "PAYME_SECRET_KEY cfg = '''' \<longrightarrow> b64decode env ''UGF5Y29tOg=='' = Some ''Paycom:'' \<longrightarrow>
       verify_basic_auth env cfg [(''Authorization'', ''Basic UGF5Y29tOg=='')]"
    unfolding verify_basic_auth_def Let_def h(1) by (simp only: h option.case simp_thms) (simp add: h(4,5))
qed

definition demo_payme_env :: provider_env where
  "demo_payme_env = (demo_env [] (JObj [(''method'', JStr ''PerformTransaction'')]))
     \<lparr>b64decode := (\<lambda>s. if s = ''UGF5Y29tOg=='' then Some ''Paycom:'' else None)\<rparr>"

theorem payme_requires_credentials_witness:
  "verify_basic_auth demo_payme_env (demo_settings '''') [(''Authorization'', ''Basic UGF5Y29tOg=='')]"
proof -
  let ?r = "payme_parse_webhook demo_payme_env (demo_settings '''') [(''Authorization'', ''Basic UGF5Y29tOg=='')] ''b''"
  have "(case ?r of Inl _ \<Rightarrow> False | Inr w \<Rightarrow> wr_accepted w)" by code_simp
  then obtain w where w: "?r = Inr w" "wr_accepted w" by (auto split: sum.splits)
  have "PAYME_SECRET_KEY (demo_settings '''') = ''''" "b64decode demo_payme_env ''UGF5Y29tOg=='' = Some ''Paycom:''"
    by code_simp+
  with payme_requires_credentials [OF w] show ?thesis by blast
qed

end
