(* ===== verification/Payments.thy ===== *)
theory Payments
  imports Orders Providers Accounts
begin

text \<open>
  \<open>django_app/apps/payments\<close>: payments and refunds, \<open>create_payment\<close>, \<open>handle_webhook\<close>, the
  expiry task and the views. A store is the shop together with the payment table. The provider is
  whatever the registry of \<open>Providers\<close> returns; the services use it through its contract.
\<close>

section \<open>Models\<close>

datatype payment_status =
    P_PENDING | P_AUTHORIZED | P_CAPTURED | P_FAILED | P_CANCELLED | P_REFUNDED

fun payment_value :: "payment_status \<Rightarrow> string" where
  "payment_value P_PENDING = ''pending''"
| "payment_value P_AUTHORIZED = ''authorized''"
| "payment_value P_CAPTURED = ''captured''"
| "payment_value P_FAILED = ''failed''"
| "payment_value P_CANCELLED = ''cancelled''"
| "payment_value P_REFUNDED = ''refunded''"

text \<open>\<open>Payment.Provider\<close>: the choices of the column, one more than the registry has.\<close>

definition provider_choices :: "string list" where
  "provider_choices = [''stripe'', ''paypal'', ''click'', ''payme'', ''uzum'', ''manual'']"

record payment = base_model +
  py_order :: nat
  py_provider :: string
  py_status :: string
  py_amount :: int
  py_currency :: string
  py_provider_reference :: string
  py_provider_intent_id :: string
  py_redirect_url :: string
  py_raw_request :: json
  py_raw_response :: json
  py_error_info :: json

record refund = base_model +
  rf_payment :: nat
  rf_amount :: int
  rf_reason :: string
  rf_provider_reference :: string
  rf_raw_response :: json

record store =
  shop_db :: shop
  payments :: "payment list"
  refunds :: "refund list"

section \<open>JSON-safe copies\<close>

text \<open>A Python value; \<open>POther s\<close> is any object whose \<open>str()\<close> is \<open>s\<close>.\<close>

datatype py_value =
    PNone
  | PBool bool
  | PInt int
  | PFloat int nat
  | PStr string
  | PList "py_value list"
  | PTuple "py_value list"
  | PDict "(string \<times> py_value) list"
  | POther string

fun jsonable :: "py_value \<Rightarrow> json" where
  "jsonable (PDict kvs) = JObj (map (\<lambda>(k, v). (k, jsonable v)) kvs)"
| "jsonable (PList vs) = JList (map jsonable vs)"
| "jsonable (PTuple vs) = JList (map jsonable vs)"
| "jsonable (PStr s) = JStr s"
| "jsonable (PInt i) = JInt i"
| "jsonable (PFloat c k) = JDec c k"
| "jsonable (PBool b) = JBool b"
| "jsonable PNone = JNull"
| "jsonable (POther s) = JStr s"

text \<open>\<open>dataclasses.asdict(intent)\<close>: the amount is a \<open>Decimal\<close>.\<close>

definition intent_dict :: "charge_intent \<Rightarrow> py_value" where
  "intent_dict i =
     PDict [(''order_id'', PStr (ci_order_id i)), (''order_number'', PStr (ci_order_number i)),
            (''amount'', POther (str_money (ci_amount i))), (''currency'', PStr (ci_currency i)),
            (''customer_email'', PStr (ci_customer_email i)), (''success_url'', PStr (ci_success_url i)),
            (''cancel_url'', PStr (ci_cancel_url i)),
            (''metadata'', PDict [(''order_id'', PStr (ci_order_id i))])]"

section \<open>Creating a payment\<close>

definition new_payment :: "int \<Rightarrow> order \<Rightarrow> string \<Rightarrow> charge_intent \<Rightarrow> nat \<Rightarrow> payment" where
  "new_payment now o' provider_code i k =
     \<lparr>pk = k, created_at = now, updated_at = now, deleted_at = None, py_order = pk o',
      py_provider = provider_code, py_status = payment_value P_PENDING, py_amount = od_grand_total o',
      py_currency = od_currency o', py_provider_reference = '''', py_provider_intent_id = '''',
      py_redirect_url = '''', py_raw_request = jsonable (intent_dict i), py_raw_response = JObj [],
      py_error_info = JObj []\<rparr>"

definition intent_of :: "order \<Rightarrow> string \<Rightarrow> string \<Rightarrow> charge_intent" where
  "intent_of o' success_url cancel_url =
     \<lparr>ci_order_id = uuid_str (pk o'), ci_order_number = od_number o', ci_amount = od_grand_total o',
      ci_currency = od_currency o', ci_customer_email = od_email_snapshot o',
      ci_success_url = success_url, ci_cancel_url = cancel_url,
      ci_metadata = JObj [(''order_id'', JStr (uuid_str (pk o')))]\<rparr>"

text \<open>
  The text columns are limited (128, 128 and 200 characters in the payment, 128 in the order);
  PostgreSQL refuses longer values. The provider's dict is JSON already, so \<open>_jsonable\<close> copies it.
\<close>

definition result_fits :: "charge_result \<Rightarrow> bool" where
  "result_fits r \<longleftrightarrow> length (cr_provider_reference r) \<le> 128 \<and> length (cr_intent_id r) \<le> 128 \<and>
     length (cr_redirect_url r) \<le> 200"

definition create_payment ::
  "int \<Rightarrow> (string \<Rightarrow> py_error + provider) \<Rightarrow> order \<Rightarrow> string \<Rightarrow> string \<Rightarrow> string \<Rightarrow> store
   \<Rightarrow> py_error + (payment \<times> store)" where
  "create_payment now get_prov o' provider_code success_url cancel_url db =
     bindE (get_prov provider_code) (\<lambda>provider.
       let i = intent_of o' success_url cancel_url;
           pay = new_payment now o' provider_code i (fresh_pk (payments db)) in
       bindE (create_charge provider i) (\<lambda>result.
         if \<not> cr_success result
         then let pay' = pay\<lparr>py_status := payment_value P_FAILED,
                             py_error_info := JObj [(''message'', JStr (cr_error result))]\<rparr> in
              Inr (pay', db\<lparr>payments := payments db @ [pay']\<rparr>)
         else if \<not> result_fits result then Inl (DataError ''value too long'')
         else
           let pay' = pay\<lparr>py_status := payment_value P_PENDING,
                          py_provider_reference := cr_provider_reference result,
                          py_provider_intent_id := cr_intent_id result,
                          py_redirect_url := cr_redirect_url result,
                          py_raw_response := cr_raw result\<rparr>;
               shop' = (shop_db db)\<lparr>orders := save_row (pk o')
                 (\<lambda>r. r\<lparr>od_payment_provider := provider_code,
                        od_payment_reference := cr_provider_reference result, updated_at := now\<rparr>)
                 (orders (shop_db db))\<rparr> in
           Inr (pay', db\<lparr>payments := payments db @ [pay'], shop_db := shop'\<rparr>)))"

section \<open>Webhooks\<close>

text \<open>
  The key \<open>Order.objects.get(pk = v)\<close> looks for: text is parsed as a UUID, an integer is its value,
  anything else, and any other text, is a \<open>ValidationError\<close>.
\<close>

fun json_uuid :: "json \<Rightarrow> py_error + nat" where
  "json_uuid (JStr s) =
     (case uuid_parse s of None \<Rightarrow> Inl (ValidationError ''not a valid UUID'') | Some k \<Rightarrow> Inr k)"
| "json_uuid (JInt i) =
     (if 0 \<le> i \<and> i < 2 ^ 128 then Inr (nat i) else Inl (ValidationError ''not a valid UUID''))"
| "json_uuid (JBool b) = Inr (if b then 1 else 0)"
| "json_uuid _ = Inl (ValidationError ''not a valid UUID'')"

definition find_by_id :: "json \<Rightarrow> shop \<Rightarrow> py_error + order option" where
  "find_by_id v db =
     (if \<not> truthy v then Inr None
      else bindE (json_uuid v) (\<lambda>k.
        case get_one ''Order'' (\<lambda>o'. pk o' = k) (orders db) of
          Inr o' \<Rightarrow> Inr (Some o')
        | Inl (DoesNotExist _) \<Rightarrow> Inr None
        | Inl e \<Rightarrow> Inl e))"

text \<open>\<open>.filter(payment_reference = ...).first()\<close>: the newest of them (\<open>Order.Meta.ordering\<close>).\<close>

definition find_by_reference :: "(json \<Rightarrow> string) \<Rightarrow> json \<Rightarrow> shop \<Rightarrow> order option" where
  "find_by_reference repr v db =
     (if \<not> truthy v then None
      else case sort_key (\<lambda>o'. - created_at o')
                  (filter (\<lambda>o'. od_payment_reference o' = py_str repr v) (objects (orders db))) of
             [] \<Rightarrow> None
           | o' # _ \<Rightarrow> Some o')"

definition webhook_event :: "int \<Rightarrow> order \<Rightarrow> string \<Rightarrow> json \<Rightarrow> shop \<Rightarrow> shop" where
  "webhook_event now o' code raw db =
     (let ev = \<lparr>pk = fresh_pk (order_events db), created_at = now, updated_at = now, deleted_at = None,
               oe_order = pk o', oe_code = code, oe_message = ''payment provider webhook'',
               oe_actor = None, oe_payload = raw\<rparr> in
      db\<lparr>order_events := order_events db @ [ev],
         broadcasts := broadcasts db @ broadcast_order_event ev o'\<rparr>)"

text \<open>
  The status branch. In the captured one every exception is logged and dropped, and the
  savepoint of the inner atomic block undoes what the transition did.
\<close>

definition apply_status :: "int \<Rightarrow> order \<Rightarrow> string \<Rightarrow> shop \<Rightarrow> py_error + shop" where
  "apply_status now o' new_status db =
     (if new_status = ''captured'' then
        (case transition_status now (pk o') PAID None ''paid via webhook'' db of
           Inl _ \<Rightarrow> Inr db
         | Inr (_, db') \<Rightarrow> Inr db')
      else if new_status \<in> {''failed'', ''cancelled''} \<and> od_status o' = PENDING then
        bindE (transition_status now (pk o') CANCELLED None
                 (''cancelled via webhook ('' @ new_status @ '')'') db) (\<lambda>(_, db'). Inr db')
      else if new_status = ''refunded'' then
        bindE (transition_status now (pk o') REFUNDED None ''refunded via webhook'' db)
          (\<lambda>(_, db'). Inr db')
      else Inr db)"

text \<open>\<open>QuerySet.update\<close> does not touch \<open>updated_at\<close>.\<close>

definition update_payments :: "nat \<Rightarrow> string \<Rightarrow> string \<Rightarrow> json \<Rightarrow> payment list \<Rightarrow> payment list" where
  "update_payments ord provider_code new_status raw tbl =
     update_where (\<lambda>p. is_alive p \<and> py_order p = ord \<and> py_provider p = provider_code)
       (\<lambda>p. p\<lparr>py_status := (if new_status = '''' then payment_value P_PENDING else new_status),
              py_raw_response := raw\<rparr>) tbl"

text \<open>The dict \<open>handle_webhook\<close> returns.\<close>

datatype webhook_reply = Rejected string | Unmatched | Matched string

definition handle_webhook ::
  "int \<Rightarrow> (string \<Rightarrow> py_error + provider) \<Rightarrow> (json \<Rightarrow> string) \<Rightarrow> string \<Rightarrow> headers \<Rightarrow> string \<Rightarrow> store
   \<Rightarrow> py_error + (webhook_reply \<times> store)" where
  "handle_webhook now get_prov repr provider_code hs body db =
     bindE (get_prov provider_code) (\<lambda>provider.
     bindE (parse_webhook provider hs body) (\<lambda>parsed.
       if \<not> wr_accepted parsed then Inr (Rejected (wr_error parsed), db)
       else
         bindE (find_by_id (wr_order_id parsed) (shop_db db)) (\<lambda>by_id.
           case (case by_id of Some o' \<Rightarrow> Some o'
                 | None \<Rightarrow> find_by_reference repr (wr_payment_reference parsed) (shop_db db)) of
             None \<Rightarrow> Inr (Unmatched, db)
           | Some o' \<Rightarrow>
               let code = ''webhook:'' @ py_str repr (wr_event_type parsed) in
               if 64 < length code then Inl (DataError ''value too long'')
               else
                 bindE (apply_status now o' (wr_new_status parsed)
                          (webhook_event now o' code (wr_raw parsed) (shop_db db))) (\<lambda>shop'.
                   Inr (Matched (od_number o'),
                        db\<lparr>shop_db := shop',
                           payments := update_payments (pk o') provider_code (wr_new_status parsed)
                                         (wr_raw parsed) (payments db)\<rparr>)))))"

section \<open>Expiry\<close>

definition expire_pending_payments :: "int \<Rightarrow> int \<Rightarrow> payment list \<Rightarrow> nat \<times> payment list" where
  "expire_pending_payments now older_than_minutes tbl =
     (let cutoff = now - older_than_minutes * 60000000;
          stale = (\<lambda>p. is_alive p \<and> py_status p = payment_value P_PENDING \<and> created_at p < cutoff) in
      (count_where stale tbl,
       update_where stale (\<lambda>p. p\<lparr>py_status := payment_value P_FAILED,
                                py_error_info := JObj [(''reason'', JStr ''expired'')]\<rparr>) tbl))"

section \<open>Views\<close>

definition payment_json :: "(int \<Rightarrow> string) \<Rightarrow> payment \<Rightarrow> json" where
  "payment_json isotime p =
     JObj [(''id'', JStr (uuid_str (pk p))), (''order'', JStr (uuid_str (py_order p))),
           (''provider'', JStr (py_provider p)), (''status'', JStr (py_status p)),
           (''amount'', JStr (str_money (py_amount p))), (''currency'', JStr (py_currency p)),
           (''provider_reference'', JStr (py_provider_reference p)),
           (''provider_intent_id'', JStr (py_provider_intent_id p)),
           (''redirect_url'', JStr (py_redirect_url p)),
           (''created_at'', JStr (isotime (created_at p))), (''updated_at'', JStr (isotime (updated_at p)))]"

text \<open>\<open>PaymentViewSet.get_queryset\<close>, newest first.\<close>

definition payment_queryset :: "user \<Rightarrow> store \<Rightarrow> payment list" where
  "payment_queryset u db =
     sort_key (\<lambda>p. - created_at p)
       (filter (\<lambda>p. us_is_staff u \<or> us_is_superuser u \<or>
                    (case find_pk (py_order p) (orders (shop_db db)) of
                       None \<Rightarrow> False | Some o' \<Rightarrow> od_user o' = Some (pk u)))
         (objects (payments db)))"

text \<open>\<open>create_for_order\<close>, on validated data: the order's key, a provider of the registry, the urls.\<close>

definition create_for_order ::
  "int \<Rightarrow> (string \<Rightarrow> py_error + provider) \<Rightarrow> (int \<Rightarrow> string) \<Rightarrow> user \<Rightarrow> nat \<Rightarrow> string \<Rightarrow> string \<Rightarrow> string
   \<Rightarrow> store \<Rightarrow> (py_error + response) \<times> store" where
  "create_for_order now get_prov isotime u order_id provider_code success_url cancel_url db =
     (case get_one ''Order'' (\<lambda>o'. pk o' = order_id) (orders (shop_db db)) of
        Inl (DoesNotExist _) \<Rightarrow> (Inl Http404, db)
      | Inl e \<Rightarrow> (Inl e, db)
      | Inr o' \<Rightarrow>
          if \<not> us_is_staff u \<and> od_user o' \<noteq> Some (pk u)
          then (Inr (error_response 403 ''forbidden'' ''not your order''), db)
          else case create_payment now get_prov o' provider_code success_url cancel_url db of
                 Inl e \<Rightarrow> (Inl e, db)
               | Inr (p, db') \<Rightarrow> (Inr (Response 201 (payment_json isotime p)), db'))"

definition reply_json :: "webhook_reply \<Rightarrow> json" where
  "reply_json r =
     (case r of
        Rejected e \<Rightarrow> JObj [(''accepted'', JBool False), (''error'', JStr e)]
      | Unmatched \<Rightarrow> JObj [(''accepted'', JBool True), (''matched'', JBool False)]
      | Matched n \<Rightarrow> JObj [(''accepted'', JBool True), (''matched'', JBool True), (''order'', JStr n)])"

definition WebhookView_post ::
  "int \<Rightarrow> (string \<Rightarrow> py_error + provider) \<Rightarrow> (json \<Rightarrow> string) \<Rightarrow> string \<Rightarrow> headers \<Rightarrow> string \<Rightarrow> store
   \<Rightarrow> (py_error + response) \<times> store" where
  "WebhookView_post now get_prov repr provider_code hs body db =
     (case handle_webhook now get_prov repr provider_code hs body db of
        Inl e \<Rightarrow> (Inl e, db)
      | Inr (Rejected e, db') \<Rightarrow> (Inr (Response 400 (reply_json (Rejected e))), db')
      | Inr (r, db') \<Rightarrow> (Inr (Response 200 (reply_json r)), db'))"

section \<open>Lemmas\<close>

lemma webhook_event_frame [simp]:
  "orders (webhook_event now o' cd raw db) = orders db"
  "order_items (webhook_event now o' cd raw db) = order_items db"
  "stock_db (webhook_event now o' cd raw db) = stock_db db"
  "cart_db (webhook_event now o' cd raw db) = cart_db db"
  "catalog_db (webhook_event now o' cd raw db) = catalog_db db"
  "coupon_tbl (webhook_event now o' cd raw db) = coupon_tbl db"
  by (simp_all add: webhook_event_def Let_def)

lemma webhook_event_ok [simp]:
  "shop_ok (webhook_event now o' cd raw db) = shop_ok db"
  "reservations_match (webhook_event now o' cd raw db) = reservations_match db"
  by (simp_all add: shop_ok_def orders_ok_def reservations_match_def pending_demand_def)

lemma uuid_str_nonempty [simp]: "uuid_str k \<noteq> ''''"
  by (simp add: uuid_str_def Let_def)

text \<open>An order is found by the text of its key.\<close>

lemma find_by_id_order:
  assumes "orders_ok db" "o' \<in> set (orders db)" "is_alive o'" "pk o' < 2 ^ 128"
  shows "find_by_id (JStr (uuid_str (pk o'))) db = Inr (Some o')"
proof -
  have "uuid_parse (uuid_str (pk o')) = Some (pk o')" by (rule uuid_round_trip [OF assms(4)])
  moreover have "get_one ''Order'' (\<lambda>x. pk x = pk o') (orders db) = Inr o'"
    using assms(1-3) by (intro get_one_pk) (simp_all add: orders_ok_def)
  ultimately show ?thesis by (simp add: find_by_id_def)
qed

lemma find_by_id_Some:
  "find_by_id v db = Inr (Some o') \<Longrightarrow> o' \<in> set (orders db) \<and> is_alive o'"
proof -
  assume a: "find_by_id v db = Inr (Some o')"
  then have t: "truthy v" by (simp add: find_by_id_def split: if_splits)
  with a obtain k where k: "json_uuid v = Inr k" by (cases "json_uuid v") (simp_all add: find_by_id_def)
  show ?thesis
  proof (cases "get_one ''Order'' (\<lambda>o'. pk o' = k) (orders db)")
    case (Inl e)
    with a t k show ?thesis by (cases e) (simp_all add: find_by_id_def)
  next
    case (Inr x)
    with a t k have "x = o'" by (simp add: find_by_id_def)
    with get_one_Inr [OF Inr] show ?thesis by simp
  qed
qed

lemma find_by_reference_Some:
  assumes "find_by_reference repr v db = Some o'"
  shows "o' \<in> set (orders db) \<and> is_alive o' \<and> od_payment_reference o' = py_str repr v"
proof -
  let ?L = "sort_key (\<lambda>o'. - created_at o')
      (filter (\<lambda>o'. od_payment_reference o' = py_str repr v) (objects (orders db)))"
  obtain xs where "?L = o' # xs"
    using assms unfolding find_by_reference_def by (auto split: if_splits list.splits)
  then have "o' \<in> set ?L" by (metis list.set_intros(1))
  then show ?thesis by simp
qed

text \<open>A webhook matched to an order: what is left is the status branch.\<close>

lemma handle_webhook_matched:
  assumes "get_prov code = Inr p" "parse_webhook p hs body = Inr w" "wr_accepted w"
    and "find_by_id (wr_order_id w) (shop_db db) = Inr (Some o')"
    and "length (''webhook:'' @ py_str repr (wr_event_type w)) \<le> 64"
  shows "handle_webhook now get_prov repr code hs body db =
    bindE (apply_status now o' (wr_new_status w)
             (webhook_event now o' (''webhook:'' @ py_str repr (wr_event_type w)) (wr_raw w) (shop_db db)))
      (\<lambda>shop'. Inr (Matched (od_number o'), db\<lparr>shop_db := shop',
         payments := update_payments (pk o') code (wr_new_status w) (wr_raw w) (payments db)\<rparr>))"
  using assms by (simp add: handle_webhook_def Let_def)

lemma update_payments_status:
  assumes "p \<in> set (update_payments ord code st raw tbl)" "is_alive p" "py_order p = ord" "py_provider p = code"
  shows "py_status p = (if st = '''' then ''pending'' else st)"
proof -
  let ?m = "\<lambda>p. is_alive p \<and> py_order p = ord \<and> py_provider p = code"
  let ?f = "\<lambda>p. p\<lparr>py_status := (if st = '''' then payment_value P_PENDING else st), py_raw_response := raw\<rparr>"
  obtain x where x: "p = (if ?m x then ?f x else x)"
    using assms(1) unfolding update_payments_def set_update_where by blast
  show ?thesis
  proof (cases "?m x")
    case True
    with x have "p = ?f x" by simp
    then show ?thesis by simp
  next
    case False
    with x assms(2-4) show ?thesis by simp
  qed
qed

definition payments_ok :: "payment list \<Rightarrow> bool" where
  "payments_ok tbl \<longleftrightarrow> list_all (\<lambda>p. py_status p \<in> payment_value `
     {P_PENDING, P_AUTHORIZED, P_CAPTURED, P_FAILED, P_CANCELLED, P_REFUNDED}) tbl"

lemma update_payments_ok:
  assumes "payments_ok tbl"
    "(if st = '''' then ''pending'' else st)
       \<in> {''pending'', ''authorized'', ''captured'', ''failed'', ''cancelled'', ''refunded''}"
  shows "payments_ok (update_payments ord code st raw tbl)"
  using assms unfolding payments_ok_def list_all_iff update_payments_def set_update_where by auto

text \<open>Concrete providers for the witnesses.\<close>

definition hook :: "string \<Rightarrow> nat \<Rightarrow> webhook_result" where
  "hook st k =
     \<lparr>wr_accepted = True, wr_event_type = JStr ''test'', wr_order_id = JStr (uuid_str k),
      wr_payment_reference = JStr '''', wr_new_status = st, wr_raw = JObj [], wr_error = ''''\<rparr>"

definition hook_provider :: "webhook_result \<Rightarrow> string \<Rightarrow> py_error + provider" where
  "hook_provider w code = Inr \<lparr>create_charge = manual_create_charge, parse_webhook = (\<lambda>_ _. Inr w), refund = base_refund\<rparr>"

definition demo_payment :: "nat \<Rightarrow> nat \<Rightarrow> string \<Rightarrow> string \<Rightarrow> payment" where
  "demo_payment k ord code st =
     (new_payment 0 (demo_order ord PENDING) code (intent_of (demo_order ord PENDING) '''' '''') k)\<lparr>py_status := st\<rparr>"

definition demo_store :: store where
  "demo_store = \<lparr>shop_db = busy_shop, payments = [demo_payment 1 1 ''payme'' ''captured'',
     demo_payment 2 2 ''payme'' ''pending''], refunds = []\<rparr>"

lemma demo_store_orders:
  "orders_ok (shop_db demo_store)" "shop_ok (shop_db demo_store)" "reservations_match (shop_db demo_store)"
  "demo_order 1 PAID \<in> set (orders (shop_db demo_store))"
  "demo_order 2 PENDING \<in> set (orders (shop_db demo_store))"
  "is_alive (demo_order k st)" "pk (demo_order k st) = k" "od_status (demo_order k st) = st"
  using busy_shop_ok busy_shop_matches
  by (simp_all add: demo_store_def shop_ok_def busy_shop_def demo_order_def is_alive_def)

text \<open>A captured webhook of a pending order runs the transition; one of any other order leaves it alone.\<close>

lemma pending_order_webhook:
  assumes "shop_ok (shop_db db)" "reservations_match (shop_db db)"
    and "o' \<in> set (orders (shop_db db))" "is_alive o'" "od_status o' = PENDING" "pk o' < 2 ^ 128"
    and "get_prov code = Inr p" "parse_webhook p hs body = Inr w" "wr_accepted w"
    and "wr_order_id w = JStr (uuid_str (pk o'))" "wr_new_status w = ''captured''"
    and "length (''webhook:'' @ py_str repr (wr_event_type w)) \<le> 64"
  obtains s' where
    "handle_webhook now get_prov repr code hs body db = Inr (Matched (od_number o'),
       db\<lparr>shop_db := s', payments := update_payments (pk o') code ''captured'' (wr_raw w) (payments db)\<rparr>)"
    "with_status now PAID o' \<in> set (orders s')" "shop_ok s'" "reservations_match s'"
proof -
  let ?s = "webhook_event now o' (''webhook:'' @ py_str repr (wr_event_type w)) (wr_raw w) (shop_db db)"
  have ok: "orders_ok (shop_db db)" using assms(1) by (simp add: shop_ok_def)
  have s: "shop_ok ?s" "reservations_match ?s" "o' \<in> set (orders ?s)" using assms(1-3) by simp_all
  have "is_ok (transition_status now (pk o') PAID None ''paid via webhook'' ?s)"
    by (rule pending_payable [OF s assms(4,5)]) simp
  then obtain o2 s' where t: "transition_status now (pk o') PAID None ''paid via webhook'' ?s = Inr (o2, s')"
    by (auto simp: is_ok_iff)
  have f: "find_by_id (wr_order_id w) (shop_db db) = Inr (Some o')"
    unfolding assms(10) by (rule find_by_id_order [OF ok assms(3,4,6)])
  have h: "handle_webhook now get_prov repr code hs body db = Inr (Matched (od_number o'),
      db\<lparr>shop_db := s', payments := update_payments (pk o') code ''captured'' (wr_raw w) (payments db)\<rparr>)"
    using handle_webhook_matched [where get_prov = get_prov and code = code and repr = repr and now = now,
        OF assms(7,8,9) f assms(12)] t by (simp add: apply_status_def assms(11))
  have m: "with_status now PAID o' \<in> set (orders s')"
    using t
  proof (cases rule: transition_Inr)
    case (1 o0)
    have "(\<lambda>r. if pk r = pk o' then with_status now PAID r else r) o' \<in> set (orders s')"
      unfolding 1(7) set_save_row by (rule imageI [OF s(3)])
    then show ?thesis by simp
  qed
  show thesis
    using that [OF h m] transition_ok [OF s(1) t] transition_matches [OF s(1,2) t s(3) refl] by simp
qed

lemma closed_order_webhook:
  assumes "orders_ok (shop_db db)" "o' \<in> set (orders (shop_db db))" "is_alive o'" "pk o' < 2 ^ 128"
    and "od_status o' \<noteq> PENDING"
    and "get_prov code = Inr p" "parse_webhook p hs body = Inr w" "wr_accepted w"
    and "wr_order_id w = JStr (uuid_str (pk o'))" "wr_new_status w = ''captured''"
    and "length (''webhook:'' @ py_str repr (wr_event_type w)) \<le> 64"
  shows "handle_webhook now get_prov repr code hs body db = Inr (Matched (od_number o'),
    db\<lparr>shop_db := webhook_event now o' (''webhook:'' @ py_str repr (wr_event_type w)) (wr_raw w) (shop_db db),
       payments := update_payments (pk o') code ''captured'' (wr_raw w) (payments db)\<rparr>)"
proof -
  let ?s = "webhook_event now o' (''webhook:'' @ py_str repr (wr_event_type w)) (wr_raw w) (shop_db db)"
  have ok: "orders_ok ?s" using assms(1) by (simp add: orders_ok_def)
  have "\<not> can_transition_to o' PAID" using assms(5) by (cases "od_status o'") (auto simp: can_transition_to_def)
  with transition_living [OF ok _ assms(3), of now PAID None "''paid via webhook''"] assms(2)
  have t: "transition_status now (pk o') PAID None ''paid via webhook'' ?s = Inl (CheckoutError (refused_message o' PAID))"
    by simp
  have f: "find_by_id (wr_order_id w) (shop_db db) = Inr (Some o')"
    unfolding assms(9) by (rule find_by_id_order [OF assms(1-4)])
  show ?thesis
    using handle_webhook_matched [where get_prov = get_prov and code = code and repr = repr and now = now,
        OF assms(6,7,8) f assms(11)] t by (simp add: apply_status_def assms(10))
qed

section \<open>Properties\<close>



text \<open>
  C14. Delivering a captured webhook again is harmless to the order: for an order that has left
  PENDING the call still succeeds, and no order, order item, stock row or reservation changes.
\<close>

theorem captured_webhook_replay:
  assumes "orders_ok (shop_db db)" "o' \<in> set (orders (shop_db db))" "is_alive o'" "pk o' < 2 ^ 128"
    and "od_status o' \<noteq> PENDING"
    and "get_prov code = Inr p" "parse_webhook p hs body = Inr w" "wr_accepted w"
    and "wr_order_id w = JStr (uuid_str (pk o'))" "wr_new_status w = ''captured''"
    and "length (''webhook:'' @ py_str repr (wr_event_type w)) \<le> 64"
  shows "\<exists>db'. handle_webhook now get_prov repr code hs body db = Inr (Matched (od_number o'), db') \<and>
    orders (shop_db db') = orders (shop_db db) \<and> stock_db (shop_db db') = stock_db (shop_db db) \<and>
    order_items (shop_db db') = order_items (shop_db db)"
  using closed_order_webhook [where get_prov = get_prov and repr = repr and now = now, OF assms] by simp

theorem captured_webhook_replay_witness:
  "\<exists>db'. handle_webhook 9 (hook_provider (hook ''captured'' 1)) (\<lambda>_. '''') ''payme'' [] '''' demo_store =
       Inr (Matched (od_number (demo_order 1 PAID)), db') \<and> orders (shop_db db') = orders (shop_db demo_store)"
proof -
  have p: "hook_provider (hook ''captured'' 1) ''payme'' =
      Inr \<lparr>create_charge = manual_create_charge, parse_webhook = (\<lambda>_ _. Inr (hook ''captured'' 1)),
           refund = base_refund\<rparr>"
    by (simp add: hook_provider_def)
  from captured_webhook_replay [where get_prov = "hook_provider (hook ''captured'' 1)" and code = "''payme''" and
      now = 9 and w = "hook ''captured'' 1" and repr = "\<lambda>_. []" and hs = "[]" and body = "[]",
      OF demo_store_orders(1,4,6) _ _ p]
  show ?thesis by (auto simp: demo_store_orders hook_def)
qed

text \<open>
  A callback that carries no status of its own (an event type the provider's table does not
  list, such as Payme's \<open>CheckTransaction\<close>) still writes the payments: it leaves the order as it
  is but sets every payment of that order and provider back to pending, captured ones included.
\<close>

theorem statusless_webhook_resets_payments:
  assumes "get_prov code = Inr p" "parse_webhook p hs body = Inr w" "wr_accepted w" "wr_new_status w = ''''"
    and "find_by_id (wr_order_id w) (shop_db db) = Inr (Some o')"
    and "length (''webhook:'' @ py_str repr (wr_event_type w)) \<le> 64"
  shows "\<exists>db'. handle_webhook now get_prov repr code hs body db = Inr (Matched (od_number o'), db') \<and>
    orders (shop_db db') = orders (shop_db db) \<and> stock_db (shop_db db') = stock_db (shop_db db) \<and>
    length (payments db') = length (payments db) \<and>
    (\<forall>pay \<in> set (payments db'). is_alive pay \<and> py_order pay = pk o' \<and> py_provider pay = code \<longrightarrow>
       py_status pay = ''pending'')"
proof -
  have h: "handle_webhook now get_prov repr code hs body db = Inr (Matched (od_number o'),
      db\<lparr>shop_db := webhook_event now o' (''webhook:'' @ py_str repr (wr_event_type w)) (wr_raw w) (shop_db db),
         payments := update_payments (pk o') code '''' (wr_raw w) (payments db)\<rparr>)"
    using handle_webhook_matched [where get_prov = get_prov and code = code and repr = repr and now = now,
        OF assms(1-3,5,6)] by (simp add: apply_status_def assms(4))
  have "\<forall>pay \<in> set (update_payments (pk o') code '''' (wr_raw w) (payments db)).
      is_alive pay \<and> py_order pay = pk o' \<and> py_provider pay = code \<longrightarrow> py_status pay = ''pending''"
    using update_payments_status [of _ "pk o'" code "''''"] by simp
  moreover have "length (update_payments (pk o') code '''' (wr_raw w) (payments db)) = length (payments db)"
    by (simp add: update_payments_def length_update_where)
  ultimately show ?thesis unfolding h by simp
qed

theorem statusless_webhook_resets_payments_witness:
  "py_status (demo_payment 1 1 ''payme'' ''captured'') = ''captured'' \<and>
   (\<exists>db'. handle_webhook 9 (hook_provider (hook '''' 1)) (\<lambda>_. '''') ''payme'' [] '''' demo_store =
       Inr (Matched (od_number (demo_order 1 PAID)), db') \<and>
     (\<forall>pay \<in> set (payments db'). is_alive pay \<and> py_order pay = 1 \<and> py_provider pay = ''payme'' \<longrightarrow>
        py_status pay = ''pending''))"
proof -
  have p: "hook_provider (hook '''' 1) ''payme'' =
      Inr \<lparr>create_charge = manual_create_charge, parse_webhook = (\<lambda>_ _. Inr (hook '''' 1)),
           refund = base_refund\<rparr>"
    by (simp add: hook_provider_def)
  have f: "find_by_id (wr_order_id (hook '''' 1)) (shop_db demo_store) = Inr (Some (demo_order 1 PAID))"
    using find_by_id_order [OF demo_store_orders(1,4,6)] by (simp add: hook_def demo_store_orders(7))
  have "\<exists>db'. handle_webhook 9 (hook_provider (hook [] 1)) (\<lambda>_. []) ''payme'' [] [] demo_store =
       Inr (Matched (od_number (demo_order 1 PAID)), db') \<and>
     orders (shop_db db') = orders (shop_db demo_store) \<and> stock_db (shop_db db') = stock_db (shop_db demo_store) \<and>
     length (payments db') = length (payments demo_store) \<and>
     (\<forall>pay \<in> set (payments db'). is_alive pay \<and> py_order pay = pk (demo_order 1 PAID) \<and>
        py_provider pay = ''payme'' \<longrightarrow> py_status pay = ''pending'')"
    by (rule statusless_webhook_resets_payments [where get_prov = "hook_provider (hook [] 1)" and code = "''payme''"
          and w = "hook [] 1", OF p _ _ _ f]) (simp_all add: hook_def)
  moreover have "py_status (demo_payment 1 1 ''payme'' ''captured'') = ''captured''"
    by (simp add: demo_payment_def)
  ultimately show ?thesis by (simp add: demo_store_orders(7)) blast
qed

text \<open>
  A refunded webhook moves exactly the paid, packed, shipped and delivered orders, without any
  stock movement: nothing returns to the shelf. For a pending, cancelled or refunded order the
  call raises \<open>CheckoutError\<close>, so the provider's callback fails.
\<close>

theorem refunded_webhook_exact:
  assumes "get_prov code = Inr p" "parse_webhook p hs body = Inr w" "wr_accepted w" "wr_new_status w = ''refunded''"
    and "orders_ok (shop_db db)" "find_by_id (wr_order_id w) (shop_db db) = Inr (Some o')"
    and "length (''webhook:'' @ py_str repr (wr_event_type w)) \<le> 64"
  shows "if od_status o' \<in> {PAID, PACKED, SHIPPED, DELIVERED}
    then \<exists>db'. handle_webhook now get_prov repr code hs body db = Inr (Matched (od_number o'), db') \<and>
           with_status now REFUNDED o' \<in> set (orders (shop_db db')) \<and>
           stock_db (shop_db db') = stock_db (shop_db db)
    else handle_webhook now get_prov repr code hs body db = Inl (CheckoutError (refused_message o' REFUNDED))"
proof -
  let ?s = "webhook_event now o' (''webhook:'' @ py_str repr (wr_event_type w)) (wr_raw w) (shop_db db)"
  have o: "o' \<in> set (orders ?s)" "is_alive o'" using find_by_id_Some [OF assms(6)] by simp_all
  have ok: "orders_ok ?s" using assms(5) by (simp add: orders_ok_def)
  note t = transition_living [OF ok o, of now REFUNDED None "''refunded via webhook''"]
  note h = handle_webhook_matched [where get_prov = get_prov and code = code and repr = repr and now = now,
      OF assms(1-3,6,7)]
  have c: "can_transition_to o' REFUNDED \<longleftrightarrow> od_status o' \<in> {PAID, PACKED, SHIPPED, DELIVERED}"
    by (cases "od_status o'") (auto simp: can_transition_to_def)
  have m: "with_status now REFUNDED o' \<in> set (save_row (pk o') (with_status now REFUNDED) (orders ?s))"
  proof -
    have "(\<lambda>r. if pk r = pk o' then with_status now REFUNDED r else r) o'
        \<in> set (save_row (pk o') (with_status now REFUNDED) (orders ?s))"
      unfolding set_save_row by (rule imageI [OF o(1)])
    then show ?thesis by simp
  qed
  show ?thesis
  proof (cases "can_transition_to o' REFUNDED")
    case True
    with t have "transition_status now (pk o') REFUNDED None ''refunded via webhook'' ?s =
        Inr (with_status now REFUNDED o', create_event now (with_status now REFUNDED o')
          (''status:'' @ status_value REFUNDED) ''refunded via webhook'' None
          (?s\<lparr>stock_db := stock_db ?s, orders := save_row (pk o') (with_status now REFUNDED) (orders ?s)\<rparr>))"
      by (simp add: move_stock_def)
    with h m True c show ?thesis by (simp add: apply_status_def assms(4))
  next
    case False
    with t have "transition_status now (pk o') REFUNDED None ''refunded via webhook'' ?s =
        Inl (CheckoutError (refused_message o' REFUNDED))" by simp
    with h False c show ?thesis by (simp add: apply_status_def assms(4))
  qed
qed

theorem refunded_webhook_exact_witness:
  "handle_webhook 9 (hook_provider (hook ''refunded'' 2)) (\<lambda>_. '''') ''paypal'' [] '''' demo_store =
     Inl (CheckoutError (refused_message (demo_order 2 PENDING) REFUNDED))"
proof -
  have p: "hook_provider (hook ''refunded'' 2) ''paypal'' =
      Inr \<lparr>create_charge = manual_create_charge, parse_webhook = (\<lambda>_ _. Inr (hook ''refunded'' 2)),
           refund = base_refund\<rparr>"
    by (simp add: hook_provider_def)
  have f: "find_by_id (wr_order_id (hook ''refunded'' 2)) (shop_db demo_store) = Inr (Some (demo_order 2 PENDING))"
    using find_by_id_order [OF demo_store_orders(1,5,6)] by (simp add: hook_def demo_store_orders(7))
  have "if od_status (demo_order 2 PENDING) \<in> {PAID, PACKED, SHIPPED, DELIVERED}
    then \<exists>db'. handle_webhook 9 (hook_provider (hook ''refunded'' 2)) (\<lambda>_. []) ''paypal'' [] [] demo_store =
             Inr (Matched (od_number (demo_order 2 PENDING)), db') \<and>
           with_status 9 REFUNDED (demo_order 2 PENDING) \<in> set (orders (shop_db db')) \<and>
           stock_db (shop_db db') = stock_db (shop_db demo_store)
    else handle_webhook 9 (hook_provider (hook ''refunded'' 2)) (\<lambda>_. []) ''paypal'' [] [] demo_store =
           Inl (CheckoutError (refused_message (demo_order 2 PENDING) REFUNDED))"
    by (rule refunded_webhook_exact [where get_prov = "hook_provider (hook ''refunded'' 2)" and code = "''paypal''"
          and w = "hook ''refunded'' 2", OF p _ _ _ demo_store_orders(1) f]) (simp_all add: hook_def)
  then show ?thesis by (simp add: demo_store_orders(8))
qed

lemma webhook_target_in:
  assumes "find_by_id v db = Inr by_id"
    "(case by_id of Some o' \<Rightarrow> Some o' | None \<Rightarrow> find_by_reference repr r db) = Some o'"
  shows "o' \<in> set (orders db) \<and> is_alive o'"
  using assms find_by_id_Some [of v db o'] find_by_reference_Some [of repr r db o']
  by (cases by_id) auto

text \<open>
  With the registry's providers, a callback that is not accepted, and one that names no order,
  change nothing; a name outside the registry (\<open>uzum\<close>, which the payment model offers, among
  them) raises \<open>ValueError\<close> before anything is written; and after every call that returns, each
  payment's status is still one of the model's choices.
\<close>

theorem webhook_safe:
  assumes "payments_ok (payments db)"
  shows "case handle_webhook now (get_provider env status_error cfg) repr code hs body db of
      Inl e \<Rightarrow> code \<in> {''stripe'', ''paypal'', ''click'', ''payme'', ''manual''} \<or>
              e = ValueError (''unknown payment provider: '' @ code)
    | Inr (reply, db') \<Rightarrow> payments_ok (payments db') \<and>
        (\<forall>n. reply = Matched n \<longrightarrow> (\<exists>o' \<in> set (orders (shop_db db)). is_alive o' \<and> od_number o' = n)) \<and>
        ((\<forall>n. reply \<noteq> Matched n) \<longrightarrow> db' = db)"
proof (cases "get_provider env status_error cfg code")
  case (Inl e)
  then have "e = ValueError (''unknown payment provider: '' @ code)"
    by (auto simp: get_provider_def split: option.splits)
  with Inl show ?thesis by (simp add: handle_webhook_def)
next
  case (Inr p)
  have reg: "code \<in> {''stripe'', ''paypal'', ''click'', ''payme'', ''manual''}"
    using Inr by (auto simp: get_provider_def REGISTRY_def split: option.splits if_splits)
  note stored = payment_provider.stored_status [OF registered_provider [OF Inr]]
  let ?H = "handle_webhook now (get_provider env status_error cfg) repr code hs body db"
  show ?thesis
  proof (cases ?H)
    case err: (Inl e)
    with reg show ?thesis by simp
  next
    case ok: (Inr r)
    then obtain w where w: "parse_webhook p hs body = Inr w"
      by (auto simp: handle_webhook_def Inr result_simps)
    show ?thesis
    proof (cases "wr_accepted w")
      case False
      with ok w assms show ?thesis by (auto simp: handle_webhook_def Inr)
    next
      case True
      obtain by_id where by_id: "find_by_id (wr_order_id w) (shop_db db) = Inr by_id"
        using ok w True by (cases "find_by_id (wr_order_id w) (shop_db db)") (simp_all add: handle_webhook_def Inr)
      let ?t = "case by_id of Some o' \<Rightarrow> Some o'
                | None \<Rightarrow> find_by_reference repr (wr_payment_reference w) (shop_db db)"
      show ?thesis
      proof (cases ?t)
        case None
        with ok w True by_id assms show ?thesis by (auto simp: handle_webhook_def Inr)
      next
        case (Some o')
        note o' = webhook_target_in [OF by_id Some]
        obtain shop' where "r = (Matched (od_number o'), db\<lparr>shop_db := shop',
            payments := update_payments (pk o') code (wr_new_status w) (wr_raw w) (payments db)\<rparr>)"
          using ok w True by_id Some
          by (auto simp: handle_webhook_def Inr result_simps Let_def split: if_splits)
        with ok o' update_payments_ok [OF assms stored [OF w]] show ?thesis by auto
      qed
    qed
  qed
qed

theorem webhook_safe_witness:
  "payments_ok (payments demo_store) \<and>
   handle_webhook 9 (get_provider (demo_env [] JNull) (\<lambda>_. '''') (demo_settings ''k'')) (\<lambda>_. '''') ''uzum'' [] '''' demo_store
     = Inl (ValueError ''unknown payment provider: uzum'')"
proof -
  have ok: "payments_ok (payments demo_store)"
    by (simp add: payments_ok_def demo_store_def demo_payment_def)
  let ?H = "handle_webhook 9 (get_provider (demo_env [] JNull) (\<lambda>_. []) (demo_settings ''k'')) (\<lambda>_. []) ''uzum'' [] [] demo_store"
  have "\<not> is_ok ?H" by (simp add: handle_webhook_def get_provider_def REGISTRY_def)
  then obtain e where e: "?H = Inl e" by (cases ?H) auto
  have "''unknown payment provider: '' @ ''uzum'' = ''unknown payment provider: uzum''" by simp
  with webhook_safe [OF ok, where now = 9 and env = "demo_env [] JNull" and status_error = "\<lambda>_. []" and
      cfg = "demo_settings ''k''" and repr = "\<lambda>_. []" and code = "''uzum''" and hs = "[]" and body = "[]"] e ok
  show ?thesis by simp
qed



text \<open>
  The expiry task fails exactly the living pending payments older than the cutoff, returns
  their number, and leaves every other payment as it is.
\<close>

theorem expire_pending_exact:
  assumes "expire_pending_payments now m tbl = (n, tbl')"
  shows "length tbl' = length tbl \<and>
    n = length (filter (\<lambda>p. is_alive p \<and> py_status p = ''pending'' \<and> created_at p < now - m * 60000000) tbl) \<and>
    (\<forall>i < length tbl.
       if is_alive (tbl ! i) \<and> py_status (tbl ! i) = ''pending'' \<and> created_at (tbl ! i) < now - m * 60000000
       then py_status (tbl' ! i) = ''failed'' \<and> pk (tbl' ! i) = pk (tbl ! i) \<and> py_amount (tbl' ! i) = py_amount (tbl ! i)
       else tbl' ! i = tbl ! i)"
  using assms by (auto simp: expire_pending_payments_def Let_def count_where_def update_where_def)

theorem expire_pending_exact_witness:
  "\<exists>tbl'. expire_pending_payments 4000000000 60 (payments demo_store) = (1, tbl') \<and>
     py_status (tbl' ! 1) = ''failed'' \<and> tbl' ! 0 = payments demo_store ! 0"
proof -
  obtain n tbl' where e: "expire_pending_payments 4000000000 60 (payments demo_store) = (n, tbl')" by fastforce
  have n: "n = 1" using arg_cong [OF e, of fst] by (simp add: expire_pending_payments_def count_where_def
        demo_store_def demo_payment_def new_payment_def is_alive_def Let_def)
  have p: "length (payments demo_store) = 2" "py_status (payments demo_store ! 0) = ''captured''"
    "is_alive (payments demo_store ! 1)" "py_status (payments demo_store ! 1) = ''pending''"
    "created_at (payments demo_store ! 1) = 0"
    by (simp_all add: demo_store_def demo_payment_def new_payment_def is_alive_def)
  from expire_pending_exact [OF e] p have "tbl' ! 0 = payments demo_store ! 0" "py_status (tbl' ! 1) = ''failed''"
    by (auto dest: spec [of _ 0] spec [of _ 1])
  with e n show ?thesis by blast
qed

text \<open>
  A payment is only ever created for an order by staff or by the order's own user: when
  \<open>create_for_order\<close> answers 201, the requester is staff or owns the living order, and in every
  other outcome nothing has changed.
\<close>

theorem payment_needs_owner_or_staff:
  "case create_for_order now get_prov isotime u k code su cu db of
     (Inr (Response st b), db') \<Rightarrow>
       (if st = 201
        then \<exists>o' \<in> set (orders (shop_db db)). is_alive o' \<and> pk o' = k \<and> (us_is_staff u \<or> od_user o' = Some (pk u))
        else db' = db)
   | (Inl e, db') \<Rightarrow> db' = db"
proof (cases "get_one ''Order'' (\<lambda>o'. pk o' = k) (orders (shop_db db))")
  case (Inl e)
  then show ?thesis by (cases e) (simp_all add: create_for_order_def)
next
  case (Inr o')
  note o' = get_one_Inr [OF Inr]
  show ?thesis
  proof (cases "\<not> us_is_staff u \<and> od_user o' \<noteq> Some (pk u)")
    case True
    with Inr show ?thesis by (simp add: create_for_order_def error_response_def)
  next
    case False
    show ?thesis
    proof (cases "create_payment now get_prov o' code su cu db")
      case err: (Inl e)
      with Inr False show ?thesis by (auto simp: create_for_order_def)
    next
      case ok: (Inr r)
      obtain p d where r: "r = (p, d)" by (cases r)
      have "create_for_order now get_prov isotime u k code su cu db = (Inr (Response 201 (payment_json isotime p)), d)"
        using Inr False ok r by (auto simp: create_for_order_def)
      with o' False show ?thesis by auto
    qed
  qed
qed

end
