(* ===== verification/Storefront.thy ===== *)
theory Storefront
  imports Payments
begin

text \<open>
  The HTTP views and serializers of carts, orders, coupons and inventory
  (\<open>cart/views.py\<close>, \<open>orders/views.py\<close>, \<open>coupons/views.py\<close>, \<open>inventory/views.py\<close> and the
  \<open>serializers.py\<close> beside them). A view returns an outcome and the state it leaves: views are not
  atomic, so what a completed service call did stays when a later step raises. Field parsing by
  DRF is outside: a view receives the parsed fields, and the serializers' own checks are here.
  \<open>isotime\<close> renders an instant.
\<close>

section \<open>Requests\<close>

text \<open>The session key is empty where there is none; \<open>rq_fresh_key\<close> is what \<open>session.create()\<close> would draw.\<close>

record request =
  rq_user :: "user option"
  rq_session_key :: string
  rq_fresh_key :: string

definition user_pk :: "request \<Rightarrow> nat option" where
  "user_pk rq = map_option pk (rq_user rq)"

definition json_opt :: "('a \<Rightarrow> json) \<Rightarrow> 'a option \<Rightarrow> json" where
  "json_opt f v = (case v of None \<Rightarrow> JNull | Some x \<Rightarrow> f x)"

definition json_pk :: "nat \<Rightarrow> json" where
  "json_pk k = JStr (uuid_str k)"

section \<open>Cart\<close>

definition CartItemSerializer :: "catalog \<Rightarrow> cart_item \<Rightarrow> json" where
  "CartItemSerializer cat it =
     JObj [(''id'', json_pk (pk it)), (''variant'', json_pk (ci_variant it)),
           (''sku'', json_opt (JStr \<circ> pv_sku) (find_variant (ci_variant it) cat)),
           (''product_name'', json_opt (JStr \<circ> pr_name)
              (Option.bind (find_variant (ci_variant it) cat) (\<lambda>v. find_product (pv_product v) cat))),
           (''quantity'', JInt (ci_quantity it)), (''unit_price'', JStr (str_money (ci_unit_price it))),
           (''line_total'', JStr (str_money (line_total it)))]"

definition CartSerializer :: "(int \<Rightarrow> string) \<Rightarrow> catalog \<Rightarrow> cart_store \<Rightarrow> cart \<Rightarrow> json" where
  "CartSerializer isotime cat db c =
     JObj [(''id'', json_pk (pk c)), (''user'', json_opt json_pk (ct_user c)),
           (''session_key'', JStr (ct_session_key c)), (''currency'', JStr (ct_currency c)),
           (''items'', JList (map (CartItemSerializer cat) (items_of (pk c) db))),
           (''coupon'', json_opt json_pk (ct_coupon c)),
           (''subtotal'', JStr (str_money (subtotal c db))), (''total_items'', JInt (total_items c db)),
           (''metadata'', ct_metadata c), (''last_active_at'', JStr (isotime (ct_last_active_at c)))]"

text \<open>
  \<open>AddItemSerializer\<close>: the parsed \<open>variant_id\<close>, and \<open>quantity\<close> where given (default 1, at least
  1); \<open>UpdateItemSerializer\<close>: at least 0.
\<close>

definition AddItemSerializer :: "catalog \<Rightarrow> nat \<Rightarrow> int option \<Rightarrow> py_error + (nat \<times> int)" where
  "AddItemSerializer cat v q =
     (let quantity = (case q of None \<Rightarrow> 1 | Some n \<Rightarrow> n) in
      if quantity < 1 then Inl (ValidationError ''quantity'')
      else if \<not> (\<exists>x \<in> set (objects (variants cat)). pk x = v \<and> pv_is_active x)
      then Inl (ValidationError ''variant not found or inactive'')
      else Inr (v, quantity))"

definition UpdateItemSerializer :: "int \<Rightarrow> py_error + int" where
  "UpdateItemSerializer q = (if q < 0 then Inl (ValidationError ''quantity'') else Inr q)"

definition resolve_cart :: "int \<Rightarrow> request \<Rightarrow> cart_store \<Rightarrow> py_error + (cart \<times> cart_store)" where
  "resolve_cart now rq db =
     get_or_create_cart now (user_pk rq)
       (if rq_session_key rq = '''' then rq_fresh_key rq else rq_session_key rq) db"

definition cart_list :: "int \<Rightarrow> (int \<Rightarrow> string) \<Rightarrow> catalog \<Rightarrow> request \<Rightarrow> cart_store
    \<Rightarrow> (py_error + response) \<times> cart_store" where
  "cart_list now isotime cat rq db =
     (case resolve_cart now rq db of
        Inl e \<Rightarrow> (Inl e, db)
      | Inr (c, db1) \<Rightarrow> (Inr (Response 200 (CartSerializer isotime cat db1 c)), db1))"

definition cart_add :: "int \<Rightarrow> (int \<Rightarrow> string) \<Rightarrow> catalog \<Rightarrow> inventory \<Rightarrow> request \<Rightarrow> nat \<Rightarrow> int option
    \<Rightarrow> cart_store \<Rightarrow> (py_error + response) \<times> cart_store" where
  "cart_add now isotime cat stk rq v q db =
     (case resolve_cart now rq db of
        Inl e \<Rightarrow> (Inl e, db)
      | Inr (c, db1) \<Rightarrow>
          (case AddItemSerializer cat v q of
             Inl e \<Rightarrow> (Inl e, db1)
           | Inr (variant_id, quantity) \<Rightarrow>
               (case add_item now cat stk c variant_id quantity db1 of
                  Inl (OutOfStockError m) \<Rightarrow> (Inr (error_response 409 ''out_of_stock'' m), db1)
                | Inl e \<Rightarrow> (Inl e, db1)
                | Inr (_, db2) \<Rightarrow> (Inr (Response 201 (CartSerializer isotime cat db2 c)), db2))))"

definition cart_item_delete :: "int \<Rightarrow> (int \<Rightarrow> string) \<Rightarrow> catalog \<Rightarrow> request \<Rightarrow> nat \<Rightarrow> cart_store
    \<Rightarrow> (py_error + response) \<times> cart_store" where
  "cart_item_delete now isotime cat rq item_id db =
     (case resolve_cart now rq db of
        Inl e \<Rightarrow> (Inl e, db)
      | Inr (c, db1) \<Rightarrow>
          let db2 = remove_item now c item_id db1 in
          (Inr (Response 200 (CartSerializer isotime cat db2 c)), db2))"

definition cart_item_patch :: "int \<Rightarrow> (int \<Rightarrow> string) \<Rightarrow> catalog \<Rightarrow> inventory \<Rightarrow> request \<Rightarrow> nat \<Rightarrow> int
    \<Rightarrow> cart_store \<Rightarrow> (py_error + response) \<times> cart_store" where
  "cart_item_patch now isotime cat stk rq item_id q db =
     (case resolve_cart now rq db of
        Inl e \<Rightarrow> (Inl e, db)
      | Inr (c, db1) \<Rightarrow>
          (case UpdateItemSerializer q of
             Inl e \<Rightarrow> (Inl e, db1)
           | Inr quantity \<Rightarrow>
               (case update_item now cat stk c item_id quantity db1 of
                  Inl (OutOfStockError m) \<Rightarrow> (Inr (error_response 409 ''out_of_stock'' m), db1)
                | Inl e \<Rightarrow> (Inl e, db1)
                | Inr (_, db2) \<Rightarrow> (Inr (Response 200 (CartSerializer isotime cat db2 c)), db2))))"

definition cart_clear :: "int \<Rightarrow> (int \<Rightarrow> string) \<Rightarrow> catalog \<Rightarrow> request \<Rightarrow> cart_store
    \<Rightarrow> (py_error + response) \<times> cart_store" where
  "cart_clear now isotime cat rq db =
     (case resolve_cart now rq db of
        Inl e \<Rightarrow> (Inl e, db)
      | Inr (c, db1) \<Rightarrow>
          let db2 = clear_cart now c db1 in
          (Inr (Response 200 (CartSerializer isotime cat db2 (c\<lparr>ct_coupon := None\<rparr>))), db2))"

section \<open>Orders\<close>

definition OrderItemSerializer :: "order_item \<Rightarrow> json" where
  "OrderItemSerializer it =
     JObj [(''id'', json_pk (pk it)), (''variant'', json_opt json_pk (oi_variant it)),
           (''sku'', JStr (oi_sku it)), (''name_snapshot'', JStr (oi_name_snapshot it)),
           (''attributes_snapshot'', oi_attributes_snapshot it), (''quantity'', JInt (oi_quantity it)),
           (''unit_price'', JStr (str_money (oi_unit_price it))),
           (''line_total'', JStr (str_money (oi_line_total it)))]"

definition OrderEventSerializer :: "(int \<Rightarrow> string) \<Rightarrow> order_event \<Rightarrow> json" where
  "OrderEventSerializer isotime ev =
     JObj [(''id'', json_pk (pk ev)), (''code'', JStr (oe_code ev)), (''message'', JStr (oe_message ev)),
           (''actor'', json_opt json_pk (oe_actor ev)), (''payload'', oe_payload ev),
           (''created_at'', JStr (isotime (created_at ev)))]"

text \<open>The events come newest first (\<open>OrderEvent.Meta.ordering\<close>).\<close>

definition OrderSerializer :: "(int \<Rightarrow> string) \<Rightarrow> shop \<Rightarrow> order \<Rightarrow> json" where
  "OrderSerializer isotime db o' =
     (let tm = json_opt (JStr \<circ> isotime); amount = (\<lambda>c. JStr (str_money c)) in
      JObj [(''id'', json_pk (pk o')), (''number'', JStr (od_number o')), (''user'', json_opt json_pk (od_user o')),
            (''email_snapshot'', JStr (od_email_snapshot o')), (''phone_snapshot'', JStr (od_phone_snapshot o')),
            (''status'', JStr (status_value (od_status o'))), (''currency'', JStr (od_currency o')),
            (''subtotal'', amount (od_subtotal o')), (''shipping_total'', amount (od_shipping_total o')),
            (''tax_total'', amount (od_tax_total o')), (''discount_total'', amount (od_discount_total o')),
            (''grand_total'', amount (od_grand_total o')), (''coupon_code'', JStr (od_coupon_code o')),
            (''shipping_address'', od_shipping_address o'), (''billing_address'', od_billing_address o'),
            (''payment_provider'', JStr (od_payment_provider o')),
            (''payment_reference'', JStr (od_payment_reference o')), (''paid_at'', tm (od_paid_at o')),
            (''cancelled_at'', tm (od_cancelled_at o')), (''refunded_at'', tm (od_refunded_at o')),
            (''notes_customer'', JStr (od_notes_customer o')), (''metadata'', od_metadata o'),
            (''items'', JList (map OrderItemSerializer
               (filter (\<lambda>it. oi_order it = pk o') (objects (order_items db))))),
            (''events'', JList (map (OrderEventSerializer isotime) (sort_key (\<lambda>ev. - created_at ev)
               (filter (\<lambda>ev. oe_order ev = pk o') (objects (order_events db)))))),
            (''created_at'', JStr (isotime (created_at o'))), (''updated_at'', JStr (isotime (updated_at o')))])"

text \<open>
  \<open>OrderViewSet.get_queryset\<close> and \<open>get_object\<close>: an order outside the queryset is a 404, and the
  object permission is \<open>IsOwnerOrStaff\<close>.
\<close>

definition order_queryset :: "user \<Rightarrow> shop \<Rightarrow> order list" where
  "order_queryset u db =
     sort_key (\<lambda>o'. - created_at o')
       (filter (\<lambda>o'. us_is_staff u \<or> us_is_superuser u \<or> od_user o' = Some (pk u)) (objects (orders db)))"

definition get_order :: "user \<Rightarrow> nat \<Rightarrow> shop \<Rightarrow> py_error + order" where
  "get_order u k db =
     (case find (\<lambda>o'. pk o' = k) (order_queryset u db) of
        None \<Rightarrow> Inl Http404
      | Some o' \<Rightarrow> if IsOwnerOrStaff (Some u) (od_user o') then Inr o' else Inl PermissionDenied)"


definition order_retrieve :: "(int \<Rightarrow> string) \<Rightarrow> user \<Rightarrow> nat \<Rightarrow> shop \<Rightarrow> py_error + response" where
  "order_retrieve isotime u k db =
     bindE (get_order u k db) (\<lambda>o'. Inr (Response 200 (OrderSerializer isotime db o')))"

text \<open>
  \<open>CheckoutSerializer\<close> on parsed fields; an absent optional field is \<open>None\<close> and then takes the
  default of \<open>CheckoutInput\<close>. \<open>email_ok\<close> is DRF's e-mail check. A phone is required and not blank.
\<close>

definition CheckoutSerializer ::
  "(string \<Rightarrow> bool) \<Rightarrow> string \<Rightarrow> string \<Rightarrow> json \<Rightarrow> json option \<Rightarrow> string option \<Rightarrow> string option
   \<Rightarrow> string option \<Rightarrow> py_error + checkout_input" where
  "CheckoutSerializer email_ok email phone shipping billing coupon meth notes =
     (let or_default = (\<lambda>v d. case v of None \<Rightarrow> d | Some x \<Rightarrow> x);
          m = or_default meth ''standard'' in
      if \<not> email_ok email then Inl (ValidationError ''email'')
      else if phone = '''' \<or> 24 < length phone then Inl (ValidationError ''phone'')
      else if 64 < length (or_default coupon '''') then Inl (ValidationError ''coupon_code'')
      else if m \<notin> {''standard'', ''express'', ''pickup''} then Inl (ValidationError ''shipping_method'')
      else Inr \<lparr>ck_email = email, ck_phone = phone, ck_shipping_address = shipping,
                ck_billing_address = (case billing of None \<Rightarrow> JNull | Some b \<Rightarrow> b),
                ck_coupon_code = or_default coupon '''', ck_shipping_method = m,
                ck_notes_customer = or_default notes ''''\<rparr>)"

text \<open>The \<open>checkout\<close> action, from the serializer's outcome on; the view requires authentication.\<close>

definition order_checkout :: "int \<Rightarrow> (int \<Rightarrow> string) \<Rightarrow> string \<Rightarrow> request \<Rightarrow> (py_error + checkout_input)
    \<Rightarrow> shop \<Rightarrow> (py_error + response) \<times> shop" where
  "order_checkout now isotime number rq ser db =
     (case rq_user rq of
        None \<Rightarrow> (Inl NotAuthenticated, db)
      | Some u \<Rightarrow>
          (case ser of
             Inl e \<Rightarrow> (Inl e, db)
           | Inr payload \<Rightarrow>
               (case get_or_create_cart now (Some (pk u)) (rq_session_key rq) (cart_db db) of
                  Inl e \<Rightarrow> (Inl e, db)
                | Inr (c, cs) \<Rightarrow>
                    let db1 = db\<lparr>cart_db := cs\<rparr> in
                    (case create_order_from_cart now number c (Some (pk u)) payload db1 of
                       Inl (CheckoutError m) \<Rightarrow> (Inr (error_response 400 ''checkout_failed'' m), db1)
                     | Inl e \<Rightarrow> (Inl e, db1)
                     | Inr (o', db2) \<Rightarrow> (Inr (Response 201 (OrderSerializer isotime db2 o')), db2)))))"

definition order_cancel :: "int \<Rightarrow> (int \<Rightarrow> string) \<Rightarrow> user \<Rightarrow> nat \<Rightarrow> shop \<Rightarrow> (py_error + response) \<times> shop" where
  "order_cancel now isotime u k db =
     (case get_order u k db of
        Inl e \<Rightarrow> (Inl e, db)
      | Inr o' \<Rightarrow>
          (case transition_status now (pk o') CANCELLED (Some (pk u)) ''cancelled by user'' db of
             Inl (CheckoutError m) \<Rightarrow> (Inr (error_response 409 ''invalid_transition'' m), db)
           | Inl e \<Rightarrow> (Inl e, db)
           | Inr (o1, db1) \<Rightarrow> (Inr (Response 200 (OrderSerializer isotime db1 o1)), db1)))"

section \<open>Coupons\<close>

definition kind_value :: "coupon_kind \<Rightarrow> string" where
  "kind_value k = (case k of PERCENT \<Rightarrow> ''percent'' | FIXED \<Rightarrow> ''fixed'' | FREE_SHIPPING \<Rightarrow> ''free_shipping'')"

definition CouponSerializer :: "int \<Rightarrow> (int \<Rightarrow> string) \<Rightarrow> coupon \<Rightarrow> json" where
  "CouponSerializer now isotime c =
     JObj [(''id'', json_pk (pk c)), (''code'', JStr (cp_code c)), (''name'', JStr (cp_name c)),
           (''kind'', JStr (kind_value (cp_kind c))), (''value'', JStr (str_money (cp_value c))),
           (''min_subtotal'', JStr (str_money (cp_min_subtotal c))),
           (''max_discount'', json_opt (JStr \<circ> str_money) (cp_max_discount c)),
           (''max_uses'', JInt (cp_max_uses c)), (''used_count'', JInt (cp_used_count c)),
           (''per_user_limit'', JInt (cp_per_user_limit c)),
           (''starts_at'', json_opt (JStr \<circ> isotime) (cp_starts_at c)),
           (''ends_at'', json_opt (JStr \<circ> isotime) (cp_ends_at c)),
           (''is_active'', JBool (cp_is_active c)), (''is_valid_now'', JBool (is_valid_now now c))]"

text \<open>The coupon and stock views are for staff.\<close>

definition staff_only :: "user option \<Rightarrow> accounts \<Rightarrow> 'a \<Rightarrow> py_error + 'a" where
  "staff_only usr acc x =
     (if \<not> IsAuthenticated usr then Inl NotAuthenticated
      else if \<not> IsStaff usr acc then Inl PermissionDenied else Inr x)"

definition validate_code :: "int \<Rightarrow> (int \<Rightarrow> string) \<Rightarrow> string \<Rightarrow> coupon list \<Rightarrow> py_error + response" where
  "validate_code now isotime code tbl =
     (case get_coupon code tbl of
        Inl (DoesNotExist _) \<Rightarrow>
          Inr (Response 404 (JObj [(''valid'', JBool False), (''reason'', JStr ''not_found'')]))
      | Inl e \<Rightarrow> Inl e
      | Inr c \<Rightarrow> Inr (Response 200 (JObj [(''valid'', JBool (is_valid_now now c)),
                                          (''coupon'', CouponSerializer now isotime c)])))"

section \<open>Inventory\<close>

definition reason_value :: "movement_reason \<Rightarrow> string" where
  "reason_value r =
     (case r of PURCHASE \<Rightarrow> ''purchase'' | SALE \<Rightarrow> ''sale'' | RETURN \<Rightarrow> ''return''
      | ADJUSTMENT \<Rightarrow> ''adjustment'' | TRANSFER_IN \<Rightarrow> ''transfer_in'' | TRANSFER_OUT \<Rightarrow> ''transfer_out''
      | RESERVATION \<Rightarrow> ''reservation'' | RESERVATION_RELEASE \<Rightarrow> ''reservation_release'')"

definition WarehouseSerializer :: "warehouse \<Rightarrow> json" where
  "WarehouseSerializer w =
     JObj [(''id'', json_pk (pk w)), (''code'', JStr (wh_code w)), (''name'', JStr (wh_name w)),
           (''address'', JStr (wh_address w)), (''is_active'', JBool (wh_is_active w)),
           (''priority'', JInt (wh_priority w))]"

definition StockSerializer :: "catalog \<Rightarrow> inventory \<Rightarrow> stock \<Rightarrow> json" where
  "StockSerializer cat db s =
     JObj [(''id'', json_pk (pk s)), (''variant'', json_pk (st_variant s)),
           (''sku'', json_opt (JStr \<circ> pv_sku) (find_variant (st_variant s) cat)),
           (''warehouse'', json_pk (st_warehouse s)),
           (''warehouse_code'', json_opt (JStr \<circ> wh_code) (warehouse_of db s)),
           (''on_hand'', JInt (on_hand s)), (''reserved'', JInt (reserved s)),
           (''available'', JInt (available s)), (''safety_buffer'', JInt (safety_buffer s)),
           (''low_stock_threshold'', JInt (low_stock_threshold s)), (''is_low'', JBool (is_low s))]"

definition StockMovementSerializer :: "(int \<Rightarrow> string) \<Rightarrow> stock_movement \<Rightarrow> json" where
  "StockMovementSerializer isotime m =
     JObj [(''id'', json_pk (pk m)), (''stock'', json_pk (mv_stock m)), (''quantity'', JInt (mv_quantity m)),
           (''reason'', JStr (reason_value (mv_reason m))), (''reference'', JStr (mv_reference m)),
           (''note'', JStr (mv_note m)), (''created_at'', JStr (isotime (created_at m)))]"

text \<open>
  \<open>StockViewSet.adjust\<close> reads \<open>request.data\<close>: a missing key is a \<open>KeyError\<close>, a delta that is
  not a number a \<open>ValueError\<close>. \<open>variant_id\<close> is given as its key.
\<close>

definition stock_adjust :: "int \<Rightarrow> catalog \<Rightarrow> nat option \<Rightarrow> string option \<Rightarrow> string option \<Rightarrow> string option
    \<Rightarrow> inventory \<Rightarrow> (py_error + response) \<times> inventory" where
  "stock_adjust now cat variant_id warehouse_code delta txt db =
     (case variant_id of
        None \<Rightarrow> (Inl (KeyError ''variant_id''), db)
      | Some v \<Rightarrow>
     (case warehouse_code of
        None \<Rightarrow> (Inl (KeyError ''warehouse_code''), db)
      | Some code \<Rightarrow>
     (case delta of
        None \<Rightarrow> (Inl (KeyError ''delta''), db)
      | Some d \<Rightarrow>
     (case py_int d of
        None \<Rightarrow> (Inl (ValueError ''invalid literal for int()''), db)
      | Some n \<Rightarrow>
     (case adjust_stock now (\<lambda>k. k \<in> pk ` set (variants cat)) v code n
             (case txt of None \<Rightarrow> '''' | Some t \<Rightarrow> t) db of
        Inl e \<Rightarrow> (Inl e, db)
      | Inr (s, db') \<Rightarrow> (Inr (Response 200 (StockSerializer cat db' s)), db'))))))"

end
