(* ===== verification/Analytics.thy ===== *)
theory Analytics
  imports Storefront
begin

text \<open>
  \<open>django_app/apps/analytics\<close>: the live dashboard queries of \<open>services.py\<close> and the daily rollup
  of \<open>tasks.py\<close>. Dates are days since the epoch in UTC (the default \<open>TIME_ZONE\<close>), instants are
  microseconds; \<open>isoday\<close> and \<open>isotime\<close> render them. Rows that tie in an ORDER BY keep the order
  of the table.
\<close>

section \<open>Dates and aggregates\<close>

definition day_of :: "int \<Rightarrow> int" where
  "day_of t = t div 86400000000"

definition days_before :: "int \<Rightarrow> int \<Rightarrow> int" where
  "days_before now days = now - days * 86400000000"

definition on_day :: "int \<Rightarrow> int option \<Rightarrow> bool" where
  "on_day d t = (case t of None \<Rightarrow> False | Some x \<Rightarrow> day_of x = d)"

definition at_or_after :: "int \<Rightarrow> int option \<Rightarrow> bool" where
  "at_or_after since t = (case t of None \<Rightarrow> False | Some x \<Rightarrow> since \<le> x)"

definition sum_grand_total :: "order list \<Rightarrow> int" where
  "sum_grand_total xs = sum_list (map od_grand_total xs)"

text \<open>The orders of \<open>Order.objects\<close> with status PAID, which all revenue figures start from.\<close>

definition paid_orders :: "shop \<Rightarrow> order list" where
  "paid_orders db = filter (\<lambda>x. od_status x = PAID) (objects (orders db))"

section \<open>services.py\<close>

definition revenue_today :: "int \<Rightarrow> shop \<Rightarrow> int" where
  "revenue_today now db =
     sum_grand_total (filter (\<lambda>x. on_day (day_of now) (od_paid_at x)) (paid_orders db))"

definition orders_today :: "int \<Rightarrow> shop \<Rightarrow> json" where
  "orders_today now db =
     (let qs = filter (\<lambda>x. day_of (created_at x) = day_of now) (objects (orders db)) in
      JObj [(''total'', JInt (int (length qs))),
            (''paid'', JInt (int (count_where (\<lambda>x. od_status x = PAID) qs))),
            (''cancelled'', JInt (int (count_where (\<lambda>x. od_status x = CANCELLED) qs)))])"

text \<open>
  PostgreSQL's average of cents is exact to far more places than the two that \<open>quantize\<close> keeps,
  so the half-even rounding of the exact quotient is the result.
\<close>

definition average_order_value :: "int \<Rightarrow> int \<Rightarrow> shop \<Rightarrow> int" where
  "average_order_value now days db =
     (let xs = filter (\<lambda>x. at_or_after (days_before now days) (od_paid_at x)) (paid_orders db) in
      if xs = [] then 0 else round_half_even (sum_grand_total xs) (int (length xs)))"

text \<open>
  \<open>top_products\<close>: one row per product of the sold lines. The joins to order, variant and product
  are plain joins, which see dead rows; a line without a variant falls into the group of NULLs,
  whose key is rendered as the text None.
\<close>

record product_sales =
  ps_product :: "nat option"
  ps_name :: "string option"
  ps_qty :: int
  ps_revenue :: int

definition product_key :: "catalog \<Rightarrow> order_item \<Rightarrow> nat option \<times> string option" where
  "product_key cat it =
     (let v = Option.bind (oi_variant it) (\<lambda>k. find_variant k cat);
          p = map_option pv_product v in
      (p, map_option pr_name (Option.bind p (\<lambda>k. find_product k cat))))"

fun add_sale :: "(nat option \<times> string option) \<Rightarrow> order_item \<Rightarrow> product_sales list \<Rightarrow> product_sales list" where
  "add_sale (p, n) it [] =
     [\<lparr>ps_product = p, ps_name = n, ps_qty = oi_quantity it, ps_revenue = oi_unit_price it * oi_quantity it\<rparr>]"
| "add_sale (p, n) it (g # gs) =
     (if ps_product g = p \<and> ps_name g = n
      then g\<lparr>ps_qty := ps_qty g + oi_quantity it,
             ps_revenue := ps_revenue g + oi_unit_price it * oi_quantity it\<rparr> # gs
      else g # add_sale (p, n) it gs)"

definition sold_line :: "int \<Rightarrow> shop \<Rightarrow> order_item \<Rightarrow> bool" where
  "sold_line since db it =
     (case find_pk (oi_order it) (orders db) of None \<Rightarrow> False
      | Some x \<Rightarrow> od_status x = PAID \<and> at_or_after since (od_paid_at x))"

definition sales_by_product :: "catalog \<Rightarrow> order_item list \<Rightarrow> product_sales list" where
  "sales_by_product cat its = foldl (\<lambda>gs it. add_sale (product_key cat it) it gs) [] its"

definition top_products :: "int \<Rightarrow> nat \<Rightarrow> int \<Rightarrow> shop \<Rightarrow> json" where
  "top_products now limit days db =
     (let qs = filter (sold_line (days_before now days) db) (objects (order_items db));
          groups = take limit (sort_key (\<lambda>g. - ps_qty g) (sales_by_product (catalog_db db) qs)) in
      JList (map (\<lambda>g.
        JObj [(''product_id'', JStr (case ps_product g of None \<Rightarrow> ''None'' | Some k \<Rightarrow> uuid_str k)),
              (''name'', json_opt JStr (ps_name g)), (''qty'', JInt (ps_qty g)),
              (''revenue'', JStr (str_money (ps_revenue g)))]) groups))"

text \<open>
  \<open>abandoned_carts\<close>: the join to the items does not look at \<open>deleted_at\<close>, so a cart whose items
  were all removed is still listed with their number; its subtotal is that of the living items.
\<close>

definition joined_items :: "cart \<Rightarrow> cart_store \<Rightarrow> nat" where
  "joined_items c db = count_where (\<lambda>it. ci_cart it = pk c) (cart_items db)"

definition abandoned :: "int \<Rightarrow> int \<Rightarrow> nat \<Rightarrow> cart_store \<Rightarrow> cart list" where
  "abandoned now idle_minutes limit db =
     take limit (sort_key (\<lambda>c. - ct_last_active_at c)
       (filter (\<lambda>c. ct_last_active_at c < now - idle_minutes * 60000000 \<and> 0 < joined_items c db)
         (objects (carts db))))"

definition abandoned_carts :: "int \<Rightarrow> (int \<Rightarrow> string) \<Rightarrow> int \<Rightarrow> nat \<Rightarrow> user list \<Rightarrow> cart_store \<Rightarrow> json" where
  "abandoned_carts now isotime idle_minutes limit usrs db =
     JList (map (\<lambda>c.
       JObj [(''cart_id'', JStr (uuid_str (pk c))),
             (''user'', json_opt (JStr \<circ> us_email) (Option.bind (ct_user c) (\<lambda>u. find_pk u usrs))),
             (''last_active_at'', JStr (isotime (ct_last_active_at c))),
             (''item_count'', JInt (int (joined_items c db))),
             (''subtotal'', JStr (str_money (subtotal c db)))])
       (abandoned now idle_minutes limit db))"

text \<open>\<open>revenue_timeseries\<close>: one row per day with a payment, in the order of the days.\<close>

definition paid_days :: "order list \<Rightarrow> int list" where
  "paid_days xs = sort (remdups (map (\<lambda>x. case od_paid_at x of None \<Rightarrow> 0 | Some t \<Rightarrow> day_of t) xs))"

definition paid_since :: "int \<Rightarrow> shop \<Rightarrow> order list" where
  "paid_since since db =
     filter (\<lambda>x. case od_paid_at x of None \<Rightarrow> False | Some t \<Rightarrow> since \<le> day_of t) (paid_orders db)"

definition revenue_by_day :: "order list \<Rightarrow> (int \<times> int \<times> int) list" where
  "revenue_by_day qs =
     map (\<lambda>d. let xs = filter (\<lambda>x. on_day d (od_paid_at x)) qs in
              (d, sum_grand_total xs, int (length xs))) (paid_days qs)"

definition revenue_timeseries :: "int \<Rightarrow> (int \<Rightarrow> string) \<Rightarrow> int \<Rightarrow> shop \<Rightarrow> json" where
  "revenue_timeseries now isoday days db =
     JList (map (\<lambda>(d, revenue, n).
        JObj [(''day'', JStr (isoday d)), (''revenue'', JStr (str_money revenue)), (''orders'', JInt n)])
       (revenue_by_day (paid_since (day_of (days_before now days)) db)))"

text \<open>The threshold argument is not used.\<close>

definition low_stock_alerts :: "int option \<Rightarrow> inventory \<Rightarrow> int" where
  "low_stock_alerts threshold db = sum_list (map (\<lambda>s. 1) (filter is_low (objects (stocks db))))"

definition DashboardView_get :: "int \<Rightarrow> (int \<Rightarrow> string) \<Rightarrow> (int \<Rightarrow> string) \<Rightarrow> user option \<Rightarrow> accounts \<Rightarrow> shop
    \<Rightarrow> py_error + response" where
  "DashboardView_get now isoday isotime usr acc db =
     bindE (staff_only usr acc ()) (\<lambda>_. Inr (Response 200 (JObj
       [(''revenue_today'', JDec (revenue_today now db) 2), (''orders_today'', orders_today now db),
        (''average_order_value_30d'', JDec (average_order_value now 30 db) 2),
        (''top_products_30d'', top_products now 10 30 db),
        (''abandoned_carts'', abandoned_carts now isotime 60 100 (users acc) (cart_db db)),
        (''revenue_timeseries_30d'', revenue_timeseries now isoday 30 db),
        (''low_stock_alerts'', JInt (low_stock_alerts None (stock_db db)))])))"

section \<open>The daily rollup\<close>

record daily_sales = base_model +
  ds_day :: int
  ds_orders_count :: int
  ds_paid_orders_count :: int
  ds_cancelled_orders_count :: int
  ds_revenue :: int
  ds_average_order_value :: int
  ds_items_sold :: int
  ds_new_customers :: int

text \<open>The column rounds the average half away from zero; amounts are not negative.\<close>

definition numeric_round :: "int \<Rightarrow> int \<Rightarrow> int" where
  "numeric_round n d = (2 * n + d) div (2 * d)"

record day_figures =
  fg_orders :: int
  fg_paid :: int
  fg_cancelled :: int
  fg_revenue :: int
  fg_average :: int

definition figures_of :: "int \<Rightarrow> shop \<Rightarrow> day_figures" where
  "figures_of target db =
     (let qs = filter (\<lambda>x. day_of (created_at x) = target) (objects (orders db));
          paid = filter (\<lambda>x. od_status x = PAID) qs;
          revenue = sum_grand_total paid in
      \<lparr>fg_orders = int (length qs), fg_paid = int (length paid),
       fg_cancelled = int (count_where (\<lambda>x. od_status x = CANCELLED) qs), fg_revenue = revenue,
       fg_average = (if paid = [] then 0 else numeric_round revenue (int (length paid)))\<rparr>)"

definition set_figures :: "day_figures \<Rightarrow> daily_sales \<Rightarrow> daily_sales" where
  "set_figures fg r =
     r\<lparr>ds_orders_count := fg_orders fg, ds_paid_orders_count := fg_paid fg,
       ds_cancelled_orders_count := fg_cancelled fg, ds_revenue := fg_revenue fg,
       ds_average_order_value := fg_average fg\<rparr>"

definition new_snapshot :: "int \<Rightarrow> int \<Rightarrow> day_figures \<Rightarrow> nat \<Rightarrow> daily_sales" where
  "new_snapshot now target fg k =
     set_figures fg
       \<lparr>pk = k, created_at = now, updated_at = now, deleted_at = None, ds_day = target,
        ds_orders_count = 0, ds_paid_orders_count = 0, ds_cancelled_orders_count = 0,
        ds_revenue = 0, ds_average_order_value = 0, ds_items_sold = 0, ds_new_customers = 0\<rparr>"

text \<open>\<open>update_or_create(day = target, defaults = ...)\<close> over the living snapshots.\<close>

definition rollup_daily_sales :: "int \<Rightarrow> (int \<Rightarrow> string) \<Rightarrow> int option \<Rightarrow> shop \<Rightarrow> daily_sales list
    \<Rightarrow> py_error + (json \<times> daily_sales list)" where
  "rollup_daily_sales now isoday day db tbl =
     (let target = (case day of Some d \<Rightarrow> d | None \<Rightarrow> day_of now - 1);
          fg = figures_of target db in
      if \<not> (\<bar>fg_revenue fg\<bar> < 10 ^ 14 \<and> \<bar>fg_average fg\<bar> < 10 ^ 12)
      then Inl (DataError ''numeric field overflow'')
      else
       bindE (get_or_create ''DailySalesSnapshot'' (\<lambda>r. ds_day r = target) (\<exists>r \<in> set tbl. ds_day r = target)
                (new_snapshot now target fg) tbl)
        (\<lambda>(r, created, tbl').
          Inr (JObj [(''day'', JStr (isoday target)), (''revenue'', JStr (str_money (fg_revenue fg)))],
               if created then tbl'
               else save_row (pk r) (\<lambda>x. (set_figures fg x)\<lparr>updated_at := now\<rparr>) tbl')))"

section \<open>Grouping loses nothing\<close>

lemma sum_partition:
  fixes g :: "'a \<Rightarrow> int"
  assumes "distinct ks" "key ` set xs \<subseteq> set ks"
  shows "(\<Sum>k\<leftarrow>ks. \<Sum>x\<leftarrow>filter (\<lambda>x. key x = k) xs. g x) = (\<Sum>x\<leftarrow>xs. g x)"
  using assms
proof (induction xs)
  case Nil
  then show ?case by simp
next
  case (Cons x xs)
  have "(\<Sum>k\<leftarrow>ks. \<Sum>y\<leftarrow>filter (\<lambda>x. key x = k) (x # xs). g y) =
        (\<Sum>k\<leftarrow>ks. if k = key x then g x else 0) + (\<Sum>k\<leftarrow>ks. \<Sum>y\<leftarrow>filter (\<lambda>x. key x = k) xs. g y)"
    by (induction ks) auto
  moreover have "(\<Sum>k\<leftarrow>ks. if k = key x then g x else 0) = g x"
    using Cons.prems by (simp add: sum_list_distinct_conv_sum_set)
  ultimately show ?case using Cons by simp
qed

definition payment_day :: "order \<Rightarrow> int" where
  "payment_day x = (case od_paid_at x of None \<Rightarrow> 0 | Some t \<Rightarrow> day_of t)"

lemma on_day_payment_day: "od_paid_at x \<noteq> None \<Longrightarrow> on_day d (od_paid_at x) \<longleftrightarrow> payment_day x = d"
  by (auto simp: on_day_def payment_day_def)

lemma filter_on_day:
  assumes "\<forall>x \<in> set qs. od_paid_at x \<noteq> None"
  shows "filter (\<lambda>x. on_day d (od_paid_at x)) qs = filter (\<lambda>x. payment_day x = d) qs"
  using assms by (induction qs) (auto simp: on_day_payment_day)

lemma paid_since_paid: "x \<in> set (paid_since since db) \<Longrightarrow> od_paid_at x \<noteq> None"
  by (auto simp: paid_since_def split: option.splits)

text \<open>
  The revenue series partitions the paid orders: its days increase strictly, none before the
  first day asked for, its revenues add up to the grand totals of the paid orders of the period,
  and its counts to their number.
\<close>

theorem revenue_series_partitions:
  "let qs = paid_since since db; rows = revenue_by_day qs in
     sorted_wrt (<) (map fst rows) \<and>
     list_all (\<lambda>(d, r, n). since \<le> d \<and> 0 < n) rows \<and>
     sum_list (map (fst \<circ> snd) rows) = sum_grand_total qs \<and>
     sum_list (map (snd \<circ> snd) rows) = int (length qs)"
  unfolding Let_def
proof (intro conjI)
  define qs where qs_def: "qs = paid_since since db"
  have paid: "\<forall>x \<in> set qs. od_paid_at x \<noteq> None" using paid_since_paid by (auto simp: qs_def)
  have days: "paid_days qs = sort (remdups (map payment_day qs))"
    by (simp add: paid_days_def payment_day_def [abs_def])
  have rows: "revenue_by_day qs =
    map (\<lambda>d. (d, sum_grand_total (filter (\<lambda>x. payment_day x = d) qs),
                 int (length (filter (\<lambda>x. payment_day x = d) qs)))) (paid_days qs)"
    by (simp add: revenue_by_day_def Let_def filter_on_day [OF paid])
  have cover: "payment_day ` set qs \<subseteq> set (paid_days qs)" "distinct (paid_days qs)"
    by (simp_all add: days)
  show "sorted_wrt (<) (map fst (revenue_by_day (paid_since since db)))"
    by (simp add: rows [unfolded qs_def] comp_def days [unfolded qs_def] strict_sorted_iff)
  show "list_all (\<lambda>(d, r, n). since \<le> d \<and> 0 < n) (revenue_by_day (paid_since since db))"
  proof -
    have "since \<le> payment_day x" if "x \<in> set qs" for x
      using that by (auto simp: qs_def paid_since_def payment_day_def split: option.splits)
    then have "list_all (\<lambda>(d, r, n). since \<le> d \<and> 0 < n) (revenue_by_day qs)"
      by (auto simp: rows list_all_iff days filter_empty_conv)
    then show ?thesis by (simp add: qs_def)
  qed
  show "sum_list (map (fst \<circ> snd) (revenue_by_day (paid_since since db))) =
          sum_grand_total (paid_since since db)"
    unfolding qs_def [symmetric] using sum_partition [OF cover(2,1), of od_grand_total]
    by (simp add: rows comp_def sum_grand_total_def)
  show "sum_list (map (snd \<circ> snd) (revenue_by_day (paid_since since db))) =
          int (length (paid_since since db))"
    unfolding qs_def [symmetric] using sum_partition [OF cover(2,1), of "\<lambda>_. 1"]
    by (simp add: rows comp_def sum_list_triv)
qed

definition sale_key :: "product_sales \<Rightarrow> nat option \<times> string option" where
  "sale_key g = (ps_product g, ps_name g)"

lemma add_sale_Cons [simp]:
  "add_sale k it (g # gs) =
     (if sale_key g = k
      then g\<lparr>ps_qty := ps_qty g + oi_quantity it,
             ps_revenue := ps_revenue g + oi_unit_price it * oi_quantity it\<rparr> # gs
      else g # add_sale k it gs)"
  by (cases k) (simp add: sale_key_def)

lemma sale_key_update [simp]: "sale_key (g\<lparr>ps_qty := q, ps_revenue := r\<rparr>) = sale_key g"
  by (simp add: sale_key_def)

lemma sale_key_first [simp]:
  "add_sale k it [] = [\<lparr>ps_product = fst k, ps_name = snd k, ps_qty = oi_quantity it,
                       ps_revenue = oi_unit_price it * oi_quantity it\<rparr>]"
  "sale_key \<lparr>ps_product = p, ps_name = n, ps_qty = q, ps_revenue = r\<rparr> = (p, n)"
  by (cases k; simp) (simp add: sale_key_def)

declare add_sale.simps [simp del]

lemma add_sale_keys: "sale_key ` set (add_sale k it gs) = insert k (sale_key ` set gs)"
  by (induction gs) auto

lemma add_sale_distinct:
  "distinct (map sale_key gs) \<Longrightarrow> distinct (map sale_key (add_sale k it gs))"
  by (induction gs) (auto simp: add_sale_keys simp flip: image_set)

text \<open>The lines of one key, as the total of a column over the groups with that key.\<close>

lemma add_sale_total:
  fixes col :: "product_sales \<Rightarrow> int"
  assumes "\<And>g. col (g\<lparr>ps_qty := ps_qty g + oi_quantity it,
                      ps_revenue := ps_revenue g + oi_unit_price it * oi_quantity it\<rparr>) = col g + d"
    and "col \<lparr>ps_product = fst k, ps_name = snd k, ps_qty = oi_quantity it,
              ps_revenue = oi_unit_price it * oi_quantity it\<rparr> = d"
  shows "(\<Sum>g\<leftarrow>filter (\<lambda>g. sale_key g = key) (add_sale k it gs). col g) =
           (\<Sum>g\<leftarrow>filter (\<lambda>g. sale_key g = key) gs. col g) + (if k = key then d else 0)"
  using assms(2) by (induction gs) (auto simp: assms(1))

definition line_revenue :: "order_item \<Rightarrow> int" where
  "line_revenue it = oi_unit_price it * oi_quantity it"

lemma sales_by_product_snoc:
  "sales_by_product cat (its @ [it]) = add_sale (product_key cat it) it (sales_by_product cat its)"
  by (simp add: sales_by_product_def)

lemma sales_by_product_keys:
  "distinct (map sale_key (sales_by_product cat its))"
  "sale_key ` set (sales_by_product cat its) = product_key cat ` set its"
proof -
  show "distinct (map sale_key (sales_by_product cat its))"
    by (induction its rule: rev_induct)
       (simp_all add: sales_by_product_snoc add_sale_distinct, simp add: sales_by_product_def)
  show "sale_key ` set (sales_by_product cat its) = product_key cat ` set its"
    by (induction its rule: rev_induct)
       (simp_all add: sales_by_product_snoc add_sale_keys, simp add: sales_by_product_def)
qed

lemma sales_by_product_totals:
  "(\<Sum>g\<leftarrow>filter (\<lambda>g. sale_key g = k) (sales_by_product cat its). ps_qty g) =
     (\<Sum>it\<leftarrow>filter (\<lambda>it. product_key cat it = k) its. oi_quantity it)" (is ?qty)
  "(\<Sum>g\<leftarrow>filter (\<lambda>g. sale_key g = k) (sales_by_product cat its). ps_revenue g) =
     (\<Sum>it\<leftarrow>filter (\<lambda>it. product_key cat it = k) its. line_revenue it)" (is ?revenue)
proof -
  show ?qty
  proof (induction its rule: rev_induct)
    case (snoc it its)
    then show ?case
      by (simp add: sales_by_product_snoc add_sale_total [where col = ps_qty and d = "oi_quantity it"])
  qed (simp add: sales_by_product_def)
  show ?revenue
  proof (induction its rule: rev_induct)
    case (snoc it its)
    then show ?case
      by (simp add: sales_by_product_snoc line_revenue_def
            add_sale_total [where col = ps_revenue and d = "line_revenue it"])
  qed (simp add: sales_by_product_def)
qed

lemma filter_key_singleton:
  "distinct (map f xs) \<Longrightarrow> x \<in> set xs \<Longrightarrow> filter (\<lambda>y. f y = f x) xs = [x]"
  by (induction xs) (auto simp: filter_empty_conv intro: rev_image_eqI)

text \<open>
  The best-seller groups are exact. Grouping the sold lines gives one group for each product
  that occurs among them and no other, and a group's quantity and revenue are the sums of
  quantity and of unit price times quantity over the lines of that product.
\<close>

theorem best_seller_groups_exact:
  "let gs = sales_by_product cat its in
     distinct (map sale_key gs) \<and> set (map sale_key gs) = product_key cat ` set its \<and>
     list_all (\<lambda>g.
       ps_qty g = (\<Sum>it\<leftarrow>filter (\<lambda>it. product_key cat it = sale_key g) its. oi_quantity it) \<and>
       ps_revenue g = (\<Sum>it\<leftarrow>filter (\<lambda>it. product_key cat it = sale_key g) its. line_revenue it)) gs"
  unfolding Let_def list_all_iff
proof (intro conjI ballI)
  fix g assume g: "g \<in> set (sales_by_product cat its)"
  note one = filter_key_singleton [OF sales_by_product_keys(1) g]
  show "ps_qty g = (\<Sum>it\<leftarrow>filter (\<lambda>it. product_key cat it = sale_key g) its. oi_quantity it)"
    using sales_by_product_totals(1) [of "sale_key g" cat its] by (simp add: one)
  show "ps_revenue g = (\<Sum>it\<leftarrow>filter (\<lambda>it. product_key cat it = sale_key g) its. line_revenue it)"
    using sales_by_product_totals(2) [of "sale_key g" cat its] by (simp add: one)
qed (simp_all add: sales_by_product_keys)

section \<open>Revenue and the order life cycle\<close>

definition counted_today :: "int \<Rightarrow> order \<Rightarrow> int" where
  "counted_today t x =
     (if is_alive x \<and> od_status x = PAID \<and> on_day (day_of t) (od_paid_at x) then od_grand_total x else 0)"

lemma revenue_today_sum: "revenue_today t db = (\<Sum>x\<leftarrow>orders db. counted_today t x)"
  unfolding revenue_today_def paid_orders_def sum_grand_total_def counted_today_def filter_filter
  by (subst sum_objects) (simp add: conj_commute cong: if_cong)

text \<open>
  What a transition does to the revenue of the day. It grows by the order's total when the
  order becomes PAID on that day, and it loses the total again as soon as an order paid that day
  leaves PAID, whatever it becomes: packing or shipping an order takes it out of the day's revenue
  just as refunding or cancelling it does.
\<close>

theorem revenue_today_transition:
  assumes "orders_ok db" "o0 \<in> set (orders db)"
    and "transition_status now (pk o0) new actor msg db = Inr (o1, db')"
  shows "revenue_today t db' = revenue_today t db
      + (if new = PAID \<and> day_of now = day_of t then od_grand_total o0 else 0)
      - (if od_status o0 = PAID \<and> on_day (day_of t) (od_paid_at o0) then od_grand_total o0 else 0)"
  using assms(3)
proof (cases rule: transition_Inr)
  case (1 x)
  have d: "distinct_pks (orders db)" using assms(1) by (simp add: orders_ok_def)
  have same: "x = o0" using row_unique [OF d 1(1) assms(2)] 1(2) by simp
  have alive: "is_alive (with_status now new o0)" using 1(3) same
    by (simp add: with_status_def is_alive_def Let_def)
  have "counted_today t (with_status now new o0) =
      (if new = PAID \<and> day_of now = day_of t then od_grand_total o0 else 0)"
    unfolding counted_today_def using alive by (auto simp: with_status_def Let_def on_day_def)
  moreover have "counted_today t o0 =
      (if od_status o0 = PAID \<and> on_day (day_of t) (od_paid_at o0) then od_grand_total o0 else 0)"
    using 1(3) same by (simp add: counted_today_def)
  ultimately show ?thesis
    using sum_save_row [OF d assms(2), of "counted_today t" "with_status now new"]
    by (simp add: revenue_today_sum 1(7) algebra_simps)
qed

theorem revenue_today_transition_witness:
  "\<exists>o1 db'. transition_status 3 1 PACKED None '''' busy_shop = Inr (o1, db') \<and>
     revenue_today 2 busy_shop = 4997 \<and> revenue_today 2 db' = 0"
proof -
  have "is_ok (transition_status 3 1 PACKED None '''' busy_shop)" by code_simp
  then obtain o1 db' where t: "transition_status 3 1 PACKED None '''' busy_shop = Inr (o1, db')"
    by (auto simp: is_ok_iff)
  have a: "demo_order 1 PAID \<in> set (orders busy_shop)" "pk (demo_order 1 PAID) = 1"
    by (simp_all add: busy_shop_def demo_order_def)
  have ok: "orders_ok busy_shop" using busy_shop_ok by (simp add: shop_ok_def)
  have before: "revenue_today 2 busy_shop = 4997" by code_simp
  have "revenue_today 2 db' = revenue_today 2 busy_shop - 4997"
    using revenue_today_transition [OF ok a(1), where t = 2, unfolded a(2), OF t]
    by (simp add: demo_order_def on_day_def day_of_def)
  with t before show ?thesis by auto
qed

section \<open>The rollup\<close>

definition days_ok :: "daily_sales list \<Rightarrow> bool" where
  "days_ok tbl \<longleftrightarrow> distinct_pks tbl \<and> distinct (map ds_day tbl)"

definition shows_figures :: "int \<Rightarrow> day_figures \<Rightarrow> daily_sales list \<Rightarrow> bool" where
  "shows_figures d fg tbl \<longleftrightarrow>
     (\<exists>r \<in> set tbl. ds_day r = d \<and> is_alive r \<and> ds_orders_count r = fg_orders fg \<and>
        ds_paid_orders_count r = fg_paid fg \<and> ds_cancelled_orders_count r = fg_cancelled fg \<and>
        ds_revenue r = fg_revenue fg \<and> ds_average_order_value r = fg_average fg)"

lemma set_figures_columns [simp]:
  "pk (set_figures fg r) = pk r" "ds_day (set_figures fg r) = ds_day r"
  "deleted_at (set_figures fg r) = deleted_at r" "ds_orders_count (set_figures fg r) = fg_orders fg"
  "ds_paid_orders_count (set_figures fg r) = fg_paid fg"
  "ds_cancelled_orders_count (set_figures fg r) = fg_cancelled fg"
  "ds_revenue (set_figures fg r) = fg_revenue fg"
  "ds_average_order_value (set_figures fg r) = fg_average fg"
  "set_figures fg (set_figures fg r) = set_figures fg r"
  by (simp_all add: set_figures_def)

lemma rollup_Inr:
  assumes "rollup_daily_sales now isoday (Some d) db tbl = Inr (j, tbl')"
  obtains (created) r where "pk r = fresh_pk tbl" "ds_day r = d" "is_alive r"
      "r = set_figures (figures_of d db) r" "tbl' = tbl @ [r]" "\<forall>x \<in> set tbl. ds_day x \<noteq> d"
  | (updated) r where "r \<in> set tbl" "ds_day r = d" "is_alive r"
      "tbl' = save_row (pk r) (\<lambda>x. (set_figures (figures_of d db) x)\<lparr>updated_at := now\<rparr>) tbl"
proof -
  from assms obtain r made tbl1 where
    g: "get_or_create ''DailySalesSnapshot'' (\<lambda>r. ds_day r = d) (\<exists>r \<in> set tbl. ds_day r = d)
          (new_snapshot now d (figures_of d db)) tbl = Inr (r, made, tbl1)"
    and t: "tbl' = (if made then tbl1
                    else save_row (pk r) (\<lambda>x. (set_figures (figures_of d db) x)\<lparr>updated_at := now\<rparr>) tbl1)"
    unfolding rollup_daily_sales_def Let_def
    by (fastforce simp: result_simps split: if_splits)
  from g show thesis
  proof (cases rule: get_or_create_cases)
    case 1
    with t that(2) [of r] show thesis by simp
  next
    case 2
    with t that(1) [of r] show thesis by (auto simp: is_alive_def new_snapshot_def)
  qed
qed

lemma rollup_days_ok:
  assumes "days_ok tbl" "rollup_daily_sales now isoday (Some d) db tbl = Inr (j, tbl')"
  shows "days_ok tbl' \<and> shows_figures d (figures_of d db) tbl'"
  using assms(2)
proof (cases rule: rollup_Inr)
  case (created r)
  have "shows_figures d (figures_of d db) tbl'"
    unfolding shows_figures_def
    by (rule bexI [of _ r]) (use created(3) in \<open>simp_all add: created(2,5), (subst created(4), simp)+\<close>)
  with created assms(1) show ?thesis
    by (auto simp: days_ok_def distinct_pks_append_fresh)
next
  case (updated r)
  let ?f = "\<lambda>x. (set_figures (figures_of d db) x)\<lparr>updated_at := now\<rparr>"
  have "map ds_day (save_row (pk r) ?f tbl) = map ds_day tbl"
    by (simp add: save_row_def update_where_def)
  moreover have "distinct_pks (save_row (pk r) ?f tbl)"
    using assms(1) by (simp add: days_ok_def save_row_def distinct_pks_update_where)
  moreover have "?f r \<in> set (save_row (pk r) ?f tbl)"
    using updated(1) by (auto simp: save_row_def set_update_where)
  ultimately show ?thesis
    using updated(2-4) assms(1)
    by (auto simp: days_ok_def shows_figures_def is_alive_def intro!: bexI [of _ "?f r"])
qed

lemma set_figures_same:
  "ds_orders_count r = fg_orders fg \<Longrightarrow> ds_paid_orders_count r = fg_paid fg \<Longrightarrow>
   ds_cancelled_orders_count r = fg_cancelled fg \<Longrightarrow> ds_revenue r = fg_revenue fg \<Longrightarrow>
   ds_average_order_value r = fg_average fg \<Longrightarrow> set_figures fg r = r"
  by (cases r) (simp add: set_figures_def)

lemma rollup_again:
  assumes "days_ok tbl" "shows_figures d fg tbl" "fg = figures_of d db"
    and "\<bar>fg_revenue fg\<bar> < 10 ^ 14" "\<bar>fg_average fg\<bar> < 10 ^ 12"
  shows "rollup_daily_sales later isoday (Some d) db tbl =
    Inr (JObj [(''day'', JStr (isoday d)), (''revenue'', JStr (str_money (fg_revenue fg)))],
         map (\<lambda>r. if ds_day r = d then r\<lparr>updated_at := later\<rparr> else r) tbl)"
proof -
  from assms(2) obtain r where r: "r \<in> set tbl" "ds_day r = d" "is_alive r" "set_figures fg r = r"
    unfolding shows_figures_def using set_figures_same by blast
  have inj: "x = r" if "x \<in> set tbl" "ds_day x = d" for x
    using assms(1) r(1,2) that by (auto simp: days_ok_def distinct_map dest: inj_onD)
  have "filter (\<lambda>x. ds_day x = d) (objects tbl) = [r]"
  proof -
    have "distinct (map ds_day (objects tbl))"
      using assms(1) by (simp add: days_ok_def get_queryset_def distinct_map_filter)
    from filter_key_singleton [OF this, of r] r show ?thesis by simp
  qed
  then have found: "get_or_create ''DailySalesSnapshot'' (\<lambda>x. ds_day x = d) c mk tbl = Inr (r, False, tbl)"
    for c mk by (simp add: get_or_create_def)
  have "save_row (pk r) (\<lambda>x. (set_figures fg x)\<lparr>updated_at := later\<rparr>) tbl =
      map (\<lambda>r. if ds_day r = d then r\<lparr>updated_at := later\<rparr> else r) tbl"
    unfolding save_row_def update_where_def
  proof (rule map_cong [OF refl])
    fix x assume x: "x \<in> set tbl"
    have "pk x = pk r \<longleftrightarrow> ds_day x = d"
      using row_unique [of tbl x r] inj [OF x] x r(1,2) assms(1) by (auto simp: days_ok_def)
    with inj [OF x] r(4) show
      "(if pk x = pk r then (set_figures fg x)\<lparr>updated_at := later\<rparr> else x) =
       (if ds_day x = d then x\<lparr>updated_at := later\<rparr> else x)" by auto
  qed
  with found assms(3-5) show ?thesis by (simp add: rollup_daily_sales_def Let_def)
qed

lemma bindE_fixed_answer: "bindE m (\<lambda>(r, c, t). Inr (J, h r c t)) = Inr (j, t') \<Longrightarrow> j = J"
  by (cases m) auto

lemma rollup_answer:
  assumes "rollup_daily_sales now isoday (Some d) db tbl = Inr (j, tbl')"
  shows "\<bar>fg_revenue (figures_of d db)\<bar> < 10 ^ 14 \<and> \<bar>fg_average (figures_of d db)\<bar> < 10 ^ 12 \<and>
    j = JObj [(''day'', JStr (isoday d)), (''revenue'', JStr (str_money (fg_revenue (figures_of d db))))]"
proof (cases "\<bar>fg_revenue (figures_of d db)\<bar> < 10 ^ 14 \<and> \<bar>fg_average (figures_of d db)\<bar> < 10 ^ 12")
  case True
  with assms show ?thesis
    unfolding rollup_daily_sales_def Let_def option.case
    by (simp only: True not_not if_False simp_thms) (erule bindE_fixed_answer)
next
  case False
  with assms show ?thesis
    unfolding rollup_daily_sales_def Let_def option.case by (simp only: if_True False not_False_eq_True sum.distinct)
qed

text \<open>
  The daily rollup can be run again. A run for a day leaves one living snapshot of that day with
  the figures of the orders created on it and every other day as it was; running it once more
  on unchanged orders returns the same answer and changes the snapshot's time stamp only.
\<close>

theorem rollup_repeatable:
  assumes "days_ok tbl" "rollup_daily_sales now isoday (Some d) db tbl = Inr (j, tbl')"
  shows "days_ok tbl' \<and> shows_figures d (figures_of d db) tbl' \<and>
    filter (\<lambda>r. ds_day r \<noteq> d) tbl' = filter (\<lambda>r. ds_day r \<noteq> d) tbl \<and>
    rollup_daily_sales later isoday (Some d) db tbl' =
      Inr (j, map (\<lambda>r. if ds_day r = d then r\<lparr>updated_at := later\<rparr> else r) tbl')"
proof (intro conjI)
  note ok = rollup_days_ok [OF assms]
  show "days_ok tbl'" "shows_figures d (figures_of d db) tbl'" using ok by simp_all
  show "filter (\<lambda>r. ds_day r \<noteq> d) tbl' = filter (\<lambda>r. ds_day r \<noteq> d) tbl"
    using assms(2)
  proof (cases rule: rollup_Inr)
    case (updated r)
    have "pk x = pk r \<longleftrightarrow> x = r" if "x \<in> set tbl" for x
      using row_unique [of tbl x r] that updated(1) assms(1) by (auto simp: days_ok_def)
    then have "filter (\<lambda>r. ds_day r \<noteq> d) (save_row (pk r) f tbl') = filter (\<lambda>r. ds_day r \<noteq> d) tbl'"
      if "set tbl' \<subseteq> set tbl" "ds_day (f r) = d" for f tbl'
      using that(1) by (induction tbl') (auto simp: save_row_def updated(2) that(2))
    from this [of tbl] updated(2,4) show ?thesis by simp
  qed simp
  have fits: "\<bar>fg_revenue (figures_of d db)\<bar> < 10 ^ 14" "\<bar>fg_average (figures_of d db)\<bar> < 10 ^ 12"
    and "j = JObj [(''day'', JStr (isoday d)), (''revenue'', JStr (str_money (fg_revenue (figures_of d db))))]"
    using rollup_answer [OF assms(2)] by blast+
  with rollup_again [of tbl' d _ db later isoday, OF _ _ refl] ok
  show "rollup_daily_sales later isoday (Some d) db tbl' =
      Inr (j, map (\<lambda>r. if ds_day r = d then r\<lparr>updated_at := later\<rparr> else r) tbl')" by blast
qed

theorem rollup_repeatable_witness:
  "\<exists>j tbl. rollup_daily_sales 9 str_int (Some 0) busy_shop [] = Inr (j, tbl) \<and> length tbl = 1 \<and>
     rollup_daily_sales 9 str_int (Some 0) busy_shop tbl =
       Inr (j, map (\<lambda>r. if ds_day r = 0 then r\<lparr>updated_at := 9\<rparr> else r) tbl)"
proof -
  have "figures_of 0 busy_shop = \<lparr>fg_orders = 2, fg_paid = 1, fg_cancelled = 0, fg_revenue = 4997, fg_average = 4997\<rparr>"
    by code_simp
  then have "map_sum id (length \<circ> snd) (rollup_daily_sales 9 str_int (Some 0) busy_shop []) = Inr 1"
    by (simp add: rollup_daily_sales_def get_or_create_def get_queryset_def Let_def)
  then obtain j tbl where r: "rollup_daily_sales 9 str_int (Some 0) busy_shop [] = Inr (j, tbl)" "length tbl = 1"
    by (cases "rollup_daily_sales 9 str_int (Some 0) busy_shop []") auto
  have "days_ok []" by (simp add: days_ok_def distinct_pks_def)
  from rollup_repeatable [OF this r(1), of 9] r show ?thesis by blast
qed

end
