(* ===== verification/Core_Http.thy ===== *)
theory Core_Http
  imports Storefront
begin

text \<open>
  \<open>django_app/apps/core\<close> (\<open>middleware.py\<close>, \<open>exceptions.py\<close>, \<open>utils.py\<close>, \<open>db_router.py\<close>) and
  \<open>apps/audit\<close>: what every request passes through. The rest of the application is the argument
  \<open>get_response\<close> of the middleware, a function on an arbitrary state. DRF's default exception
  handler is a parameter.
\<close>

section \<open>Requests and responses\<close>

record http_request =
  hq_method :: string
  hq_path :: string
  hq_user :: "user option"
  hq_headers :: "(string \<times> string) list"
  hq_remote_addr :: "string option"
  hq_user_agent :: string

record http_response =
  hr_status :: int
  hr_headers :: "(string \<times> string) list"

section \<open>Request id\<close>

definition REQUEST_ID_HEADER :: string where
  "REQUEST_ID_HEADER = ''X-Request-ID''"

text \<open>\<open>request.headers.get(...) or uuid4().hex\<close>; \<open>fresh\<close> is the drawn value.\<close>

definition request_id_of :: "string \<Rightarrow> http_request \<Rightarrow> string" where
  "request_id_of fresh rq =
     (case map_of (hq_headers rq) REQUEST_ID_HEADER of
        None \<Rightarrow> fresh | Some v \<Rightarrow> if v = '''' then fresh else v)"

text \<open>
  The context variable is set for the inner call and reset after it, whatever happens; the inner
  call receives its value, and the result pairs the response with the variable's value after.
\<close>

definition RequestIDMiddleware_call ::
  "string \<Rightarrow> (string \<Rightarrow> http_request \<Rightarrow> 's \<Rightarrow> http_response \<times> 's) \<Rightarrow> http_request \<Rightarrow> string \<Rightarrow> 's
   \<Rightarrow> http_response \<times> string \<times> 's" where
  "RequestIDMiddleware_call fresh get_response rq var st =
     (let rid = request_id_of fresh rq;
          (resp, st') = get_response rid rq st in
      (resp\<lparr>hr_headers := AList.update REQUEST_ID_HEADER rid (hr_headers resp)\<rparr>, var, st'))"

section \<open>Audit trail\<close>

record audit_log = base_model +
  al_actor :: "nat option"
  al_actor_email :: string
  al_action :: string
  al_target_type :: string
  al_target_id :: string
  al_ip_address :: "string option"
  al_user_agent :: string
  al_request_id :: string
  al_payload :: json

definition MUTATING :: "string list" where
  "MUTATING = [''POST'', ''PUT'', ''PATCH'', ''DELETE'']"

definition SENSITIVE_PREFIXES :: "string list" where
  "SENSITIVE_PREFIXES = [''/admin/'', ''/api/admin/'']"

definition audited :: "http_request \<Rightarrow> bool" where
  "audited rq \<longleftrightarrow> hq_method rq \<in> set MUTATING \<and> (\<exists>p \<in> set SENSITIVE_PREFIXES. startswith p (hq_path rq)) \<and>
     hq_user rq \<noteq> None"

definition audit_row :: "int \<Rightarrow> string \<Rightarrow> http_request \<Rightarrow> http_response \<Rightarrow> nat \<Rightarrow> audit_log" where
  "audit_row now rid rq resp k =
     \<lparr>pk = k, created_at = now, updated_at = now, deleted_at = None,
      al_actor = map_option pk (hq_user rq),
      al_actor_email = (case hq_user rq of None \<Rightarrow> '''' | Some u \<Rightarrow> us_email u),
      al_action = hq_method rq @ '' '' @ hq_path rq, al_target_type = '''', al_target_id = '''',
      al_ip_address = hq_remote_addr rq, al_user_agent = take 512 (hq_user_agent rq),
      al_request_id = rid, al_payload = JObj [(''status'', JInt (hr_status resp))]\<rparr>"

text \<open>What the columns of the table accept; \<open>ip_ok\<close> is PostgreSQL's reading of an address.\<close>

definition audit_fits :: "(string \<Rightarrow> bool) \<Rightarrow> audit_log \<Rightarrow> bool" where
  "audit_fits ip_ok r \<longleftrightarrow>
     length (al_actor_email r) \<le> 254 \<and> length (al_action r) \<le> 128 \<and> length (al_user_agent r) \<le> 512 \<and>
     length (al_request_id r) \<le> 64 \<and> (case al_ip_address r of None \<Rightarrow> True | Some ip \<Rightarrow> ip_ok ip)"

text \<open>A failed insert is logged and dropped: the response is the same with or without a row.\<close>

definition AuditTrailMiddleware_call ::
  "int \<Rightarrow> (string \<Rightarrow> bool) \<Rightarrow> (string \<Rightarrow> http_request \<Rightarrow> 's \<Rightarrow> http_response \<times> 's) \<Rightarrow> string \<Rightarrow> http_request
   \<Rightarrow> 's \<times> audit_log list \<Rightarrow> http_response \<times> 's \<times> audit_log list" where
  "AuditTrailMiddleware_call now ip_ok get_response rid rq st =
     (let (resp, app) = get_response rid rq (fst st);
          row = audit_row now rid rq resp (fresh_pk (snd st)) in
      if \<not> audited rq then (resp, app, snd st)
      else if \<not> audit_fits ip_ok row then (resp, app, snd st)
      else (resp, app, snd st @ [row]))"

text \<open>The two middleware in the order of the settings: the request id outside, the audit inside.\<close>

definition handle_request ::
  "int \<Rightarrow> (string \<Rightarrow> bool) \<Rightarrow> string \<Rightarrow> (string \<Rightarrow> http_request \<Rightarrow> 's \<Rightarrow> http_response \<times> 's) \<Rightarrow> http_request
   \<Rightarrow> 's \<times> audit_log list \<Rightarrow> http_response \<times> string \<times> 's \<times> audit_log list" where
  "handle_request now ip_ok fresh view rq st =
     RequestIDMiddleware_call fresh (AuditTrailMiddleware_call now ip_ok view) rq '''' st"

section \<open>Error envelopes\<close>

text \<open>
  The exceptions the handler tells apart. DRF's own \<open>PermissionDenied\<close> is an \<open>APIException\<close>;
  \<open>HttpNotFound\<close> and \<open>DjangoPermissionDenied\<close> are Django's.
\<close>

datatype api_exc =
    APIException (default_code: string) (detail: json) (http_status: int)
  | HttpNotFound
  | DjangoPermissionDenied
  | DjangoValidationError (message_dict: "json option") (messages: json)
  | OtherException string

definition envelope :: "int \<Rightarrow> (string \<times> json) list \<Rightarrow> response" where
  "envelope st kvs = Response st (JObj [(''error'', JObj kvs)])"

definition is_text :: "json \<Rightarrow> bool" where
  "is_text j = (case j of JStr _ \<Rightarrow> True | _ \<Rightarrow> False)"

definition is_structured :: "json \<Rightarrow> bool" where
  "is_structured j = (case j of JObj _ \<Rightarrow> True | JList _ \<Rightarrow> True | _ \<Rightarrow> False)"

definition api_exception_handler :: "(api_exc \<Rightarrow> response option) \<Rightarrow> api_exc \<Rightarrow> response" where
  "api_exception_handler drf_default_handler exc =
     (case drf_default_handler exc of
        None \<Rightarrow>
          (case exc of
             HttpNotFound \<Rightarrow>
               envelope 404 [(''code'', JStr ''not_found''), (''message'', JStr ''Resource not found.'')]
           | DjangoValidationError d ms \<Rightarrow>
               envelope 400 [(''code'', JStr ''validation''), (''message'', JStr ''Validation failed.''),
                             (''details'', case d of Some x \<Rightarrow> x | None \<Rightarrow> ms)]
           | _ \<Rightarrow>
               envelope 500 [(''code'', JStr ''internal''), (''message'', JStr ''Internal server error.'')])
      | Some resp \<Rightarrow>
          (case exc of
             APIException code d _ \<Rightarrow>
               envelope (status_code resp)
                 [(''code'', JStr code), (''message'', if is_text d then d else JStr ''Request failed.''),
                  (''details'', if is_structured d then d else JNull)]
           | _ \<Rightarrow> resp))"

section \<open>Utilities and the database router\<close>

definition ascii_uppercase_digits :: string where
  "ascii_uppercase_digits = ''ABCDEFGHIJKLMNOPQRSTUVWXYZ0123456789''"

definition ascii_letters_digits :: string where
  "ascii_letters_digits =
     ''abcdefghijklmnopqrstuvwxyzABCDEFGHIJKLMNOPQRSTUVWXYZ0123456789''"

text \<open>\<open>draws\<close> is what \<open>secrets.choice\<close> picks, \<open>today\<close> the UTC date as eight digits.\<close>

definition generate_token :: "(nat \<Rightarrow> nat) \<Rightarrow> nat \<Rightarrow> string" where
  "generate_token draws len =
     map (\<lambda>i. ascii_letters_digits ! (draws i mod length ascii_letters_digits)) [0..<len]"

definition generate_order_number :: "(nat \<Rightarrow> nat) \<Rightarrow> string \<Rightarrow> string \<Rightarrow> string" where
  "generate_order_number draws today prefix =
     prefix @ ''-'' @ today @ ''-'' @
     map (\<lambda>i. ascii_uppercase_digits ! (draws i mod length ascii_uppercase_digits)) [0..<6]"

text \<open>The value is \<open>c / 10 ^ k\<close>, the text of its argument; the result is in cents.\<close>

definition money :: "int \<Rightarrow> nat \<Rightarrow> int" where
  "money c k = quantize c k"

definition safe_dict :: "(string \<Rightarrow> json option) \<Rightarrow> string list \<Rightarrow> (string \<times> json) list" where
  "safe_dict getattr names = map (\<lambda>f. (f, case getattr f of None \<Rightarrow> JNull | Some v \<Rightarrow> v)) names"

definition READ_DB :: string where "READ_DB = ''read_replica''"
definition WRITE_DB :: string where "WRITE_DB = ''default''"

text \<open>\<open>coin\<close> is the random choice between the replica (true) and the primary.\<close>

definition db_for_read :: "string list \<Rightarrow> bool \<Rightarrow> string" where
  "db_for_read databases coin =
     (if READ_DB \<in> set databases then (if coin then READ_DB else WRITE_DB) else WRITE_DB)"

definition db_for_write :: string where "db_for_write = WRITE_DB"
definition allow_relation :: bool where "allow_relation = True"

definition allow_migrate :: "string \<Rightarrow> bool" where
  "allow_migrate db \<longleftrightarrow> db = WRITE_DB"

section \<open>Lemmas\<close>

lemma order_number_length:
  "length today = 8 \<Longrightarrow> length (generate_order_number draws today ''NC'') = 18"
  by (simp add: generate_order_number_def)

lemma envelope_has_error: "\<exists>es. resp_body (envelope st kvs) = JObj [(''error'', JObj es)]"
  by (simp add: envelope_def)

text \<open>
  The audit trail and its hole. A request leaves at most one row, and it leaves one exactly
  when it is a mutation below an admin prefix by an authenticated user whose row fits the table.
  The request id is the client's header as sent, and an id of more than 64 characters does not
  fit: such a request is carried out and answered as ever, and nothing is recorded.
\<close>

theorem audit_rows_exact:
  assumes "handle_request now ip_ok fresh view rq st = (resp, var, app, logs)"
  shows "app = snd (view (request_id_of fresh rq) rq (fst st)) \<and>
    (\<exists>inner. inner = fst (view (request_id_of fresh rq) rq (fst st)) \<and> hr_status resp = hr_status inner \<and>
       (let row = audit_row now (request_id_of fresh rq) rq inner (fresh_pk (snd st)) in
        logs = (if audited rq \<and> audit_fits ip_ok row then snd st @ [row] else snd st))) \<and>
    (64 < length (request_id_of fresh rq) \<longrightarrow> logs = snd st)"
proof -
  obtain inner app' where v: "view (request_id_of fresh rq) rq (fst st) = (inner, app')"
    by (cases "view (request_id_of fresh rq) rq (fst st)")
  have "\<not> audit_fits ip_ok (audit_row now rid rq inner k)" if "64 < length rid" for rid k
    using that by (simp add: audit_fits_def audit_row_def)
  then show ?thesis
    using assms v
    by (auto simp: handle_request_def RequestIDMiddleware_call_def AuditTrailMiddleware_call_def Let_def
        split: if_splits)
qed

definition demo_admin :: user where
  "demo_admin = \<lparr>pk = 9, created_at = 0, updated_at = 0, deleted_at = None, us_email = ''root@x.y'',
     us_password = '''', us_first_name = '''', us_last_name = '''', us_phone = '''', us_is_active = True,
     us_is_staff = True, us_is_superuser = True, us_email_verified_at = None,
     us_phone_verified_at = None, us_last_login_ip = None, us_roles = []\<rparr>"

definition demo_request :: "string \<Rightarrow> http_request" where
  "demo_request rid = \<lparr>hq_method = ''DELETE'', hq_path = ''/api/admin/coupons/'', hq_user = Some demo_admin,
     hq_headers = [(''X-Request-ID'', rid)], hq_remote_addr = None, hq_user_agent = ''curl''\<rparr>"

text \<open>A view that counts its calls and answers 204.\<close>

definition demo_view :: "string \<Rightarrow> http_request \<Rightarrow> nat \<Rightarrow> http_response \<times> nat" where
  "demo_view rid rq n = (\<lparr>hr_status = 204, hr_headers = []\<rparr>, Suc n)"

theorem audit_rows_exact_witness:
  "\<exists>resp var. handle_request 5 (\<lambda>_. True) ''f'' demo_view (demo_request (replicate 65 CHR ''x'')) (0, []) =
     (resp, var, 1, []) \<and> audited (demo_request (replicate 65 CHR ''x''))"
proof -
  let ?rq = "demo_request (replicate 65 CHR ''x'')"
  obtain resp var app logs where
    r: "handle_request 5 (\<lambda>_. True) ''f'' demo_view ?rq (0, []) = (resp, var, app, logs)"
    by (cases "handle_request 5 (\<lambda>_. True) ''f'' demo_view ?rq (0, [])")
  have rid: "request_id_of ''f'' ?rq = replicate 65 CHR ''x''"
    by (simp add: request_id_of_def demo_request_def REQUEST_ID_HEADER_def)
  have "audited ?rq"
    by (simp add: audited_def demo_request_def MUTATING_def SENSITIVE_PREFIXES_def startswith_def)
  with audit_rows_exact [OF r] r show ?thesis by (simp add: rid demo_view_def)
qed

end
