(* ===== verification/Fast_Api.thy ===== *)
theory Fast_Api
  imports Storefront
begin

text \<open>
  The FastAPI service (\<open>src/fastapi_app\<close>) but for its websockets: settings, token validation,
  the cached catalogue reads, search, webhook ingress and health. It reads the Django tables with
  SQL of its own, which looks at \<open>deleted_at\<close> for products only. The JWT library, Redis, orjson,
  the text search and the collation of the database are parameters.
\<close>

section \<open>Settings\<close>

fun replace_first :: "string \<Rightarrow> string \<Rightarrow> string \<Rightarrow> string" where
  "replace_first old new [] = (if old = [] then new else [])"
| "replace_first old new (c # cs) =
     (if startswith old (c # cs) then new @ drop (length old) (c # cs)
      else c # replace_first old new cs)"

fun split_on :: "char \<Rightarrow> string \<Rightarrow> string list" where
  "split_on d [] = [[]]"
| "split_on d (c # cs) =
     (if c = d then [] # split_on d cs
      else case split_on d cs of [] \<Rightarrow> [[c]] | x # xs \<Rightarrow> (c # x) # xs)"

record fast_settings =
  fs_database_url :: string
  fs_database_read_url :: string
  fs_cors_allowed_origins :: string

definition async_database_url :: "'a fast_settings_scheme \<Rightarrow> string" where
  "async_database_url s =
     (let url = (if fs_database_read_url s \<noteq> '''' then fs_database_read_url s else fs_database_url s) in
      if startswith ''sqlite:'' url then replace_first ''sqlite://'' ''sqlite+aiosqlite://'' url
      else replace_first ''postgres://'' ''postgresql+asyncpg://''
             (replace_first ''postgresql://'' ''postgresql+asyncpg://'' url))"

definition cors_origins :: "'a fast_settings_scheme \<Rightarrow> string list" where
  "cors_origins s =
     (if strip (fs_cors_allowed_origins s) \<in> {''*'', ''''} then [''*'']
      else map strip (filter (\<lambda>x. strip x \<noteq> '''') (split_on (CHR '','') (fs_cors_allowed_origins s))))"

section \<open>Tokens\<close>

datatype http_exc = HTTPException int string

datatype decoded = Claims "(string \<times> json) list" | ExpiredSignature | InvalidToken

record token_user =
  tu_id :: string
  tu_email :: json
  tu_roles :: "json list"
  tu_is_staff :: bool
  tu_raw :: "(string \<times> json) list"

definition decode_token :: "(string \<Rightarrow> decoded) \<Rightarrow> string \<Rightarrow> http_exc + (string \<times> json) list" where
  "decode_token jwt_decode tok =
     (case jwt_decode tok of
        Claims p \<Rightarrow> Inr p
      | ExpiredSignature \<Rightarrow> Inl (HTTPException 401 ''token expired'')
      | InvalidToken \<Rightarrow> Inl (HTTPException 401 ''invalid token''))"

definition extract_token :: "string option \<Rightarrow> http_exc + string" where
  "extract_token authorization =
     (case authorization of
        None \<Rightarrow> Inl (HTTPException 401 ''missing bearer token'')
      | Some a \<Rightarrow>
          if \<not> startswith ''bearer '' (lower a) then Inl (HTTPException 401 ''missing bearer token'')
          else Inr (strip (drop 1 (dropWhile (\<lambda>c. c \<noteq> CHR '' '') a))))"

definition claim :: "(string \<times> json) list \<Rightarrow> string \<Rightarrow> json \<Rightarrow> json" where
  "claim p key dflt = (case map_of p key of None \<Rightarrow> dflt | Some v \<Rightarrow> v)"

text \<open>\<open>list(payload.get("roles") or [])\<close>: a value that cannot be iterated raises, outside HTTPException.\<close>

definition token_user_of :: "(json \<Rightarrow> string) \<Rightarrow> (string \<times> json) list \<Rightarrow> py_error + token_user" where
  "token_user_of repr p =
     bindE (json_iter (json_or (claim p ''roles'' JNull) (JList []))) (\<lambda>rs.
       Inr \<lparr>tu_id = py_str repr (json_or (json_or (claim p ''user_id'' JNull) (claim p ''sub'' JNull)) (JStr '''')),
            tu_email = claim p ''email'' (JStr ''''), tu_roles = rs,
            tu_is_staff = truthy (claim p ''is_staff'' (JBool False)), tu_raw = p\<rparr>)"

datatype request_error = Http http_exc | Raised py_error

definition get_current_user :: "(string \<Rightarrow> decoded) \<Rightarrow> (json \<Rightarrow> string) \<Rightarrow> string option \<Rightarrow> request_error + token_user" where
  "get_current_user jwt_decode repr authorization =
     (case extract_token authorization of
        Inl e \<Rightarrow> Inl (Http e)
      | Inr tok \<Rightarrow>
          (case decode_token jwt_decode tok of
             Inl e \<Rightarrow> Inl (Http e)
           | Inr p \<Rightarrow> (case token_user_of repr p of Inl e \<Rightarrow> Inl (Raised e) | Inr u \<Rightarrow> Inr u)))"

definition get_optional_user :: "(string \<Rightarrow> decoded) \<Rightarrow> (json \<Rightarrow> string) \<Rightarrow> string option
    \<Rightarrow> request_error + token_user option" where
  "get_optional_user jwt_decode repr authorization =
     (if authorization = None \<or> authorization = Some '''' then Inr None
      else case get_current_user jwt_decode repr authorization of
        Inr u \<Rightarrow> Inr (Some u)
      | Inl (Http e) \<Rightarrow> Inr None
      | Inl (Raised e) \<Rightarrow> Inl (Raised e))"

definition require_staff :: "token_user \<Rightarrow> http_exc + unit" where
  "require_staff u =
     (if \<not> tu_is_staff u \<and> JStr ''staff'' \<notin> set (tu_roles u) \<and> JStr ''admin'' \<notin> set (tu_roles u)
      then Inl (HTTPException 403 ''staff only'') else Inr ())"

section \<open>The cache\<close>

text \<open>Redis without expiry: what is stored, and whether the server answers.\<close>

record cache =
  up :: bool
  entries :: "string \<Rightarrow> string option"

definition cache_get :: "(string \<Rightarrow> json option) \<Rightarrow> cache \<Rightarrow> string \<Rightarrow> json option" where
  "cache_get loads c key =
     (if \<not> up c then None
      else case entries c key of None \<Rightarrow> None | Some raw \<Rightarrow> if raw = '''' then None else loads raw)"

text \<open>A value orjson refuses (\<open>None\<close>), or a Redis error, is ignored.\<close>

definition cache_set :: "(json \<Rightarrow> string option) \<Rightarrow> string \<Rightarrow> json \<Rightarrow> cache \<Rightarrow> cache" where
  "cache_set dumps key v c =
     (if \<not> up c then c
      else case dumps v of None \<Rightarrow> c | Some raw \<Rightarrow> c\<lparr>entries := (entries c)(key \<mapsto> raw)\<rparr>)"

text \<open>\<open>if cached := await _cache_get(...)\<close>: an empty list is as good as a miss.\<close>

definition cache_hit :: "(string \<Rightarrow> json option) \<Rightarrow> cache \<Rightarrow> string \<Rightarrow> json option" where
  "cache_hit loads c key =
     (case cache_get loads c key of None \<Rightarrow> None | Some v \<Rightarrow> if truthy v then Some v else None)"

definition cached_or :: "(string \<Rightarrow> json option) \<Rightarrow> (json \<Rightarrow> string option) \<Rightarrow> string \<Rightarrow> json \<Rightarrow> cache \<Rightarrow> json \<times> cache" where
  "cached_or loads dumps key fresh c =
     (case cache_hit loads c key of
        Some v \<Rightarrow> (v, c) | None \<Rightarrow> (fresh, cache_set dumps key fresh c))"

section \<open>Categories and brands\<close>

definition opt_pk :: "nat option \<Rightarrow> json" where
  "opt_pk v = json_opt json_pk v"

definition CategoryOut :: "category \<Rightarrow> json" where
  "CategoryOut c =
     JObj [(''id'', json_pk (pk c)), (''name'', JStr (cat_name c)), (''slug'', JStr (cat_slug c)),
           (''parent_id'', opt_pk (cat_parent c)), (''is_active'', JBool (cat_is_active c)),
           (''sort_order'', JInt (cat_sort_order c))]"

text \<open>\<open>collate\<close> is the rank of a text in the collation of the database.\<close>

definition category_rows :: "(string \<Rightarrow> nat) \<Rightarrow> string option \<Rightarrow> catalog \<Rightarrow> category list" where
  "category_rows collate parent_slug cat =
     sort_key cat_sort_order (sort_key (collate \<circ> cat_name) (filter (\<lambda>c. cat_is_active c \<and>
       (case parent_slug of
          None \<Rightarrow> cat_parent c = None
        | Some s \<Rightarrow> (case cat_parent c of None \<Rightarrow> False
                     | Some k \<Rightarrow> (\<exists>p \<in> set (categories cat). pk p = k \<and> cat_slug p = s))))
       (categories cat)))"

definition list_categories :: "(string \<Rightarrow> json option) \<Rightarrow> (json \<Rightarrow> string option) \<Rightarrow> (string \<Rightarrow> nat)
    \<Rightarrow> string option \<Rightarrow> catalog \<Rightarrow> cache \<Rightarrow> json \<times> cache" where
  "list_categories loads dumps collate parent_slug cat c =
     (let parent = (case parent_slug of None \<Rightarrow> None | Some s \<Rightarrow> if s = '''' then None else Some s) in
      cached_or loads dumps (''catalog:categories:'' @ (case parent of None \<Rightarrow> ''root'' | Some s \<Rightarrow> s))
        (JList (map CategoryOut (category_rows collate parent cat))) c)"

definition BrandOut :: "brand \<Rightarrow> json" where
  "BrandOut b =
     JObj [(''id'', json_pk (pk b)), (''name'', JStr (br_name b)), (''slug'', JStr (br_slug b)),
           (''is_active'', JBool (br_is_active b))]"

definition list_brands :: "(string \<Rightarrow> json option) \<Rightarrow> (json \<Rightarrow> string option) \<Rightarrow> (string \<Rightarrow> nat)
    \<Rightarrow> catalog \<Rightarrow> cache \<Rightarrow> json \<times> cache" where
  "list_brands loads dumps collate cat c =
     cached_or loads dumps ''catalog:brands''
       (JList (map BrandOut (sort_key (collate \<circ> br_name) (filter br_is_active (brands cat))))) c"

section \<open>Product list\<close>

text \<open>
  The product tables as SQL sees them. \<open>p_categories\<close> rows of the many-to-many table are
  \<open>pr_categories\<close>. Variants and categories count whether or not they are soft-deleted.
\<close>

record product_query =
  pq_page_size :: nat
  pq_cursor :: "string option"
  pq_category :: "string option"
  pq_brand :: "string option"
  pq_min_price :: "int option"
  pq_max_price :: "int option"
  pq_sort :: string

text \<open>A query parameter that is absent or empty is no filter.\<close>

definition given :: "string option \<Rightarrow> string option" where
  "given v = (case v of None \<Rightarrow> None | Some s \<Rightarrow> if s = '''' then None else Some s)"

definition active_variants :: "catalog \<Rightarrow> product \<Rightarrow> product_variant list" where
  "active_variants cat p = filter (\<lambda>v. pv_product v = pk p \<and> pv_is_active v) (variants cat)"

definition first_brand :: "string \<Rightarrow> catalog \<Rightarrow> nat option" where
  "first_brand slug cat = map_option pk (find (\<lambda>b. br_slug b = slug) (brands cat))"

definition product_matches :: "catalog \<Rightarrow> product_query \<Rightarrow> product \<Rightarrow> bool" where
  "product_matches cat q p \<longleftrightarrow>
     pr_status p = ACTIVE \<and> deleted_at p = None \<and>
     (case given (pq_category q) of None \<Rightarrow> True
      | Some s \<Rightarrow> (\<exists>c \<in> set (categories cat). pk c \<in> set (pr_categories p) \<and> cat_slug c = s)) \<and>
     (case given (pq_brand q) of None \<Rightarrow> True
      | Some s \<Rightarrow> (case first_brand s cat of None \<Rightarrow> False | Some b \<Rightarrow> pr_brand p = Some b)) \<and>
     (case pq_min_price q of None \<Rightarrow> True | Some m \<Rightarrow> (\<exists>v \<in> set (active_variants cat p). m \<le> pv_price v)) \<and>
     (case pq_max_price q of None \<Rightarrow> True | Some m \<Rightarrow> (\<exists>v \<in> set (active_variants cat p). pv_price v \<le> m))"

definition min_price :: "catalog \<Rightarrow> product \<Rightarrow> int option" where
  "min_price cat p =
     (case map pv_price (active_variants cat p) of [] \<Rightarrow> None | x # xs \<Rightarrow> Some (foldl min x xs))"

text \<open>The ORDER BY clauses, as stable sorts from the last key to the first; NULLs come last.\<close>

definition order_products :: "catalog \<Rightarrow> string \<Rightarrow> product list \<Rightarrow> product list" where
  "order_products cat s ps =
     (let newest = sort_key (\<lambda>p. - created_at p) ps;
          nulls_last = sort_key (\<lambda>p. if min_price cat p = None then 1 else 0 :: int);
          price = (\<lambda>p. case min_price cat p of None \<Rightarrow> 0 | Some m \<Rightarrow> m) in
      if s = ''popular'' then sort_key (\<lambda>p. - pr_sold_count p) newest
      else if s = ''price_asc'' then nulls_last (sort_key price newest)
      else if s = ''price_desc'' then nulls_last (sort_key (\<lambda>p. - price p) newest)
      else newest)"

definition primary_image :: "catalog \<Rightarrow> product \<Rightarrow> string option" where
  "primary_image cat p =
     (case sort_key (\<lambda>i. if pi_is_primary i then 0 else 1 :: int)
             (sort_key pi_sort_order (filter (\<lambda>i. pi_product i = pk p) (images cat))) of
        [] \<Rightarrow> None | i # _ \<Rightarrow> Some (pi_image i))"

definition product_status_value :: "product_status \<Rightarrow> string" where
  "product_status_value s = (case s of DRAFT \<Rightarrow> ''draft'' | ACTIVE \<Rightarrow> ''active'' | ARCHIVED \<Rightarrow> ''archived'')"

text \<open>A row as the endpoint returns it; numeric columns are Decimals.\<close>

definition product_columns :: "(int \<Rightarrow> string) \<Rightarrow> product \<Rightarrow> (string \<times> json) list" where
  "product_columns isotime p =
     [(''id'', json_pk (pk p)), (''name'', JStr (pr_name p)), (''slug'', JStr (pr_slug p)),
      (''short_description'', JStr (pr_short_description p)), (''brand_id'', opt_pk (pr_brand p)),
      (''status'', JStr (product_status_value (pr_status p))), (''is_featured'', JBool (pr_is_featured p)),
      (''rating_avg'', JDec (pr_rating_avg p) 2), (''rating_count'', JInt (pr_rating_count p)),
      (''sold_count'', JInt (pr_sold_count p)), (''created_at'', JStr (isotime (created_at p)))]"

definition ProductOut :: "(int \<Rightarrow> string) \<Rightarrow> catalog \<Rightarrow> product \<Rightarrow> json" where
  "ProductOut isotime cat p =
     JObj (product_columns isotime p @
       [(''min_price'', json_opt (\<lambda>m. JDec m 2) (min_price cat p)),
        (''primary_image'', json_opt JStr (primary_image cat p))])"

record product_page =
  pp_items :: "product list"
  pp_next_cursor :: "string option"
  pp_page_size :: nat

text \<open>
  \<open>cursor_time\<close> is the instant the database reads from the cursor text, \<open>None\<close> where it refuses
  it. Query parameters are validated before: a page size from 1 to 100, one of four sorts.
\<close>

definition matching_products :: "catalog \<Rightarrow> product_query \<Rightarrow> product list" where
  "matching_products cat q = filter (product_matches cat q) (products cat)"

definition list_products :: "(string \<Rightarrow> int option) \<Rightarrow> (int \<Rightarrow> string) \<Rightarrow> catalog \<Rightarrow> product_query
    \<Rightarrow> py_error + product_page" where
  "list_products cursor_time isotime cat q =
     bindE (case given (pq_cursor q) of
              None \<Rightarrow> Inr (matching_products cat q)
            | Some text \<Rightarrow>
                (case cursor_time text of
                   None \<Rightarrow> Inl (DataError ''invalid cursor'')
                 | Some t \<Rightarrow> Inr (filter (\<lambda>p. created_at p < t) (matching_products cat q))))
       (\<lambda>ps.
         let rows = take (pq_page_size q + 1) (order_products cat (pq_sort q) ps);
             has_more = pq_page_size q < length rows;
             its = (if has_more then take (pq_page_size q) rows else rows) in
         Inr \<lparr>pp_items = its,
              pp_next_cursor = (if has_more \<and> its \<noteq> [] then Some (isotime (created_at (last its))) else None),
              pp_page_size = pq_page_size q\<rparr>)"

definition PaginatedProducts :: "(int \<Rightarrow> string) \<Rightarrow> catalog \<Rightarrow> product_page \<Rightarrow> json" where
  "PaginatedProducts isotime cat pg =
     JObj [(''items'', JList (map (ProductOut isotime cat) (pp_items pg))),
           (''next_cursor'', json_opt JStr (pp_next_cursor pg)), (''page_size'', JInt (int (pp_page_size pg)))]"

section \<open>Product detail and variants\<close>

definition bool_desc :: "bool \<Rightarrow> int" where
  "bool_desc b = (if b then 0 else 1)"

definition variant_columns :: "product_variant \<Rightarrow> (string \<times> json) list" where
  "variant_columns v =
     [(''id'', json_pk (pk v)), (''sku'', JStr (pv_sku v)), (''name'', JStr (pv_name v)),
      (''price'', JDec (pv_price v) 2),
      (''compare_at_price'', json_opt (\<lambda>m. JDec m 2) (pv_compare_at_price v)),
      (''currency'', JStr (pv_currency v)), (''is_default'', JBool (pv_is_default v)),
      (''is_active'', JBool (pv_is_active v)), (''attributes_snapshot'', pv_attributes_snapshot v)]"

definition ProductImageOut :: "product_image \<Rightarrow> json" where
  "ProductImageOut i =
     JObj [(''id'', json_pk (pk i)), (''image'', JStr (pi_image i)), (''alt_text'', JStr (pi_alt_text i)),
           (''sort_order'', JInt (pi_sort_order i)), (''is_primary'', JBool (pi_is_primary i)),
           (''variant_id'', opt_pk (pi_variant i))]"

definition ProductDetailOut :: "(int \<Rightarrow> string) \<Rightarrow> (string \<Rightarrow> nat) \<Rightarrow> catalog \<Rightarrow> product \<Rightarrow> json" where
  "ProductDetailOut isotime collate cat p =
     (let b = Option.bind (pr_brand p) (\<lambda>k. find_pk k (brands cat));
          vs = sort_key (bool_desc \<circ> pv_is_default) (sort_key (collate \<circ> pv_name) (active_variants cat p));
          imgs = sort_key (bool_desc \<circ> pi_is_primary)
                   (sort_key pi_sort_order (filter (\<lambda>i. pi_product i = pk p) (images cat))) in
      JObj (product_columns isotime p @
        [(''description'', JStr (pr_description p)), (''metadata'', pr_metadata p),
         (''brand_name'', json_opt (JStr \<circ> br_name) b), (''brand_slug'', json_opt (JStr \<circ> br_slug) b),
         (''variants'', JList (map (JObj \<circ> variant_columns) vs)),
         (''images'', JList (map ProductImageOut imgs))]))"

definition product_detail :: "(string \<Rightarrow> json option) \<Rightarrow> (json \<Rightarrow> string option) \<Rightarrow> (int \<Rightarrow> string)
    \<Rightarrow> (string \<Rightarrow> nat) \<Rightarrow> string \<Rightarrow> catalog \<Rightarrow> cache \<Rightarrow> (http_exc + json) \<times> cache" where
  "product_detail loads dumps isotime collate slug cat c =
     (let key = ''catalog:product:'' @ slug in
      case cache_hit loads c key of
        Some v \<Rightarrow> (Inr v, c)
      | None \<Rightarrow>
          (case find (\<lambda>p. pr_slug p = slug \<and> pr_status p = ACTIVE \<and> deleted_at p = None) (products cat) of
             None \<Rightarrow> (Inl (HTTPException 404 ''product not found''), c)
           | Some p \<Rightarrow> let out = ProductDetailOut isotime collate cat p in (Inr out, cache_set dumps key out c)))"

text \<open>The inner join and \<open>.first()\<close>.\<close>

definition variant_by_sku :: "string \<Rightarrow> catalog \<Rightarrow> http_exc + json" where
  "variant_by_sku sku cat =
     (case find (\<lambda>v. pv_sku v = sku \<and> pv_is_active v \<and> pv_product v \<in> pk ` set (products cat)) (variants cat) of
        None \<Rightarrow> Inl (HTTPException 404 ''variant not found'')
      | Some v \<Rightarrow>
          let p = find_pk (pv_product v) (products cat) in
          Inr (JObj (variant_columns v @
            [(''product_id'', json_pk (pv_product v)), (''product_slug'', json_opt (JStr \<circ> pr_slug) p),
             (''product_name'', json_opt (JStr \<circ> pr_name) p)])))"

section \<open>Search, webhooks, health\<close>

text \<open>
  \<open>ts_rank\<close>, \<open>matches\<close> (full text or trigram) and \<open>similarity\<close> are PostgreSQL's. Ranks are
  compared as integers.
\<close>

definition search :: "(string \<Rightarrow> product \<Rightarrow> bool) \<Rightarrow> (string \<Rightarrow> product \<Rightarrow> int) \<Rightarrow> (string \<Rightarrow> product \<Rightarrow> int)
    \<Rightarrow> string \<Rightarrow> nat \<Rightarrow> catalog \<Rightarrow> product list" where
  "search matches ts_rank similarity q page_size cat =
     take page_size
       (sort_key (\<lambda>p. - ts_rank q p) (sort_key (\<lambda>p. - similarity q p) (sort_key (\<lambda>p. - pr_sold_count p)
         (filter (\<lambda>p. pr_status p = ACTIVE \<and> deleted_at p = None \<and> matches q p) (products cat)))))"

text \<open>\<open>ILIKE\<close> of ASCII text; \<open>None\<close> is the error for a pattern that ends in the escape character.\<close>

fun like :: "string \<Rightarrow> string \<Rightarrow> bool option" where
  "like [] s = Some (s = [])"
| "like (p # ps) s =
     (if p = CHR ''%'' then
        (case s of [] \<Rightarrow> like ps []
         | c # cs \<Rightarrow> (case like ps s of None \<Rightarrow> None | Some True \<Rightarrow> Some True | Some False \<Rightarrow> like (p # ps) cs))
      else if p = CHR 0x5C then
        (case ps of [] \<Rightarrow> None
         | e # es \<Rightarrow> (case s of [] \<Rightarrow> Some False | c # cs \<Rightarrow> if c = e then like es cs else Some False))
      else
        (case s of [] \<Rightarrow> Some False
         | c # cs \<Rightarrow> if p = CHR ''_'' \<or> c = p then like ps cs else Some False))"

definition ilike :: "string \<Rightarrow> string \<Rightarrow> bool" where
  "ilike pattern s \<longleftrightarrow> like (lower pattern) (lower s) = Some True"

text \<open>The pattern ends in a percent sign, so it never ends in an unpaired escape by itself.\<close>

definition autocomplete :: "(string \<Rightarrow> nat) \<Rightarrow> string \<Rightarrow> catalog \<Rightarrow> (string \<times> string) list" where
  "autocomplete collate q cat =
     map (\<lambda>p. (pr_name p, pr_slug p)) (take 10
       (sort_key (\<lambda>p. - pr_sold_count p) (sort_key (collate \<circ> pr_name)
         (filter (\<lambda>p. pr_status p = ACTIVE \<and> deleted_at p = None \<and> ilike (q @ ''%'') (pr_name p)) (products cat)))))"

definition receive_webhook :: "(string \<Rightarrow> string) \<Rightarrow> bool \<Rightarrow> string \<Rightarrow> string \<Rightarrow> (string \<Rightarrow> string list)
    \<Rightarrow> response \<times> (string \<Rightarrow> string list)" where
  "receive_webhook decode redis_up provider_code body queues =
     (let key = ''webhooks:'' @ provider_code @ '':queue'' in
      if \<not> redis_up
      then (Response 202 (JObj [(''accepted'', JBool False), (''error'', JStr ''enqueue failed'')]), queues)
      else (Response 202 (JObj [(''accepted'', JBool True), (''provider'', JStr provider_code)]),
            queues(key := queues key @ [decode body])))"

text \<open>\<open>readyz\<close> returns a pair on failure, which FastAPI serialises as a list with status 200.\<close>

definition readyz :: "string option \<Rightarrow> string option \<Rightarrow> response" where
  "readyz db_error redis_error =
     (case db_error of
        Some e \<Rightarrow> Response 200 (JList [JObj [(''ready'', JBool False), (''db_error'', JStr e)], JInt 503])
      | None \<Rightarrow>
          (case redis_error of
             Some e \<Rightarrow> Response 200 (JList [JObj [(''ready'', JBool False), (''redis_error'', JStr e)], JInt 503])
           | None \<Rightarrow> Response 200 (JObj [(''ready'', JBool True)])))"

section \<open>Following the cursor\<close>

text \<open>A client that follows \<open>next_cursor\<close>, for at most \<open>fuel\<close> pages.\<close>

fun walk_pages :: "nat \<Rightarrow> (string \<Rightarrow> int option) \<Rightarrow> (int \<Rightarrow> string) \<Rightarrow> catalog \<Rightarrow> product_query \<Rightarrow> product list" where
  "walk_pages 0 cursor_time isotime cat q = []"
| "walk_pages (Suc fuel) cursor_time isotime cat q =
     (case list_products cursor_time isotime cat q of
        Inl _ \<Rightarrow> []
      | Inr pg \<Rightarrow> pp_items pg @
          (case pp_next_cursor pg of None \<Rightarrow> []
           | Some c \<Rightarrow> walk_pages fuel cursor_time isotime cat (q\<lparr>pq_cursor := Some c\<rparr>)))"

definition newest_first :: "product list \<Rightarrow> product list" where
  "newest_first ps = sort_key (\<lambda>p. - created_at p) ps"

lemma matching_cursor [simp]: "matching_products cat (q\<lparr>pq_cursor := c\<rparr>) = matching_products cat q"
  by (simp add: matching_products_def product_matches_def [abs_def])

lemma order_newest [simp]: "order_products cat ''newest'' ps = newest_first ps"
  by (simp add: order_products_def newest_first_def)

lemma newest_first_strict:
  assumes "distinct (map created_at ps)"
  shows "sorted_wrt (\<lambda>a b. created_at b < created_at a) (newest_first ps)"
proof -
  let ?S = "newest_first ps"
  have "distinct (map created_at ?S)"
    using assms by (simp add: newest_first_def distinct_map)
  then have "distinct (map (\<lambda>p. - created_at p) ?S)"
    by (auto simp: distinct_map inj_on_def)
  moreover have "sorted (map (\<lambda>p. - created_at p) ?S)" by (simp add: newest_first_def)
  ultimately have "sorted_wrt (<) (map (\<lambda>p. - created_at p) ?S)" by (simp add: strict_sorted_iff)
  then show ?thesis by (simp add: sorted_wrt_map)
qed

lemma filter_before:
  assumes "sorted_wrt (\<lambda>a b. created_at b < (created_at a :: int)) S" "k < length S"
  shows "filter (\<lambda>p. created_at p < created_at (S ! k)) S = drop (Suc k) S"
proof -
  have S: "S = take k S @ S ! k # drop (Suc k) S" using id_take_nth_drop [OF assms(2)] .
  have st: "sorted_wrt (\<lambda>a b. created_at b < created_at a) (take k S @ S ! k # drop (Suc k) S)"
    using assms(1) by (subst (asm) S)
  have "filter (\<lambda>p. created_at p < created_at (S ! k)) (take k S @ S ! k # drop (Suc k) S) = drop (Suc k) S"
    using st by (auto simp: sorted_wrt_append filter_id_conv filter_empty_conv)
  then show ?thesis by (subst (2) S)
qed

lemma newest_page:
  assumes "pq_sort q = ''newest''"
    and "case given (pq_cursor q) of None \<Rightarrow> rest = newest_first (matching_products cat q)
         | Some text \<Rightarrow> (\<exists>t. cursor_time text = Some t \<and>
             rest = newest_first (filter (\<lambda>p. created_at p < t) (matching_products cat q)))"
    and "1 \<le> pq_page_size q"
  shows "list_products cursor_time isotime cat q =
    Inr \<lparr>pp_items = take (pq_page_size q) rest,
         pp_next_cursor = (if pq_page_size q < length rest
                           then Some (isotime (created_at (rest ! (pq_page_size q - 1)))) else None),
         pp_page_size = pq_page_size q\<rparr>"
proof -
  have "last (take n rest) = rest ! (n - 1)" if "n < length rest" "1 \<le> n" for n
    using that by (subst last_conv_nth) auto
  then show ?thesis
    using assms by (auto simp: list_products_def Let_def min_def split: option.splits)
qed

lemma walk_rest:
  assumes "1 \<le> pq_page_size q" "pq_sort q = ''newest''"
    and "distinct (map created_at (matching_products cat q))"
    and "\<And>t. cursor_time (isotime t) = Some t \<and> isotime t \<noteq> ''''"
    and "S = newest_first (matching_products cat q)"
    and "0 < k" "k < length S" "length S - k \<le> fuel"
  shows "walk_pages fuel cursor_time isotime cat (q\<lparr>pq_cursor := Some (isotime (created_at (S ! (k - 1))))\<rparr>) = drop k S"
  using assms(6-8)
proof (induction fuel arbitrary: k)
  case 0
  then show ?case by simp
next
  case (Suc fuel)
  let ?n = "pq_page_size q"
  let ?q = "q\<lparr>pq_cursor := Some (isotime (created_at (S ! (k - 1))))\<rparr>"
  have strict: "sorted_wrt (\<lambda>a b. created_at b < created_at a) S"
    using newest_first_strict [OF assms(3)] assms(5) by simp
  have "newest_first (filter (\<lambda>p. created_at p < created_at (S ! (k - 1))) (matching_products cat q)) =
        filter (\<lambda>p. created_at p < created_at (S ! (k - 1))) S"
    unfolding assms(5) newest_first_def by (simp add: filter_sort)
  also have "\<dots> = drop k S"
    using filter_before [OF strict, of "k - 1"] Suc.prems by simp
  finally have rest: "drop k S =
      newest_first (filter (\<lambda>p. created_at p < created_at (S ! (k - 1))) (matching_products cat q))" by simp
  have page: "list_products cursor_time isotime cat ?q =
    Inr \<lparr>pp_items = take ?n (drop k S),
         pp_next_cursor = (if ?n < length (drop k S)
                           then Some (isotime (created_at (drop k S ! (?n - 1)))) else None),
         pp_page_size = ?n\<rparr>"
    using newest_page [of ?q "drop k S" cat cursor_time isotime] assms(1,2,4) rest
    by (simp add: given_def)
  show ?case
  proof (cases "?n < length (drop k S)")
    case True
    then have "walk_pages fuel cursor_time isotime cat
        (q\<lparr>pq_cursor := Some (isotime (created_at (S ! ((k + ?n) - 1))))\<rparr>) = drop (k + ?n) S"
      using Suc.prems assms(1) by (intro Suc.IH) auto
    moreover have "drop k S ! (?n - 1) = S ! ((k + ?n) - 1)" using True assms(1) by simp
    moreover have "take ?n (drop k S) @ drop (k + ?n) S = drop k S"
      by (metis add.commute append_take_drop_id drop_drop)
    ultimately show ?thesis using page True by simp
  next
    case False
    with page show ?thesis by simp
  qed
qed


definition dated_product :: "nat \<Rightarrow> int \<Rightarrow> product" where
  "dated_product k t = (demo_product k ''Tee'' (digits_of k))\<lparr>created_at := t\<rparr>"

text \<open>Three products; the newest is the cheapest.\<close>

definition three_products :: catalog where
  "three_products = \<lparr>brands = [], categories = [],
     products = [dated_product 1 10, dated_product 2 20, dated_product 3 30],
     variants = [demo_variant 7 1 ''A'' 3000, demo_variant 8 2 ''B'' 2000, demo_variant 9 3 ''C'' 1000],
     images = []\<rparr>"

definition page_query :: "string \<Rightarrow> nat \<Rightarrow> product_query" where
  "page_query s n = \<lparr>pq_page_size = n, pq_cursor = None, pq_category = None, pq_brand = None,
     pq_min_price = None, pq_max_price = None, pq_sort = s\<rparr>"

text \<open>Instants written in unary, so that the text can be read back.\<close>

definition tally :: "int \<Rightarrow> string" where
  "tally t = (if 0 \<le> t then CHR ''p'' else CHR ''n'') # replicate (nat \<bar>t\<bar>) CHR ''x''"

definition untally :: "string \<Rightarrow> int option" where
  "untally s = (case s of [] \<Rightarrow> None | c # cs \<Rightarrow> Some (if c = CHR ''p'' then int (length cs) else - int (length cs)))"

lemma untally_tally: "untally (tally t) = Some t \<and> tally t \<noteq> ''''"
  by (simp add: tally_def untally_def)


text \<open>
  In the price orders the cursor still cuts by creation time, so following it can lose products:
  of three products whose cheapest is the newest, a walk by ascending price with pages of one lists
  all three only because age and price run in parallel; with descending price it stops after one.
\<close>

lemma price_pages_lose_products:
  "map pk (walk_pages 9 untally tally three_products (page_query ''price_desc'' 1)) = [1]"
  by code_simp

section \<open>Tokens issued by Django\<close>

definition idle_accounts :: accounts where
  "idle_accounts = \<lparr>roles = [], users = [], addresses = [], wishlists = []\<rparr>"

definition demo_staff :: "bool \<Rightarrow> bool \<Rightarrow> user" where
  "demo_staff flag super = \<lparr>pk = 4, created_at = 0, updated_at = 0, deleted_at = None, us_email = ''s@x.y'',
     us_password = '''', us_first_name = '''', us_last_name = '''', us_phone = '''', us_is_active = True,
     us_is_staff = flag, us_is_superuser = super, us_email_verified_at = None,
     us_phone_verified_at = None, us_last_login_ip = None, us_roles = []\<rparr>"

lemma strip_first_word:
  "dropWhile (\<lambda>c. c \<noteq> CHR '' '') (''Bearer '' @ tok) = CHR '' '' # tok"
  by simp

lemma lower_append: "lower (s @ t) = lower s @ lower t"
  by (simp add: lower_def)

lemma lower_bearer: "lower ''Bearer '' = ''bearer ''"
  by code_simp

lemma bearer_prefix: "startswith ''bearer '' (lower (''Bearer '' @ tok))"
  unfolding lower_append lower_bearer by (simp add: startswith_def)

lemma json_or_list [simp]: "json_or (JList xs) (JList []) = JList xs"
  by (simp add: json_or_def)

text \<open>What \<open>get_current_user\<close> makes of the claims Django puts into a token.\<close>

lemma bearer_token: "strip tok = tok \<Longrightarrow> extract_token (Some (''Bearer '' @ tok)) = Inr tok"
  unfolding extract_token_def by (simp add: strip_first_word bearer_prefix del: append_Cons)

lemma django_claims_read:
  "\<exists>tu. token_user_of repr (get_token base u db) = Inr tu \<and> tu_email tu = JStr (us_email u) \<and>
     tu_roles tu = map (JStr \<circ> ro_code) (roles_of u db) \<and> tu_is_staff tu = us_is_staff u"
proof -
  let ?p = "get_token base u db"
  have "claim ?p ''email'' d = JStr (us_email u)" "claim ?p ''is_staff'' d = JBool (us_is_staff u)"
    "claim ?p ''roles'' d = JList (map (JStr \<circ> ro_code) (roles_of u db))" for d
    by (simp_all add: claim_def get_token_def update_conv')
  then show ?thesis by (simp add: token_user_of_def)
qed

lemma has_role_image: "has_role u c db \<longleftrightarrow> c \<in> ro_code ` set (roles_of u db)"
  by (auto simp: has_role_def)

lemma role_claim: "JStr c \<in> set (map (JStr \<circ> ro_code) rs) \<longleftrightarrow> c \<in> ro_code ` set rs"
  by auto

lemma require_staff_iff:
  "tu_roles tu = map (JStr \<circ> ro_code) (roles_of u db) \<Longrightarrow>
   require_staff tu = Inr () \<longleftrightarrow> tu_is_staff tu \<or> has_role u ''staff'' db \<or> has_role u ''admin'' db"
  by (simp add: require_staff_def has_role_image role_claim del: set_map)

lemma IsStaff_iff:
  "IsStaff (Some u) db \<longleftrightarrow> us_is_superuser u \<or> has_role u ''staff'' db \<or> has_role u ''admin'' db"
  by (simp add: IsStaff_def HasRole_def has_role_image Let_def)

text \<open>
  One token, two ideas of staff. A token Django issues for a user carries that user's e-mail,
  role codes and staff flag through FastAPI's \<open>get_current_user\<close> unchanged. But \<open>require_staff\<close>
  lets in the users with the flag or one of the roles staff and admin, while Django's \<open>IsStaff\<close>
  lets in superusers and the holders of one of these roles and does not look at the flag.
\<close>

theorem staff_checks_compared:
  assumes "jwt_decode tok = Claims (get_token base u db)" "strip tok = tok"
  shows "\<exists>tu. get_current_user jwt_decode repr (Some (''Bearer '' @ tok)) = Inr tu \<and>
    tu_email tu = JStr (us_email u) \<and> tu_roles tu = map (JStr \<circ> ro_code) (roles_of u db) \<and>
    tu_is_staff tu = us_is_staff u \<and>
    (require_staff tu = Inr () \<longleftrightarrow> us_is_staff u \<or> has_role u ''staff'' db \<or> has_role u ''admin'' db) \<and>
    (IsStaff (Some u) db \<longleftrightarrow> us_is_superuser u \<or> has_role u ''staff'' db \<or> has_role u ''admin'' db)"
proof -
  obtain tu where tu: "token_user_of repr (get_token base u db) = Inr tu" "tu_email tu = JStr (us_email u)"
    "tu_roles tu = map (JStr \<circ> ro_code) (roles_of u db)" "tu_is_staff tu = us_is_staff u"
    using django_claims_read by blast
  have "get_current_user jwt_decode repr (Some (''Bearer '' @ tok)) = Inr tu"
    using assms(1) tu(1) unfolding get_current_user_def bearer_token [OF assms(2)] decode_token_def by simp
  with tu require_staff_iff [OF tu(3)] IsStaff_iff [of u db] show ?thesis by auto
qed

theorem staff_checks_compared_witness:
  "\<exists>tu. get_current_user (\<lambda>_. Claims (get_token [] (demo_staff True False) idle_accounts)) (\<lambda>_. '''') (Some ''Bearer t'') = Inr tu \<and>
     require_staff tu = Inr () \<and> \<not> IsStaff (Some (demo_staff True False)) idle_accounts"
proof -
  let ?u = "demo_staff True False"
  have t: "strip ''t'' = ''t''" by (simp add: strip_def is_space_def)
  have none: "\<not> has_role ?u c idle_accounts" for c
    by (simp add: has_role_def roles_of_def idle_accounts_def get_queryset_def)
  have flag: "us_is_staff ?u" "\<not> us_is_superuser ?u" by (simp_all add: demo_staff_def)
  have claims: "(\<lambda>_. Claims (get_token [] ?u idle_accounts)) ''t'' = Claims (get_token [] ?u idle_accounts)" by simp
  from staff_checks_compared [OF claims t, of "\<lambda>_. ''''"] flag none show ?thesis by auto
qed

section \<open>Soft deletion and the SQL endpoints\<close>

lemma find_map_same:
  "(\<And>x. P (f x) = P x) \<Longrightarrow> find P (map f xs) = map_option f (find P xs)"
  by (induction xs) auto

definition stamp :: "int \<Rightarrow> ('a base_model_scheme \<Rightarrow> bool) \<Rightarrow> 'a base_model_scheme \<Rightarrow> 'a base_model_scheme" where
  "stamp now p r = (if p r then r\<lparr>deleted_at := Some now\<rparr> else r)"

lemma stamp_pk [simp]: "pk (stamp now p r) = pk r"
  by (simp add: stamp_def)

lemma stamp_columns [simp]:
  "pv_sku (stamp now p v) = pv_sku v" "pv_name (stamp now p v) = pv_name v"
  "pv_price (stamp now p v) = pv_price v" "pv_compare_at_price (stamp now p v) = pv_compare_at_price v"
  "pv_currency (stamp now p v) = pv_currency v" "pv_is_default (stamp now p v) = pv_is_default v"
  "pv_is_active (stamp now p v) = pv_is_active v" "pv_product (stamp now p v) = pv_product v"
  "pv_attributes_snapshot (stamp now p v) = pv_attributes_snapshot v"
  "pr_slug (stamp now pp r') = pr_slug r'" "pr_name (stamp now pp r') = pr_name r'"
  "cat_name (stamp now pc c) = cat_name c" "cat_slug (stamp now pc c) = cat_slug c"
  "cat_parent (stamp now pc c) = cat_parent c" "cat_is_active (stamp now pc c) = cat_is_active c"
  "cat_sort_order (stamp now pc c) = cat_sort_order c"
  "br_name (stamp now pb b) = br_name b" "br_slug (stamp now pb b) = br_slug b"
  "br_is_active (stamp now pb b) = br_is_active b"
  by (simp_all add: stamp_def)

lemma insort_key_map: "insort_key f (g x) (map g xs) = map g (insort_key (\<lambda>y. f (g y)) x xs)"
  by (induction xs) auto

lemma sort_key_map: "sort_key f (map g xs) = map g (sort_key (\<lambda>y. f (g y)) xs)"
  by (induction xs) (simp_all add: insort_key_map)

lemma deleted_table: "snd (qs_delete now p tbl) = map (stamp now p) tbl"
  by (simp add: qs_delete_def update_where_def stamp_def)

text \<open>
  The SQL endpoints do not see soft deletion. Whatever variants, products, categories and brands
  are soft-deleted through the ORM, FastAPI's lookup of a variant by SKU, its category lists and
  its brand list answer exactly as before.
\<close>

theorem soft_delete_unseen_by_sql:
  "let cat' = cat\<lparr>variants := snd (qs_delete now dead_v (variants cat)),
                  products := snd (qs_delete now dead_p (products cat)),
                  categories := snd (qs_delete now dead_c (categories cat)),
                  brands := snd (qs_delete now dead_b (brands cat))\<rparr> in
     variant_by_sku sku cat' = variant_by_sku sku cat \<and>
     list_categories loads dumps collate parent cat' c = list_categories loads dumps collate parent cat c \<and>
     list_brands loads dumps collate cat' c = list_brands loads dumps collate cat c"
proof -
  let ?vs = "map (stamp now dead_v) (variants cat)" and ?ps = "map (stamp now dead_p) (products cat)"
  let ?cs = "map (stamp now dead_c) (categories cat)" and ?bs = "map (stamp now dead_b) (brands cat)"
  let ?cat = "cat\<lparr>variants := ?vs, products := ?ps, categories := ?cs, brands := ?bs\<rparr>"
  have "variant_by_sku sku ?cat = variant_by_sku sku cat"
    by (simp add: variant_by_sku_def find_map_same find_pk_def image_image variant_columns_def
        json_opt_def Let_def split: option.split)
  moreover have "map CategoryOut (category_rows collate q ?cat) = map CategoryOut (category_rows collate q cat)" for q
    by (simp add: category_rows_def filter_map comp_def sort_key_map image_image CategoryOut_def
        cong: option.case_cong)
  moreover have "map BrandOut (sort_key (collate \<circ> br_name) (filter br_is_active ?bs)) =
      map BrandOut (sort_key (collate \<circ> br_name) (filter br_is_active (brands cat)))"
    by (simp add: filter_map comp_def sort_key_map BrandOut_def)
  ultimately show ?thesis
    by (simp add: Let_def deleted_table list_categories_def list_brands_def)
qed

section \<open>The detail cache\<close>

fun has_decimal :: "json \<Rightarrow> bool" where
  "has_decimal (JDec c k) = True"
| "has_decimal (JList xs) = list_ex has_decimal xs"
| "has_decimal (JObj kvs) = list_ex (\<lambda>(k, v). has_decimal v) kvs"
| "has_decimal _ = False"

text \<open>
  Product details are never cached. orjson refuses values that contain a Decimal, and
  every product detail contains one (the average rating), so the endpoint leaves the cache as it
  was on every call.
\<close>

theorem product_detail_never_cached:
  assumes "\<And>v. has_decimal v \<Longrightarrow> dumps v = None"
  shows "snd (product_detail loads dumps isotime collate slug cat c) = c"
proof -
  have "has_decimal (ProductDetailOut isotime collate cat p)" for p
    by (simp add: ProductDetailOut_def product_columns_def Let_def)
  with assms have "dumps (ProductDetailOut isotime collate cat p) = None" for p by blast
  then show ?thesis
    by (simp add: product_detail_def Let_def cache_set_def split: option.split)
qed

theorem product_detail_never_cached_witness:
  "snd (product_detail (\<lambda>_. None) (\<lambda>v. if has_decimal v then None else Some ''json'') str_int length ''3''
          three_products \<lparr>up = True, entries = Map.empty\<rparr>) = \<lparr>up = True, entries = Map.empty\<rparr>"
  by (rule product_detail_never_cached) simp

end
