(* ===== verification/Schema.thy ===== *)
theory Schema
  imports Prelude
begin

text \<open>
  The database schema: what the models of \<open>apps/*/models.py\<close> declare (fields and \<open>Meta\<close>) and what
  the migrations of \<open>apps/*/migrations\<close> build, each as data of one small language, with the effect of
  Django's migration operations on a schema. The services' constraints (unique keys, widths,
  nullable columns) are those of the tables the migrations create, so the two have to agree.

  A column keeps what decides the table and the value of a new row: its type with its sizes, null,
  unique, index and primary key flags, default, stored choices, and for a relation the target and
  \<open>on_delete\<close>. Texts for people (labels, help) and names of indexes and reverse accessors are left
  out. A model is named by its application and its class in lower case, as Django looks it up.
\<close>

section \<open>Columns and models\<close>

datatype auto_time = GivenTime | AutoNow | AutoNowAdd

datatype on_delete = CASCADE | SET_NULL | PROTECT

datatype column_kind =
    UUIDField
  | DateTimeField auto_time
  | DateField
  | CharField nat
  | SlugField nat
  | EmailField nat
  | URLField nat
  | TextField
  | IntegerField
  | PositiveIntegerField
  | PositiveSmallIntegerField
  | DecimalField nat nat
  | BooleanField
  | JSONField
  | ImageField
  | GenericIPAddressField
  | SearchVectorField
  | ForeignKey string on_delete
  | OneToOneField string on_delete
  | ManyToManyField string

datatype default_value =
    NoDefault
  | DefaultText string
  | DefaultInt int
  | DefaultCents int
  | DefaultBool bool
  | DefaultCall string

record column =
  col_kind :: column_kind
  col_null :: bool
  col_unique :: bool
  col_index :: bool
  col_primary :: bool
  col_default :: default_value
  col_choices :: "string list"

definition column :: "column_kind \<Rightarrow> column" where
  "column k = \<lparr>col_kind = k, col_null = False, col_unique = False, col_index = False, col_primary = False,
     col_default = NoDefault, col_choices = []\<rparr>"

definition nullable :: "column \<Rightarrow> column" where
  "nullable c = c\<lparr>col_null := True\<rparr>"

definition unique :: "column \<Rightarrow> column" where
  "unique c = c\<lparr>col_unique := True\<rparr>"

definition indexed :: "column \<Rightarrow> column" where
  "indexed c = c\<lparr>col_index := True\<rparr>"

definition primary :: "column \<Rightarrow> column" where
  "primary c = c\<lparr>col_primary := True\<rparr>"

definition default_to :: "default_value \<Rightarrow> column \<Rightarrow> column" where
  "default_to d c = c\<lparr>col_default := d\<rparr>"

definition choices :: "string list \<Rightarrow> column \<Rightarrow> column" where
  "choices vs c = c\<lparr>col_choices := vs\<rparr>"

record model_state =
  table_name :: string
  columns :: "(string \<times> column) list"
  unique_sets :: "string list list"
  index_sets :: "string list list"
  ordering :: "string list"

type_synonym schema = "(string \<times> model_state) list"

section \<open>What the models declare\<close>

text \<open>\<open>TimeStampedUUIDModel\<close> of \<open>core/models.py\<close>.\<close>

definition timestamp_columns :: "(string \<times> column) list" where
  "timestamp_columns =
     [(''created_at'', indexed (column (DateTimeField AutoNowAdd))),
      (''updated_at'', column (DateTimeField AutoNow))]"

definition key_column :: "(string \<times> column) list" where
  "key_column = [(''id'', primary (default_to (DefaultCall ''uuid4'') (column UUIDField)))]"

definition soft_delete_column :: "(string \<times> column) list" where
  "soft_delete_column = [(''deleted_at'', indexed (nullable (column (DateTimeField GivenTime))))]"

definition base_columns :: "(string \<times> column) list" where
  "base_columns = key_column @ timestamp_columns @ soft_delete_column"

datatype operation =
    CreateModel string model_state
  | AddField string string column
  | AddIndex string "string list"
  | AlterUniqueTogether string "string list list"

record migration =
  mg_app :: string
  mg_name :: string
  mg_dependencies :: "(string \<times> string) list"
  mg_operations :: "operation list"


subsection \<open>\<open>analytics/models.py\<close>\<close>

definition DailySalesSnapshot_model :: model_state where
  "DailySalesSnapshot_model =
  \<lparr>table_name = ''analytics_daily_sales'',
    columns = base_columns @
      [(''day'', unique (indexed (column DateField))),
       (''orders_count'', default_to (DefaultInt 0) (column PositiveIntegerField)),
       (''paid_orders_count'', default_to (DefaultInt 0) (column PositiveIntegerField)),
       (''cancelled_orders_count'', default_to (DefaultInt 0) (column PositiveIntegerField)),
       (''revenue'', default_to (DefaultInt 0) (column (DecimalField 14 2))),
       (''average_order_value'', default_to (DefaultInt 0) (column (DecimalField 12 2))),
       (''items_sold'', default_to (DefaultInt 0) (column PositiveIntegerField)),
       (''new_customers'', default_to (DefaultInt 0) (column PositiveIntegerField))],
    unique_sets = [], index_sets = [],
    ordering = [''-day'']\<rparr>"

subsection \<open>\<open>audit/models.py\<close>\<close>

definition AuditLog_model :: model_state where
  "AuditLog_model =
  \<lparr>table_name = ''audit_log'',
    columns = base_columns @
      [(''actor'', nullable (column (ForeignKey ''users.user'' SET_NULL))),
       (''actor_email'', column (EmailField 254)),
       (''action'', indexed (column (CharField 128))),
       (''target_type'', column (CharField 128)),
       (''target_id'', indexed (column (CharField 128))),
       (''ip_address'', nullable (column GenericIPAddressField)),
       (''user_agent'', column (CharField 512)),
       (''request_id'', indexed (column (CharField 64))),
       (''payload'', default_to (DefaultCall ''dict'') (column JSONField))],
    unique_sets = [], index_sets = [[''actor'', ''-created_at''], [''action'', ''-created_at'']],
    ordering = [''-created_at'']\<rparr>"

subsection \<open>\<open>cart/models.py\<close>\<close>

definition Cart_model :: model_state where
  "Cart_model =
  \<lparr>table_name = ''cart_cart'',
    columns = base_columns @
      [(''user'', nullable (column (ForeignKey ''users.user'' CASCADE))),
       (''session_key'', indexed (column (CharField 64))),
       (''currency'', default_to (DefaultText ''USD'') (column (CharField 3))),
       (''coupon'', nullable (column (ForeignKey ''coupons.coupon'' SET_NULL))),
       (''metadata'', default_to (DefaultCall ''dict'') (column JSONField)),
       (''last_active_at'', column (DateTimeField AutoNow))],
    unique_sets = [], index_sets = [[''user''], [''session_key'']],
    ordering = []\<rparr>"

definition CartItem_model :: model_state where
  "CartItem_model =
  \<lparr>table_name = ''cart_item'',
    columns = base_columns @
      [(''cart'', column (ForeignKey ''cart.cart'' CASCADE)),
       (''variant'', column (ForeignKey ''catalog.productvariant'' CASCADE)),
       (''quantity'', default_to (DefaultInt 1) (column PositiveIntegerField)),
       (''unit_price'', column (DecimalField 12 2))],
    unique_sets = [[''cart'', ''variant'']], index_sets = [[''cart'']],
    ordering = []\<rparr>"

subsection \<open>\<open>catalog/models.py\<close>\<close>

definition Brand_model :: model_state where
  "Brand_model =
  \<lparr>table_name = ''catalog_brand'',
    columns = base_columns @
      [(''name'', unique (column (CharField 200))),
       (''slug'', unique (indexed (column (SlugField 220)))),
       (''description'', column TextField),
       (''logo'', nullable (column ImageField)),
       (''is_active'', indexed (default_to (DefaultBool True) (column BooleanField)))],
    unique_sets = [], index_sets = [],
    ordering = [''name'']\<rparr>"

definition Category_model :: model_state where
  "Category_model =
  \<lparr>table_name = ''catalog_category'',
    columns = base_columns @
      [(''parent'', nullable (column (ForeignKey ''catalog.category'' SET_NULL))),
       (''name'', column (CharField 200)),
       (''slug'', unique (indexed (column (SlugField 220)))),
       (''description'', column TextField),
       (''image'', nullable (column ImageField)),
       (''sort_order'', default_to (DefaultInt 0) (column PositiveIntegerField)),
       (''is_active'', indexed (default_to (DefaultBool True) (column BooleanField)))],
    unique_sets = [], index_sets = [[''parent'', ''is_active'']],
    ordering = [''sort_order'', ''name'']\<rparr>"

definition Attribute_model :: model_state where
  "Attribute_model =
  \<lparr>table_name = ''catalog_attribute'',
    columns = base_columns @
      [(''code'', unique (indexed (column (SlugField 64)))),
       (''name'', column (CharField 128)),
       (''kind'', default_to (DefaultText ''option'') (choices [''text'', ''number'', ''boolean'', ''option''] (column (CharField 16)))),
       (''is_filterable'', default_to (DefaultBool True) (column BooleanField)),
       (''is_required'', default_to (DefaultBool False) (column BooleanField))],
    unique_sets = [], index_sets = [],
    ordering = [''name'']\<rparr>"

definition AttributeOption_model :: model_state where
  "AttributeOption_model =
  \<lparr>table_name = ''catalog_attribute_option'',
    columns = base_columns @
      [(''attribute'', column (ForeignKey ''catalog.attribute'' CASCADE)),
       (''value'', column (CharField 128)),
       (''label'', column (CharField 128)),
       (''sort_order'', default_to (DefaultInt 0) (column PositiveIntegerField))],
    unique_sets = [[''attribute'', ''value'']], index_sets = [],
    ordering = [''sort_order'', ''label'']\<rparr>"

definition Product_model :: model_state where
  "Product_model =
  \<lparr>table_name = ''catalog_product'',
    columns = base_columns @
      [(''name'', indexed (column (CharField 255))),
       (''slug'', unique (indexed (column (SlugField 280)))),
       (''short_description'', column (CharField 500)),
       (''description'', column TextField),
       (''brand'', nullable (column (ForeignKey ''catalog.brand'' SET_NULL))),
       (''categories'', column (ManyToManyField ''catalog.category'')),
       (''attributes'', column (ManyToManyField ''catalog.attribute'')),
       (''status'', default_to (DefaultText ''draft'') (choices [''draft'', ''active'', ''archived''] (column (CharField 16)))),
       (''is_featured'', default_to (DefaultBool False) (column BooleanField)),
       (''rating_avg'', default_to (DefaultCents 0) (column (DecimalField 3 2))),
       (''rating_count'', default_to (DefaultInt 0) (column PositiveIntegerField)),
       (''sold_count'', default_to (DefaultInt 0) (column PositiveIntegerField)),
       (''view_count'', default_to (DefaultInt 0) (column PositiveIntegerField)),
       (''seo_title'', column (CharField 255)),
       (''seo_description'', column (CharField 500)),
       (''seo_keywords'', column (CharField 255)),
       (''metadata'', default_to (DefaultCall ''dict'') (column JSONField)),
       (''search_vector'', nullable (column SearchVectorField))],
    unique_sets = [], index_sets = [[''status'', ''is_featured''], [''brand'', ''status''], [''search_vector'']],
    ordering = [''-created_at'']\<rparr>"

definition ProductVariant_model :: model_state where
  "ProductVariant_model =
  \<lparr>table_name = ''catalog_product_variant'',
    columns = base_columns @
      [(''product'', column (ForeignKey ''catalog.product'' CASCADE)),
       (''sku'', unique (indexed (column (CharField 64)))),
       (''barcode'', indexed (column (CharField 64))),
       (''name'', column (CharField 200)),
       (''price'', column (DecimalField 12 2)),
       (''compare_at_price'', nullable (column (DecimalField 12 2))),
       (''cost_price'', nullable (column (DecimalField 12 2))),
       (''currency'', default_to (DefaultText ''USD'') (column (CharField 3))),
       (''weight_g'', default_to (DefaultInt 0) (column PositiveIntegerField)),
       (''length_mm'', default_to (DefaultInt 0) (column PositiveIntegerField)),
       (''width_mm'', default_to (DefaultInt 0) (column PositiveIntegerField)),
       (''height_mm'', default_to (DefaultInt 0) (column PositiveIntegerField)),
       (''is_default'', default_to (DefaultBool False) (column BooleanField)),
       (''is_active'', indexed (default_to (DefaultBool True) (column BooleanField))),
       (''attributes_snapshot'', default_to (DefaultCall ''dict'') (column JSONField))],
    unique_sets = [], index_sets = [[''product'', ''is_active''], [''price'']],
    ordering = [''product'', ''-is_default'', ''name'']\<rparr>"

definition ProductImage_model :: model_state where
  "ProductImage_model =
  \<lparr>table_name = ''catalog_product_image'',
    columns = base_columns @
      [(''product'', column (ForeignKey ''catalog.product'' CASCADE)),
       (''variant'', nullable (column (ForeignKey ''catalog.productvariant'' CASCADE))),
       (''image'', column ImageField),
       (''alt_text'', column (CharField 200)),
       (''sort_order'', default_to (DefaultInt 0) (column PositiveIntegerField)),
       (''is_primary'', default_to (DefaultBool False) (column BooleanField))],
    unique_sets = [], index_sets = [[''product'', ''is_primary'']],
    ordering = [''sort_order'']\<rparr>"

subsection \<open>\<open>coupons/models.py\<close>\<close>

definition Coupon_model :: model_state where
  "Coupon_model =
  \<lparr>table_name = ''coupons_coupon'',
    columns = base_columns @
      [(''code'', unique (column (CharField 64))),
       (''name'', column (CharField 200)),
       (''kind'', default_to (DefaultText ''percent'') (choices [''percent'', ''fixed'', ''free_shipping''] (column (CharField 24)))),
       (''value'', default_to (DefaultCents 0) (column (DecimalField 12 2))),
       (''min_subtotal'', default_to (DefaultCents 0) (column (DecimalField 12 2))),
       (''max_discount'', nullable (column (DecimalField 12 2))),
       (''max_uses'', default_to (DefaultInt 0) (column PositiveIntegerField)),
       (''used_count'', default_to (DefaultInt 0) (column PositiveIntegerField)),
       (''per_user_limit'', default_to (DefaultInt 1) (column PositiveIntegerField)),
       (''starts_at'', nullable (column (DateTimeField GivenTime))),
       (''ends_at'', nullable (column (DateTimeField GivenTime))),
       (''is_active'', indexed (default_to (DefaultBool True) (column BooleanField)))],
    unique_sets = [], index_sets = [],
    ordering = [''-created_at'']\<rparr>"

subsection \<open>\<open>inventory/models.py\<close>\<close>

definition Warehouse_model :: model_state where
  "Warehouse_model =
  \<lparr>table_name = ''inventory_warehouse'',
    columns = base_columns @
      [(''code'', unique (indexed (column (SlugField 64)))),
       (''name'', column (CharField 200)),
       (''address'', column (CharField 500)),
       (''is_active'', indexed (default_to (DefaultBool True) (column BooleanField))),
       (''priority'', default_to (DefaultInt 10) (column PositiveIntegerField))],
    unique_sets = [], index_sets = [],
    ordering = [''priority'', ''name'']\<rparr>"

definition Stock_model :: model_state where
  "Stock_model =
  \<lparr>table_name = ''inventory_stock'',
    columns = base_columns @
      [(''variant'', column (ForeignKey ''catalog.productvariant'' CASCADE)),
       (''warehouse'', column (ForeignKey ''inventory.warehouse'' CASCADE)),
       (''on_hand'', default_to (DefaultInt 0) (column IntegerField)),
       (''reserved'', default_to (DefaultInt 0) (column IntegerField)),
       (''safety_buffer'', default_to (DefaultInt 0) (column PositiveIntegerField)),
       (''low_stock_threshold'', default_to (DefaultInt 5) (column PositiveIntegerField))],
    unique_sets = [[''variant'', ''warehouse'']], index_sets = [[''variant''], [''warehouse'']],
    ordering = []\<rparr>"

definition StockMovement_model :: model_state where
  "StockMovement_model =
  \<lparr>table_name = ''inventory_stock_movement'',
    columns = base_columns @
      [(''stock'', column (ForeignKey ''inventory.stock'' CASCADE)),
       (''quantity'', column IntegerField),
       (''reason'', choices [''purchase'', ''sale'', ''return'', ''adjustment'', ''transfer_in'', ''transfer_out'', ''reservation'', ''reservation_release''] (column (CharField 32))),
       (''reference'', column (CharField 128)),
       (''note'', column TextField)],
    unique_sets = [], index_sets = [[''stock'', ''-created_at''], [''reason'']],
    ordering = [''-created_at'']\<rparr>"

subsection \<open>\<open>notifications/models.py\<close>\<close>

definition Notification_model :: model_state where
  "Notification_model =
  \<lparr>table_name = ''notifications_notification'',
    columns = base_columns @
      [(''user'', nullable (column (ForeignKey ''users.user'' SET_NULL))),
       (''channel'', choices [''email'', ''sms'', ''push'', ''telegram'', ''in_app''] (column (CharField 16))),
       (''template_code'', column (CharField 64)),
       (''title'', column (CharField 255)),
       (''body'', column TextField),
       (''payload'', default_to (DefaultCall ''dict'') (column JSONField)),
       (''status'', indexed (default_to (DefaultText ''pending'') (choices [''pending'', ''sent'', ''failed'', ''read''] (column (CharField 16))))),
       (''sent_at'', nullable (column (DateTimeField GivenTime))),
       (''read_at'', nullable (column (DateTimeField GivenTime)))],
    unique_sets = [], index_sets = [[''user'', ''-created_at''], [''channel'', ''status'']],
    ordering = [''-created_at'']\<rparr>"

subsection \<open>\<open>orders/models.py\<close>\<close>

definition Order_model :: model_state where
  "Order_model =
  \<lparr>table_name = ''orders_order'',
    columns = base_columns @
      [(''number'', unique (default_to (DefaultCall ''generate_order_number'') (column (CharField 32)))),
       (''user'', nullable (column (ForeignKey ''users.user'' SET_NULL))),
       (''email_snapshot'', column (EmailField 254)),
       (''phone_snapshot'', column (CharField 24)),
       (''status'', indexed (default_to (DefaultText ''pending'') (choices [''pending'', ''paid'', ''packed'', ''shipped'', ''delivered'', ''cancelled'', ''refunded''] (column (CharField 16))))),
       (''currency'', default_to (DefaultText ''USD'') (column (CharField 3))),
       (''subtotal'', default_to (DefaultCents 0) (column (DecimalField 12 2))),
       (''shipping_total'', default_to (DefaultCents 0) (column (DecimalField 12 2))),
       (''tax_total'', default_to (DefaultCents 0) (column (DecimalField 12 2))),
       (''discount_total'', default_to (DefaultCents 0) (column (DecimalField 12 2))),
       (''grand_total'', default_to (DefaultCents 0) (column (DecimalField 12 2))),
       (''coupon_code'', column (CharField 64)),
       (''shipping_address'', default_to (DefaultCall ''dict'') (column JSONField)),
       (''billing_address'', default_to (DefaultCall ''dict'') (column JSONField)),
       (''payment_provider'', column (CharField 32)),
       (''payment_reference'', indexed (column (CharField 128))),
       (''paid_at'', nullable (column (DateTimeField GivenTime))),
       (''cancelled_at'', nullable (column (DateTimeField GivenTime))),
       (''refunded_at'', nullable (column (DateTimeField GivenTime))),
       (''notes_internal'', column TextField),
       (''notes_customer'', column TextField),
       (''metadata'', default_to (DefaultCall ''dict'') (column JSONField))],
    unique_sets = [], index_sets = [[''user'', ''-created_at''], [''status'', ''-created_at''], [''payment_reference'']],
    ordering = [''-created_at'']\<rparr>"

definition OrderItem_model :: model_state where
  "OrderItem_model =
  \<lparr>table_name = ''orders_item'',
    columns = base_columns @
      [(''order'', column (ForeignKey ''orders.order'' CASCADE)),
       (''variant'', nullable (column (ForeignKey ''catalog.productvariant'' SET_NULL))),
       (''sku'', column (CharField 64)),
       (''name_snapshot'', column (CharField 255)),
       (''attributes_snapshot'', default_to (DefaultCall ''dict'') (column JSONField)),
       (''quantity'', column PositiveIntegerField),
       (''unit_price'', column (DecimalField 12 2)),
       (''line_total'', column (DecimalField 12 2))],
    unique_sets = [], index_sets = [[''order'']],
    ordering = []\<rparr>"

definition OrderEvent_model :: model_state where
  "OrderEvent_model =
  \<lparr>table_name = ''orders_event'',
    columns = base_columns @
      [(''order'', column (ForeignKey ''orders.order'' CASCADE)),
       (''code'', column (CharField 64)),
       (''message'', column (CharField 500)),
       (''actor'', nullable (column (ForeignKey ''users.user'' SET_NULL))),
       (''payload'', default_to (DefaultCall ''dict'') (column JSONField))],
    unique_sets = [], index_sets = [[''order'', ''-created_at'']],
    ordering = [''-created_at'']\<rparr>"

subsection \<open>\<open>payments/models.py\<close>\<close>

definition Payment_model :: model_state where
  "Payment_model =
  \<lparr>table_name = ''payments_payment'',
    columns = base_columns @
      [(''order'', column (ForeignKey ''orders.order'' CASCADE)),
       (''provider'', choices [''stripe'', ''paypal'', ''click'', ''payme'', ''uzum'', ''manual''] (column (CharField 24))),
       (''status'', indexed (default_to (DefaultText ''pending'') (choices [''pending'', ''authorized'', ''captured'', ''failed'', ''cancelled'', ''refunded''] (column (CharField 24))))),
       (''amount'', default_to (DefaultCents 0) (column (DecimalField 12 2))),
       (''currency'', default_to (DefaultText ''USD'') (column (CharField 3))),
       (''provider_reference'', indexed (column (CharField 128))),
       (''provider_intent_id'', indexed (column (CharField 128))),
       (''redirect_url'', column (URLField 200)),
       (''raw_request'', default_to (DefaultCall ''dict'') (column JSONField)),
       (''raw_response'', default_to (DefaultCall ''dict'') (column JSONField)),
       (''error'', default_to (DefaultCall ''dict'') (column JSONField))],
    unique_sets = [], index_sets = [[''order'', ''-created_at''], [''provider'', ''status'']],
    ordering = [''-created_at'']\<rparr>"

definition Refund_model :: model_state where
  "Refund_model =
  \<lparr>table_name = ''payments_refund'',
    columns = base_columns @
      [(''payment'', column (ForeignKey ''payments.payment'' CASCADE)),
       (''amount'', column (DecimalField 12 2)),
       (''reason'', column (CharField 255)),
       (''provider_reference'', column (CharField 128)),
       (''raw_response'', default_to (DefaultCall ''dict'') (column JSONField))],
    unique_sets = [], index_sets = [],
    ordering = [''-created_at'']\<rparr>"

subsection \<open>\<open>reviews/models.py\<close>\<close>

definition Review_model :: model_state where
  "Review_model =
  \<lparr>table_name = ''reviews_review'',
    columns = base_columns @
      [(''product'', column (ForeignKey ''catalog.product'' CASCADE)),
       (''user'', column (ForeignKey ''users.user'' CASCADE)),
       (''order'', nullable (column (ForeignKey ''orders.order'' SET_NULL))),
       (''rating'', column PositiveSmallIntegerField),
       (''title'', column (CharField 200)),
       (''body'', column TextField),
       (''status'', indexed (default_to (DefaultText ''pending'') (choices [''pending'', ''approved'', ''rejected''] (column (CharField 16))))),
       (''helpful_count'', default_to (DefaultInt 0) (column PositiveIntegerField))],
    unique_sets = [[''product'', ''user'']], index_sets = [[''product'', ''status'', ''-created_at''], [''user'', ''-created_at'']],
    ordering = [''-created_at'']\<rparr>"

subsection \<open>\<open>shipping/models.py\<close>\<close>

definition ShippingMethod_model :: model_state where
  "ShippingMethod_model =
  \<lparr>table_name = ''shipping_method'',
    columns = base_columns @
      [(''code'', unique (indexed (column (SlugField 64)))),
       (''name'', column (CharField 128)),
       (''eta_days_min'', default_to (DefaultInt 1) (column PositiveIntegerField)),
       (''eta_days_max'', default_to (DefaultInt 7) (column PositiveIntegerField)),
       (''is_active'', default_to (DefaultBool True) (column BooleanField)),
       (''flat_rate'', default_to (DefaultInt 0) (column (DecimalField 12 2)))],
    unique_sets = [], index_sets = [],
    ordering = [''name'']\<rparr>"

definition Shipment_model :: model_state where
  "Shipment_model =
  \<lparr>table_name = ''shipping_shipment'',
    columns = base_columns @
      [(''order'', column (ForeignKey ''orders.order'' CASCADE)),
       (''method'', column (ForeignKey ''shipping.shippingmethod'' PROTECT)),
       (''courier'', column (CharField 120)),
       (''tracking_number'', indexed (column (CharField 64))),
       (''tracking_url'', column (URLField 200)),
       (''status'', indexed (default_to (DefaultText ''preparing'') (choices [''preparing'', ''in_transit'', ''out_for_delivery'', ''delivered'', ''failed'', ''returned''] (column (CharField 24))))),
       (''eta'', nullable (column (DateTimeField GivenTime))),
       (''delivered_at'', nullable (column (DateTimeField GivenTime))),
       (''metadata'', default_to (DefaultCall ''dict'') (column JSONField))],
    unique_sets = [], index_sets = [[''order'', ''-created_at'']],
    ordering = [''-created_at'']\<rparr>"

subsection \<open>\<open>users/models.py\<close>\<close>

definition Role_model :: model_state where
  "Role_model =
  \<lparr>table_name = ''users_role'',
    columns = base_columns @
      [(''code'', unique (indexed (column (SlugField 64)))),
       (''name'', column (CharField 128)),
       (''description'', column TextField),
       (''is_system'', default_to (DefaultBool False) (column BooleanField))],
    unique_sets = [], index_sets = [],
    ordering = [''code'']\<rparr>"

definition User_model :: "(string \<times> column) list \<Rightarrow> model_state" where
  "User_model auth_columns =
  \<lparr>table_name = ''users_user'',
    columns = auth_columns @ base_columns @
      [(''email'', unique (indexed (column (EmailField 254)))),
       (''first_name'', column (CharField 120)),
       (''last_name'', column (CharField 120)),
       (''phone'', indexed (column (CharField 24))),
       (''is_active'', default_to (DefaultBool True) (column BooleanField)),
       (''is_staff'', default_to (DefaultBool False) (column BooleanField)),
       (''email_verified_at'', nullable (column (DateTimeField GivenTime))),
       (''phone_verified_at'', nullable (column (DateTimeField GivenTime))),
       (''last_login_ip'', nullable (column GenericIPAddressField)),
       (''roles'', column (ManyToManyField ''users.role''))],
    unique_sets = [], index_sets = [[''email''], [''phone''], [''is_active'', ''is_staff'']],
    ordering = []\<rparr>"

definition Address_model :: model_state where
  "Address_model =
  \<lparr>table_name = ''users_address'',
    columns = base_columns @
      [(''user'', column (ForeignKey ''users.user'' CASCADE)),
       (''label'', column (CharField 64)),
       (''kind'', default_to (DefaultText ''shipping'') (choices [''shipping'', ''billing'', ''both''] (column (CharField 16)))),
       (''full_name'', column (CharField 200)),
       (''phone'', column (CharField 24)),
       (''country'', default_to (DefaultText ''UZ'') (column (CharField 2))),
       (''region'', column (CharField 120)),
       (''city'', column (CharField 120)),
       (''street'', column (CharField 255)),
       (''apartment'', column (CharField 64)),
       (''postal_code'', column (CharField 20)),
       (''is_default'', default_to (DefaultBool False) (column BooleanField)),
       (''location'', default_to (DefaultCall ''dict'') (column JSONField))],
    unique_sets = [], index_sets = [[''user'', ''kind''], [''user'', ''is_default'']],
    ordering = [''-is_default'', ''-created_at'']\<rparr>"

definition Wishlist_model :: model_state where
  "Wishlist_model =
  \<lparr>table_name = ''users_wishlist'',
    columns = base_columns @
      [(''user'', column (OneToOneField ''users.user'' CASCADE)),
       (''products'', column (ManyToManyField ''catalog.product''))],
    unique_sets = [], index_sets = [],
    ordering = []\<rparr>"

definition declared_models :: "(string \<times> column) list \<Rightarrow> schema" where
  "declared_models auth_columns =
     [(''analytics.dailysalessnapshot'', DailySalesSnapshot_model),
      (''audit.auditlog'', AuditLog_model),
      (''cart.cart'', Cart_model),
      (''cart.cartitem'', CartItem_model),
      (''catalog.brand'', Brand_model),
      (''catalog.category'', Category_model),
      (''catalog.attribute'', Attribute_model),
      (''catalog.attributeoption'', AttributeOption_model),
      (''catalog.product'', Product_model),
      (''catalog.productvariant'', ProductVariant_model),
      (''catalog.productimage'', ProductImage_model),
      (''coupons.coupon'', Coupon_model),
      (''inventory.warehouse'', Warehouse_model),
      (''inventory.stock'', Stock_model),
      (''inventory.stockmovement'', StockMovement_model),
      (''notifications.notification'', Notification_model),
      (''orders.order'', Order_model),
      (''orders.orderitem'', OrderItem_model),
      (''orders.orderevent'', OrderEvent_model),
      (''payments.payment'', Payment_model),
      (''payments.refund'', Refund_model),
      (''reviews.review'', Review_model),
      (''shipping.shippingmethod'', ShippingMethod_model),
      (''shipping.shipment'', Shipment_model),
      (''users.role'', Role_model),
      (''users.user'', User_model auth_columns),
      (''users.address'', Address_model),
      (''users.wishlist'', Wishlist_model)]"

section \<open>The migration files\<close>

definition analytics_0001 :: migration where
  "analytics_0001 = \<lparr>mg_app = ''analytics'', mg_name = ''0001_initial'',
   mg_dependencies = [],
   mg_operations = [
    CreateModel ''dailysalessnapshot''
     \<lparr>table_name = ''analytics_daily_sales'',
       columns = [(''created_at'', indexed (column (DateTimeField AutoNowAdd))),
          (''updated_at'', column (DateTimeField AutoNow)),
          (''id'', primary (default_to (DefaultCall ''uuid4'') (column UUIDField))),
          (''deleted_at'', indexed (nullable (column (DateTimeField GivenTime)))),
          (''day'', unique (indexed (column DateField))),
          (''orders_count'', default_to (DefaultInt 0) (column PositiveIntegerField)),
          (''paid_orders_count'', default_to (DefaultInt 0) (column PositiveIntegerField)),
          (''cancelled_orders_count'', default_to (DefaultInt 0) (column PositiveIntegerField)),
          (''revenue'', default_to (DefaultInt 0) (column (DecimalField 14 2))),
          (''average_order_value'', default_to (DefaultInt 0) (column (DecimalField 12 2))),
          (''items_sold'', default_to (DefaultInt 0) (column PositiveIntegerField)),
          (''new_customers'', default_to (DefaultInt 0) (column PositiveIntegerField))],
       unique_sets = [], index_sets = [],
       ordering = [''-day'']\<rparr>]\<rparr>"

definition audit_0001 :: migration where
  "audit_0001 = \<lparr>mg_app = ''audit'', mg_name = ''0001_initial'',
   mg_dependencies = [],
   mg_operations = [
    CreateModel ''auditlog''
     \<lparr>table_name = ''audit_log'',
       columns = [(''created_at'', indexed (column (DateTimeField AutoNowAdd))),
          (''updated_at'', column (DateTimeField AutoNow)),
          (''id'', primary (default_to (DefaultCall ''uuid4'') (column UUIDField))),
          (''deleted_at'', indexed (nullable (column (DateTimeField GivenTime)))),
          (''actor_email'', column (EmailField 254)),
          (''action'', indexed (column (CharField 128))),
          (''target_type'', column (CharField 128)),
          (''target_id'', indexed (column (CharField 128))),
          (''ip_address'', nullable (column GenericIPAddressField)),
          (''user_agent'', column (CharField 512)),
          (''request_id'', indexed (column (CharField 64))),
          (''payload'', default_to (DefaultCall ''dict'') (column JSONField))],
       unique_sets = [], index_sets = [],
       ordering = [''-created_at'']\<rparr>]\<rparr>"

definition audit_0002 :: migration where
  "audit_0002 = \<lparr>mg_app = ''audit'', mg_name = ''0002_initial'',
   mg_dependencies = [(''audit'', ''0001_initial''), (''users'', ''0001_initial'')],
   mg_operations = [
    AddField ''auditlog'' ''actor''
       (nullable (column (ForeignKey ''users.user'' SET_NULL))),
    AddIndex ''auditlog'' [''actor'', ''-created_at''],
    AddIndex ''auditlog'' [''action'', ''-created_at'']]\<rparr>"

definition cart_0001 :: migration where
  "cart_0001 = \<lparr>mg_app = ''cart'', mg_name = ''0001_initial'',
   mg_dependencies = [(''coupons'', ''0001_initial'')],
   mg_operations = [
    CreateModel ''cartitem''
     \<lparr>table_name = ''cart_item'',
       columns = [(''created_at'', indexed (column (DateTimeField AutoNowAdd))),
          (''updated_at'', column (DateTimeField AutoNow)),
          (''id'', primary (default_to (DefaultCall ''uuid4'') (column UUIDField))),
          (''deleted_at'', indexed (nullable (column (DateTimeField GivenTime)))),
          (''quantity'', default_to (DefaultInt 1) (column PositiveIntegerField)),
          (''unit_price'', column (DecimalField 12 2))],
       unique_sets = [], index_sets = [],
       ordering = []\<rparr>,
    CreateModel ''cart''
     \<lparr>table_name = ''cart_cart'',
       columns = [(''created_at'', indexed (column (DateTimeField AutoNowAdd))),
          (''updated_at'', column (DateTimeField AutoNow)),
          (''id'', primary (default_to (DefaultCall ''uuid4'') (column UUIDField))),
          (''deleted_at'', indexed (nullable (column (DateTimeField GivenTime)))),
          (''session_key'', indexed (column (CharField 64))),
          (''currency'', default_to (DefaultText ''USD'') (column (CharField 3))),
          (''metadata'', default_to (DefaultCall ''dict'') (column JSONField)),
          (''last_active_at'', column (DateTimeField AutoNow)),
          (''coupon'', nullable (column (ForeignKey ''coupons.coupon'' SET_NULL)))],
       unique_sets = [], index_sets = [],
       ordering = []\<rparr>]\<rparr>"

definition cart_0002 :: migration where
  "cart_0002 = \<lparr>mg_app = ''cart'', mg_name = ''0002_initial'',
   mg_dependencies = [(''cart'', ''0001_initial''), (''catalog'', ''0001_initial''), (''users'', ''0001_initial'')],
   mg_operations = [
    AddField ''cart'' ''user''
       (nullable (column (ForeignKey ''users.user'' CASCADE))),
    AddField ''cartitem'' ''cart''
       (column (ForeignKey ''cart.cart'' CASCADE)),
    AddField ''cartitem'' ''variant''
       (column (ForeignKey ''catalog.productvariant'' CASCADE)),
    AddIndex ''cart'' [''user''],
    AddIndex ''cart'' [''session_key''],
    AddIndex ''cartitem'' [''cart''],
    AlterUniqueTogether ''cartitem'' [[''cart'', ''variant'']]]\<rparr>"

definition catalog_0001 :: migration where
  "catalog_0001 = \<lparr>mg_app = ''catalog'', mg_name = ''0001_initial'',
   mg_dependencies = [],
   mg_operations = [
    CreateModel ''attribute''
     \<lparr>table_name = ''catalog_attribute'',
       columns = [(''created_at'', indexed (column (DateTimeField AutoNowAdd))),
          (''updated_at'', column (DateTimeField AutoNow)),
          (''id'', primary (default_to (DefaultCall ''uuid4'') (column UUIDField))),
          (''deleted_at'', indexed (nullable (column (DateTimeField GivenTime)))),
          (''code'', unique (indexed (column (SlugField 64)))),
          (''name'', column (CharField 128)),
          (''kind'', default_to (DefaultText ''option'') (choices [''text'', ''number'', ''boolean'', ''option''] (column (CharField 16)))),
          (''is_filterable'', default_to (DefaultBool True) (column BooleanField)),
          (''is_required'', default_to (DefaultBool False) (column BooleanField))],
       unique_sets = [], index_sets = [],
       ordering = [''name'']\<rparr>,
    CreateModel ''brand''
     \<lparr>table_name = ''catalog_brand'',
       columns = [(''created_at'', indexed (column (DateTimeField AutoNowAdd))),
          (''updated_at'', column (DateTimeField AutoNow)),
          (''id'', primary (default_to (DefaultCall ''uuid4'') (column UUIDField))),
          (''deleted_at'', indexed (nullable (column (DateTimeField GivenTime)))),
          (''name'', unique (column (CharField 200))),
          (''slug'', unique (indexed (column (SlugField 220)))),
          (''description'', column TextField),
          (''logo'', nullable (column ImageField)),
          (''is_active'', indexed (default_to (DefaultBool True) (column BooleanField)))],
       unique_sets = [], index_sets = [],
       ordering = [''name'']\<rparr>,
    CreateModel ''category''
     \<lparr>table_name = ''catalog_category'',
       columns = [(''created_at'', indexed (column (DateTimeField AutoNowAdd))),
          (''updated_at'', column (DateTimeField AutoNow)),
          (''id'', primary (default_to (DefaultCall ''uuid4'') (column UUIDField))),
          (''deleted_at'', indexed (nullable (column (DateTimeField GivenTime)))),
          (''name'', column (CharField 200)),
          (''slug'', unique (indexed (column (SlugField 220)))),
          (''description'', column TextField),
          (''image'', nullable (column ImageField)),
          (''sort_order'', default_to (DefaultInt 0) (column PositiveIntegerField)),
          (''is_active'', indexed (default_to (DefaultBool True) (column BooleanField))),
          (''parent'', nullable (column (ForeignKey ''catalog.category'' SET_NULL)))],
       unique_sets = [], index_sets = [],
       ordering = [''sort_order'', ''name'']\<rparr>,
    CreateModel ''product''
     \<lparr>table_name = ''catalog_product'',
       columns = [(''created_at'', indexed (column (DateTimeField AutoNowAdd))),
          (''updated_at'', column (DateTimeField AutoNow)),
          (''id'', primary (default_to (DefaultCall ''uuid4'') (column UUIDField))),
          (''deleted_at'', indexed (nullable (column (DateTimeField GivenTime)))),
          (''name'', indexed (column (CharField 255))),
          (''slug'', unique (indexed (column (SlugField 280)))),
          (''short_description'', column (CharField 500)),
          (''description'', column TextField),
          (''status'', default_to (DefaultText ''draft'') (choices [''draft'', ''active'', ''archived''] (column (CharField 16)))),
          (''is_featured'', default_to (DefaultBool False) (column BooleanField)),
          (''rating_avg'', default_to (DefaultCents 0) (column (DecimalField 3 2))),
          (''rating_count'', default_to (DefaultInt 0) (column PositiveIntegerField)),
          (''sold_count'', default_to (DefaultInt 0) (column PositiveIntegerField)),
          (''view_count'', default_to (DefaultInt 0) (column PositiveIntegerField)),
          (''seo_title'', column (CharField 255)),
          (''seo_description'', column (CharField 500)),
          (''seo_keywords'', column (CharField 255)),
          (''metadata'', default_to (DefaultCall ''dict'') (column JSONField)),
          (''search_vector'', nullable (column SearchVectorField)),
          (''attributes'', column (ManyToManyField ''catalog.attribute'')),
          (''brand'', nullable (column (ForeignKey ''catalog.brand'' SET_NULL))),
          (''categories'', column (ManyToManyField ''catalog.category''))],
       unique_sets = [], index_sets = [],
       ordering = [''-created_at'']\<rparr>,
    CreateModel ''productvariant''
     \<lparr>table_name = ''catalog_product_variant'',
       columns = [(''created_at'', indexed (column (DateTimeField AutoNowAdd))),
          (''updated_at'', column (DateTimeField AutoNow)),
          (''id'', primary (default_to (DefaultCall ''uuid4'') (column UUIDField))),
          (''deleted_at'', indexed (nullable (column (DateTimeField GivenTime)))),
          (''sku'', unique (indexed (column (CharField 64)))),
          (''barcode'', indexed (column (CharField 64))),
          (''name'', column (CharField 200)),
          (''price'', column (DecimalField 12 2)),
          (''compare_at_price'', nullable (column (DecimalField 12 2))),
          (''cost_price'', nullable (column (DecimalField 12 2))),
          (''currency'', default_to (DefaultText ''USD'') (column (CharField 3))),
          (''weight_g'', default_to (DefaultInt 0) (column PositiveIntegerField)),
          (''length_mm'', default_to (DefaultInt 0) (column PositiveIntegerField)),
          (''width_mm'', default_to (DefaultInt 0) (column PositiveIntegerField)),
          (''height_mm'', default_to (DefaultInt 0) (column PositiveIntegerField)),
          (''is_default'', default_to (DefaultBool False) (column BooleanField)),
          (''is_active'', indexed (default_to (DefaultBool True) (column BooleanField))),
          (''attributes_snapshot'', default_to (DefaultCall ''dict'') (column JSONField)),
          (''product'', column (ForeignKey ''catalog.product'' CASCADE))],
       unique_sets = [], index_sets = [],
       ordering = [''product'', ''-is_default'', ''name'']\<rparr>,
    CreateModel ''productimage''
     \<lparr>table_name = ''catalog_product_image'',
       columns = [(''created_at'', indexed (column (DateTimeField AutoNowAdd))),
          (''updated_at'', column (DateTimeField AutoNow)),
          (''id'', primary (default_to (DefaultCall ''uuid4'') (column UUIDField))),
          (''deleted_at'', indexed (nullable (column (DateTimeField GivenTime)))),
          (''image'', column ImageField),
          (''alt_text'', column (CharField 200)),
          (''sort_order'', default_to (DefaultInt 0) (column PositiveIntegerField)),
          (''is_primary'', default_to (DefaultBool False) (column BooleanField)),
          (''product'', column (ForeignKey ''catalog.product'' CASCADE)),
          (''variant'', nullable (column (ForeignKey ''catalog.productvariant'' CASCADE)))],
       unique_sets = [], index_sets = [],
       ordering = [''sort_order'']\<rparr>,
    CreateModel ''attributeoption''
     \<lparr>table_name = ''catalog_attribute_option'',
       columns = [(''created_at'', indexed (column (DateTimeField AutoNowAdd))),
          (''updated_at'', column (DateTimeField AutoNow)),
          (''id'', primary (default_to (DefaultCall ''uuid4'') (column UUIDField))),
          (''deleted_at'', indexed (nullable (column (DateTimeField GivenTime)))),
          (''value'', column (CharField 128)),
          (''label'', column (CharField 128)),
          (''sort_order'', default_to (DefaultInt 0) (column PositiveIntegerField)),
          (''attribute'', column (ForeignKey ''catalog.attribute'' CASCADE))],
       unique_sets = [[''attribute'', ''value'']], index_sets = [],
       ordering = [''sort_order'', ''label'']\<rparr>,
    AddIndex ''category'' [''parent'', ''is_active''],
    AddIndex ''product'' [''status'', ''is_featured''],
    AddIndex ''product'' [''brand'', ''status''],
    AddIndex ''product'' [''search_vector''],
    AddIndex ''productvariant'' [''product'', ''is_active''],
    AddIndex ''productvariant'' [''price''],
    AddIndex ''productimage'' [''product'', ''is_primary'']]\<rparr>"

definition coupons_0001 :: migration where
  "coupons_0001 = \<lparr>mg_app = ''coupons'', mg_name = ''0001_initial'',
   mg_dependencies = [],
   mg_operations = [
    CreateModel ''coupon''
     \<lparr>table_name = ''coupons_coupon'',
       columns = [(''created_at'', indexed (column (DateTimeField AutoNowAdd))),
          (''updated_at'', column (DateTimeField AutoNow)),
          (''id'', primary (default_to (DefaultCall ''uuid4'') (column UUIDField))),
          (''deleted_at'', indexed (nullable (column (DateTimeField GivenTime)))),
          (''code'', unique (column (CharField 64))),
          (''name'', column (CharField 200)),
          (''kind'', default_to (DefaultText ''percent'') (choices [''percent'', ''fixed'', ''free_shipping''] (column (CharField 24)))),
          (''value'', default_to (DefaultCents 0) (column (DecimalField 12 2))),
          (''min_subtotal'', default_to (DefaultCents 0) (column (DecimalField 12 2))),
          (''max_discount'', nullable (column (DecimalField 12 2))),
          (''max_uses'', default_to (DefaultInt 0) (column PositiveIntegerField)),
          (''used_count'', default_to (DefaultInt 0) (column PositiveIntegerField)),
          (''per_user_limit'', default_to (DefaultInt 1) (column PositiveIntegerField)),
          (''starts_at'', nullable (column (DateTimeField GivenTime))),
          (''ends_at'', nullable (column (DateTimeField GivenTime))),
          (''is_active'', indexed (default_to (DefaultBool True) (column BooleanField)))],
       unique_sets = [], index_sets = [],
       ordering = [''-created_at'']\<rparr>]\<rparr>"

definition inventory_0001 :: migration where
  "inventory_0001 = \<lparr>mg_app = ''inventory'', mg_name = ''0001_initial'',
   mg_dependencies = [(''catalog'', ''0001_initial'')],
   mg_operations = [
    CreateModel ''warehouse''
     \<lparr>table_name = ''inventory_warehouse'',
       columns = [(''created_at'', indexed (column (DateTimeField AutoNowAdd))),
          (''updated_at'', column (DateTimeField AutoNow)),
          (''id'', primary (default_to (DefaultCall ''uuid4'') (column UUIDField))),
          (''deleted_at'', indexed (nullable (column (DateTimeField GivenTime)))),
          (''code'', unique (indexed (column (SlugField 64)))),
          (''name'', column (CharField 200)),
          (''address'', column (CharField 500)),
          (''is_active'', indexed (default_to (DefaultBool True) (column BooleanField))),
          (''priority'', default_to (DefaultInt 10) (column PositiveIntegerField))],
       unique_sets = [], index_sets = [],
       ordering = [''priority'', ''name'']\<rparr>,
    CreateModel ''stock''
     \<lparr>table_name = ''inventory_stock'',
       columns = [(''created_at'', indexed (column (DateTimeField AutoNowAdd))),
          (''updated_at'', column (DateTimeField AutoNow)),
          (''id'', primary (default_to (DefaultCall ''uuid4'') (column UUIDField))),
          (''deleted_at'', indexed (nullable (column (DateTimeField GivenTime)))),
          (''on_hand'', default_to (DefaultInt 0) (column IntegerField)),
          (''reserved'', default_to (DefaultInt 0) (column IntegerField)),
          (''safety_buffer'', default_to (DefaultInt 0) (column PositiveIntegerField)),
          (''low_stock_threshold'', default_to (DefaultInt 5) (column PositiveIntegerField)),
          (''variant'', column (ForeignKey ''catalog.productvariant'' CASCADE)),
          (''warehouse'', column (ForeignKey ''inventory.warehouse'' CASCADE))],
       unique_sets = [], index_sets = [],
       ordering = []\<rparr>,
    CreateModel ''stockmovement''
     \<lparr>table_name = ''inventory_stock_movement'',
       columns = [(''created_at'', indexed (column (DateTimeField AutoNowAdd))),
          (''updated_at'', column (DateTimeField AutoNow)),
          (''id'', primary (default_to (DefaultCall ''uuid4'') (column UUIDField))),
          (''deleted_at'', indexed (nullable (column (DateTimeField GivenTime)))),
          (''quantity'', column IntegerField),
          (''reason'', choices [''purchase'', ''sale'', ''return'', ''adjustment'', ''transfer_in'', ''transfer_out'', ''reservation'', ''reservation_release''] (column (CharField 32))),
          (''reference'', column (CharField 128)),
          (''note'', column TextField),
          (''stock'', column (ForeignKey ''inventory.stock'' CASCADE))],
       unique_sets = [], index_sets = [[''stock'', ''-created_at''], [''reason'']],
       ordering = [''-created_at'']\<rparr>,
    AddIndex ''stock'' [''variant''],
    AddIndex ''stock'' [''warehouse''],
    AlterUniqueTogether ''stock'' [[''variant'', ''warehouse'']]]\<rparr>"

definition notifications_0001 :: migration where
  "notifications_0001 = \<lparr>mg_app = ''notifications'', mg_name = ''0001_initial'',
   mg_dependencies = [],
   mg_operations = [
    CreateModel ''notification''
     \<lparr>table_name = ''notifications_notification'',
       columns = [(''created_at'', indexed (column (DateTimeField AutoNowAdd))),
          (''updated_at'', column (DateTimeField AutoNow)),
          (''id'', primary (default_to (DefaultCall ''uuid4'') (column UUIDField))),
          (''deleted_at'', indexed (nullable (column (DateTimeField GivenTime)))),
          (''channel'', choices [''email'', ''sms'', ''push'', ''telegram'', ''in_app''] (column (CharField 16))),
          (''template_code'', column (CharField 64)),
          (''title'', column (CharField 255)),
          (''body'', column TextField),
          (''payload'', default_to (DefaultCall ''dict'') (column JSONField)),
          (''status'', indexed (default_to (DefaultText ''pending'') (choices [''pending'', ''sent'', ''failed'', ''read''] (column (CharField 16))))),
          (''sent_at'', nullable (column (DateTimeField GivenTime))),
          (''read_at'', nullable (column (DateTimeField GivenTime)))],
       unique_sets = [], index_sets = [],
       ordering = [''-created_at'']\<rparr>]\<rparr>"

definition notifications_0002 :: migration where
  "notifications_0002 = \<lparr>mg_app = ''notifications'', mg_name = ''0002_initial'',
   mg_dependencies = [(''notifications'', ''0001_initial''), (''users'', ''0001_initial'')],
   mg_operations = [
    AddField ''notification'' ''user''
       (nullable (column (ForeignKey ''users.user'' SET_NULL))),
    AddIndex ''notification'' [''user'', ''-created_at''],
    AddIndex ''notification'' [''channel'', ''status'']]\<rparr>"

definition orders_0001 :: migration where
  "orders_0001 = \<lparr>mg_app = ''orders'', mg_name = ''0001_initial'',
   mg_dependencies = [],
   mg_operations = [
    CreateModel ''order''
     \<lparr>table_name = ''orders_order'',
       columns = [(''created_at'', indexed (column (DateTimeField AutoNowAdd))),
          (''updated_at'', column (DateTimeField AutoNow)),
          (''id'', primary (default_to (DefaultCall ''uuid4'') (column UUIDField))),
          (''deleted_at'', indexed (nullable (column (DateTimeField GivenTime)))),
          (''number'', unique (default_to (DefaultCall ''generate_order_number'') (column (CharField 32)))),
          (''email_snapshot'', column (EmailField 254)),
          (''phone_snapshot'', column (CharField 24)),
          (''status'', indexed (default_to (DefaultText ''pending'') (choices [''pending'', ''paid'', ''packed'', ''shipped'', ''delivered'', ''cancelled'', ''refunded''] (column (CharField 16))))),
          (''currency'', default_to (DefaultText ''USD'') (column (CharField 3))),
          (''subtotal'', default_to (DefaultCents 0) (column (DecimalField 12 2))),
          (''shipping_total'', default_to (DefaultCents 0) (column (DecimalField 12 2))),
          (''tax_total'', default_to (DefaultCents 0) (column (DecimalField 12 2))),
          (''discount_total'', default_to (DefaultCents 0) (column (DecimalField 12 2))),
          (''grand_total'', default_to (DefaultCents 0) (column (DecimalField 12 2))),
          (''coupon_code'', column (CharField 64)),
          (''shipping_address'', default_to (DefaultCall ''dict'') (column JSONField)),
          (''billing_address'', default_to (DefaultCall ''dict'') (column JSONField)),
          (''payment_provider'', column (CharField 32)),
          (''payment_reference'', indexed (column (CharField 128))),
          (''paid_at'', nullable (column (DateTimeField GivenTime))),
          (''cancelled_at'', nullable (column (DateTimeField GivenTime))),
          (''refunded_at'', nullable (column (DateTimeField GivenTime))),
          (''notes_internal'', column TextField),
          (''notes_customer'', column TextField),
          (''metadata'', default_to (DefaultCall ''dict'') (column JSONField))],
       unique_sets = [], index_sets = [],
       ordering = [''-created_at'']\<rparr>,
    CreateModel ''orderevent''
     \<lparr>table_name = ''orders_event'',
       columns = [(''created_at'', indexed (column (DateTimeField AutoNowAdd))),
          (''updated_at'', column (DateTimeField AutoNow)),
          (''id'', primary (default_to (DefaultCall ''uuid4'') (column UUIDField))),
          (''deleted_at'', indexed (nullable (column (DateTimeField GivenTime)))),
          (''code'', column (CharField 64)),
          (''message'', column (CharField 500)),
          (''payload'', default_to (DefaultCall ''dict'') (column JSONField))],
       unique_sets = [], index_sets = [],
       ordering = [''-created_at'']\<rparr>,
    CreateModel ''orderitem''
     \<lparr>table_name = ''orders_item'',
       columns = [(''created_at'', indexed (column (DateTimeField AutoNowAdd))),
          (''updated_at'', column (DateTimeField AutoNow)),
          (''id'', primary (default_to (DefaultCall ''uuid4'') (column UUIDField))),
          (''deleted_at'', indexed (nullable (column (DateTimeField GivenTime)))),
          (''sku'', column (CharField 64)),
          (''name_snapshot'', column (CharField 255)),
          (''attributes_snapshot'', default_to (DefaultCall ''dict'') (column JSONField)),
          (''quantity'', column PositiveIntegerField),
          (''unit_price'', column (DecimalField 12 2)),
          (''line_total'', column (DecimalField 12 2))],
       unique_sets = [], index_sets = [],
       ordering = []\<rparr>]\<rparr>"

definition orders_0002 :: migration where
  "orders_0002 = \<lparr>mg_app = ''orders'', mg_name = ''0002_initial'',
   mg_dependencies = [(''catalog'', ''0001_initial''), (''orders'', ''0001_initial''), (''users'', ''0001_initial'')],
   mg_operations = [
    AddField ''order'' ''user''
       (nullable (column (ForeignKey ''users.user'' SET_NULL))),
    AddField ''orderevent'' ''actor''
       (nullable (column (ForeignKey ''users.user'' SET_NULL))),
    AddField ''orderevent'' ''order''
       (column (ForeignKey ''orders.order'' CASCADE)),
    AddField ''orderitem'' ''order''
       (column (ForeignKey ''orders.order'' CASCADE)),
    AddField ''orderitem'' ''variant''
       (nullable (column (ForeignKey ''catalog.productvariant'' SET_NULL))),
    AddIndex ''order'' [''user'', ''-created_at''],
    AddIndex ''order'' [''status'', ''-created_at''],
    AddIndex ''order'' [''payment_reference''],
    AddIndex ''orderevent'' [''order'', ''-created_at''],
    AddIndex ''orderitem'' [''order'']]\<rparr>"

definition payments_0001 :: migration where
  "payments_0001 = \<lparr>mg_app = ''payments'', mg_name = ''0001_initial'',
   mg_dependencies = [(''orders'', ''0001_initial'')],
   mg_operations = [
    CreateModel ''payment''
     \<lparr>table_name = ''payments_payment'',
       columns = [(''created_at'', indexed (column (DateTimeField AutoNowAdd))),
          (''updated_at'', column (DateTimeField AutoNow)),
          (''id'', primary (default_to (DefaultCall ''uuid4'') (column UUIDField))),
          (''deleted_at'', indexed (nullable (column (DateTimeField GivenTime)))),
          (''provider'', choices [''stripe'', ''paypal'', ''click'', ''payme'', ''uzum'', ''manual''] (column (CharField 24))),
          (''status'', indexed (default_to (DefaultText ''pending'') (choices [''pending'', ''authorized'', ''captured'', ''failed'', ''cancelled'', ''refunded''] (column (CharField 24))))),
          (''amount'', default_to (DefaultCents 0) (column (DecimalField 12 2))),
          (''currency'', default_to (DefaultText ''USD'') (column (CharField 3))),
          (''provider_reference'', indexed (column (CharField 128))),
          (''provider_intent_id'', indexed (column (CharField 128))),
          (''redirect_url'', column (URLField 200)),
          (''raw_request'', default_to (DefaultCall ''dict'') (column JSONField)),
          (''raw_response'', default_to (DefaultCall ''dict'') (column JSONField)),
          (''error'', default_to (DefaultCall ''dict'') (column JSONField)),
          (''order'', column (ForeignKey ''orders.order'' CASCADE))],
       unique_sets = [], index_sets = [],
       ordering = [''-created_at'']\<rparr>,
    CreateModel ''refund''
     \<lparr>table_name = ''payments_refund'',
       columns = [(''created_at'', indexed (column (DateTimeField AutoNowAdd))),
          (''updated_at'', column (DateTimeField AutoNow)),
          (''id'', primary (default_to (DefaultCall ''uuid4'') (column UUIDField))),
          (''deleted_at'', indexed (nullable (column (DateTimeField GivenTime)))),
          (''amount'', column (DecimalField 12 2)),
          (''reason'', column (CharField 255)),
          (''provider_reference'', column (CharField 128)),
          (''raw_response'', default_to (DefaultCall ''dict'') (column JSONField)),
          (''payment'', column (ForeignKey ''payments.payment'' CASCADE))],
       unique_sets = [], index_sets = [],
       ordering = [''-created_at'']\<rparr>,
    AddIndex ''payment'' [''order'', ''-created_at''],
    AddIndex ''payment'' [''provider'', ''status'']]\<rparr>"

definition reviews_0001 :: migration where
  "reviews_0001 = \<lparr>mg_app = ''reviews'', mg_name = ''0001_initial'',
   mg_dependencies = [(''catalog'', ''0001_initial''), (''orders'', ''0001_initial'')],
   mg_operations = [
    CreateModel ''review''
     \<lparr>table_name = ''reviews_review'',
       columns = [(''created_at'', indexed (column (DateTimeField AutoNowAdd))),
          (''updated_at'', column (DateTimeField AutoNow)),
          (''id'', primary (default_to (DefaultCall ''uuid4'') (column UUIDField))),
          (''deleted_at'', indexed (nullable (column (DateTimeField GivenTime)))),
          (''rating'', column PositiveSmallIntegerField),
          (''title'', column (CharField 200)),
          (''body'', column TextField),
          (''status'', indexed (default_to (DefaultText ''pending'') (choices [''pending'', ''approved'', ''rejected''] (column (CharField 16))))),
          (''helpful_count'', default_to (DefaultInt 0) (column PositiveIntegerField)),
          (''order'', nullable (column (ForeignKey ''orders.order'' SET_NULL))),
          (''product'', column (ForeignKey ''catalog.product'' CASCADE))],
       unique_sets = [], index_sets = [],
       ordering = [''-created_at'']\<rparr>]\<rparr>"

definition reviews_0002 :: migration where
  "reviews_0002 = \<lparr>mg_app = ''reviews'', mg_name = ''0002_initial'',
   mg_dependencies = [(''reviews'', ''0001_initial''), (''users'', ''0001_initial'')],
   mg_operations = [
    AddField ''review'' ''user''
       (column (ForeignKey ''users.user'' CASCADE)),
    AddIndex ''review'' [''product'', ''status'', ''-created_at''],
    AddIndex ''review'' [''user'', ''-created_at''],
    AlterUniqueTogether ''review'' [[''product'', ''user'']]]\<rparr>"

definition shipping_0001 :: migration where
  "shipping_0001 = \<lparr>mg_app = ''shipping'', mg_name = ''0001_initial'',
   mg_dependencies = [(''orders'', ''0001_initial'')],
   mg_operations = [
    CreateModel ''shippingmethod''
     \<lparr>table_name = ''shipping_method'',
       columns = [(''created_at'', indexed (column (DateTimeField AutoNowAdd))),
          (''updated_at'', column (DateTimeField AutoNow)),
          (''id'', primary (default_to (DefaultCall ''uuid4'') (column UUIDField))),
          (''deleted_at'', indexed (nullable (column (DateTimeField GivenTime)))),
          (''code'', unique (indexed (column (SlugField 64)))),
          (''name'', column (CharField 128)),
          (''eta_days_min'', default_to (DefaultInt 1) (column PositiveIntegerField)),
          (''eta_days_max'', default_to (DefaultInt 7) (column PositiveIntegerField)),
          (''is_active'', default_to (DefaultBool True) (column BooleanField)),
          (''flat_rate'', default_to (DefaultInt 0) (column (DecimalField 12 2)))],
       unique_sets = [], index_sets = [],
       ordering = [''name'']\<rparr>,
    CreateModel ''shipment''
     \<lparr>table_name = ''shipping_shipment'',
       columns = [(''created_at'', indexed (column (DateTimeField AutoNowAdd))),
          (''updated_at'', column (DateTimeField AutoNow)),
          (''id'', primary (default_to (DefaultCall ''uuid4'') (column UUIDField))),
          (''deleted_at'', indexed (nullable (column (DateTimeField GivenTime)))),
          (''courier'', column (CharField 120)),
          (''tracking_number'', indexed (column (CharField 64))),
          (''tracking_url'', column (URLField 200)),
          (''status'', indexed (default_to (DefaultText ''preparing'') (choices [''preparing'', ''in_transit'', ''out_for_delivery'', ''delivered'', ''failed'', ''returned''] (column (CharField 24))))),
          (''eta'', nullable (column (DateTimeField GivenTime))),
          (''delivered_at'', nullable (column (DateTimeField GivenTime))),
          (''metadata'', default_to (DefaultCall ''dict'') (column JSONField)),
          (''order'', column (ForeignKey ''orders.order'' CASCADE)),
          (''method'', column (ForeignKey ''shipping.shippingmethod'' PROTECT))],
       unique_sets = [], index_sets = [[''order'', ''-created_at'']],
       ordering = [''-created_at'']\<rparr>]\<rparr>"

definition users_0001 :: migration where
  "users_0001 = \<lparr>mg_app = ''users'', mg_name = ''0001_initial'',
   mg_dependencies = [(''auth'', ''0012_alter_user_first_name_max_length''), (''catalog'', ''0001_initial'')],
   mg_operations = [
    CreateModel ''role''
     \<lparr>table_name = ''users_role'',
       columns = [(''created_at'', indexed (column (DateTimeField AutoNowAdd))),
          (''updated_at'', column (DateTimeField AutoNow)),
          (''id'', primary (default_to (DefaultCall ''uuid4'') (column UUIDField))),
          (''deleted_at'', indexed (nullable (column (DateTimeField GivenTime)))),
          (''code'', unique (indexed (column (SlugField 64)))),
          (''name'', column (CharField 128)),
          (''description'', column TextField),
          (''is_system'', default_to (DefaultBool False) (column BooleanField))],
       unique_sets = [], index_sets = [],
       ordering = [''code'']\<rparr>,
    CreateModel ''user''
     \<lparr>table_name = ''users_user'',
       columns = [(''password'', column (CharField 128)),
          (''last_login'', nullable (column (DateTimeField GivenTime))),
          (''is_superuser'', default_to (DefaultBool False) (column BooleanField)),
          (''created_at'', indexed (column (DateTimeField AutoNowAdd))),
          (''updated_at'', column (DateTimeField AutoNow)),
          (''id'', primary (default_to (DefaultCall ''uuid4'') (column UUIDField))),
          (''deleted_at'', indexed (nullable (column (DateTimeField GivenTime)))),
          (''email'', unique (indexed (column (EmailField 254)))),
          (''first_name'', column (CharField 120)),
          (''last_name'', column (CharField 120)),
          (''phone'', indexed (column (CharField 24))),
          (''is_active'', default_to (DefaultBool True) (column BooleanField)),
          (''is_staff'', default_to (DefaultBool False) (column BooleanField)),
          (''email_verified_at'', nullable (column (DateTimeField GivenTime))),
          (''phone_verified_at'', nullable (column (DateTimeField GivenTime))),
          (''last_login_ip'', nullable (column GenericIPAddressField)),
          (''groups'', column (ManyToManyField ''auth.group'')),
          (''user_permissions'', column (ManyToManyField ''auth.permission'')),
          (''roles'', column (ManyToManyField ''users.role''))],
       unique_sets = [], index_sets = [],
       ordering = []\<rparr>,
    CreateModel ''wishlist''
     \<lparr>table_name = ''users_wishlist'',
       columns = [(''created_at'', indexed (column (DateTimeField AutoNowAdd))),
          (''updated_at'', column (DateTimeField AutoNow)),
          (''id'', primary (default_to (DefaultCall ''uuid4'') (column UUIDField))),
          (''deleted_at'', indexed (nullable (column (DateTimeField GivenTime)))),
          (''products'', column (ManyToManyField ''catalog.product'')),
          (''user'', column (OneToOneField ''users.user'' CASCADE))],
       unique_sets = [], index_sets = [],
       ordering = []\<rparr>,
    CreateModel ''address''
     \<lparr>table_name = ''users_address'',
       columns = [(''created_at'', indexed (column (DateTimeField AutoNowAdd))),
          (''updated_at'', column (DateTimeField AutoNow)),
          (''id'', primary (default_to (DefaultCall ''uuid4'') (column UUIDField))),
          (''deleted_at'', indexed (nullable (column (DateTimeField GivenTime)))),
          (''label'', column (CharField 64)),
          (''kind'', default_to (DefaultText ''shipping'') (choices [''shipping'', ''billing'', ''both''] (column (CharField 16)))),
          (''full_name'', column (CharField 200)),
          (''phone'', column (CharField 24)),
          (''country'', default_to (DefaultText ''UZ'') (column (CharField 2))),
          (''region'', column (CharField 120)),
          (''city'', column (CharField 120)),
          (''street'', column (CharField 255)),
          (''apartment'', column (CharField 64)),
          (''postal_code'', column (CharField 20)),
          (''is_default'', default_to (DefaultBool False) (column BooleanField)),
          (''location'', default_to (DefaultCall ''dict'') (column JSONField)),
          (''user'', column (ForeignKey ''users.user'' CASCADE))],
       unique_sets = [], index_sets = [[''user'', ''kind''], [''user'', ''is_default'']],
       ordering = [''-is_default'', ''-created_at'']\<rparr>,
    AddIndex ''user'' [''email''],
    AddIndex ''user'' [''phone''],
    AddIndex ''user'' [''is_active'', ''is_staff'']]\<rparr>"

text \<open>All of them, as the loader finds them: by application and name.\<close>

definition migrations :: "migration list" where
  "migrations = [analytics_0001, audit_0001, audit_0002, cart_0001, cart_0002, catalog_0001, coupons_0001,
     inventory_0001, notifications_0001, notifications_0002, orders_0001, orders_0002,
     payments_0001, reviews_0001, reviews_0002, shipping_0001, users_0001]"

section \<open>Running migrations\<close>

fun target :: "column_kind \<Rightarrow> string option" where
  "target (ForeignKey t d) = Some t"
| "target (OneToOneField t d) = Some t"
| "target (ManyToManyField t) = Some t"
| "target k = None"

definition related :: "string list \<Rightarrow> column \<Rightarrow> bool" where
  "related known c = (case target (col_kind c) of None \<Rightarrow> True | Some t \<Rightarrow> t \<in> set known)"

text \<open>A field name of an index, where a hyphen asks for descending order.\<close>

fun plain_name :: "string \<Rightarrow> string" where
  "plain_name [] = []"
| "plain_name (c # cs) = (if c = CHR ''-'' then cs else c # cs)"

definition has_fields :: "model_state \<Rightarrow> string list \<Rightarrow> bool" where
  "has_fields m ns = list_all (\<lambda>n. plain_name n \<in> fst ` set (columns m)) ns"

fun alter :: "string \<Rightarrow> (model_state \<Rightarrow> model_state option) \<Rightarrow> schema \<Rightarrow> schema option" where
  "alter key f [] = None"
| "alter key f ((k, m) # s) =
     (if k = key then map_option (\<lambda>m'. (k, m') # s) (f m) else map_option ((#) (k, m)) (alter key f s))"

text \<open>
  An operation fails on a model that is missing, or there already, on a second column of a name, on a
  relation to an unknown model, and on a constraint over a missing column. \<open>foreign\<close> are the models of
  Django's own applications.
\<close>

fun apply_operation :: "string list \<Rightarrow> string \<Rightarrow> operation \<Rightarrow> schema \<Rightarrow> schema option" where
  "apply_operation foreign app (CreateModel n m) s =
     (let key = app @ ''.'' @ n in
      if key \<in> set (map fst s) \<or> \<not> distinct (map fst (columns m)) \<or>
         \<not> list_all (\<lambda>(_, c). related (key # map fst s @ foreign) c) (columns m) \<or>
         \<not> list_all (has_fields m) (unique_sets m @ index_sets m)
      then None else Some (s @ [(key, m)]))"
| "apply_operation foreign app (AddField n f c) s =
     alter (app @ ''.'' @ n)
       (\<lambda>m. if f \<in> set (map fst (columns m)) \<or> \<not> related (map fst s @ foreign) c then None
            else Some (m\<lparr>columns := columns m @ [(f, c)]\<rparr>)) s"
| "apply_operation foreign app (AddIndex n fs) s =
     alter (app @ ''.'' @ n)
       (\<lambda>m. if has_fields m fs then Some (m\<lparr>index_sets := index_sets m @ [fs]\<rparr>) else None) s"
| "apply_operation foreign app (AlterUniqueTogether n us) s =
     alter (app @ ''.'' @ n)
       (\<lambda>m. if list_all (has_fields m) us then Some (m\<lparr>unique_sets := us\<rparr>) else None) s"

fun apply_operations :: "string list \<Rightarrow> string \<Rightarrow> operation list \<Rightarrow> schema \<Rightarrow> schema option" where
  "apply_operations foreign app [] s = Some s"
| "apply_operations foreign app (op # ops) s =
     (case apply_operation foreign app op s of
        None \<Rightarrow> None | Some s' \<Rightarrow> apply_operations foreign app ops s')"

definition ready :: "(string \<times> string) list \<Rightarrow> migration \<Rightarrow> bool" where
  "ready applied m = list_all (\<lambda>d. d \<in> set applied) (mg_dependencies m)"

text \<open>
  The executor: the first migration whose dependencies are applied is next. It gives up when no
  pending migration is ready, which is what a cycle or an unknown dependency comes to.
\<close>

function migrate :: "string list \<Rightarrow> (string \<times> string) list \<Rightarrow> migration list \<Rightarrow> schema \<Rightarrow> schema option" where
  "migrate foreign applied pending s =
     (if pending = [] then Some s
      else case find (ready applied) pending of
        None \<Rightarrow> None
      | Some m \<Rightarrow>
          (case apply_operations foreign (mg_app m) (mg_operations m) s of
             None \<Rightarrow> None
           | Some s' \<Rightarrow>
               migrate foreign (applied @ [(mg_app m, mg_name m)])
                 (filter (\<lambda>x. (mg_app x, mg_name x) \<noteq> (mg_app m, mg_name m)) pending) s'))"
  by pat_completeness auto

lemma find_length_filter: "find P xs = Some x \<Longrightarrow> length (filter (\<lambda>y. f y \<noteq> f x) xs) < length xs"
  by (induction xs) (auto split: if_splits simp: less_Suc_eq_le)

termination migrate
  by (relation "measure (\<lambda>(_, _, pending, _). length pending)")
    (auto dest: find_length_filter [where f = "\<lambda>x. (mg_app x, mg_name x)"])

declare migrate.simps [simp del]

section \<open>Well-formed schemas\<close>

text \<open>
  What the database itself insists on: one table per name, one column per name, relations to
  existing tables, constraints over existing columns.
\<close>

definition well_formed_model :: "string list \<Rightarrow> model_state \<Rightarrow> bool" where
  "well_formed_model known m \<longleftrightarrow>
     distinct (map fst (columns m)) \<and> list_all (\<lambda>(_, c). related known c) (columns m) \<and>
     list_all (has_fields m) (unique_sets m @ index_sets m)"

definition well_formed :: "string list \<Rightarrow> schema \<Rightarrow> bool" where
  "well_formed foreign s \<longleftrightarrow>
     distinct (map fst s) \<and> list_all (\<lambda>(_, m). well_formed_model (map fst s @ foreign) m) s"

text \<open>No table and no column is lost or changed: \<open>t\<close> extends \<open>s\<close>.\<close>

definition extends :: "schema \<Rightarrow> schema \<Rightarrow> bool" where
  "extends s t \<longleftrightarrow> (\<forall>(k, m) \<in> set s. \<exists>m'. (k, m') \<in> set t \<and> table_name m' = table_name m \<and> set (columns m) \<subseteq> set (columns m'))"

lemma extends_refl [simp]: "extends s s"
  by (fastforce simp: extends_def)

lemma extendsD:
  "extends s t \<Longrightarrow> (k, m) \<in> set s \<Longrightarrow> \<exists>m'. (k, m') \<in> set t \<and> table_name m' = table_name m \<and> set (columns m) \<subseteq> set (columns m')"
  by (auto simp: extends_def)

lemma extends_trans:
  assumes "extends s t" "extends t u"
  shows "extends s u"
  unfolding extends_def
proof clarify
  fix k m
  assume "(k, m) \<in> set s"
  from extendsD [OF assms(1) this] obtain m1
    where m1: "(k, m1) \<in> set t" "table_name m1 = table_name m" "set (columns m) \<subseteq> set (columns m1)"
    by blast
  from extendsD [OF assms(2) m1(1)] m1(2,3)
  show "\<exists>m'. (k, m') \<in> set u \<and> table_name m' = table_name m \<and> set (columns m) \<subseteq> set (columns m')"
    by (metis order_trans)
qed

lemma related_mono: "related known c \<Longrightarrow> set known \<subseteq> set known' \<Longrightarrow> related known' c"
  by (auto simp: related_def split: option.splits)

lemma well_formed_model_mono:
  "well_formed_model known m \<Longrightarrow> set known \<subseteq> set known' \<Longrightarrow> well_formed_model known' m"
  by (auto simp: well_formed_model_def list_all_iff split_beta intro: related_mono)

lemma alter_names: "alter key f s = Some s' \<Longrightarrow> map fst s' = map fst s"
  by (induction s arbitrary: s') (auto split: if_splits)

lemma alter_new:
  "alter key f s = Some s' \<Longrightarrow> x \<in> set s' \<Longrightarrow> x \<in> set s \<or> (\<exists>m0. (fst x, m0) \<in> set s \<and> f m0 = Some (snd x))"
  by (induction s arbitrary: s') (fastforce split: if_splits)+

lemma alter_old:
  "alter key f s = Some s' \<Longrightarrow> x \<in> set s \<Longrightarrow> x \<in> set s' \<or> (\<exists>m'. (fst x, m') \<in> set s' \<and> f (snd x) = Some m')"
  by (induction s arbitrary: s') (fastforce split: if_splits)+

text \<open>An alteration that keeps each model well formed and its columns keeps the schema so.\<close>

lemma alter_well_formed:
  assumes alt: "alter key f s = Some s'" and wf: "well_formed foreign s"
    and f: "\<And>m m'. f m = Some m' \<Longrightarrow> well_formed_model (map fst s @ foreign) m \<Longrightarrow>
      well_formed_model (map fst s @ foreign) m' \<and> table_name m' = table_name m \<and> set (columns m) \<subseteq> set (columns m')"
  shows "well_formed foreign s' \<and> extends s s'"
proof -
  have each: "well_formed_model (map fst s @ foreign) m" if "(k, m) \<in> set s" for k m
    using wf that by (auto simp: well_formed_def list_all_iff)
  have "well_formed_model (map fst s @ foreign) m" if "(k, m) \<in> set s'" for k m
    using alter_new [OF alt that] each f by auto
  then have "well_formed foreign s'"
    using wf by (auto simp: well_formed_def alter_names [OF alt] list_all_iff)
  moreover have "extends s s'"
    unfolding extends_def
  proof clarify
    fix k m
    assume m: "(k, m) \<in> set s"
    from alter_old [OF alt m] f [OF _ each [OF m]]
    show "\<exists>m'. (k, m') \<in> set s' \<and> table_name m' = table_name m \<and> set (columns m) \<subseteq> set (columns m')"
      by auto
  qed
  ultimately show ?thesis ..
qed

lemma apply_operation_well_formed:
  assumes "apply_operation foreign app op s = Some s'" "well_formed foreign s"
  shows "well_formed foreign s' \<and> extends s s'"
proof (cases op)
  case (CreateModel n m)
  let ?key = "app @ ''.'' @ n"
  have s': "s' = s @ [(?key, m)]" and new: "?key \<notin> set (map fst s)"
    and m: "well_formed_model (?key # map fst s @ foreign) m"
    using assms(1) by (auto simp: CreateModel Let_def well_formed_model_def split: if_splits)
  have "well_formed_model (map fst s' @ foreign) m'" if "(k, m') \<in> set s'" for k m'
    using that assms(2) m unfolding s' well_formed_def list_all_iff
    by (auto elim!: well_formed_model_mono)
  then show ?thesis
    using assms(2) new by (auto simp: well_formed_def s' list_all_iff extends_def)
next
  case (AddField n g c)
  show ?thesis
    using assms(1) unfolding AddField apply_operation.simps
    by (rule alter_well_formed [OF _ assms(2)])
      (auto simp: well_formed_model_def has_fields_def list_all_iff ball_Un split: if_splits)
next
  case (AddIndex n fs)
  show ?thesis
    using assms(1) unfolding AddIndex apply_operation.simps
    by (rule alter_well_formed [OF _ assms(2)])
      (auto simp: well_formed_model_def has_fields_def list_all_iff ball_Un split: if_splits)
next
  case (AlterUniqueTogether n us)
  show ?thesis
    using assms(1) unfolding AlterUniqueTogether apply_operation.simps
    by (rule alter_well_formed [OF _ assms(2)])
      (auto simp: well_formed_model_def has_fields_def list_all_iff ball_Un split: if_splits)
qed

lemma apply_operations_well_formed:
  "apply_operations foreign app ops s = Some s' \<Longrightarrow> well_formed foreign s \<Longrightarrow> well_formed foreign s' \<and> extends s s'"
proof (induction ops arbitrary: s)
  case (Cons op ops)
  then obtain t where t: "apply_operation foreign app op s = Some t" "apply_operations foreign app ops t = Some s'"
    by (auto split: option.splits)
  from apply_operation_well_formed [OF t(1) Cons.prems(2)] Cons.IH [OF t(2)] show ?case
    by (blast intro: extends_trans)
qed simp

section \<open>Agreement\<close>

definition same_elements :: "'a list \<Rightarrow> 'a list \<Rightarrow> bool" where
  "same_elements xs ys \<longleftrightarrow> list_all (\<lambda>x. x \<in> set ys) xs \<and> list_all (\<lambda>y. y \<in> set xs) ys"

definition same_columns :: "(string \<times> column) list \<Rightarrow> (string \<times> column) list \<Rightarrow> bool" where
  "same_columns xs ys \<longleftrightarrow> list_all (\<lambda>(n, c). map_of ys n = Some c) xs \<and> list_all (\<lambda>(n, c). map_of xs n = Some c) ys"

definition same_model :: "model_state \<Rightarrow> model_state \<Rightarrow> bool" where
  "same_model a b \<longleftrightarrow> table_name a = table_name b \<and> same_columns (columns a) (columns b) \<and>
     same_elements (unique_sets a) (unique_sets b) \<and> same_elements (index_sets a) (index_sets b) \<and>
     ordering a = ordering b"

definition same_schema :: "schema \<Rightarrow> schema \<Rightarrow> bool" where
  "same_schema s t \<longleftrightarrow> same_elements (map fst s) (map fst t) \<and>
     list_all (\<lambda>(k, m). case map_of t k of None \<Rightarrow> False | Some m' \<Rightarrow> same_model m m') s"

text \<open>What the \<open>User\<close> model inherits from Django's \<open>AbstractBaseUser\<close> and \<open>PermissionsMixin\<close>.\<close>

definition django_auth_columns :: "(string \<times> column) list" where
  "django_auth_columns =
     [(''password'', column (CharField 128)),
      (''last_login'', nullable (column (DateTimeField GivenTime))),
      (''is_superuser'', default_to (DefaultBool False) (column BooleanField)),
      (''groups'', column (ManyToManyField ''auth.group'')),
      (''user_permissions'', column (ManyToManyField ''auth.permission''))]"

fun is_one_to_one :: "column_kind \<Rightarrow> bool" where
  "is_one_to_one (OneToOneField t d) = True"
| "is_one_to_one k = False"

definition unique_keys :: "schema \<Rightarrow> (string \<times> string list) list" where
  "unique_keys s = concat (map (\<lambda>(k, m).
     map (\<lambda>(n, c). (table_name m, [n])) (filter (\<lambda>(n, c). col_unique c \<or> is_one_to_one (col_kind c)) (columns m)) @
     map (\<lambda>us. (table_name m, us)) (unique_sets m)) s)"

lemma migrate_all:
  "case migrate [''auth.group'', ''auth.permission''] [(''auth'', ''0012_alter_user_first_name_max_length'')]
      migrations [] of
     None \<Rightarrow> False | Some s \<Rightarrow> same_schema (declared_models django_auth_columns) s"
  by code_simp

text \<open>The keys the services' \<open>IntegrityError\<close> branches speak of are among these, and these are all.\<close>

lemma unique_keys_declared:
  "unique_keys (declared_models django_auth_columns) =
     [(''analytics_daily_sales'', [''day'']),
      (''cart_item'', [''cart'', ''variant'']),
      (''catalog_brand'', [''name'']), (''catalog_brand'', [''slug'']),
      (''catalog_category'', [''slug'']), (''catalog_attribute'', [''code'']),
      (''catalog_attribute_option'', [''attribute'', ''value'']),
      (''catalog_product'', [''slug'']), (''catalog_product_variant'', [''sku'']),
      (''coupons_coupon'', [''code'']), (''inventory_warehouse'', [''code'']),
      (''inventory_stock'', [''variant'', ''warehouse'']), (''orders_order'', [''number'']),
      (''reviews_review'', [''product'', ''user'']), (''shipping_method'', [''code'']),
      (''users_role'', [''code'']), (''users_user'', [''email'']), (''users_wishlist'', [''user''])]"
  by code_simp

section \<open>Properties\<close>

text \<open>
  The migrations build the tables the models declare. Given the columns Django's own user classes
  bring and Django's own migrations, running all migration files in an order that respects their
  dependencies succeeds (no cycle, no operation on a missing model or column, no relation to a model that
  does not exist yet), and the result has exactly the declared models, each with the declared
  table, columns with all their attributes, unique keys, indexes and ordering.
\<close>

theorem migrations_build_models:
  assumes "auth_columns = django_auth_columns"
  shows "\<exists>s. migrate [''auth.group'', ''auth.permission'']
      [(''auth'', ''0012_alter_user_first_name_max_length'')] migrations [] = Some s \<and>
    same_schema (declared_models auth_columns) s"
  using migrate_all by (simp add: assms split: option.splits)

theorem migrations_build_models_witness:
  "\<exists>s. migrate [''auth.group'', ''auth.permission''] [(''auth'', ''0012_alter_user_first_name_max_length'')]
      migrations [] = Some s"
  using migrations_build_models [OF refl] by blast

text \<open>A run keeps the schema well formed, loses nothing, and applies every pending migration.\<close>

definition built :: "schema \<Rightarrow> migration \<Rightarrow> bool" where
  "built s mg \<longleftrightarrow> (\<forall>n m. CreateModel n m \<in> set (mg_operations mg) \<longrightarrow>
     (\<exists>m'. (mg_app mg @ ''.'' @ n, m') \<in> set s \<and> table_name m' = table_name m \<and> set (columns m) \<subseteq> set (columns m')))"

lemma built_extends:
  assumes "extends s t" "built s mg"
  shows "built t mg"
  unfolding built_def
proof (intro allI impI)
  fix n m
  assume "CreateModel n m \<in> set (mg_operations mg)"
  with assms(2) obtain m1 where "(mg_app mg @ ''.'' @ n, m1) \<in> set s" and m1: "table_name m1 = table_name m"
    "set (columns m) \<subseteq> set (columns m1)"
    unfolding built_def by blast
  from extendsD [OF assms(1) this(1)] m1
  show "\<exists>m'. (mg_app mg @ ''.'' @ n, m') \<in> set t \<and> table_name m' = table_name m \<and> set (columns m) \<subseteq> set (columns m')"
    by (metis order_trans)
qed

lemma operations_build:
  "apply_operations foreign app ops s = Some s' \<Longrightarrow> well_formed foreign s \<Longrightarrow> CreateModel n m \<in> set ops \<Longrightarrow>
   \<exists>m'. (app @ ''.'' @ n, m') \<in> set s' \<and> table_name m' = table_name m \<and> set (columns m) \<subseteq> set (columns m')"
proof (induction ops arbitrary: s)
  case (Cons op ops)
  then obtain t where t: "apply_operation foreign app op s = Some t" "apply_operations foreign app ops t = Some s'"
    by (auto split: option.splits)
  have wf: "well_formed foreign t" using apply_operation_well_formed [OF t(1) Cons.prems(2)] by blast
  show ?case
  proof (cases "op = CreateModel n m")
    case True
    then have "(app @ ''.'' @ n, m) \<in> set t" using t(1) by (auto simp: Let_def split: if_splits)
    with apply_operations_well_formed [OF t(2) wf] show ?thesis by (blast dest: extendsD)
  next
    case False
    with Cons.prems(3) show ?thesis by (intro Cons.IH [OF t(2) wf]) auto
  qed
qed simp

lemma migrate_well_formed:
  assumes "migrate foreign applied pending s = Some s'" "well_formed foreign s"
    and "distinct (map (\<lambda>m. (mg_app m, mg_name m)) pending)"
  shows "well_formed foreign s' \<and> extends s s' \<and> list_all (built s') pending"
  using assms
proof (induction foreign applied pending s rule: migrate.induct)
  case (1 foreign applied pending s)
  let ?name = "\<lambda>m. (mg_app m, mg_name m)"
  show ?case
  proof (cases "pending = []")
    case True
    with "1.prems" show ?thesis by (simp add: migrate.simps)
  next
    case False
    with "1.prems"(1) obtain m t where m: "find (ready applied) pending = Some m"
      and t: "apply_operations foreign (mg_app m) (mg_operations m) s = Some t"
      and rest: "migrate foreign (applied @ [?name m]) (filter (\<lambda>x. ?name x \<noteq> ?name m) pending) t = Some s'"
      by (subst (asm) migrate.simps) (auto split: option.splits)
    have wf: "well_formed foreign t" "extends s t"
      using apply_operations_well_formed [OF t "1.prems"(2)] by blast+
    from "1.IH" [OF False m t rest wf(1)] "1.prems"(3)
    have ih: "well_formed foreign s'" "extends t s'" "list_all (built s') (filter (\<lambda>x. ?name x \<noteq> ?name m) pending)"
      by (simp_all add: distinct_map_filter)
    have "built t m" using operations_build [OF t "1.prems"(2)] by (simp add: built_def)
    with ih(2) have "built s' m" by (rule built_extends)
    moreover have "x = m" if "x \<in> set pending" "?name x = ?name m" for x
    proof -
      have "m \<in> set pending" using m by (auto simp: find_Some_iff)
      with "1.prems"(3) that show ?thesis by (simp add: distinct_map inj_on_def)
    qed
    ultimately have "list_all (built s') pending" using ih(3) by (auto simp: list_all_iff)
    with ih wf show ?thesis by (blast intro: extends_trans)
  qed
qed

text \<open>
  The migrations of the repository build what they say. Run in whatever order their dependencies allow, on
  top of any well-formed schema, if the run succeeds then in the result tables and columns are
  named uniquely, every relation points to an existing table, every constraint and index names existing
  columns; every table and column there was before is there unchanged; and every table any
  of the files creates is there under its name with the columns it was created with.
\<close>

theorem migrations_well_formed:
  assumes "migrate foreign applied migrations s = Some s'" "well_formed foreign s"
  shows "well_formed foreign s' \<and> extends s s' \<and> list_all (built s') migrations"
proof (rule migrate_well_formed [OF assms])
  show "distinct (map (\<lambda>m. (mg_app m, mg_name m)) migrations)" by code_simp
qed

theorem migrations_well_formed_witness:
  "\<exists>s. migrate [''auth.group'', ''auth.permission''] [(''auth'', ''0012_alter_user_first_name_max_length'')]
      migrations [] = Some s \<and> well_formed [''auth.group'', ''auth.permission''] s"
proof -
  obtain s where s: "migrate [''auth.group'', ''auth.permission'']
      [(''auth'', ''0012_alter_user_first_name_max_length'')] migrations [] = Some s"
    using migrate_all by (auto split: option.splits)
  have "well_formed foreign []" for foreign by (simp add: well_formed_def)
  from migrations_well_formed [OF s this] s show ?thesis by blast
qed

end
