(* ===== verification/Registry.thy ===== *)
theory Registry
  imports Settings Schema
begin

text \<open>
  What Django loads at start-up: the application configurations of \<open>apps/*/apps.py\<close> and the admin
  sites of \<open>apps/*/admin.py\<close>, as data, with the checks Django runs on them (\<open>manage.py check\<close>).
  An admin site names columns, relations and properties of the models by strings; the theorems say
  that every one of them exists in the tables of \<open>Schema\<close>, and which columns each form can write.
\<close>

record app_config =
  ac_name :: string
  ac_label :: string
  ac_verbose_name :: string
  ac_default_auto_field :: string
  ac_ready_imports :: "string list"

text \<open>The options of \<open>admin.TabularInline\<close> and \<open>admin.ModelAdmin\<close> the sites use, with their defaults.\<close>

record model_inline =
  in_model :: string
  in_extra :: nat
  in_fields :: "string list option"
  in_readonly_fields :: "string list"
  in_can_delete :: bool

definition plain_inline :: "string \<Rightarrow> model_inline" where
  "plain_inline m =
     \<lparr>in_model = m, in_extra = 3, in_fields = None, in_readonly_fields = [], in_can_delete = True\<rparr>"

record model_admin =
  ma_model :: string
  ma_list_display :: "string list"
  ma_list_filter :: "string list"
  ma_search_fields :: "string list"
  ma_readonly_fields :: "string list"
  ma_prepopulated_fields :: "(string \<times> string list) list"
  ma_autocomplete_fields :: "string list"
  ma_filter_horizontal :: "string list"
  ma_ordering :: "string list"
  ma_date_hierarchy :: "string option"
  ma_fieldsets :: "string list list option"
  ma_add_fields :: "string list"
  ma_inlines :: "model_inline list"
  ma_actions :: "string list"
  ma_has_add_permission :: bool
  ma_has_change_permission :: bool
  ma_has_delete_permission :: bool

definition plain_admin :: "string \<Rightarrow> model_admin" where
  "plain_admin m =
     \<lparr>ma_model = m, ma_list_display = [''__str__''], ma_list_filter = [], ma_search_fields = [],
      ma_readonly_fields = [], ma_prepopulated_fields = [], ma_autocomplete_fields = [],
      ma_filter_horizontal = [], ma_ordering = [], ma_date_hierarchy = None, ma_fieldsets = None,
      ma_add_fields = [], ma_inlines = [], ma_actions = [], ma_has_add_permission = True,
      ma_has_change_permission = True, ma_has_delete_permission = True\<rparr>"

section \<open>The applications\<close>

definition AnalyticsConfig :: app_config where
  "AnalyticsConfig = \<lparr>ac_name = ''apps.analytics'', ac_label = ''analytics'', ac_verbose_name = ''Analytics'',
     ac_default_auto_field = ''django.db.models.BigAutoField'', ac_ready_imports = []\<rparr>"

definition AuditConfig :: app_config where
  "AuditConfig = \<lparr>ac_name = ''apps.audit'', ac_label = ''audit'', ac_verbose_name = ''Audit'',
     ac_default_auto_field = ''django.db.models.BigAutoField'', ac_ready_imports = []\<rparr>"

definition CartConfig :: app_config where
  "CartConfig = \<lparr>ac_name = ''apps.cart'', ac_label = ''cart'', ac_verbose_name = ''Cart'', ac_default_auto_field
     = ''django.db.models.BigAutoField'', ac_ready_imports = []\<rparr>"

definition CatalogConfig :: app_config where
  "CatalogConfig = \<lparr>ac_name = ''apps.catalog'', ac_label = ''catalog'', ac_verbose_name = ''Catalog'',
     ac_default_auto_field = ''django.db.models.BigAutoField'', ac_ready_imports = []\<rparr>"

definition CheckoutConfig :: app_config where
  "CheckoutConfig = \<lparr>ac_name = ''apps.checkout'', ac_label = ''checkout'', ac_verbose_name = ''Checkout'',
     ac_default_auto_field = ''django.db.models.BigAutoField'', ac_ready_imports = []\<rparr>"

definition CoreConfig :: app_config where
  "CoreConfig = \<lparr>ac_name = ''apps.core'', ac_label = ''core'', ac_verbose_name = ''Core'', ac_default_auto_field
     = ''django.db.models.BigAutoField'', ac_ready_imports = []\<rparr>"

definition CouponsConfig :: app_config where
  "CouponsConfig = \<lparr>ac_name = ''apps.coupons'', ac_label = ''coupons'', ac_verbose_name = ''Coupons'',
     ac_default_auto_field = ''django.db.models.BigAutoField'', ac_ready_imports = []\<rparr>"

definition InventoryConfig :: app_config where
  "InventoryConfig = \<lparr>ac_name = ''apps.inventory'', ac_label = ''inventory'', ac_verbose_name = ''Inventory'',
     ac_default_auto_field = ''django.db.models.BigAutoField'', ac_ready_imports = []\<rparr>"

definition NotificationsConfig :: app_config where
  "NotificationsConfig = \<lparr>ac_name = ''apps.notifications'', ac_label = ''notifications'', ac_verbose_name =
     ''Notifications'', ac_default_auto_field = ''django.db.models.BigAutoField'', ac_ready_imports =
     []\<rparr>"

definition OrdersConfig :: app_config where
  "OrdersConfig = \<lparr>ac_name = ''apps.orders'', ac_label = ''orders'', ac_verbose_name = ''Orders'',
     ac_default_auto_field = ''django.db.models.BigAutoField'', ac_ready_imports = [''signals'']\<rparr>"

definition PaymentsConfig :: app_config where
  "PaymentsConfig = \<lparr>ac_name = ''apps.payments'', ac_label = ''payments'', ac_verbose_name = ''Payments'',
     ac_default_auto_field = ''django.db.models.BigAutoField'', ac_ready_imports = []\<rparr>"

definition ReviewsConfig :: app_config where
  "ReviewsConfig = \<lparr>ac_name = ''apps.reviews'', ac_label = ''reviews'', ac_verbose_name = ''Reviews'',
     ac_default_auto_field = ''django.db.models.BigAutoField'', ac_ready_imports = []\<rparr>"

definition ShippingConfig :: app_config where
  "ShippingConfig = \<lparr>ac_name = ''apps.shipping'', ac_label = ''shipping'', ac_verbose_name = ''Shipping'',
     ac_default_auto_field = ''django.db.models.BigAutoField'', ac_ready_imports = []\<rparr>"

definition UsersConfig :: app_config where
  "UsersConfig = \<lparr>ac_name = ''apps.users'', ac_label = ''users'', ac_verbose_name = ''Users'',
     ac_default_auto_field = ''django.db.models.BigAutoField'', ac_ready_imports = [''signals'']\<rparr>"

definition app_configs :: "app_config list" where
  "app_configs = [AnalyticsConfig, AuditConfig, CartConfig, CatalogConfig, CheckoutConfig, CoreConfig, CouponsConfig,
     InventoryConfig, NotificationsConfig, OrdersConfig, PaymentsConfig, ReviewsConfig, ShippingConfig,
     UsersConfig]"

section \<open>The admin sites\<close>

subsection \<open>\<open>analytics/admin.py\<close>\<close>

definition DailySalesSnapshotAdmin :: model_admin where
  "DailySalesSnapshotAdmin = (plain_admin ''analytics.dailysalessnapshot'')\<lparr>
     ma_list_display := [''day'', ''orders_count'', ''paid_orders_count'', ''revenue'',
       ''average_order_value'', ''items_sold''],
     ma_date_hierarchy := Some ''day''\<rparr>"

subsection \<open>\<open>audit/admin.py\<close>\<close>

definition AuditLogAdmin :: model_admin where
  "AuditLogAdmin = (plain_admin ''audit.auditlog'')\<lparr>
     ma_list_display := [''actor'', ''action'', ''target_type'', ''target_id'', ''ip_address'',
       ''created_at''],
     ma_list_filter := [''action''],
     ma_search_fields := [''actor_email'', ''action'', ''target_id'', ''request_id''],
     ma_readonly_fields := [''id'', ''created_at'', ''updated_at''],
     ma_date_hierarchy := Some ''created_at'',
     ma_has_add_permission := False,
     ma_has_change_permission := False,
     ma_has_delete_permission := False\<rparr>"

subsection \<open>\<open>cart/admin.py\<close>\<close>

definition CartItemInline :: model_inline where
  "CartItemInline = (plain_inline ''cart.cartitem'')\<lparr>
     in_extra := 0,
     in_readonly_fields := [''unit_price'', ''line_total'']\<rparr>"

definition CartAdmin :: model_admin where
  "CartAdmin = (plain_admin ''cart.cart'')\<lparr>
     ma_list_display := [''id'', ''user'', ''session_key'', ''currency'', ''last_active_at''],
     ma_list_filter := [''currency''],
     ma_search_fields := [''user__email'', ''session_key''],
     ma_inlines := [CartItemInline]\<rparr>"

subsection \<open>\<open>catalog/admin.py\<close>\<close>

definition ProductVariantInline :: model_inline where
  "ProductVariantInline = (plain_inline ''catalog.productvariant'')\<lparr>
     in_extra := 0,
     in_fields := Some [''sku'', ''name'', ''price'', ''compare_at_price'', ''is_default'', ''is_active'']\<rparr>"

definition ProductImageInline :: model_inline where
  "ProductImageInline = (plain_inline ''catalog.productimage'')\<lparr>
     in_extra := 0,
     in_fields := Some [''image'', ''alt_text'', ''sort_order'', ''is_primary'']\<rparr>"

definition BrandAdmin :: model_admin where
  "BrandAdmin = (plain_admin ''catalog.brand'')\<lparr>
     ma_list_display := [''name'', ''slug'', ''is_active'', ''created_at''],
     ma_list_filter := [''is_active''],
     ma_search_fields := [''name'', ''slug''],
     ma_prepopulated_fields := [(''slug'', [''name''])]\<rparr>"

definition CategoryAdmin :: model_admin where
  "CategoryAdmin = (plain_admin ''catalog.category'')\<lparr>
     ma_list_display := [''name'', ''slug'', ''parent'', ''sort_order'', ''is_active''],
     ma_list_filter := [''is_active'', ''parent''],
     ma_search_fields := [''name'', ''slug''],
     ma_prepopulated_fields := [(''slug'', [''name''])]\<rparr>"

definition AttributeAdmin :: model_admin where
  "AttributeAdmin = (plain_admin ''catalog.attribute'')\<lparr>
     ma_list_display := [''code'', ''name'', ''kind'', ''is_filterable''],
     ma_list_filter := [''kind'', ''is_filterable''],
     ma_search_fields := [''code'', ''name'']\<rparr>"

definition AttributeOptionAdmin :: model_admin where
  "AttributeOptionAdmin = (plain_admin ''catalog.attributeoption'')\<lparr>
     ma_list_display := [''attribute'', ''value'', ''label'', ''sort_order''],
     ma_list_filter := [''attribute'']\<rparr>"

definition ProductAdmin :: model_admin where
  "ProductAdmin = (plain_admin ''catalog.product'')\<lparr>
     ma_list_display := [''name'', ''brand'', ''status'', ''is_featured'', ''rating_avg'', ''sold_count''],
     ma_list_filter := [''status'', ''is_featured'', ''brand''],
     ma_search_fields := [''name'', ''slug'', ''variants__sku''],
     ma_prepopulated_fields := [(''slug'', [''name''])],
     ma_inlines := [ProductVariantInline, ProductImageInline],
     ma_autocomplete_fields := [''brand'', ''categories'']\<rparr>"

definition ProductVariantAdmin :: model_admin where
  "ProductVariantAdmin = (plain_admin ''catalog.productvariant'')\<lparr>
     ma_list_display := [''sku'', ''product'', ''price'', ''is_active''],
     ma_list_filter := [''is_active''],
     ma_search_fields := [''sku'', ''barcode'', ''product__name'']\<rparr>"

subsection \<open>\<open>coupons/admin.py\<close>\<close>

definition CouponAdmin :: model_admin where
  "CouponAdmin = (plain_admin ''coupons.coupon'')\<lparr>
     ma_list_display := [''code'', ''kind'', ''value'', ''used_count'', ''max_uses'', ''is_active'',
       ''starts_at'', ''ends_at''],
     ma_list_filter := [''kind'', ''is_active''],
     ma_search_fields := [''code'', ''name''],
     ma_date_hierarchy := Some ''created_at''\<rparr>"

subsection \<open>\<open>inventory/admin.py\<close>\<close>

definition WarehouseAdmin :: model_admin where
  "WarehouseAdmin = (plain_admin ''inventory.warehouse'')\<lparr>
     ma_list_display := [''code'', ''name'', ''is_active'', ''priority''],
     ma_list_filter := [''is_active''],
     ma_search_fields := [''code'', ''name'']\<rparr>"

definition StockAdmin :: model_admin where
  "StockAdmin = (plain_admin ''inventory.stock'')\<lparr>
     ma_list_display := [''variant'', ''warehouse'', ''on_hand'', ''reserved'', ''available'', ''is_low''],
     ma_list_filter := [''warehouse''],
     ma_search_fields := [''variant__sku'', ''variant__product__name'']\<rparr>"

definition StockMovementAdmin :: model_admin where
  "StockMovementAdmin = (plain_admin ''inventory.stockmovement'')\<lparr>
     ma_list_display := [''stock'', ''quantity'', ''reason'', ''reference'', ''created_at''],
     ma_list_filter := [''reason''],
     ma_search_fields := [''reference'', ''stock__variant__sku''],
     ma_date_hierarchy := Some ''created_at''\<rparr>"

subsection \<open>\<open>notifications/admin.py\<close>\<close>

definition NotificationAdmin :: model_admin where
  "NotificationAdmin = (plain_admin ''notifications.notification'')\<lparr>
     ma_list_display := [''user'', ''channel'', ''template_code'', ''status'', ''created_at''],
     ma_list_filter := [''channel'', ''status''],
     ma_search_fields := [''user__email'', ''template_code'', ''title''],
     ma_readonly_fields := [''id'', ''created_at'', ''updated_at'', ''sent_at'', ''read_at'']\<rparr>"

subsection \<open>\<open>orders/admin.py\<close>\<close>

definition OrderItemInline :: model_inline where
  "OrderItemInline = (plain_inline ''orders.orderitem'')\<lparr>
     in_extra := 0,
     in_readonly_fields := [''variant'', ''sku'', ''name_snapshot'', ''quantity'', ''unit_price'',
       ''line_total'']\<rparr>"

definition OrderEventInline :: model_inline where
  "OrderEventInline = (plain_inline ''orders.orderevent'')\<lparr>
     in_extra := 0,
     in_readonly_fields := [''code'', ''message'', ''actor'', ''payload'', ''created_at''],
     in_can_delete := False\<rparr>"

definition OrderAdmin :: model_admin where
  "OrderAdmin = (plain_admin ''orders.order'')\<lparr>
     ma_list_display := [''number'', ''user'', ''status'', ''grand_total'', ''currency'',
       ''payment_provider'', ''created_at''],
     ma_list_filter := [''status'', ''currency'', ''payment_provider''],
     ma_search_fields := [''number'', ''user__email'', ''email_snapshot'', ''payment_reference''],
     ma_date_hierarchy := Some ''created_at'',
     ma_readonly_fields := [''id'', ''number'', ''subtotal'', ''shipping_total'', ''tax_total'',
       ''discount_total'', ''grand_total'', ''paid_at'', ''cancelled_at'', ''refunded_at'',
       ''created_at'', ''updated_at''],
     ma_inlines := [OrderItemInline, OrderEventInline]\<rparr>"

definition OrderEventAdmin :: model_admin where
  "OrderEventAdmin = (plain_admin ''orders.orderevent'')\<lparr>
     ma_list_display := [''order'', ''code'', ''actor'', ''created_at''],
     ma_list_filter := [''code''],
     ma_search_fields := [''order__number'', ''code'', ''message'']\<rparr>"

subsection \<open>\<open>payments/admin.py\<close>\<close>

definition PaymentAdmin :: model_admin where
  "PaymentAdmin = (plain_admin ''payments.payment'')\<lparr>
     ma_list_display := [''order'', ''provider'', ''status'', ''amount'', ''currency'', ''created_at''],
     ma_list_filter := [''provider'', ''status'', ''currency''],
     ma_search_fields := [''order__number'', ''provider_reference'', ''provider_intent_id''],
     ma_readonly_fields := [''id'', ''created_at'', ''updated_at'', ''raw_request'', ''raw_response'',
       ''error''],
     ma_date_hierarchy := Some ''created_at''\<rparr>"

definition RefundAdmin :: model_admin where
  "RefundAdmin = (plain_admin ''payments.refund'')\<lparr>
     ma_list_display := [''payment'', ''amount'', ''reason'', ''created_at''],
     ma_search_fields := [''payment__provider_reference'', ''provider_reference'']\<rparr>"

subsection \<open>\<open>reviews/admin.py\<close>\<close>

definition ReviewAdmin :: model_admin where
  "ReviewAdmin = (plain_admin ''reviews.review'')\<lparr>
     ma_list_display := [''product'', ''user'', ''rating'', ''status'', ''created_at''],
     ma_list_filter := [''status'', ''rating''],
     ma_search_fields := [''product__name'', ''user__email'', ''title''],
     ma_actions := [''approve'', ''reject'']\<rparr>"

subsection \<open>\<open>shipping/admin.py\<close>\<close>

definition ShippingMethodAdmin :: model_admin where
  "ShippingMethodAdmin = (plain_admin ''shipping.shippingmethod'')\<lparr>
     ma_list_display := [''code'', ''name'', ''flat_rate'', ''is_active'', ''eta_days_min'',
       ''eta_days_max''],
     ma_list_filter := [''is_active'']\<rparr>"

definition ShipmentAdmin :: model_admin where
  "ShipmentAdmin = (plain_admin ''shipping.shipment'')\<lparr>
     ma_list_display := [''order'', ''courier'', ''tracking_number'', ''status'', ''eta'', ''delivered_at''],
     ma_list_filter := [''status'', ''courier''],
     ma_search_fields := [''order__number'', ''tracking_number'', ''courier'']\<rparr>"

subsection \<open>\<open>users/admin.py\<close>\<close>

definition RoleAdmin :: model_admin where
  "RoleAdmin = (plain_admin ''users.role'')\<lparr>
     ma_list_display := [''code'', ''name'', ''is_system'', ''created_at''],
     ma_list_filter := [''is_system''],
     ma_search_fields := [''code'', ''name''],
     ma_readonly_fields := [''id'', ''created_at'', ''updated_at'']\<rparr>"

definition UserAdmin :: model_admin where
  "UserAdmin = (plain_admin ''users.user'')\<lparr>
     ma_list_display := [''email'', ''first_name'', ''last_name'', ''is_staff'', ''is_active'',
       ''created_at''],
     ma_list_filter := [''is_staff'', ''is_active'', ''is_superuser'', ''roles''],
     ma_search_fields := [''email'', ''first_name'', ''last_name'', ''phone''],
     ma_ordering := [''-created_at''],
     ma_filter_horizontal := [''roles'', ''groups'', ''user_permissions''],
     ma_readonly_fields := [''id'', ''last_login'', ''created_at'', ''updated_at'', ''email_verified_at'',
       ''phone_verified_at''],
     ma_fieldsets := Some [[''id'', ''email'', ''password''], [''first_name'', ''last_name'', ''phone''],
       [''is_active'', ''is_staff'', ''is_superuser'', ''roles'', ''groups'', ''user_permissions''],
       [''email_verified_at'', ''phone_verified_at'', ''last_login_ip''], [''last_login'',
       ''created_at'', ''updated_at'']],
     ma_add_fields := [''email'', ''password1'', ''password2'']\<rparr>"

definition AddressAdmin :: model_admin where
  "AddressAdmin = (plain_admin ''users.address'')\<lparr>
     ma_list_display := [''user'', ''label'', ''kind'', ''city'', ''country'', ''is_default''],
     ma_list_filter := [''kind'', ''country'', ''is_default''],
     ma_search_fields := [''user__email'', ''full_name'', ''city'', ''street''],
     ma_readonly_fields := [''id'', ''created_at'', ''updated_at'']\<rparr>"

definition WishlistAdmin :: model_admin where
  "WishlistAdmin = (plain_admin ''users.wishlist'')\<lparr>
     ma_list_display := [''user'', ''created_at''],
     ma_readonly_fields := [''id'', ''created_at'', ''updated_at'']\<rparr>"

text \<open>What \<open>@admin.register\<close> put on the site.\<close>

definition registered_admins :: "model_admin list" where
  "registered_admins = [DailySalesSnapshotAdmin, AuditLogAdmin, CartAdmin, BrandAdmin, CategoryAdmin, AttributeAdmin,
     AttributeOptionAdmin, ProductAdmin, ProductVariantAdmin, CouponAdmin, WarehouseAdmin, StockAdmin,
     StockMovementAdmin, NotificationAdmin, OrderAdmin, OrderEventAdmin, PaymentAdmin, RefundAdmin,
     ReviewAdmin, ShippingMethodAdmin, ShipmentAdmin, RoleAdmin, UserAdmin, AddressAdmin, WishlistAdmin]"

text \<open>Reverse accessors (\<open>related_name\<close>): the model that has it, its name, the model it leads to.\<close>

definition related_names :: "(string \<times> string \<times> string) list" where
  "related_names =
     [(''users.user'', ''audit_logs'', ''audit.auditlog''),
      (''users.user'', ''carts'', ''cart.cart''),
      (''coupons.coupon'', ''carts'', ''cart.cart''),
      (''cart.cart'', ''items'', ''cart.cartitem''),
      (''catalog.productvariant'', ''cart_items'', ''cart.cartitem''),
      (''catalog.category'', ''children'', ''catalog.category''),
      (''catalog.attribute'', ''options'', ''catalog.attributeoption''),
      (''catalog.brand'', ''products'', ''catalog.product''),
      (''catalog.category'', ''products'', ''catalog.product''),
      (''catalog.attribute'', ''products'', ''catalog.product''),
      (''catalog.product'', ''variants'', ''catalog.productvariant''),
      (''catalog.product'', ''images'', ''catalog.productimage''),
      (''catalog.productvariant'', ''images'', ''catalog.productimage''),
      (''catalog.productvariant'', ''stocks'', ''inventory.stock''),
      (''inventory.warehouse'', ''stocks'', ''inventory.stock''),
      (''inventory.stock'', ''movements'', ''inventory.stockmovement''),
      (''users.user'', ''notifications'', ''notifications.notification''),
      (''users.user'', ''orders'', ''orders.order''),
      (''orders.order'', ''items'', ''orders.orderitem''),
      (''catalog.productvariant'', ''order_items'', ''orders.orderitem''),
      (''orders.order'', ''events'', ''orders.orderevent''),
      (''orders.order'', ''payments'', ''payments.payment''),
      (''payments.payment'', ''refunds'', ''payments.refund''),
      (''catalog.product'', ''reviews'', ''reviews.review''),
      (''users.user'', ''reviews'', ''reviews.review''),
      (''orders.order'', ''reviews'', ''reviews.review''),
      (''orders.order'', ''shipments'', ''shipping.shipment''),
      (''users.role'', ''users'', ''users.user''),
      (''users.user'', ''addresses'', ''users.address''),
      (''users.user'', ''wishlist'', ''users.wishlist''),
      (''catalog.product'', ''wishlists'', ''users.wishlist'')]"

text \<open>The properties of the models, which an admin may show like fields.\<close>

definition model_properties :: "(string \<times> string) list" where
  "model_properties =
     [(''cart.cartitem'', ''line_total''), (''catalog.productvariant'', ''discount_percent''),
      (''inventory.stock'', ''available''), (''inventory.stock'', ''is_low''),
      (''users.user'', ''full_name'')]"

section \<open>Names\<close>

text \<open>A lookup such as \<open>variant__product__name\<close> is a path of names.\<close>

fun lookup_path :: "string \<Rightarrow> string \<Rightarrow> string list" where
  "lookup_path acc (c # d # r) =
     (if c = CHR ''_'' \<and> d = CHR ''_'' then rev acc # lookup_path [] r else lookup_path (c # acc) (d # r))"
| "lookup_path acc r = [rev acc @ r]"

definition field_of :: "schema \<Rightarrow> string \<Rightarrow> string \<Rightarrow> column option" where
  "field_of s m f = (case map_of s m of None \<Rightarrow> None | Some st \<Rightarrow> map_of (columns st) f)"

definition reverse_of :: "string \<Rightarrow> string \<Rightarrow> string option" where
  "reverse_of m f =
     map_option (\<lambda>(_, _, t). t) (find (\<lambda>(a, n, _). a = m \<and> n = f) related_names)"

text \<open>The column a path ends at, through relations forward and backward.\<close>

fun follow :: "schema \<Rightarrow> string \<Rightarrow> string list \<Rightarrow> column option" where
  "follow s m [] = None"
| "follow s m [f] = field_of s m f"
| "follow s m (f # g # r) =
     (case (case field_of s m f of Some c \<Rightarrow> target (col_kind c) | None \<Rightarrow> reverse_of m f) of
        None \<Rightarrow> None
      | Some t \<Rightarrow> follow s t (g # r))"

fun many_to_many :: "column_kind \<Rightarrow> bool" where
  "many_to_many (ManyToManyField t) = True"
| "many_to_many k = False"

fun is_date :: "column_kind \<Rightarrow> bool" where
  "is_date DateField = True"
| "is_date (DateTimeField a) = True"
| "is_date k = False"

section \<open>Django's checks\<close>

definition has_property :: "string \<Rightarrow> string \<Rightarrow> bool" where
  "has_property m f \<longleftrightarrow> (m, f) \<in> set model_properties"

definition shown :: "schema \<Rightarrow> string \<Rightarrow> string \<Rightarrow> bool" where
  "shown s m f \<longleftrightarrow> f = ''__str__'' \<or> has_property m f \<or>
     (case field_of s m f of None \<Rightarrow> False | Some c \<Rightarrow> \<not> many_to_many (col_kind c))"

definition readable :: "schema \<Rightarrow> string \<Rightarrow> string \<Rightarrow> bool" where
  "readable s m f \<longleftrightarrow> has_property m f \<or> field_of s m f \<noteq> None"

definition searched :: "schema \<Rightarrow> string \<Rightarrow> string \<Rightarrow> bool" where
  "searched s m f \<longleftrightarrow>
     (case follow s m (lookup_path [] f) of None \<Rightarrow> False | Some c \<Rightarrow> target (col_kind c) = None)"

definition column_is :: "(column_kind \<Rightarrow> bool) \<Rightarrow> schema \<Rightarrow> string \<Rightarrow> string \<Rightarrow> bool" where
  "column_is p s m f \<longleftrightarrow> (case field_of s m f of None \<Rightarrow> False | Some c \<Rightarrow> p (col_kind c))"

text \<open>An inline needs one foreign key to its parent, and shows existing names.\<close>

definition parent_keys :: "schema \<Rightarrow> string \<Rightarrow> string \<Rightarrow> string list" where
  "parent_keys s child parent =
     (case map_of s child of None \<Rightarrow> []
      | Some st \<Rightarrow> map fst (filter (\<lambda>(n, c). \<not> many_to_many (col_kind c) \<and> target (col_kind c) = Some parent)
                              (columns st)))"

definition inline_ok :: "schema \<Rightarrow> string \<Rightarrow> model_inline \<Rightarrow> bool" where
  "inline_ok s parent i \<longleftrightarrow> length (parent_keys s (in_model i) parent) = 1 \<and>
     list_all (readable s (in_model i)) (in_readonly_fields i) \<and>
     (case in_fields i of None \<Rightarrow> True
      | Some fs \<Rightarrow> distinct fs \<and> list_all (\<lambda>f. field_of s (in_model i) f \<noteq> None) fs)"

text \<open>The errors Django reports for an admin class, by its codes, with the name at fault.\<close>

definition failing :: "string \<Rightarrow> (string \<Rightarrow> bool) \<Rightarrow> string list \<Rightarrow> (string \<times> string) list" where
  "failing code p fs = map (\<lambda>f. (code, f)) (filter (\<lambda>f. \<not> p f) fs)"

definition admin_errors :: "schema \<Rightarrow> model_admin list \<Rightarrow> model_admin \<Rightarrow> (string \<times> string) list" where
  "admin_errors s site a =
     (let m = ma_model a in
      failing ''admin.E108'' (shown s m) (ma_list_display a) @
      failing ''admin.E116'' (\<lambda>f. follow s m (lookup_path [] f) \<noteq> None) (ma_list_filter a) @
      failing ''search'' (searched s m) (ma_search_fields a) @
      failing ''admin.E035'' (readable s m) (ma_readonly_fields a) @
      failing ''admin.E027'' (\<lambda>f. field_of s m f \<noteq> None)
        (concat (map (\<lambda>(f, fs). f # fs) (ma_prepopulated_fields a))) @
      failing ''admin.E038'' (column_is (\<lambda>k. target k \<noteq> None) s m) (ma_autocomplete_fields a) @
      failing ''admin.E040''
        (\<lambda>f. case field_of s m f of None \<Rightarrow> False
              | Some c \<Rightarrow> list_ex (\<lambda>b. target (col_kind c) = Some (ma_model b) \<and> ma_search_fields b \<noteq> []) site)
        (ma_autocomplete_fields a) @
      failing ''admin.E020'' (column_is many_to_many s m) (ma_filter_horizontal a) @
      failing ''admin.E033'' (\<lambda>f. field_of s m (plain_name f) \<noteq> None) (ma_ordering a) @
      failing ''admin.E127'' (column_is is_date s m) (case ma_date_hierarchy a of None \<Rightarrow> [] | Some f \<Rightarrow> [f]) @
      failing ''admin.E202'' (\<lambda>c. list_all (\<lambda>i. in_model i = c \<longrightarrow> inline_ok s m i) (ma_inlines a))
        (map in_model (ma_inlines a)) @
      (case ma_fieldsets a of None \<Rightarrow> []
       | Some fss \<Rightarrow> failing ''admin.E012'' (\<lambda>f. count_list (concat fss) f = 1 \<and> readable s m f) (concat fss)))"

section \<open>What a form can write\<close>

text \<open>
  The columns a change form has inputs for: those of the fieldsets, or all, except keys, automatic
  times and what is read only. (\<open>deleted_at\<close> is neither.)
\<close>

fun automatic :: "column_kind \<Rightarrow> bool" where
  "automatic (DateTimeField AutoNow) = True"
| "automatic (DateTimeField AutoNowAdd) = True"
| "automatic k = False"

definition editable :: "column \<Rightarrow> bool" where
  "editable c \<longleftrightarrow> \<not> col_primary c \<and> \<not> automatic (col_kind c)"

definition editable_fields :: "schema \<Rightarrow> string \<Rightarrow> string list" where
  "editable_fields s m =
     (case map_of s m of None \<Rightarrow> [] | Some st \<Rightarrow> map fst (filter (\<lambda>(n, c). editable c) (columns st)))"

definition form_fields :: "schema \<Rightarrow> model_admin \<Rightarrow> string list" where
  "form_fields s a =
     (if \<not> ma_has_change_permission a then []
      else filter (\<lambda>f. f \<notin> set (ma_readonly_fields a))
             (case ma_fieldsets a of None \<Rightarrow> editable_fields s (ma_model a)
              | Some fss \<Rightarrow> filter (\<lambda>f. f \<in> set (editable_fields s (ma_model a))) (concat fss)))"

definition inline_fields :: "schema \<Rightarrow> string \<Rightarrow> model_inline \<Rightarrow> string list" where
  "inline_fields s parent i =
     filter (\<lambda>f. f \<notin> set (in_readonly_fields i) \<and> f \<notin> set (parent_keys s (in_model i) parent))
       (case in_fields i of None \<Rightarrow> editable_fields s (in_model i) | Some fs \<Rightarrow> fs)"

section \<open>Looking up in the declared models\<close>

definition declared :: schema where
  "declared = declared_models django_auth_columns"

lemma col_kind_simps [simp]:
  "col_kind (column k) = k" "col_kind (nullable c) = col_kind c" "col_kind (Schema.unique c) = col_kind c"
  "col_kind (indexed c) = col_kind c" "col_kind (primary c) = col_kind c"
  "col_kind (default_to d c) = col_kind c" "col_kind (choices vs c) = col_kind c"
  by (simp_all add: column_def nullable_def unique_def indexed_def primary_def default_to_def choices_def)

lemma col_primary_simps [simp]:
  "\<not> col_primary (column k)" "col_primary (nullable c) = col_primary c"
  "col_primary (Schema.unique c) = col_primary c" "col_primary (indexed c) = col_primary c" "col_primary (primary c)"
  "col_primary (default_to d c) = col_primary c" "col_primary (choices vs c) = col_primary c"
  by (simp_all add: column_def nullable_def unique_def indexed_def primary_def default_to_def choices_def)

lemma declared_lookup:
  "map_of declared ''analytics.dailysalessnapshot'' = Some DailySalesSnapshot_model"
  "map_of declared ''audit.auditlog'' = Some AuditLog_model"
  "map_of declared ''cart.cart'' = Some Cart_model"
  "map_of declared ''cart.cartitem'' = Some CartItem_model"
  "map_of declared ''catalog.brand'' = Some Brand_model"
  "map_of declared ''catalog.category'' = Some Category_model"
  "map_of declared ''catalog.attribute'' = Some Attribute_model"
  "map_of declared ''catalog.attributeoption'' = Some AttributeOption_model"
  "map_of declared ''catalog.product'' = Some Product_model"
  "map_of declared ''catalog.productvariant'' = Some ProductVariant_model"
  "map_of declared ''catalog.productimage'' = Some ProductImage_model"
  "map_of declared ''coupons.coupon'' = Some Coupon_model"
  "map_of declared ''inventory.warehouse'' = Some Warehouse_model"
  "map_of declared ''inventory.stock'' = Some Stock_model"
  "map_of declared ''inventory.stockmovement'' = Some StockMovement_model"
  "map_of declared ''notifications.notification'' = Some Notification_model"
  "map_of declared ''orders.order'' = Some Order_model"
  "map_of declared ''orders.orderitem'' = Some OrderItem_model"
  "map_of declared ''orders.orderevent'' = Some OrderEvent_model"
  "map_of declared ''payments.payment'' = Some Payment_model"
  "map_of declared ''payments.refund'' = Some Refund_model"
  "map_of declared ''reviews.review'' = Some Review_model"
  "map_of declared ''shipping.shippingmethod'' = Some ShippingMethod_model"
  "map_of declared ''shipping.shipment'' = Some Shipment_model"
  "map_of declared ''users.role'' = Some Role_model"
  "map_of declared ''users.user'' = Some (User_model django_auth_columns)"
  "map_of declared ''users.address'' = Some Address_model"
  "map_of declared ''users.wishlist'' = Some Wishlist_model"
  by (simp_all add: declared_def declared_models_def)

lemmas column_lists =
  base_columns_def key_column_def timestamp_columns_def soft_delete_column_def django_auth_columns_def
  DailySalesSnapshot_model_def AuditLog_model_def Cart_model_def CartItem_model_def Brand_model_def
  Category_model_def Attribute_model_def AttributeOption_model_def Product_model_def
  ProductVariant_model_def ProductImage_model_def Coupon_model_def Warehouse_model_def Stock_model_def
  StockMovement_model_def Notification_model_def Order_model_def OrderItem_model_def
  OrderEvent_model_def Payment_model_def Refund_model_def Review_model_def ShippingMethod_model_def
  Shipment_model_def Role_model_def User_model_def Address_model_def Wishlist_model_def

lemmas check_defs =
  admin_errors_def Let_def failing_def plain_admin_def plain_inline_def shown_def readable_def searched_def
  column_is_def has_property_def model_properties_def field_of_def reverse_of_def related_names_def
  inline_ok_def parent_keys_def declared_lookup column_lists

lemma analytics_admins_ok:
  "admin_errors declared registered_admins DailySalesSnapshotAdmin = []"
  by (simp_all add: check_defs DailySalesSnapshotAdmin_def)

lemma audit_admins_ok:
  "admin_errors declared registered_admins AuditLogAdmin = []"
  by (simp_all add: check_defs AuditLogAdmin_def)

lemma cart_admins_ok:
  "admin_errors declared registered_admins CartAdmin = []"
  by (simp_all add: check_defs CartAdmin_def CartItemInline_def)

lemma searchable_target:
  "a \<in> set registered_admins \<Longrightarrow> ma_model a = m \<Longrightarrow> ma_search_fields a \<noteq> [] \<Longrightarrow>
     list_ex (\<lambda>b. m = ma_model b \<and> ma_search_fields b \<noteq> []) registered_admins"
  by (auto simp: list_ex_iff)

lemma category_searchable:
  "list_ex (\<lambda>b. ''catalog.category'' = ma_model b \<and> ma_search_fields b \<noteq> []) registered_admins"
  by (rule searchable_target [of CategoryAdmin])
    (simp add: registered_admins_def, simp_all add: CategoryAdmin_def plain_admin_def)

lemma brand_searchable:
  "list_ex (\<lambda>b. ''catalog.brand'' = ma_model b \<and> ma_search_fields b \<noteq> []) registered_admins"
  by (rule searchable_target [of BrandAdmin])
    (simp add: registered_admins_def, simp_all add: BrandAdmin_def plain_admin_def)

lemma catalog_admins_ok:
  "admin_errors declared registered_admins BrandAdmin = []"
  "admin_errors declared registered_admins CategoryAdmin = []"
  "admin_errors declared registered_admins AttributeAdmin = []"
  "admin_errors declared registered_admins AttributeOptionAdmin = []"
  "admin_errors declared registered_admins ProductAdmin = []"
  "admin_errors declared registered_admins ProductVariantAdmin = []"
  by (simp_all add: check_defs category_searchable brand_searchable BrandAdmin_def CategoryAdmin_def AttributeAdmin_def AttributeOptionAdmin_def ProductAdmin_def ProductVariantAdmin_def ProductVariantInline_def ProductImageInline_def)

lemma coupons_admins_ok:
  "admin_errors declared registered_admins CouponAdmin = []"
  by (simp_all add: check_defs CouponAdmin_def)

lemma inventory_admins_ok:
  "admin_errors declared registered_admins WarehouseAdmin = []"
  "admin_errors declared registered_admins StockAdmin = []"
  "admin_errors declared registered_admins StockMovementAdmin = []"
  by (simp_all add: check_defs WarehouseAdmin_def StockAdmin_def StockMovementAdmin_def)

lemma notifications_admins_ok:
  "admin_errors declared registered_admins NotificationAdmin = []"
  by (simp_all add: check_defs NotificationAdmin_def)

lemma orders_admins_ok:
  "admin_errors declared registered_admins OrderAdmin = []"
  "admin_errors declared registered_admins OrderEventAdmin = []"
  by (simp_all add: check_defs OrderAdmin_def OrderEventAdmin_def OrderItemInline_def OrderEventInline_def)

lemma payments_admins_ok:
  "admin_errors declared registered_admins PaymentAdmin = []"
  "admin_errors declared registered_admins RefundAdmin = []"
  by (simp_all add: check_defs PaymentAdmin_def RefundAdmin_def)

lemma reviews_admins_ok:
  "admin_errors declared registered_admins ReviewAdmin = []"
  by (simp_all add: check_defs ReviewAdmin_def)

lemma shipping_admins_ok:
  "admin_errors declared registered_admins ShippingMethodAdmin = []"
  "admin_errors declared registered_admins ShipmentAdmin = []"
  by (simp_all add: check_defs ShippingMethodAdmin_def ShipmentAdmin_def)

lemma users_admins_ok:
  "admin_errors declared registered_admins RoleAdmin = []"
  "admin_errors declared registered_admins UserAdmin = []"
  "admin_errors declared registered_admins AddressAdmin = []"
  "admin_errors declared registered_admins WishlistAdmin = []"
  by (simp_all add: check_defs RoleAdmin_def UserAdmin_def AddressAdmin_def WishlistAdmin_def)

text \<open>The forms of the tables whose columns the services maintain.\<close>

lemmas form_defs =
  form_fields_def editable_fields_def editable_def inline_fields_def parent_keys_def plain_admin_def
  plain_inline_def declared_lookup column_lists

lemma order_form:
  "form_fields declared OrderAdmin =
     [''deleted_at'', ''user'', ''email_snapshot'', ''phone_snapshot'', ''status'', ''currency'',
      ''coupon_code'', ''shipping_address'', ''billing_address'', ''payment_provider'',
      ''payment_reference'', ''notes_internal'', ''notes_customer'', ''metadata'']"
  by (simp add: form_defs OrderAdmin_def)

lemma order_inline_forms:
  "inline_fields declared ''orders.order'' OrderItemInline = [''deleted_at'', ''attributes_snapshot'']"
  "inline_fields declared ''orders.order'' OrderEventInline = [''deleted_at'']"
  by (simp_all add: form_defs OrderItemInline_def OrderEventInline_def)

lemma stock_form:
  "form_fields declared StockAdmin =
     [''deleted_at'', ''variant'', ''warehouse'', ''on_hand'', ''reserved'', ''safety_buffer'',
      ''low_stock_threshold'']"
  by (simp add: form_defs StockAdmin_def)

lemma payment_form:
  "form_fields declared PaymentAdmin =
     [''deleted_at'', ''order'', ''provider'', ''status'', ''amount'', ''currency'',
      ''provider_reference'', ''provider_intent_id'', ''redirect_url'']"
  by (simp add: form_defs PaymentAdmin_def)

lemma audit_form: "form_fields declared AuditLogAdmin = []"
  by (simp add: form_fields_def AuditLogAdmin_def)

section \<open>Properties\<close>

lemmas config_defs =
  app_configs_def AnalyticsConfig_def AuditConfig_def CartConfig_def CatalogConfig_def CheckoutConfig_def CoreConfig_def
  CouponsConfig_def InventoryConfig_def NotificationsConfig_def OrdersConfig_def PaymentsConfig_def
  ReviewsConfig_def ShippingConfig_def UsersConfig_def

lemma migration_apps:
  "mg_app analytics_0001 = ''analytics''"
  "mg_app audit_0001 = ''audit''"
  "mg_app audit_0002 = ''audit''"
  "mg_app cart_0001 = ''cart''"
  "mg_app cart_0002 = ''cart''"
  "mg_app catalog_0001 = ''catalog''"
  "mg_app coupons_0001 = ''coupons''"
  "mg_app inventory_0001 = ''inventory''"
  "mg_app notifications_0001 = ''notifications''"
  "mg_app notifications_0002 = ''notifications''"
  "mg_app orders_0001 = ''orders''"
  "mg_app orders_0002 = ''orders''"
  "mg_app payments_0001 = ''payments''"
  "mg_app reviews_0001 = ''reviews''"
  "mg_app reviews_0002 = ''reviews''"
  "mg_app shipping_0001 = ''shipping''"
  "mg_app users_0001 = ''users''"
  by (simp_all add: analytics_0001_def audit_0001_def audit_0002_def cart_0001_def cart_0002_def catalog_0001_def coupons_0001_def inventory_0001_def notifications_0001_def notifications_0002_def orders_0001_def orders_0002_def payments_0001_def reviews_0001_def reviews_0002_def shipping_0001_def users_0001_def)

lemma admin_models:
  "ma_model DailySalesSnapshotAdmin = ''analytics.dailysalessnapshot''"
  "ma_model AuditLogAdmin = ''audit.auditlog''"
  "ma_model CartAdmin = ''cart.cart''"
  "ma_model BrandAdmin = ''catalog.brand''"
  "ma_model CategoryAdmin = ''catalog.category''"
  "ma_model AttributeAdmin = ''catalog.attribute''"
  "ma_model AttributeOptionAdmin = ''catalog.attributeoption''"
  "ma_model ProductAdmin = ''catalog.product''"
  "ma_model ProductVariantAdmin = ''catalog.productvariant''"
  "ma_model CouponAdmin = ''coupons.coupon''"
  "ma_model WarehouseAdmin = ''inventory.warehouse''"
  "ma_model StockAdmin = ''inventory.stock''"
  "ma_model StockMovementAdmin = ''inventory.stockmovement''"
  "ma_model NotificationAdmin = ''notifications.notification''"
  "ma_model OrderAdmin = ''orders.order''"
  "ma_model OrderEventAdmin = ''orders.orderevent''"
  "ma_model PaymentAdmin = ''payments.payment''"
  "ma_model RefundAdmin = ''payments.refund''"
  "ma_model ReviewAdmin = ''reviews.review''"
  "ma_model ShippingMethodAdmin = ''shipping.shippingmethod''"
  "ma_model ShipmentAdmin = ''shipping.shipment''"
  "ma_model RoleAdmin = ''users.role''"
  "ma_model UserAdmin = ''users.user''"
  "ma_model AddressAdmin = ''users.address''"
  "ma_model WishlistAdmin = ''users.wishlist''"
  by (simp_all add: plain_admin_def DailySalesSnapshotAdmin_def AuditLogAdmin_def CartAdmin_def BrandAdmin_def CategoryAdmin_def AttributeAdmin_def AttributeOptionAdmin_def ProductAdmin_def ProductVariantAdmin_def CouponAdmin_def WarehouseAdmin_def StockAdmin_def StockMovementAdmin_def NotificationAdmin_def OrderAdmin_def OrderEventAdmin_def PaymentAdmin_def RefundAdmin_def ReviewAdmin_def ShippingMethodAdmin_def ShipmentAdmin_def RoleAdmin_def UserAdmin_def AddressAdmin_def WishlistAdmin_def)

text \<open>
  Django's start-up checks pass. Each of the project's applications is installed once, under the label the
  models and migrations use, and for every registered admin site all columns, properties, relation
  paths, search paths, date columns, inlines and autocompleted relations it names exist in the declared
  tables, with the kind each option needs.
\<close>

theorem start_up_checks_pass:
  "mset (map ac_name app_configs) = mset LOCAL_APPS \<and>
   list_all (\<lambda>c. ac_name c = ''apps.'' @ ac_label c) app_configs \<and> distinct (map ac_label app_configs) \<and>
   list_all (\<lambda>mg. list_ex (\<lambda>c. ac_label c = mg_app mg) app_configs) migrations \<and>
   distinct (map ma_model registered_admins) \<and>
   list_all (\<lambda>a. admin_errors (declared_models django_auth_columns) registered_admins a = []) registered_admins"
proof (intro conjI)
  show "mset (map ac_name app_configs) = mset LOCAL_APPS" by (simp add: config_defs LOCAL_APPS_def)
  show "list_all (\<lambda>c. ac_name c = ''apps.'' @ ac_label c) app_configs" "distinct (map ac_label app_configs)"
    by (simp_all add: config_defs)
  show "list_all (\<lambda>mg. list_ex (\<lambda>c. ac_label c = mg_app mg) app_configs) migrations"
    by (simp add: config_defs migrations_def migration_apps)
  show "distinct (map ma_model registered_admins)" by (simp add: registered_admins_def admin_models)
  show "list_all (\<lambda>a. admin_errors (declared_models django_auth_columns) registered_admins a = []) registered_admins"
    unfolding declared_def [symmetric] list_all_iff registered_admins_def [THEN arg_cong [of _ _ set]]
    by (simp add: analytics_admins_ok audit_admins_ok cart_admins_ok catalog_admins_ok coupons_admins_ok inventory_admins_ok notifications_admins_ok orders_admins_ok payments_admins_ok reviews_admins_ok shipping_admins_ok users_admins_ok)
qed

end
