(* ===== verification/Isolation.thy ===== *)
theory Isolation
  imports Orders
begin

text \<open>
  Concurrent requests. \<open>orders/services.py\<close> and \<open>cart/services.py\<close> run under \<open>@transaction.atomic\<close> on
  PostgreSQL's READ COMMITTED: a statement reads the last committed state when it starts, and only
  rows taken with \<open>select_for_update\<close> are held still. Stock rows, coupons and orders are taken that
  way; a cart and its items are not. So what the services do to the ledger holds for every
  interleaving (\<open>rc_run\<close>), and what they do to a cart does not.
\<close>

section \<open>Committed states\<close>

text \<open>
  The committed states of a run, newest first. A checkout may have read any of them before it
  commits on the newest. A transition works on locked rows, so it acts on the newest state. Cart and
  catalogue tables may be written in any way. The locks are held until the commit, so the stock a
  checkout finds line by line is that of the state it commits on; only the order in which it visits the
  rows of one variant can be older, and nothing below depends on it.
\<close>

inductive rc_run :: "shop list \<Rightarrow> bool" where
  rc_start: "rc_run [db]"
| rc_checkout: "rc_run (db # past) \<Longrightarrow> {seen0, seen1, seen2} \<subseteq> set (db # past) \<Longrightarrow>
    checkout_over now number c usr p seen0 seen1 seen2 db = Inr (o', db') \<Longrightarrow> rc_run (db' # db # past)"
| rc_status: "rc_run (db # past) \<Longrightarrow> transition_status now k new actor msg db = Inr (o', db') \<Longrightarrow>
    o0 \<in> set (orders db) \<Longrightarrow> pk o0 = k \<Longrightarrow> new \<noteq> CANCELLED \<or> od_status o0 = PENDING \<Longrightarrow>
    rc_run (db' # db # past)"
| rc_restock: "rc_run (db # past) \<Longrightarrow> adjust_stock now fk v code delta txt (stock_db db) = Inr (s, stk) \<Longrightarrow>
    0 \<le> delta \<Longrightarrow> rc_run (db\<lparr>stock_db := stk\<rparr> # db # past)"
| rc_write: "rc_run (db # past) \<Longrightarrow> rc_run (db\<lparr>cart_db := cs, catalog_db := cat\<rparr> # db # past)"

inductive_cases rc_run_nilE: "rc_run []"

definition ledger_matches :: "shop \<Rightarrow> bool" where
  "ledger_matches db \<longleftrightarrow> ledger_ok db \<and> reservations_match db"

lemma shop_ok_matches: "shop_ok db \<Longrightarrow> reservations_match db \<Longrightarrow> ledger_matches db"
  by (simp add: ledger_matches_def shop_ok_ledger)

lemma clear_cart_items: "items_of (pk c) (clear_cart now c cs) = []"
  by (auto simp: clear_cart_def qs_delete_def items_of_def filter_empty_conv table_simps qs_alive_def
      is_alive_def split: if_splits)

lemma checkout_over_demand:
  assumes "linked db" "checkout_over now number c usr p seen0 seen1 seen2 db = Inr (o', db')"
  shows "pending_demand v db' = pending_demand v db + demand v (cart_lines (items_of (pk c) (cart_db seen2)))"
  using assms(2)
proof (cases rule: checkout_over_Inr)
  case (1 coupon new)
  have "pk o' = fresh_pk (orders db)" "is_alive o'" "od_status o' = PENDING" using 1 by simp_all
  from pending_demand_new_order [OF assms(1) 1(7,8) this 1(11)] 1(10) show ?thesis by simp
qed

lemma ledger_checkout_ok:
  assumes "ledger_ok db" "checkout_over now number c usr p seen0 seen1 seen2 db = Inr (o', db')"
  shows "ledger_ok db'"
  using assms(2)
proof (cases rule: checkout_over_Inr)
  case (1 coupon new)
  have ok: "sound_inventory (stock_db db)" "linked db" using assms(1) by (simp_all add: ledger_ok_def)
  have "0 < oi_quantity r" if "r \<in> set new" for r
  proof -
    have "oi_quantity r \<in> set (map ci_quantity (items_of (pk c) (cart_db seen2)))"
      using that unfolding 1(12) [symmetric] by simp
    then show ?thesis using ledger.reserve_lines_positive [OF 1(6)] by (auto simp: cart_lines_def)
  qed
  then have "linked db'"
    using ok(2) 1(3,7,8,11) distinct_pks_append_fresh [of "orders db" o']
    by (auto simp: linked_def list_all_iff)
  then show ?thesis using ledger.reserve_lines [OF ok(1) 1(6)] by (simp add: ledger_ok_def)
qed

lemma checkout_over_matches:
  assumes "ledger_matches db" "checkout_over now number c usr p seen0 seen1 seen2 db = Inr (o', db')"
  shows "ledger_matches db'"
  using assms(2)
proof (cases rule: checkout_over_Inr)
  case (1 coupon new)
  have ok: "ledger_ok db" "linked db" "sound_inventory (stock_db db)" "reservations_match db"
    using assms(1) by (simp_all add: ledger_matches_def ledger_ok_def)
  then show ?thesis
    using ledger.reserve_lines [OF ok(3) 1(6)] checkout_over_demand [OF ok(2) assms(2)]
      ledger_checkout_ok [OF ok(1) assms(2)]
    by (simp add: ledger_matches_def reservations_match_def)
qed

lemma ledger_matches_frame:
  assumes "ledger_matches db" "orders db' = orders db" "order_items db' = order_items db"
    and "sound_inventory (stock_db db')" "\<forall>v. total_reserved v (stock_db db') = total_reserved v (stock_db db)"
  shows "ledger_matches db'"
  using assms
  by (simp add: ledger_matches_def ledger_ok_def linked_def reservations_match_def pending_demand_def)

lemma ledger_matches_status:
  assumes "ledger_matches db" "transition_status now k new actor msg db = Inr (o', db')"
    and "o0 \<in> set (orders db)" "pk o0 = k" "new \<noteq> CANCELLED \<or> od_status o0 = PENDING"
  shows "ledger_matches db'"
  using ledger_transition_ok [OF _ assms(2)] ledger_transition_matches [OF _ _ assms(2-5)] assms(1)
  by (simp add: ledger_matches_def)

lemma ledger_matches_restock:
  assumes "ledger_matches db" "adjust_stock now fk v code delta txt (stock_db db) = Inr (s, stk)" "0 \<le> delta"
  shows "ledger_matches (db\<lparr>stock_db := stk\<rparr>)"
proof (rule ledger_matches_frame [OF assms(1)])
  have s: "inventory_ok (stock_db db)" "no_deficit (stock_db db)"
    using assms(1) by (simp_all add: ledger_matches_def ledger_ok_def sound_inventory_def)
  show "sound_inventory (stock_db (db\<lparr>stock_db := stk\<rparr>))"
    using adjust_stock_keeps(1,2) [OF s(1) assms(2)] assms(3) s(2) by (simp add: sound_inventory_def)
  show "\<forall>w. total_reserved w (stock_db (db\<lparr>stock_db := stk\<rparr>)) = total_reserved w (stock_db db)"
    using adjust_stock_reserved [OF s(1) assms(2)] by simp
qed simp_all

lemma ledger_matches_write:
  "ledger_matches db \<Longrightarrow> ledger_matches (db\<lparr>cart_db := cs, catalog_db := cat\<rparr>)"
  by (rule ledger_matches_frame [of db]) (simp_all add: ledger_matches_def ledger_ok_def)

lemma all_states_step:
  assumes "P (last (y # xs)) \<Longrightarrow> \<forall>x \<in> set (y # xs). P x" "P (last (z # y # xs))" "P y \<Longrightarrow> P z"
  shows "\<forall>x \<in> set (z # y # xs). P x"
proof -
  have "last (z # y # xs) = last (y # xs)" by simp
  then have all: "\<forall>x \<in> set (y # xs). P x" using assms(1,2) by metis
  then show ?thesis using assms(3) by simp
qed

lemma rc_run_matches:
  assumes "rc_run h" "ledger_matches (last h)"
  shows "\<forall>db \<in> set h. ledger_matches db"
  using assms
proof (induction rule: rc_run.induct)
  case (rc_checkout db past seen0 seen1 seen2 now number c usr p o' db')
  show ?case
    by (rule all_states_step [OF rc_checkout.IH rc_checkout.prems checkout_over_matches [OF _ rc_checkout.hyps(3)]])
next
  case (rc_status db past now k new actor msg o' db' o0)
  show ?case
    by (rule all_states_step [OF rc_status.IH rc_status.prems ledger_matches_status [OF _ rc_status.hyps(2-5)]])
next
  case (rc_restock db past now fk v cd delta nt s stk)
  show ?case
    by (rule all_states_step [OF rc_restock.IH rc_restock.prems ledger_matches_restock [OF _ rc_restock.hyps(2,3)]])
next
  case (rc_write db past cs cat)
  show ?case by (rule all_states_step [OF rc_write.IH rc_write.prems ledger_matches_write])
qed simp

lemma interleaved_exact:
  assumes "ledger_ok db" "checkout_over now number c usr p seen0 seen1 seen2 db = Inr (o', db')"
  shows "orders db' = orders db @ [o'] \<and> od_subtotal o' = subtotal c (cart_db seen1) \<and>
    lines_of (pk o') (order_items db') = cart_lines (items_of (pk c) (cart_db seen2)) \<and>
    (\<forall>v. get_available v (stock_db db') = get_available v (stock_db db) - quantity_of (pk c) (cart_db seen2) v) \<and>
    (\<forall>v. total_reserved v (stock_db db') = total_reserved v (stock_db db) + quantity_of (pk c) (cart_db seen2) v) \<and>
    items_of (pk c) (cart_db db') = [] \<and> pk o' = fresh_pk (orders db)"
  using assms(2)
proof (cases rule: checkout_over_Inr)
  case (1 coupon new)
  have s: "sound_inventory (stock_db db)" and ok: "linked db" using assms(1) by (simp_all add: ledger_ok_def)
  have "lines_of (pk o') (order_items db') = cart_lines (items_of (pk c) (cart_db seen2))"
    using linked_no_lines_yet [OF ok] 1(3,8,10) by (simp add: lines_of_append)
  then show ?thesis
    using ledger.reserve_lines [OF s 1(6)] 1(3,7,13) clear_cart_items by (simp add: demand_cart_lines)
qed

section \<open>Two requests creating a cart\<close>

text \<open>
  \<open>get_or_create_cart\<close> whose lookup saw the carts of \<open>seen\<close>; the table has no unique key on the
  owner, so its insert into \<open>db\<close> goes through.
\<close>

definition get_or_create_cart_over ::
  "int \<Rightarrow> nat option \<Rightarrow> string \<Rightarrow> cart_store \<Rightarrow> cart_store \<Rightarrow> py_error + (cart \<times> cart_store)" where
  "get_or_create_cart_over now user session_key seen db =
     (if user = None \<and> session_key = '''' then Inl (ValueError ''session_key required for anonymous carts'')
      else case filter (owned_by user session_key) (objects (carts seen)) of
        [] \<Rightarrow> let c = new_cart now user (if user = None then session_key else '''') ''USD'' (fresh_pk (carts db)) in
              Inr (c, db\<lparr>carts := carts db @ [c]\<rparr>)
      | [c] \<Rightarrow> Inr (c, db)
      | _ \<Rightarrow> Inl (MultipleObjectsReturned ''Cart''))"

lemma get_or_create_cart_is_over:
  "get_or_create_cart now user key db = get_or_create_cart_over now user key db db"
proof (cases "user = None \<and> key = ''''")
  case False
  then have "user \<noteq> None \<or> key \<noteq> ''''" by auto
  note alt = get_or_create_cart_alt [OF this, of now db]
  show ?thesis
    using False
    by (cases "filter (owned_by user key) (objects (carts db))"; cases "tl (filter (owned_by user key) (objects (carts db)))")
      (auto simp: alt get_or_create_cart_over_def get_or_create_def Let_def)
qed (simp add: get_or_create_cart_def get_or_create_cart_over_def)

text \<open>No cart call removes or disowns a living cart of a user.\<close>

definition users_kept :: "cart list \<Rightarrow> cart list \<Rightarrow> bool" where
  "users_kept old new \<longleftrightarrow>
     (distinct_pks old \<longrightarrow> distinct_pks new) \<and>
     (\<forall>x \<in> set old. is_alive x \<longrightarrow> ct_user x \<noteq> None \<longrightarrow>
        (\<exists>y \<in> set new. pk y = pk x \<and> is_alive y \<and> ct_user y = ct_user x))"

lemma users_kept_refl: "users_kept tbl tbl"
  by (auto simp: users_kept_def)

lemma users_kept_trans: "users_kept a b \<Longrightarrow> users_kept b c \<Longrightarrow> users_kept a c"
  unfolding users_kept_def by metis

lemma users_kept_append: "pk x = fresh_pk tbl \<Longrightarrow> users_kept tbl (tbl @ [x])"
  by (auto simp: users_kept_def distinct_pks_append_fresh)

lemma users_kept_save:
  assumes "\<And>x. pk (f x) = pk x"
    "\<And>x. x \<in> set tbl \<Longrightarrow> pk x = k \<Longrightarrow> is_alive x \<Longrightarrow> ct_user x \<noteq> None \<Longrightarrow>
      is_alive (f x) \<and> ct_user (f x) = ct_user x"
  shows "users_kept tbl (save_row k f tbl)"
  unfolding users_kept_def
proof (intro conjI ballI impI)
  fix x assume x: "x \<in> set tbl" "is_alive x" "ct_user x \<noteq> None"
  let ?y = "if pk x = k then f x else x"
  have "?y \<in> set (save_row k f tbl)" unfolding set_save_row by (rule imageI [OF x(1)])
  with x assms(1) assms(2) [OF x(1)]
  show "\<exists>y \<in> set (save_row k f tbl). pk y = pk x \<and> is_alive y \<and> ct_user y = ct_user x"
    by (intro bexI [of _ ?y]) auto
qed (use assms(1) in \<open>simp add: distinct_pks_save_row\<close>)

lemma get_or_create_kept:
  assumes "get_or_create m q False mk tbl = Inr (r, b, tbl')" "\<And>k. pk (mk k) = k"
  shows "users_kept tbl tbl'"
  using assms users_kept_append [of "mk (fresh_pk tbl)" tbl]
  by (auto simp: get_or_create_def Let_def users_kept_refl split: list.splits)

lemma get_or_create_cart_kept:
  "get_or_create_cart now user key db = Inr (c, db') \<Longrightarrow> users_kept (carts db) (carts db')"
  by (auto simp: get_or_create_cart_def result_simps split: option.splits if_splits
      dest!: get_or_create_kept)

lemma merge_items_carts: "merge_items now cat uc its db = Inr db' \<Longrightarrow> carts db' = carts db"
proof (induction its arbitrary: db)
  case (Cons it its)
  then obtain mid where m: "merge_one now cat uc it db = Inr mid" "merge_items now cat uc its mid = Inr db'"
    by (auto simp: result_simps)
  obtain v where "variant_of it cat = Inr v" using m(1) by (auto simp: merge_one_def result_simps)
  then have "carts mid = carts db"
    using m(1) by (cases "filter (\<lambda>e. ci_variant e = pk v) (items_of (pk uc) db)")
      (auto simp: merge_one_def result_simps Let_def save_item_def split: if_splits)
  with Cons.IH [OF m(2)] show ?case by simp
qed simp

lemma merge_kept:
  assumes "distinct_pks (carts db)" "merge_anonymous_into_user now cat key user db = Inr (r, db')"
  shows "users_kept (carts db) (carts db')"
proof (cases "db' = db")
  case False
  with assms(2) obtain anon uc b tbl mid where
    a: "get_one ''Cart'' (\<lambda>c. ct_session_key c = key \<and> ct_user c = None) (carts db) = Inr anon"
    and g: "get_or_create ''Cart'' (\<lambda>c. ct_user c = Some user) False
              (new_cart now (Some user) '''' (ct_currency anon)) (carts db) = Inr (uc, b, tbl)"
    and m: "merge_items now cat uc (items_of (pk anon) db) (db\<lparr>carts := tbl\<rparr>) = Inr mid"
    and db': "carts db' = delete_row now (pk anon) (carts mid)"
    by (auto simp: merge_anonymous_into_user_def result_simps split: if_splits sum.splits py_error.splits)
  have k: "users_kept (carts db) tbl" by (rule get_or_create_kept [OF g]) simp
  have an: "anon \<in> set (carts db)" "ct_user anon = None" using get_one_Inr [OF a] by auto
  have tbl: "distinct_pks tbl" "anon \<in> set tbl"
    using k assms(1) an(1) g by (auto simp: users_kept_def get_or_create_def Let_def split: list.splits)
  have "ct_user x = None" if "x \<in> set tbl" "pk x = pk anon" for x
    using row_unique [OF tbl(1) that(1) tbl(2) that(2)] an(2) by simp
  then have "users_kept tbl (delete_row now (pk anon) tbl)"
    unfolding delete_row_def by (intro users_kept_save) auto
  with k merge_items_carts [OF m] db' show ?thesis by (auto intro: users_kept_trans)
qed (simp add: users_kept_refl)

lemma run_cart_call_kept:
  assumes "distinct_pks (carts db)" "run_cart_call now cat stk call db = Inr db'"
  shows "users_kept (carts db) (carts db')"
proof (cases call)
  case (GetCart user key)
  with assms(2) show ?thesis by (auto simp: result_simps dest: get_or_create_cart_kept)
next
  case (AddItem c v q)
  with assms(2) show ?thesis
    by (auto simp: add_item_def save_item_def result_simps Let_def users_kept_refl split: if_splits)
next
  case (UpdateItem c k q)
  with assms(2) show ?thesis
    by (auto simp: update_item_def result_simps Let_def users_kept_refl split: if_splits)
next
  case (RemoveItem c k)
  with assms(2) show ?thesis by (auto simp: remove_item_def users_kept_refl)
next
  case (ClearCart c)
  with assms(2) show ?thesis by (auto simp: clear_cart_def is_alive_def intro!: users_kept_save)
next
  case (MergeCart key user)
  with assms show ?thesis by (auto simp: result_simps dest: merge_kept)
qed

lemma run_cart_calls_kept: "distinct_pks (carts db) \<Longrightarrow> users_kept (carts db) (carts (run_cart_calls cs db))"
proof (induction cs db rule: run_cart_calls.induct)
  case (2 now cat stk c cs db)
  then show ?case
    using run_cart_call_kept [OF 2(2), of now cat stk c]
    by (auto simp: users_kept_def split: sum.splits) (metis (no_types, lifting))+
qed (simp add: users_kept_refl)

lemma two_carts_get:
  assumes "x \<in> set tbl" "y \<in> set tbl" "pk x \<noteq> pk y" "is_alive x" "is_alive y" "q x" "q y"
  shows "\<exists>a b r. filter q (objects tbl) = a # b # r"
proof -
  have "{x, y} \<subseteq> set (filter q (objects tbl))" using assms by (auto simp: is_alive_def)
  with assms(3) show ?thesis by (cases "filter q (objects tbl)"; cases "tl (filter q (objects tbl))") auto
qed

section \<open>Properties\<close>

text \<open>
  C3. However concurrent checkouts, transitions, restocking and cart calls interleave, and whatever
  stale carts the checkouts read: if only pending orders are cancelled, then in every committed state
  the units reserved of each variant are the quantities of the living pending orders, no row has
  more reserved than on hand, and every pending order can be paid and can be cancelled.
\<close>

theorem ledger_survives_interleaving:
  assumes "rc_run h" "ledger_ok (last h)" "reservations_match (last h)" "db \<in> set h"
  shows "(\<forall>v. total_reserved v (stock_db db) = pending_demand v db) \<and>
    list_all (\<lambda>s. reserved s = 0 \<or> reserved s + safety_buffer s \<le> on_hand s) (stocks (stock_db db)) \<and>
    (\<forall>o' \<in> set (orders db). is_alive o' \<longrightarrow> od_status o' = PENDING \<longrightarrow>
       (\<forall>now actor msg. is_ok (transition_status now (pk o') PAID actor msg db) \<and>
                        is_ok (transition_status now (pk o') CANCELLED actor msg db)))"
proof -
  have m: "ledger_ok db" "reservations_match db"
    using rc_run_matches [OF assms(1)] assms(2-4) by (auto simp: ledger_matches_def)
  then show ?thesis
    using ledger_pending_payable
    by (auto simp: reservations_match_def ledger_ok_def sound_inventory_def no_deficit_def covered_def [abs_def])
qed

text \<open>
  What a checkout orders when other requests commit between its statements: the subtotal is the one of
  the cart its second query saw, the lines and the reservations are those its third query saw, and the items
  deleted are all that are in the cart at the end. The totals of the order fit its lines exactly when the two
  queries saw carts of the same subtotal.
\<close>

theorem interleaved_checkout_exact:
  assumes "ledger_ok db" "checkout_over now number c usr p seen0 seen1 seen2 db = Inr (o', db')"
  shows "orders db' = orders db @ [o'] \<and> od_subtotal o' = subtotal c (cart_db seen1) \<and>
    lines_of (pk o') (order_items db') = cart_lines (items_of (pk c) (cart_db seen2)) \<and>
    (\<forall>v. get_available v (stock_db db') = get_available v (stock_db db) - quantity_of (pk c) (cart_db seen2) v) \<and>
    (\<forall>v. total_reserved v (stock_db db') = total_reserved v (stock_db db) + quantity_of (pk c) (cart_db seen2) v) \<and>
    items_of (pk c) (cart_db db') = [] \<and>
    (totals_ok o' (order_items db') \<longleftrightarrow> subtotal c (cart_db seen1) = subtotal c (cart_db seen2))"
  using assms(2)
proof (cases rule: checkout_over_Inr)
  case (1 coupon new)
  have k: "pk o' = fresh_pk (orders db)" using 1(3) by simp
  have "filter (\<lambda>r. oi_order r = pk o') (order_items db) = []"
    using assms(1) fresh_pk_notin [of "orders db"] unfolding ledger_ok_def linked_def filter_empty_conv k by metis
  moreover have "filter (\<lambda>r. oi_order r = pk o') new = new" using 1(11) by (simp add: list_all_iff)
  ultimately have "totals_ok o' (order_items db') \<longleftrightarrow> subtotal c (cart_db seen1) = subtotal c (cart_db seen2)"
    using 1(3,8,9) new_order_grand [of now number usr "ct_currency c" p coupon
        "subtotal c (cart_db seen1)" "fresh_pk (orders db)"]
    by (simp add: totals_ok_def subtotal_def)
  with interleaved_exact [OF assms] show ?thesis by blast
qed

text \<open>
  C4. Sending the checkout twice at once orders the cart twice: if the second request has read the
  cart before the first commits and succeeds, there are two pending orders with the same lines and the
  reservations count the cart double, where the same two requests one after the other give one
  order and ''cart is empty''.
\<close>

theorem double_checkout_orders_twice:
  assumes "ledger_ok db"
    and first: "create_order_from_cart now1 number1 c usr p db = Inr (o1, db1)"
    and second: "checkout_over now2 number2 c usr p db db db db1 = Inr (o2, db2)"
  shows "orders db2 = orders db @ [o1, o2] \<and> pk o1 \<noteq> pk o2 \<and>
    lines_of (pk o1) (order_items db2) = cart_lines (items_of (pk c) (cart_db db)) \<and>
    lines_of (pk o2) (order_items db2) = cart_lines (items_of (pk c) (cart_db db)) \<and>
    od_subtotal o2 = od_subtotal o1 \<and>
    (\<forall>v. total_reserved v (stock_db db2) = total_reserved v (stock_db db) + 2 * quantity_of (pk c) (cart_db db) v) \<and>
    create_order_from_cart now2 number2 c usr p db1 = Inl (CheckoutError ''cart is empty'')"
proof -
  note f = first [unfolded create_order_is_checkout_over]
  note e1 = interleaved_exact [OF assms(1) f]
  have ok1: "ledger_ok db1"
    using ledger_checkout_ok [OF assms(1) f] .
  note e2 = interleaved_exact [OF ok1 second]
  obtain new where new: "order_items db2 = order_items db1 @ new" "list_all (\<lambda>r. oi_order r = pk o2) new"
    by (rule checkout_over_Inr [OF second]) (rule that)
  have "pk o1 \<noteq> pk o2" using fresh_pk_neq [of o1 "orders db1"] e1 e2 by simp
  moreover have "lines_of (pk o1) new = []"
    using new(2) \<open>pk o1 \<noteq> pk o2\<close> by (intro lines_of_other) (auto simp: list_all_iff)
  then have "lines_of (pk o1) (order_items db2) = lines_of (pk o1) (order_items db1)"
    using new(1) by (simp add: lines_of_append)
  moreover have "\<forall>v. total_reserved v (stock_db db2) =
      total_reserved v (stock_db db) + 2 * quantity_of (pk c) (cart_db db) v" using e1 e2 by simp
  moreover have "create_order_from_cart now2 number2 c usr p db1 = Inl (CheckoutError ''cart is empty'')"
    using e1 by (simp add: create_order_from_cart_def)
  moreover have "orders db2 = orders db @ [o1, o2]" using e1 e2 by simp
  ultimately show ?thesis using e1 e2 by metis
qed

text \<open>Two requests for the demo cart, the second with everything read before the first commits.\<close>

definition two_checkouts :: "string \<Rightarrow> (shop \<Rightarrow> shop \<Rightarrow> shop) \<Rightarrow> py_error + (order \<times> shop \<times> order \<times> shop)" where
  "two_checkouts code pick =
     bindE (create_order_from_cart 9 ''N1'' (demo_cart 1 (Some 5) '''') (Some 5) (demo_checkout code) idle_shop)
       (\<lambda>(o1, db1). bindE (checkout_over 10 ''N2'' (demo_cart 1 (Some 5) '''') (Some 5) (demo_checkout code)
                     idle_shop idle_shop (pick idle_shop db1) db1)
         (\<lambda>(o2, db2). Inr (o1, db1, o2, db2)))"

lemma two_checkouts_ok:
  "is_ok (two_checkouts '''' (\<lambda>a b. a))" "is_ok (two_checkouts ''sale10'' (\<lambda>a b. b))"
  by code_simp+

lemma two_checkouts_Inr:
  assumes "is_ok (two_checkouts code pick)"
  obtains o1 db1 o2 db2 where
    "create_order_from_cart 9 ''N1'' (demo_cart 1 (Some 5) '''') (Some 5) (demo_checkout code) idle_shop = Inr (o1, db1)"
    "checkout_over 10 ''N2'' (demo_cart 1 (Some 5) '''') (Some 5) (demo_checkout code)
       idle_shop idle_shop (pick idle_shop db1) db1 = Inr (o2, db2)"
  using assms by (auto simp: two_checkouts_def is_ok_iff result_simps)

lemma idle_no_orders: "orders idle_shop = []"
  by (simp add: idle_shop_def demo_shop_def)

lemma idle_ledger_ok: "ledger_ok idle_shop"
  by (rule shop_ok_ledger [OF idle_shop_ok])

theorem ledger_survives_interleaving_witness:
  "\<exists>h db. rc_run h \<and> db \<in> set h \<and> length (orders db) = 2 \<and>
     total_reserved 7 (stock_db db) = pending_demand 7 db"
proof (rule two_checkouts_Inr [OF two_checkouts_ok(1)])
  fix o1 db1 o2 db2
  assume a: "create_order_from_cart 9 ''N1'' (demo_cart 1 (Some 5) '''') (Some 5) (demo_checkout '''') idle_shop = Inr (o1, db1)"
    and b: "checkout_over 10 ''N2'' (demo_cart 1 (Some 5) '''') (Some 5) (demo_checkout '''')
       idle_shop idle_shop idle_shop db1 = Inr (o2, db2)"
  have "rc_run [db1, idle_shop]"
    by (rule rc_checkout [OF rc_start _ a [unfolded create_order_is_checkout_over]]) simp
  then have r: "rc_run [db2, db1, idle_shop]" by (rule rc_checkout [OF _ _ b]) simp
  have "length (orders db2) = 2"
    using interleaved_exact [OF idle_ledger_ok a [unfolded create_order_is_checkout_over]]
      interleaved_exact [OF ledger_checkout_ok [OF idle_ledger_ok a [unfolded create_order_is_checkout_over]] b]
    by (simp add: idle_no_orders)
  with ledger_survives_interleaving [OF r, of db2] idle_ledger_ok idle_shop_matches r
  show ?thesis by (intro exI [of _ "[db2, db1, idle_shop]"] exI [of _ db2]) simp
qed

theorem interleaved_checkout_exact_witness:
  "\<exists>o1 db1 o2 db2. two_checkouts ''sale10'' (\<lambda>a b. b) = Inr (o1, db1, o2, db2) \<and>
     lines_of (pk o2) (order_items db2) = [] \<and> od_subtotal o2 = subtotal (demo_cart 1 (Some 5) '''') (cart_db idle_shop)"
proof (rule two_checkouts_Inr [OF two_checkouts_ok(2)])
  fix o1 db1 o2 db2
  assume a: "create_order_from_cart 9 ''N1'' (demo_cart 1 (Some 5) '''') (Some 5) (demo_checkout ''sale10'') idle_shop = Inr (o1, db1)"
    and b: "checkout_over 10 ''N2'' (demo_cart 1 (Some 5) '''') (Some 5) (demo_checkout ''sale10'')
       idle_shop idle_shop db1 db1 = Inr (o2, db2)"
  note f = a [unfolded create_order_is_checkout_over]
  have "items_of 1 (cart_db db1) = []"
    using interleaved_exact [OF idle_ledger_ok f] by (simp add: demo_cart_def)
  with interleaved_checkout_exact [OF ledger_checkout_ok [OF idle_ledger_ok f] b] a b
  show ?thesis by (simp add: two_checkouts_def demo_cart_def cart_lines_def)
qed

theorem double_checkout_orders_twice_witness:
  "\<exists>o1 db1 o2 db2. two_checkouts '''' (\<lambda>a b. a) = Inr (o1, db1, o2, db2) \<and> orders db2 = [o1, o2] \<and>
     lines_of (pk o1) (order_items db2) = lines_of (pk o2) (order_items db2)"
proof (rule two_checkouts_Inr [OF two_checkouts_ok(1)])
  fix o1 db1 o2 db2
  assume a: "create_order_from_cart 9 ''N1'' (demo_cart 1 (Some 5) '''') (Some 5) (demo_checkout '''') idle_shop = Inr (o1, db1)"
    and b: "checkout_over 10 ''N2'' (demo_cart 1 (Some 5) '''') (Some 5) (demo_checkout '''')
       idle_shop idle_shop idle_shop db1 = Inr (o2, db2)"
  from double_checkout_orders_twice [OF idle_ledger_ok a b] a b idle_no_orders
  show ?thesis by (simp add: two_checkouts_def)
qed

text \<open>
  With a coupon the second request waits at the coupon's row for the first to commit, and its loop then sees
  the emptied cart: it creates a pending order that charges the whole cart, uses the coupon again
  and has no items, and reserves nothing.
\<close>

theorem coupon_wait_orders_nothing:
  assumes "ledger_ok db" "ck_coupon_code p \<noteq> ''''"
    and first: "create_order_from_cart now1 number1 c usr p db = Inr (o1, db1)"
    and second: "checkout_over now2 number2 c usr p db db db1 db1 = Inr (o2, db2)"
  shows "orders db2 = orders db @ [o1, o2] \<and> od_status o2 = PENDING \<and>
    lines_of (pk o2) (order_items db2) = [] \<and> order_items db2 = order_items db1 \<and>
    od_subtotal o2 = subtotal c (cart_db db) \<and> stock_db db2 = stock_db db1 \<and>
    (\<exists>cp. find_coupon now2 (ck_coupon_code p) (coupon_tbl db1) = Inr (Some cp) \<and>
       coupon_tbl db2 = save_row (pk cp) (\<lambda>r. r\<lparr>cp_used_count := cp_used_count cp + 1\<rparr>) (coupon_tbl db1))"
  using second
proof (cases rule: checkout_over_Inr)
  case (1 coupon new)
  note f = first [unfolded create_order_is_checkout_over]
  note e1 = interleaved_exact [OF assms(1) f]
  note e2 = interleaved_exact [OF ledger_checkout_ok [OF assms(1) f] second]
  have none: "items_of (pk c) (cart_db db1) = []" using e1 by simp
  have "lines_of (pk o2) (order_items db2) = cart_lines (items_of (pk c) (cart_db db1))" using e2 by blast
  then have "lines_of (pk o2) (order_items db2) = []" unfolding none by (simp only: cart_lines_def list.map)
  moreover have "stock_db db2 = stock_db db1" "order_items db2 = order_items db1"
    using 1(6,8,9) none by (simp_all add: cart_lines_def)
  moreover have "orders db2 = orders db @ [o1, o2]" "od_subtotal o2 = subtotal c (cart_db db)" "od_status o2 = PENDING"
    using e1 e2 1(3) by simp_all
  moreover obtain cp where "coupon = Some cp"
    using 1(2) assms(2) by (auto simp: find_coupon_def split: sum.splits py_error.splits if_splits)
  ultimately show ?thesis using 1(2,15) by auto
qed

theorem coupon_wait_orders_nothing_witness:
  "\<exists>o1 db1 o2 db2. two_checkouts ''sale10'' (\<lambda>a b. b) = Inr (o1, db1, o2, db2) \<and> orders db2 = [o1, o2] \<and>
     lines_of (pk o2) (order_items db2) = []"
proof (rule two_checkouts_Inr [OF two_checkouts_ok(2)])
  fix o1 db1 o2 db2
  assume a: "create_order_from_cart 9 ''N1'' (demo_cart 1 (Some 5) '''') (Some 5) (demo_checkout ''sale10'') idle_shop = Inr (o1, db1)"
    and b: "checkout_over 10 ''N2'' (demo_cart 1 (Some 5) '''') (Some 5) (demo_checkout ''sale10'')
       idle_shop idle_shop db1 db1 = Inr (o2, db2)"
  have "ck_coupon_code (demo_checkout ''sale10'') \<noteq> ''''" by (simp add: demo_checkout_def)
  from coupon_wait_orders_nothing [OF idle_ledger_ok this a b]
  have "orders db2 = orders idle_shop @ [o1, o2]" "lines_of (pk o2) (order_items db2) = []" by blast+
  with a b show ?thesis by (simp add: two_checkouts_def idle_no_orders)
qed

text \<open>
  C15. A user without a cart whose first two requests run at once gets two carts, and from then on no
  sequence of cart calls repairs it: every later request for that user's cart raises
  \<open>MultipleObjectsReturned\<close>.
\<close>

theorem double_cart_locks_user_out:
  assumes "carts_ok db" "filter (owned_by (Some u) '''') (objects (carts db)) = []"
  shows "\<exists>c1 db1 c2 db2. get_or_create_cart now1 (Some u) key1 db = Inr (c1, db1) \<and>
    get_or_create_cart_over now2 (Some u) key2 db db1 = Inr (c2, db2) \<and> pk c1 \<noteq> pk c2 \<and>
    (\<forall>calls now key. get_or_create_cart now (Some u) key (run_cart_calls calls db2) =
       Inl (MultipleObjectsReturned ''Cart''))"
proof -
  define c1 where "c1 = new_cart now1 (Some u) '''' ''USD'' (fresh_pk (carts db))"
  define db1 where "db1 = db\<lparr>carts := carts db @ [c1]\<rparr>"
  define c2 where "c2 = new_cart now2 (Some u) '''' ''USD'' (fresh_pk (carts db1))"
  define db2 where "db2 = db1\<lparr>carts := carts db1 @ [c2]\<rparr>"
  have any: "owned_by (Some u) key = owned_by (Some u) ''''" for key by (simp add: owned_by_def [abs_def])
  have r1: "get_or_create_cart now1 (Some u) key1 db = Inr (c1, db1)"
    and r2: "get_or_create_cart_over now2 (Some u) key2 db db1 = Inr (c2, db2)"
    using assms(2)
    by (simp_all add: get_or_create_cart_is_over get_or_create_cart_over_def any [of key1] any [of key2] Let_def c1_def db1_def c2_def db2_def)
  have "distinct_pks (carts db)" using assms(1) by (simp add: carts_ok_def carts_table_ok_def)
  then have "distinct_pks (carts db1)" by (simp add: db1_def c1_def distinct_pks_append_fresh)
  then have d: "distinct_pks (carts db2)" unfolding db2_def by (simp add: c2_def distinct_pks_append_fresh)
  have ne: "pk c1 \<noteq> pk c2" using fresh_pk_neq [of c1 "carts db1"] by (simp add: db1_def c2_def)
  have lost: "get_or_create_cart now (Some u) key (run_cart_calls calls db2) =
      Inl (MultipleObjectsReturned ''Cart'')" for calls now key
  proof -
    let ?t = "carts (run_cart_calls calls db2)"
    have kept: "users_kept (carts db2) ?t" by (rule run_cart_calls_kept [OF d])
    have two: "c1 \<in> set (carts db2)" "c2 \<in> set (carts db2)" "is_alive c1" "is_alive c2"
      "ct_user c1 = Some u" "ct_user c2 = Some u"
      by (simp_all add: db2_def db1_def) (simp_all add: c1_def c2_def)
    obtain x where x: "x \<in> set ?t" "pk x = pk c1" "is_alive x" "ct_user x = Some u"
      using kept two(1,3,5) unfolding users_kept_def by (metis option.discI)
    obtain y where y: "y \<in> set ?t" "pk y = pk c2" "is_alive y" "ct_user y = Some u"
      using kept two(2,4,6) unfolding users_kept_def by (metis option.discI)
    obtain a b r where "filter (owned_by (Some u) '''') (objects ?t) = a # b # r"
      using two_carts_get [OF x(1) y(1) _ x(3) y(3), of "owned_by (Some u) ''''"] x y ne
      by (auto simp: owned_by_def)
    then show ?thesis by (simp add: get_or_create_cart_is_over get_or_create_cart_over_def any [of key])
  qed
  show ?thesis using r1 r2 ne lost by blast
qed

theorem double_cart_locks_user_out_witness:
  "\<exists>c1 db1 c2 db2. get_or_create_cart 1 (Some 6) '''' demo_carts = Inr (c1, db1) \<and>
     get_or_create_cart_over 2 (Some 6) '''' demo_carts db1 = Inr (c2, db2) \<and>
     get_or_create_cart 3 (Some 6) '''' db2 = Inl (MultipleObjectsReturned ''Cart'')"
proof -
  have "filter (owned_by (Some 6) '''') (objects (carts demo_carts)) = []" by code_simp
  from double_cart_locks_user_out [OF demo_carts_ok this, of 1 "''''" 2 "''''"]
  show ?thesis by (metis run_cart_calls.simps(1))
qed

end
