(* ===== verification/Engagement.thy ===== *)
theory Engagement
  imports Storefront
begin

text \<open>
  \<open>django_app/apps/reviews\<close>, \<open>apps/notifications\<close> and \<open>apps/shipping\<close>: the review endpoints,
  the e-mail task with Celery's retries, the notification endpoints and the shipment rows.
  \<open>send_mail\<close> is outside: each attempt gets the verdict of the mail transport as an argument.
\<close>

section \<open>Shipping\<close>

record shipping_method = base_model +
  sm_code :: string
  sm_name :: string
  sm_eta_days_min :: int
  sm_eta_days_max :: int
  sm_is_active :: bool
  sm_flat_rate :: int

datatype shipment_status =
  PREPARING | IN_TRANSIT | OUT_FOR_DELIVERY | SHIPMENT_DELIVERED | SHIPMENT_FAILED | RETURNED

record shipment = base_model +
  sh_order :: nat
  sh_method :: nat
  sh_courier :: string
  sh_tracking_number :: string
  sh_tracking_url :: string
  sh_status :: shipment_status
  sh_eta :: "int option"
  sh_delivered_at :: "int option"
  sh_metadata :: json

section \<open>Reviews\<close>

datatype review_status = REVIEW_PENDING | REVIEW_APPROVED | REVIEW_REJECTED

fun review_value :: "review_status \<Rightarrow> string" where
  "review_value REVIEW_PENDING = ''pending''"
| "review_value REVIEW_APPROVED = ''approved''"
| "review_value REVIEW_REJECTED = ''rejected''"

record review = base_model +
  rv_product :: nat
  rv_user :: nat
  rv_order :: "nat option"
  rv_rating :: int
  rv_title :: string
  rv_body :: string
  rv_status :: review_status
  rv_helpful_count :: int

text \<open>The writable fields of \<open>ReviewSerializer\<close>, parsed.\<close>

record review_input =
  ri_product :: nat
  ri_order :: "nat option"
  ri_rating :: int
  ri_title :: string
  ri_body :: string

definition validate_rating :: "int \<Rightarrow> py_error + int" where
  "validate_rating val =
     (if \<not> (1 \<le> val \<and> val \<le> 5) then Inl (ValidationError ''rating must be 1..5'') else Inr val)"

text \<open>
  The serializer's validation: the two related fields look their row up among the living ones.
  \<open>user\<close> is read-only, so DRF adds no validator for the pair (product, user).
\<close>

definition review_valid :: "catalog \<Rightarrow> order list \<Rightarrow> review_input \<Rightarrow> py_error + review_input" where
  "review_valid cat ords ri =
     (if \<not> (\<exists>p \<in> set (objects (products cat)). pk p = ri_product ri)
      then Inl (ValidationError ''product'')
      else if (case ri_order ri of None \<Rightarrow> False
               | Some k \<Rightarrow> \<not> (\<exists>x \<in> set (objects ords). pk x = k))
      then Inl (ValidationError ''order'')
      else if 200 < length (ri_title ri) then Inl (ValidationError ''title'')
      else bindE (validate_rating (ri_rating ri)) (\<lambda>_. Inr ri))"

definition ReviewSerializer :: "(int \<Rightarrow> string) \<Rightarrow> accounts \<Rightarrow> review \<Rightarrow> json" where
  "ReviewSerializer isotime acc r =
     JObj [(''id'', json_pk (pk r)), (''product'', json_pk (rv_product r)),
           (''user'', json_pk (rv_user r)),
           (''user_email'', json_opt (JStr \<circ> us_email) (find_pk (rv_user r) (users acc))),
           (''order'', json_opt json_pk (rv_order r)), (''rating'', JInt (rv_rating r)),
           (''title'', JStr (rv_title r)), (''body'', JStr (rv_body r)),
           (''status'', JStr (review_value (rv_status r))),
           (''helpful_count'', JInt (rv_helpful_count r)),
           (''created_at'', JStr (isotime (created_at r)))]"

text \<open>\<open>get_queryset\<close>: \<open>public\<close> is the action being \<open>list\<close> or \<open>retrieve\<close>.\<close>

definition review_queryset :: "bool \<Rightarrow> review list \<Rightarrow> review list" where
  "review_queryset public tbl =
     filter (\<lambda>r. public \<longrightarrow> rv_status r = REVIEW_APPROVED) (sort_key (\<lambda>r. - created_at r) (objects tbl))"

text \<open>\<open>perform_create\<close> behind \<open>IsAuthenticatedOrReadOnly\<close>; the constraint sees dead rows too.\<close>

definition review_create :: "int \<Rightarrow> catalog \<Rightarrow> order list \<Rightarrow> user option \<Rightarrow> review_input
    \<Rightarrow> review list \<Rightarrow> py_error + (review \<times> review list)" where
  "review_create now cat ords usr ri tbl =
     (case usr of None \<Rightarrow> Inl NotAuthenticated
      | Some u \<Rightarrow>
        bindE (review_valid cat ords ri) (\<lambda>ri.
          let r = \<lparr>pk = fresh_pk tbl, created_at = now, updated_at = now, deleted_at = None,
                   rv_product = ri_product ri, rv_user = pk u, rv_order = ri_order ri,
                   rv_rating = ri_rating ri, rv_title = ri_title ri, rv_body = ri_body ri,
                   rv_status = REVIEW_PENDING, rv_helpful_count = 0\<rparr> in
          if \<exists>x \<in> set tbl. rv_product x = rv_product r \<and> rv_user x = rv_user r
          then Inl (IntegrityError ''reviews_review'') else Inr (r, tbl @ [r])))"

text \<open>The inherited \<open>update\<close> and \<open>destroy\<close>: any authenticated user, any living review.\<close>

definition review_update :: "int \<Rightarrow> catalog \<Rightarrow> order list \<Rightarrow> user option \<Rightarrow> nat \<Rightarrow> review_input
    \<Rightarrow> review list \<Rightarrow> py_error + (review \<times> review list)" where
  "review_update now cat ords usr k ri tbl =
     (case usr of None \<Rightarrow> Inl NotAuthenticated
      | Some _ \<Rightarrow>
        (case find (\<lambda>r. pk r = k) (review_queryset False tbl) of
           None \<Rightarrow> Inl Http404
         | Some r \<Rightarrow>
           bindE (review_valid cat ords ri) (\<lambda>ri.
             let r' = r\<lparr>rv_product := ri_product ri, rv_order := ri_order ri, rv_rating := ri_rating ri,
                       rv_title := ri_title ri, rv_body := ri_body ri, updated_at := now\<rparr> in
             if \<exists>x \<in> set tbl. pk x \<noteq> k \<and> rv_product x = rv_product r' \<and> rv_user x = rv_user r'
             then Inl (IntegrityError ''reviews_review'') else Inr (r', save_row k (\<lambda>_. r') tbl))))"

definition review_destroy :: "int \<Rightarrow> user option \<Rightarrow> nat \<Rightarrow> review list \<Rightarrow> py_error + review list" where
  "review_destroy now usr k tbl =
     (case usr of None \<Rightarrow> Inl NotAuthenticated
      | Some _ \<Rightarrow> (case find (\<lambda>r. pk r = k) (review_queryset False tbl) of
                     None \<Rightarrow> Inl Http404 | Some r \<Rightarrow> Inr (delete_row now k tbl)))"

section \<open>Notifications\<close>

datatype channel = EMAIL | SMS | PUSH | TELEGRAM | IN_APP

fun channel_value :: "channel \<Rightarrow> string" where
  "channel_value EMAIL = ''email''"
| "channel_value SMS = ''sms''"
| "channel_value PUSH = ''push''"
| "channel_value TELEGRAM = ''telegram''"
| "channel_value IN_APP = ''in_app''"

datatype notice_status = UNSENT | SENT | UNDELIVERED | READ

fun notice_value :: "notice_status \<Rightarrow> string" where
  "notice_value UNSENT = ''pending''"
| "notice_value SENT = ''sent''"
| "notice_value UNDELIVERED = ''failed''"
| "notice_value READ = ''read''"

record notification = base_model +
  nt_user :: "nat option"
  nt_channel :: channel
  nt_template_code :: string
  nt_title :: string
  nt_body :: string
  nt_payload :: json
  nt_status :: notice_status
  nt_sent_at :: "int option"
  nt_read_at :: "int option"

text \<open>
  \<open>outbox\<close> is what the mail transport accepted (subject, body, recipient), \<open>task_queue\<close> the keys
  handed to \<open>send_email_notification.delay\<close>.
\<close>

record post_office =
  notifications :: "notification list"
  outbox :: "(string \<times> string \<times> json) list"
  task_queue :: "nat list"

definition NotificationSerializer :: "(int \<Rightarrow> string) \<Rightarrow> notification \<Rightarrow> json" where
  "NotificationSerializer isotime n =
     JObj [(''id'', json_pk (pk n)), (''user'', json_opt json_pk (nt_user n)),
           (''channel'', JStr (channel_value (nt_channel n))),
           (''template_code'', JStr (nt_template_code n)), (''title'', JStr (nt_title n)),
           (''body'', JStr (nt_body n)), (''payload'', nt_payload n),
           (''status'', JStr (notice_value (nt_status n))),
           (''sent_at'', json_opt (JStr \<circ> isotime) (nt_sent_at n)),
           (''read_at'', json_opt (JStr \<circ> isotime) (nt_read_at n)),
           (''created_at'', JStr (isotime (created_at n)))]"

definition set_notice :: "nat \<Rightarrow> (notification \<Rightarrow> notification) \<Rightarrow> post_office \<Rightarrow> post_office" where
  "set_notice k f db = db\<lparr>notifications := save_row k f (notifications db)\<rparr>"

text \<open>\<open>(n.payload or {}).get("to") or (n.user.email if n.user_id else None)\<close>.\<close>

definition recipient :: "user list \<Rightarrow> notification \<Rightarrow> py_error + json" where
  "recipient usrs n =
     bindE (json_get (json_or (nt_payload n) (JObj [])) ''to'' JNull) (\<lambda>to.
       if truthy to then Inr to
       else case nt_user n of None \<Rightarrow> Inr JNull
       | Some u \<Rightarrow> (case find_pk u usrs of None \<Rightarrow> Inl (DoesNotExist ''User'')
                    | Some x \<Rightarrow> Inr (JStr (us_email x))))"

text \<open>How one run of the task ends: it returns, or \<open>self.retry\<close> is raised.\<close>

datatype task_end = Returned | Retry

definition send_email_notification :: "int \<Rightarrow> bool \<Rightarrow> user list \<Rightarrow> nat \<Rightarrow> post_office
    \<Rightarrow> py_error + (task_end \<times> post_office)" where
  "send_email_notification now accepted usrs nid db =
     (case find (\<lambda>n. pk n = nid) (objects (notifications db)) of
        None \<Rightarrow> Inr (Returned, db)
      | Some n \<Rightarrow>
        if nt_status n = SENT then Inr (Returned, db)
        else bindE (recipient usrs n) (\<lambda>to.
          if \<not> truthy to
          then Inr (Returned, set_notice nid (\<lambda>r. r\<lparr>nt_status := UNDELIVERED\<rparr>) db)
          else if accepted
          then let subject = (if nt_title n = '''' then ''Notification'' else nt_title n);
                   db1 = db\<lparr>outbox := outbox db @ [(subject, nt_body n, to)]\<rparr> in
               Inr (Returned, set_notice nid (\<lambda>r. r\<lparr>nt_status := SENT, nt_sent_at := Some now\<rparr>) db1)
          else Inr (Retry, set_notice nid (\<lambda>r. r\<lparr>nt_status := UNDELIVERED\<rparr>) db)))"

text \<open>
  Celery around the task, \<open>max_retries=5\<close>: the task runs again for each \<open>Retry\<close> while retries
  are left. The list gives the time of each run and the verdict of the transport.
\<close>

definition max_retries :: nat where
  "max_retries = 5"

fun run_with_retries :: "nat \<Rightarrow> (int \<times> bool) list \<Rightarrow> user list \<Rightarrow> nat \<Rightarrow> post_office
    \<Rightarrow> py_error + post_office" where
  "run_with_retries left [] usrs nid db = Inr db"
| "run_with_retries left ((now, accepted) # rest) usrs nid db =
     bindE (send_email_notification now accepted usrs nid db) (\<lambda>(e, db').
       case e of Returned \<Rightarrow> Inr db'
       | Retry \<Rightarrow> if left = 0 then Inr db' else run_with_retries (left - 1) rest usrs nid db')"

definition paid_body :: "order \<Rightarrow> string" where
  "paid_body o' =
     ''Hi! Your order '' @ od_number o' @ '' totalling '' @ str_money (od_grand_total o') @ '' '' @
     od_currency o' @ '' has been received and paid. We'' @ [CHR 0x27] @ ''ll notify you once it ships.''"

definition send_order_paid_email :: "int \<Rightarrow> order list \<Rightarrow> nat \<Rightarrow> post_office \<Rightarrow> post_office" where
  "send_order_paid_email now ords k db =
     (case find (\<lambda>x. pk x = k) (objects ords) of None \<Rightarrow> db
      | Some o' \<Rightarrow>
        let n = \<lparr>pk = fresh_pk (notifications db), created_at = now, updated_at = now, deleted_at = None,
                 nt_user = od_user o', nt_channel = EMAIL, nt_template_code = ''order.paid'',
                 nt_title = ''Order '' @ od_number o' @ '' paid'', nt_body = paid_body o',
                 nt_payload = JObj [(''to'', JStr (od_email_snapshot o')),
                                    (''order_id'', JStr (uuid_str (pk o')))],
                 nt_status = UNSENT, nt_sent_at = None, nt_read_at = None\<rparr> in
        db\<lparr>notifications := notifications db @ [n], task_queue := task_queue db @ [pk n]\<rparr>)"

definition notification_queryset :: "user \<Rightarrow> post_office \<Rightarrow> notification list" where
  "notification_queryset u db =
     sort_key (\<lambda>n. - created_at n) (filter (\<lambda>n. nt_user n = Some (pk u)) (objects (notifications db)))"

definition mark_read :: "int \<Rightarrow> (int \<Rightarrow> string) \<Rightarrow> user option \<Rightarrow> nat \<Rightarrow> post_office
    \<Rightarrow> py_error + (response \<times> post_office)" where
  "mark_read now isotime usr k db =
     (case usr of None \<Rightarrow> Inl NotAuthenticated
      | Some u \<Rightarrow>
        (case find (\<lambda>n. pk n = k) (notification_queryset u db) of
           None \<Rightarrow> Inl Http404
         | Some n \<Rightarrow>
             let upd = (\<lambda>r. r\<lparr>nt_status := READ, nt_read_at := Some now\<rparr>) in
             Inr (Response 200 (NotificationSerializer isotime (upd n)), set_notice k upd db)))"

section \<open>The e-mail task\<close>

lemma save_row_twice:
  "(\<And>r. pk (h r) = pk r) \<Longrightarrow> save_row k g (save_row k h tbl) = save_row k (\<lambda>r. g (h r)) tbl"
  by (simp add: save_row_def update_where_def)

lemma find_alive_pk:
  assumes "distinct_pks tbl" "r \<in> set tbl" "is_alive r"
  shows "find (\<lambda>x. pk x = pk r) (objects tbl) = Some r"
  using assms
  by (induction tbl) (auto simp: get_queryset_def is_alive_def distinct_pks_def)

lemma recipient_status [simp]: "recipient usrs (n\<lparr>nt_status := s\<rparr>) = recipient usrs n"
  by (simp add: recipient_def cong: if_cong)

text \<open>What the runs leave in the row and in the outbox.\<close>

definition after_runs :: "(int \<times> bool) list \<Rightarrow> notification \<Rightarrow> notification" where
  "after_runs runs r =
     (if runs = [] then r
      else case find snd runs of
        None \<Rightarrow> r\<lparr>nt_status := UNDELIVERED\<rparr>
      | Some (t, _) \<Rightarrow> r\<lparr>nt_status := SENT, nt_sent_at := Some t\<rparr>)"

definition mail_of :: "notification \<Rightarrow> json \<Rightarrow> string \<times> string \<times> json" where
  "mail_of n to = (if nt_title n = '''' then ''Notification'' else nt_title n, nt_body n, to)"

lemma run_with_retries_exact:
  assumes "distinct_pks (notifications db)" "n \<in> set (notifications db)" "is_alive n"
    and "nt_status n \<noteq> SENT" "recipient usrs n = Inr to" "truthy to"
  shows "run_with_retries left runs usrs (pk n) db =
           Inr (db\<lparr>outbox := outbox db @ (if \<exists>r \<in> set (take (Suc left) runs). snd r then [mail_of n to] else []),
                   notifications := save_row (pk n) (after_runs (take (Suc left) runs)) (notifications db)\<rparr>)"
  using assms
proof (induction runs arbitrary: left db n)
  case Nil
  then show ?case by (simp add: after_runs_def save_row_def update_where_def)
next
  case (Cons run rest)
  obtain t ok where run: "run = (t, ok)" by (cases run)
  note found = find_alive_pk [OF Cons.prems(1,2,3)]
  show ?case
  proof (cases ok)
    case True
    with found Cons.prems show ?thesis
      by (simp add: run send_email_notification_def set_notice_def after_runs_def mail_of_def)
  next
    case False
    let ?h = "\<lambda>r. r\<lparr>nt_status := UNDELIVERED\<rparr>"
    let ?db = "set_notice (pk n) ?h db"
    have step: "send_email_notification t ok usrs (pk n) db = Inr (Retry, ?db)"
      using False found Cons.prems by (simp add: send_email_notification_def)
    show ?thesis
    proof (cases left)
      case 0
      with step False show ?thesis by (simp add: run after_runs_def set_notice_def)
    next
      case (Suc m)
      have "run_with_retries m rest usrs (pk (?h n)) ?db =
        Inr (?db\<lparr>outbox := outbox ?db @ (if \<exists>r \<in> set (take (Suc m) rest). snd r then [mail_of (?h n) to] else []),
                 notifications := save_row (pk (?h n)) (after_runs (take (Suc m) rest)) (notifications ?db)\<rparr>)"
      proof (rule Cons.IH)
        show "distinct_pks (notifications ?db)"
          using Cons.prems(1) by (simp add: set_notice_def save_row_def distinct_pks_update_where)
        show "?h n \<in> set (notifications ?db)"
          using Cons.prems(2) by (auto simp: set_notice_def save_row_def set_update_where)
      qed (use Cons.prems in \<open>simp_all add: is_alive_def\<close>)
      moreover have "after_runs (take (Suc m) rest) (?h r) = after_runs (take (Suc left) (run # rest)) r" for r
        using False by (simp add: run Suc after_runs_def split: option.splits)
      ultimately show ?thesis
        using step False by (simp add: run Suc set_notice_def save_row_twice mail_of_def)
    qed
  qed
qed

text \<open>
  The e-mail task under Celery's retries. For a living notification that is not marked sent
  and has an address, whatever the mail transport answers: the message is delivered exactly once
  if one of the first six runs is accepted and not at all otherwise; the row ends SENT with the
  time of the accepted run, or FAILED; nothing else changes, and no run raises.
\<close>

theorem email_retries_exact:
  assumes "distinct_pks (notifications db)" "n \<in> set (notifications db)" "is_alive n"
    and "nt_status n \<noteq> SENT" "recipient usrs n = Inr to" "truthy to"
  shows "run_with_retries max_retries runs usrs (pk n) db =
           Inr (db\<lparr>outbox := outbox db @ (if \<exists>r \<in> set (take 6 runs). snd r then [mail_of n to] else []),
                   notifications := save_row (pk n) (after_runs (take 6 runs)) (notifications db)\<rparr>)"
  using run_with_retries_exact [OF assms, of max_retries runs] by (simp add: max_retries_def)

definition demo_notice :: "nat \<Rightarrow> notice_status \<Rightarrow> notification" where
  "demo_notice k st = \<lparr>pk = k, created_at = 0, updated_at = 0, deleted_at = None, nt_user = None,
     nt_channel = EMAIL, nt_template_code = ''order.paid'', nt_title = '''', nt_body = ''paid'',
     nt_payload = JObj [(''to'', JStr ''a@b.c'')], nt_status = st, nt_sent_at = None, nt_read_at = None\<rparr>"

definition demo_post :: post_office where
  "demo_post = \<lparr>notifications = [demo_notice 1 UNSENT, demo_notice 2 READ], outbox = [], task_queue = [1]\<rparr>"

lemma email_retries_exact_witness:
  "run_with_retries max_retries [(10, False), (20, False), (30, True)] [] (pk (demo_notice 1 UNSENT)) demo_post =
     Inr (demo_post\<lparr>outbox := outbox demo_post @ (if \<exists>r \<in> set (take 6 [(10::int, False), (20, False), (30, True)]). snd r
                       then [mail_of (demo_notice 1 UNSENT) (JStr ''a@b.c'')] else []),
       notifications := save_row (pk (demo_notice 1 UNSENT)) (after_runs (take 6 [(10, False), (20, False), (30, True)]))
                          (notifications demo_post)\<rparr>)"
  by (rule email_retries_exact)
     (simp_all add: demo_post_def demo_notice_def distinct_pks_def is_alive_def recipient_def json_or_def)

text \<open>A task that is delivered again does nothing once the row is SENT.\<close>

lemma sent_is_final:
  assumes "distinct_pks (notifications db)" "n \<in> set (notifications db)" "is_alive n" "nt_status n = SENT"
  shows "run_with_retries left runs usrs (pk n) db = Inr db"
  using assms by (cases runs) (auto simp: send_email_notification_def find_alive_pk)

text \<open>A row the user marked as read no longer counts as sent: a redelivered task mails it again.\<close>

lemma read_notification_is_mailed_again:
  "map_sum id outbox (run_with_retries max_retries [(50, True)] [] 2 demo_post) =
     Inr [(''Notification'', ''paid'', JStr ''a@b.c'')]"
  by code_simp

text \<open>
  Reviews are not protected by ownership. For any two users and any living review, the other
  user's update with a valid payload that keeps the product succeeds and rewrites rating, title
  and body; the row keeps its author and its moderation status, so an approved review stays
  published with the new text.
\<close>

theorem any_user_rewrites_reviews:
  assumes "distinct_pks tbl" "r \<in> set tbl" "is_alive r" "review_valid cat ords ri = Inr ri"
    and "ri_product ri = rv_product r"
    and "\<forall>x \<in> set tbl. rv_product x = rv_product r \<and> rv_user x = rv_user r \<longrightarrow> pk x = pk r"
  shows "\<exists>r'. review_update now cat ords (Some stranger) (pk r) ri tbl = Inr (r', save_row (pk r) (\<lambda>_. r') tbl) \<and>
           rv_rating r' = ri_rating ri \<and> rv_title r' = ri_title ri \<and> rv_body r' = ri_body ri \<and>
           rv_user r' = rv_user r \<and> rv_status r' = rv_status r"
proof -
  have found: "find (\<lambda>x. pk x = pk r) (review_queryset False tbl) = Some r"
  proof (cases "find (\<lambda>x. pk x = pk r) (review_queryset False tbl)")
    case None
    with assms(2,3) show ?thesis by (auto simp: find_None_iff review_queryset_def)
  next
    case (Some x)
    then have "x \<in> set tbl" "pk x = pk r"
      by (auto dest!: find_SomeD simp: review_queryset_def)
    with Some row_unique [OF assms(1) _ assms(2)] show ?thesis by blast
  qed
  have "\<not> (\<exists>x \<in> set tbl. pk x \<noteq> pk r \<and> rv_product x = rv_product r \<and> rv_user x = rv_user r)"
    using assms(6) by blast
  then show ?thesis
    unfolding review_update_def found using assms(4,5) by (simp add: Let_def)
qed

definition demo_user :: "nat \<Rightarrow> string \<Rightarrow> user" where
  "demo_user k email = \<lparr>pk = k, created_at = 0, updated_at = 0, deleted_at = None, us_email = email,
     us_password = '''', us_first_name = '''', us_last_name = '''', us_phone = '''', us_is_active = True,
     us_is_staff = False, us_is_superuser = False, us_email_verified_at = None,
     us_phone_verified_at = None, us_last_login_ip = None, us_roles = []\<rparr>"

definition demo_review :: review where
  "demo_review = \<lparr>pk = 1, created_at = 0, updated_at = 0, deleted_at = None, rv_product = 1,
     rv_user = 7, rv_order = None, rv_rating = 5, rv_title = ''great'', rv_body = '''',
     rv_status = REVIEW_APPROVED, rv_helpful_count = 3\<rparr>"

definition demo_rewrite :: review_input where
  "demo_rewrite = \<lparr>ri_product = 1, ri_order = None, ri_rating = 1, ri_title = ''awful'', ri_body = ''''\<rparr>"

lemma any_user_rewrites_reviews_witness:
  "\<exists>r'. review_update 10 demo_catalog [] (Some (demo_user 9 ''x@y.z'')) (pk demo_review) demo_rewrite [demo_review] =
           Inr (r', save_row (pk demo_review) (\<lambda>_. r') [demo_review]) \<and>
        rv_rating r' = ri_rating demo_rewrite \<and> rv_title r' = ri_title demo_rewrite \<and>
        rv_body r' = ri_body demo_rewrite \<and> rv_user r' = rv_user demo_review \<and>
        rv_status r' = rv_status demo_review"
  by (rule any_user_rewrites_reviews)
     (simp_all add: distinct_pks_def is_alive_def demo_review_def demo_rewrite_def review_valid_def
        validate_rating_def demo_catalog_def demo_product_def)

end
