(* ===== verification/Backoffice.thy ===== *)
theory Backoffice
  imports Registry Isolation Engagement
begin

text \<open>
  What staff can do to orders and reviews in the admin sites of \<open>orders/admin.py\<close> and
  \<open>reviews/admin.py\<close>. An admin form saves the row itself and calls none of the services: it writes the
  columns \<open>form_fields\<close> gives, nothing of the ledger, no order event and no broadcast.
\<close>

section \<open>The order form\<close>

datatype order_edit =
    EditDeletedAt "int option"
  | EditUser "nat option"
  | EditEmailSnapshot string
  | EditPhoneSnapshot string
  | EditStatus order_status
  | EditCurrency string
  | EditSubtotal int
  | EditShippingTotal int
  | EditTaxTotal int
  | EditDiscountTotal int
  | EditGrandTotal int
  | EditNumber string
  | EditCouponCode string
  | EditShippingAddress json
  | EditBillingAddress json
  | EditPaymentProvider string
  | EditPaymentReference string
  | EditPaidAt "int option"
  | EditCancelledAt "int option"
  | EditRefundedAt "int option"
  | EditNotesInternal string
  | EditNotesCustomer string
  | EditMetadata json

fun edit_field :: "order_edit \<Rightarrow> string" where
  "edit_field (EditDeletedAt t) = ''deleted_at''"
| "edit_field (EditUser u) = ''user''"
| "edit_field (EditEmailSnapshot x) = ''email_snapshot''"
| "edit_field (EditPhoneSnapshot x) = ''phone_snapshot''"
| "edit_field (EditStatus x) = ''status''"
| "edit_field (EditCurrency x) = ''currency''"
| "edit_field (EditSubtotal x) = ''subtotal''"
| "edit_field (EditShippingTotal x) = ''shipping_total''"
| "edit_field (EditTaxTotal x) = ''tax_total''"
| "edit_field (EditDiscountTotal x) = ''discount_total''"
| "edit_field (EditGrandTotal x) = ''grand_total''"
| "edit_field (EditNumber x) = ''number''"
| "edit_field (EditCouponCode x) = ''coupon_code''"
| "edit_field (EditShippingAddress x) = ''shipping_address''"
| "edit_field (EditBillingAddress x) = ''billing_address''"
| "edit_field (EditPaymentProvider x) = ''payment_provider''"
| "edit_field (EditPaymentReference x) = ''payment_reference''"
| "edit_field (EditPaidAt x) = ''paid_at''"
| "edit_field (EditCancelledAt x) = ''cancelled_at''"
| "edit_field (EditRefundedAt x) = ''refunded_at''"
| "edit_field (EditNotesInternal x) = ''notes_internal''"
| "edit_field (EditNotesCustomer x) = ''notes_customer''"
| "edit_field (EditMetadata x) = ''metadata''"

fun apply_edit :: "order_edit \<Rightarrow> order \<Rightarrow> order" where
  "apply_edit (EditDeletedAt t) o' = o'\<lparr>deleted_at := t\<rparr>"
| "apply_edit (EditUser u) o' = o'\<lparr>od_user := u\<rparr>"
| "apply_edit (EditEmailSnapshot x) o' = o'\<lparr>od_email_snapshot := x\<rparr>"
| "apply_edit (EditPhoneSnapshot x) o' = o'\<lparr>od_phone_snapshot := x\<rparr>"
| "apply_edit (EditStatus x) o' = o'\<lparr>od_status := x\<rparr>"
| "apply_edit (EditCurrency x) o' = o'\<lparr>od_currency := x\<rparr>"
| "apply_edit (EditSubtotal x) o' = o'\<lparr>od_subtotal := x\<rparr>"
| "apply_edit (EditShippingTotal x) o' = o'\<lparr>od_shipping_total := x\<rparr>"
| "apply_edit (EditTaxTotal x) o' = o'\<lparr>od_tax_total := x\<rparr>"
| "apply_edit (EditDiscountTotal x) o' = o'\<lparr>od_discount_total := x\<rparr>"
| "apply_edit (EditGrandTotal x) o' = o'\<lparr>od_grand_total := x\<rparr>"
| "apply_edit (EditNumber x) o' = o'\<lparr>od_number := x\<rparr>"
| "apply_edit (EditCouponCode x) o' = o'\<lparr>od_coupon_code := x\<rparr>"
| "apply_edit (EditShippingAddress x) o' = o'\<lparr>od_shipping_address := x\<rparr>"
| "apply_edit (EditBillingAddress x) o' = o'\<lparr>od_billing_address := x\<rparr>"
| "apply_edit (EditPaymentProvider x) o' = o'\<lparr>od_payment_provider := x\<rparr>"
| "apply_edit (EditPaymentReference x) o' = o'\<lparr>od_payment_reference := x\<rparr>"
| "apply_edit (EditPaidAt x) o' = o'\<lparr>od_paid_at := x\<rparr>"
| "apply_edit (EditCancelledAt x) o' = o'\<lparr>od_cancelled_at := x\<rparr>"
| "apply_edit (EditRefundedAt x) o' = o'\<lparr>od_refunded_at := x\<rparr>"
| "apply_edit (EditNotesInternal x) o' = o'\<lparr>od_notes_internal := x\<rparr>"
| "apply_edit (EditNotesCustomer x) o' = o'\<lparr>od_notes_customer := x\<rparr>"
| "apply_edit (EditMetadata x) o' = o'\<lparr>od_metadata := x\<rparr>"

text \<open>
  A posted change form of a valid post: Django ignores values for fields the form does not have, looks
  the order up through \<open>objects\<close>, and saves the whole row, which sets \<open>updated_at\<close>. The delete button
  and the delete action call the model's soft delete.
\<close>

definition form_edits :: "order_edit list \<Rightarrow> order_edit list" where
  "form_edits es = filter (\<lambda>e. edit_field e \<in> set (form_fields declared OrderAdmin)) es"

definition change_order :: "int \<Rightarrow> order_edit list \<Rightarrow> nat \<Rightarrow> shop \<Rightarrow> py_error + (order \<times> shop)" where
  "change_order now es k db =
     bindE (get_one ''Order'' (\<lambda>o'. pk o' = k) (orders db)) (\<lambda>o'.
       let o1 = (fold apply_edit (form_edits es) o')\<lparr>updated_at := now\<rparr> in
       Inr (o1, db\<lparr>orders := save_row (pk o') (\<lambda>_. o1) (orders db)\<rparr>))"

definition delete_order :: "int \<Rightarrow> nat \<Rightarrow> shop \<Rightarrow> py_error + shop" where
  "delete_order now k db =
     bindE (get_one ''Order'' (\<lambda>o'. pk o' = k) (orders db)) (\<lambda>o'.
       Inr (db\<lparr>orders := delete_row now (pk o') (orders db)\<rparr>))"

text \<open>The review actions: one UPDATE of the selected living rows, which leaves \<open>updated_at\<close> alone.\<close>

definition approve :: "nat set \<Rightarrow> review list \<Rightarrow> review list" where
  "approve sel tbl = update_where (qs_alive (\<lambda>r. pk r \<in> sel)) (\<lambda>r. r\<lparr>rv_status := REVIEW_APPROVED\<rparr>) tbl"

definition reject :: "nat set \<Rightarrow> review list \<Rightarrow> review list" where
  "reject sel tbl = update_where (qs_alive (\<lambda>r. pk r \<in> sel)) (\<lambda>r. r\<lparr>rv_status := REVIEW_REJECTED\<rparr>) tbl"

section \<open>Lemmas\<close>

text \<open>The columns the order form leaves alone.\<close>

definition kept_columns :: "order \<Rightarrow> nat \<times> int \<times> string \<times> int list \<times> int option list" where
  "kept_columns o' =
     (pk o', created_at o', od_number o',
      [od_subtotal o', od_shipping_total o', od_tax_total o', od_discount_total o', od_grand_total o'],
      [od_paid_at o', od_cancelled_at o', od_refunded_at o'])"

lemma form_edit_kept:
  "edit_field e \<in> set (form_fields declared OrderAdmin) \<Longrightarrow> kept_columns (apply_edit e o') = kept_columns o'"
  by (cases e) (simp_all add: order_form kept_columns_def)

lemma form_edits_kept: "kept_columns (fold apply_edit (form_edits es) o') = kept_columns o'"
  by (induction es arbitrary: o') (simp_all add: form_edits_def form_edit_kept)

lemma kept_columns_pk: "kept_columns a = kept_columns b \<Longrightarrow> pk a = pk b"
  by (simp add: kept_columns_def)

lemma change_order_living:
  assumes "distinct_pks (orders db)" "o0 \<in> set (orders db)" "is_alive o0"
  shows "change_order now es (pk o0) db =
     Inr ((fold apply_edit (form_edits es) o0)\<lparr>updated_at := now\<rparr>,
          db\<lparr>orders := save_row (pk o0) (\<lambda>_. (fold apply_edit (form_edits es) o0)\<lparr>updated_at := now\<rparr>) (orders db)\<rparr>)"
  using get_one_pk [OF assms] by (simp add: change_order_def Let_def)

lemma change_order_kept:
  assumes "distinct_pks (orders db)" "o0 \<in> set (orders db)" "is_alive o0"
    and "change_order now es (pk o0) db = Inr (o1, db')"
  shows "kept_columns o1 = kept_columns o0" "pk o1 = pk o0"
    "db' = db\<lparr>orders := save_row (pk o0) (\<lambda>_. o1) (orders db)\<rparr>"
  using change_order_living [OF assms(1-3), of now es] assms(4) form_edits_kept [of es o0]
  by (auto simp: kept_columns_def)

lemma delete_order_living:
  assumes "distinct_pks (orders db)" "o0 \<in> set (orders db)" "is_alive o0"
  shows "delete_order now (pk o0) db = Inr (db\<lparr>orders := delete_row now (pk o0) (orders db)\<rparr>)"
  using get_one_pk [OF assms] by (simp add: delete_order_def)

text \<open>An order that stops being a living pending one by a write to its row alone.\<close>

lemma rewritten_order_strands_units:
  assumes "ledger_ok db" "reservations_match db" "o0 \<in> set (orders db)" "is_alive o0" "od_status o0 = PENDING"
    and f: "pk (f o0) = pk o0" "\<not> (is_alive (f o0) \<and> od_status (f o0) = PENDING)"
    and db': "db' = db\<lparr>orders := save_row (pk o0) f (orders db)\<rparr>"
  shows "total_reserved v (stock_db db') = pending_demand v db' + demand v (lines_of (pk o0) (order_items db))"
proof -
  have d: "distinct_pks (orders db)" using assms(1) by (simp add: ledger_ok_def linked_def)
  from sum_save_row [OF d assms(3), of "\<lambda>x. demand v (pending_lines (order_items db) x)" f] f assms(2,4,5)
  show ?thesis by (simp add: db' pending_demand_def reservations_match_def pending_lines_def)
qed

lemma rewritten_order_stuck:
  assumes "distinct_pks (orders db)" "o0 \<in> set (orders db)" "pk (f o0) = pk o0"
    and "od_status (f o0) \<in> {CANCELLED, REFUNDED} \<or> \<not> is_alive (f o0)"
  shows "\<exists>e. transition_status t (pk o0) new actor msg (db\<lparr>orders := save_row (pk o0) f (orders db)\<rparr>) = Inl e"
proof (cases "transition_status t (pk o0) new actor msg (db\<lparr>orders := save_row (pk o0) f (orders db)\<rparr>)")
  case (Inr r)
  obtain o2 db2 where r: "r = (o2, db2)" by (cases r)
  from Inr [unfolded r] show ?thesis
  proof (cases rule: transition_Inr)
    case (1 x)
    then obtain y where y: "y \<in> set (orders db)" "x = (if pk y = pk o0 then f y else y)"
      by (auto simp: set_save_row)
    with 1(2) have "pk y = pk o0" by (auto split: if_splits)
    with row_unique [OF assms(1) y(1) assms(2)] have "y = o0" by simp
    with y 1(3,4) assms(4) show ?thesis by (auto simp: can_transition_to_def)
  qed
qed simp

section \<open>Properties\<close>

text \<open>
  What the admin's order form does, whatever is posted: on a living order it always succeeds; number,
  totals, payment and cancellation times and creation time keep their values, and no stock row,
  movement, order item, event, broadcast or other order changes. The status is not among the protected
  columns.
\<close>

theorem order_form_exact:
  assumes "distinct_pks (orders db)" "o0 \<in> set (orders db)" "is_alive o0"
  shows "\<exists>o1. change_order now es (pk o0) db = Inr (o1, db\<lparr>orders := save_row (pk o0) (\<lambda>_. o1) (orders db)\<rparr>) \<and>
    kept_columns o1 = kept_columns o0 \<and> updated_at o1 = now \<and>
    (es = [EditStatus st] \<longrightarrow> od_status o1 = st \<and> is_alive o1) \<and>
    (\<forall>x \<in> set (orders db). pk x \<noteq> pk o0 \<longrightarrow> x \<in> set (save_row (pk o0) (\<lambda>_. o1) (orders db)))"
proof -
  let ?o = "(fold apply_edit (form_edits es) o0)\<lparr>updated_at := now\<rparr>"
  have "kept_columns ?o = kept_columns o0" using form_edits_kept [of es o0] by (simp add: kept_columns_def)
  moreover have "es = [EditStatus st] \<longrightarrow> od_status ?o = st \<and> is_alive ?o"
    using assms(3) by (simp add: form_edits_def order_form is_alive_def)
  moreover have "\<forall>x \<in> set (orders db). pk x \<noteq> pk o0 \<longrightarrow> x \<in> set (save_row (pk o0) (\<lambda>_. ?o) (orders db))"
    by (fastforce simp: set_save_row)
  ultimately show ?thesis using change_order_living [OF assms] by (intro exI [of _ ?o]) simp
qed

theorem order_form_exact_witness:
  "\<exists>o1. change_order 9 [EditStatus CANCELLED, EditGrandTotal 0] 2 busy_shop =
       Inr (o1, busy_shop\<lparr>orders := save_row 2 (\<lambda>_. o1) (orders busy_shop)\<rparr>) \<and> od_grand_total o1 = 4997"
proof -
  have o: "demo_order 2 PENDING \<in> set (orders busy_shop)" "is_alive (demo_order 2 PENDING)"
    "pk (demo_order 2 PENDING) = 2" "od_grand_total (demo_order 2 PENDING) = 4997"
    by (simp_all add: busy_shop_def demo_order_def is_alive_def)
  have "distinct_pks (orders busy_shop)" using busy_shop_ok by (simp add: shop_ok_def orders_ok_def)
  from order_form_exact [OF this o(1,2), of 9 "[EditStatus CANCELLED, EditGrandTotal 0]"] o(3,4)
  show ?thesis by (auto simp: kept_columns_def)
qed

text \<open>
  C19. Moving a pending order on, cancelling it or stamping it deleted in the admin's form leaves its stock
  behind: its units stay reserved for no living pending order, no movement or event is written, and if it
  was cancelled, refunded or deleted there, no later status change can release them.
\<close>

theorem admin_edit_strands_units:
  assumes "ledger_ok db" "reservations_match db" "o0 \<in> set (orders db)" "is_alive o0" "od_status o0 = PENDING"
    and "change_order now es (pk o0) db = Inr (o1, db')" "\<not> (is_alive o1 \<and> od_status o1 = PENDING)"
  shows "(\<forall>v. total_reserved v (stock_db db') = pending_demand v db' + demand v (lines_of (pk o0) (order_items db))) \<and>
    stock_db db' = stock_db db \<and> order_events db' = order_events db \<and>
    (od_status o1 \<in> {CANCELLED, REFUNDED} \<or> \<not> is_alive o1 \<longrightarrow>
       (\<forall>t new actor msg. \<exists>e. transition_status t (pk o0) new actor msg db' = Inl e))"
proof -
  have d: "distinct_pks (orders db)" using assms(1) by (simp add: ledger_ok_def linked_def)
  note k = change_order_kept [OF d assms(3,4,6)]
  from rewritten_order_strands_units [OF assms(1-5) k(2) assms(7) k(3)] k(3)
    rewritten_order_stuck [of db o0 "\<lambda>_. o1", OF d assms(3) k(2)]
  show ?thesis by simp
qed

theorem admin_edit_strands_units_witness:
  "\<exists>o1 db'. change_order 9 [EditStatus CANCELLED] 2 busy_shop = Inr (o1, db') \<and>
     total_reserved 7 (stock_db db') = pending_demand 7 db' + 2 \<and>
     (\<exists>e. transition_status 10 2 CANCELLED None '''' db' = Inl e)"
proof -
  let ?o = "demo_order 2 PENDING"
  have o: "?o \<in> set (orders busy_shop)" "is_alive ?o" "od_status ?o = PENDING" "pk ?o = 2"
    by (simp_all add: busy_shop_def demo_order_def is_alive_def)
  have d: "distinct_pks (orders busy_shop)" using busy_shop_ok by (simp add: shop_ok_def orders_ok_def)
  obtain o1 db' where c: "change_order 9 [EditStatus CANCELLED] (pk ?o) busy_shop = Inr (o1, db')"
    and n: "od_status o1 = CANCELLED"
    using change_order_living [OF d o(1,2), of 9 "[EditStatus CANCELLED]"]
    by (simp add: form_edits_def order_form)
  then have "\<not> (is_alive o1 \<and> od_status o1 = PENDING)" by simp
  note a = admin_edit_strands_units [OF shop_ok_ledger [OF busy_shop_ok] busy_shop_matches o(1-3) c this]
  have "\<forall>v. total_reserved v (stock_db db') = pending_demand v db' + demand v (lines_of 2 (order_items busy_shop))"
    "\<exists>e. transition_status 10 2 CANCELLED None '''' db' = Inl e" using a n o(4) by (metis insertI1)+
  moreover have "demand 7 (lines_of 2 (order_items busy_shop)) = 2" by code_simp
  ultimately show ?thesis using c o(4) by auto
qed

text \<open>Deleting a pending order in the admin does the same.\<close>

lemma admin_delete_strands_units:
  assumes "ledger_ok db" "reservations_match db" "o0 \<in> set (orders db)" "is_alive o0" "od_status o0 = PENDING"
    and "delete_order now (pk o0) db = Inr db'"
  shows "total_reserved v (stock_db db') = pending_demand v db' + demand v (lines_of (pk o0) (order_items db))"
    "\<exists>e. transition_status t (pk o0) new actor msg db' = Inl e"
proof -
  let ?f = "\<lambda>r :: order. r\<lparr>deleted_at := Some now\<rparr>"
  have d: "distinct_pks (orders db)" using assms(1) by (simp add: ledger_ok_def linked_def)
  have db': "db' = db\<lparr>orders := save_row (pk o0) ?f (orders db)\<rparr>"
    using delete_order_living [OF d assms(3,4)] assms(6) by (simp add: delete_row_def)
  have f: "pk (?f o0) = pk o0" "\<not> is_alive (?f o0)" by (simp_all add: is_alive_def)
  show "total_reserved v (stock_db db') = pending_demand v db' + demand v (lines_of (pk o0) (order_items db))"
    using rewritten_order_strands_units [OF assms(1-5) f(1) _ db'] f(2) by blast
  show "\<exists>e. transition_status t (pk o0) new actor msg db' = Inl e"
    unfolding db' using rewritten_order_stuck [of db o0 ?f, OF d assms(3) f(1)] f(2) by blast
qed

text \<open>Approving is what makes reviews public, rejecting what takes them back; neither touches other rows.\<close>

lemma approve_public:
  "set (review_queryset True (approve sel tbl)) =
     {r \<in> set (approve sel tbl). is_alive r \<and> rv_status r = REVIEW_APPROVED} \<and>
   (\<forall>r \<in> set tbl. is_alive r \<longrightarrow> pk r \<in> sel \<longrightarrow>
      r\<lparr>rv_status := REVIEW_APPROVED\<rparr> \<in> set (review_queryset True (approve sel tbl)))"
  by (force simp: review_queryset_def approve_def update_where_def qs_alive_def is_alive_def)

lemma reject_hides:
  "r \<in> set (review_queryset True (reject sel tbl)) \<Longrightarrow> pk r \<notin> sel"
  by (auto simp: review_queryset_def reject_def update_where_def qs_alive_def is_alive_def split: if_splits)

end
