(* ===== verification/Access.thy ===== *)
theory Access
  imports Settings
begin

text \<open>
  Who may call what: the views of the Django applications with the permissions, throttles and
  methods they declare, the URL tables that mount them, and the checks a request passes before its
  handler runs. What the base classes of Django REST framework and simplejwt bring along is the
  record \<open>drf\<close>, whose documented content is \<open>documented\<close>; the store of a throttle's request history is a
  parameter.
\<close>

section \<open>Views\<close>

record drf =
  actions_of :: "string \<Rightarrow> (string \<times> string list) list"
  token_view_permissions :: "permission_class list"
  token_view_authentication :: "authentication_class list"

text \<open>The handlers of DRF's generic views and viewsets, and simplejwt's open token views.\<close>

definition documented :: "drf \<Rightarrow> bool" where
  "documented d \<longleftrightarrow>
     actions_of d ''ModelViewSet'' =
       [(''list'', [''GET'']), (''create'', [''POST'']), (''retrieve'', [''GET'']), (''update'', [''PUT'']),
        (''partial_update'', [''PATCH'']), (''destroy'', [''DELETE''])] \<and>
     actions_of d ''ReadOnlyModelViewSet'' = [(''list'', [''GET'']), (''retrieve'', [''GET''])] \<and>
     actions_of d ''CreateAPIView'' = [(''post'', [''POST''])] \<and>
     actions_of d ''RetrieveUpdateAPIView'' = [(''get'', [''GET'']), (''put'', [''PUT'']), (''patch'', [''PATCH''])] \<and>
     actions_of d ''TokenViewBase'' = [(''post'', [''POST''])] \<and>
     token_view_permissions d = [] \<and> token_view_authentication d = []"

record view_class =
  vw_name :: string
  vw_authentication :: "authentication_class list"
  vw_permissions :: "permission_class list"
  vw_throttles :: "throttle_class list"
  vw_scope :: "string option"
  vw_actions :: "(string \<times> string list) list"

text \<open>A view that declares nothing has the defaults of the settings.\<close>

definition api_view :: "rest_framework \<Rightarrow> string \<Rightarrow> (string \<times> string list) list \<Rightarrow> view_class" where
  "api_view rf n acts =
     \<lparr>vw_name = n, vw_authentication = default_authentication_classes rf,
      vw_permissions = default_permission_classes rf, vw_throttles = default_throttle_classes rf,
      vw_scope = None, vw_actions = acts\<rparr>"

definition with_permissions :: "permission_class list \<Rightarrow> view_class \<Rightarrow> view_class" where
  "with_permissions ps v = v\<lparr>vw_permissions := ps\<rparr>"

definition throttled_as :: "string \<Rightarrow> view_class \<Rightarrow> view_class" where
  "throttled_as scope v = v\<lparr>vw_throttles := [ScopedRateThrottle], vw_scope := Some scope\<rparr>"

subsection \<open>\<open>users/views.py\<close>\<close>

definition RegisterView :: "rest_framework \<Rightarrow> drf \<Rightarrow> view_class" where
  "RegisterView rf d =
     throttled_as ''auth'' (with_permissions [AllowAny] (api_view rf ''RegisterView'' (actions_of d ''CreateAPIView'')))"

definition token_view :: "rest_framework \<Rightarrow> drf \<Rightarrow> string \<Rightarrow> view_class" where
  "token_view rf d n =
     (with_permissions (token_view_permissions d) (api_view rf n (actions_of d ''TokenViewBase'')))
       \<lparr>vw_authentication := token_view_authentication d\<rparr>"

definition LoginView :: "rest_framework \<Rightarrow> drf \<Rightarrow> view_class" where
  "LoginView rf d = throttled_as ''auth'' (token_view rf d ''LoginView'')"

definition RefreshView :: "rest_framework \<Rightarrow> drf \<Rightarrow> view_class" where
  "RefreshView rf d = throttled_as ''auth'' (token_view rf d ''RefreshView'')"

definition LogoutView :: "rest_framework \<Rightarrow> view_class" where
  "LogoutView rf = with_permissions [IsAuthenticatedUser] (api_view rf ''LogoutView'' [(''post'', [''POST''])])"

definition MeView :: "rest_framework \<Rightarrow> drf \<Rightarrow> view_class" where
  "MeView rf d =
     with_permissions [IsAuthenticatedUser] (api_view rf ''MeView'' (actions_of d ''RetrieveUpdateAPIView''))"

definition AddressViewSet :: "rest_framework \<Rightarrow> drf \<Rightarrow> view_class" where
  "AddressViewSet rf d = with_permissions [IsAuthenticatedUser]
     (api_view rf ''AddressViewSet'' (actions_of d ''ModelViewSet'' @ [(''make_default'', [''POST''])]))"

subsection \<open>The views of the shop\<close>

definition CartViewSet :: "rest_framework \<Rightarrow> view_class" where
  "CartViewSet rf = with_permissions [AllowAny]
     (api_view rf ''CartViewSet''
        [(''list'', [''GET'']), (''add'', [''POST'']), (''item'', [''PATCH'', ''DELETE'']), (''clear'', [''POST''])])"

definition OrderViewSet :: "rest_framework \<Rightarrow> drf \<Rightarrow> view_class" where
  "OrderViewSet rf d = throttled_as ''user'' (with_permissions [IsAuthenticatedUser, OwnerOrStaff]
     (api_view rf ''OrderViewSet''
        (actions_of d ''ReadOnlyModelViewSet'' @ [(''checkout'', [''POST'']), (''cancel'', [''POST''])])))"

definition PaymentViewSet :: "rest_framework \<Rightarrow> drf \<Rightarrow> view_class" where
  "PaymentViewSet rf d = with_permissions [IsAuthenticatedUser]
     (api_view rf ''PaymentViewSet'' (actions_of d ''ReadOnlyModelViewSet'' @ [(''create_for_order'', [''POST''])]))"

definition WebhookView :: "rest_framework \<Rightarrow> view_class" where
  "WebhookView rf =
     (with_permissions [AllowAny] (api_view rf ''WebhookView'' [(''post'', [''POST''])]))\<lparr>vw_authentication := []\<rparr>"

definition NotificationViewSet :: "rest_framework \<Rightarrow> drf \<Rightarrow> view_class" where
  "NotificationViewSet rf d = with_permissions [IsAuthenticatedUser]
     (api_view rf ''NotificationViewSet'' (actions_of d ''ReadOnlyModelViewSet'' @ [(''mark_read'', [''POST''])]))"

definition ReviewViewSet :: "rest_framework \<Rightarrow> drf \<Rightarrow> view_class" where
  "ReviewViewSet rf d = with_permissions [IsAuthenticatedOrReadOnly]
     (api_view rf ''ReviewViewSet'' (actions_of d ''ModelViewSet''))"

subsection \<open>The views of the staff\<close>

definition staff_view :: "rest_framework \<Rightarrow> string \<Rightarrow> (string \<times> string list) list \<Rightarrow> view_class" where
  "staff_view rf n acts = with_permissions [IsAuthenticatedUser, StaffRole] (api_view rf n acts)"

definition BrandViewSet :: "rest_framework \<Rightarrow> drf \<Rightarrow> view_class" where
  "BrandViewSet rf d = staff_view rf ''BrandViewSet'' (actions_of d ''ModelViewSet'')"

definition CategoryViewSet :: "rest_framework \<Rightarrow> drf \<Rightarrow> view_class" where
  "CategoryViewSet rf d = staff_view rf ''CategoryViewSet'' (actions_of d ''ModelViewSet'')"

definition ProductViewSet :: "rest_framework \<Rightarrow> drf \<Rightarrow> view_class" where
  "ProductViewSet rf d = staff_view rf ''ProductViewSet'' (actions_of d ''ModelViewSet'')"

definition ProductVariantViewSet :: "rest_framework \<Rightarrow> drf \<Rightarrow> view_class" where
  "ProductVariantViewSet rf d = staff_view rf ''ProductVariantViewSet'' (actions_of d ''ModelViewSet'')"

definition WarehouseViewSet :: "rest_framework \<Rightarrow> drf \<Rightarrow> view_class" where
  "WarehouseViewSet rf d = staff_view rf ''WarehouseViewSet'' (actions_of d ''ModelViewSet'')"

definition StockViewSet :: "rest_framework \<Rightarrow> drf \<Rightarrow> view_class" where
  "StockViewSet rf d =
     staff_view rf ''StockViewSet'' (actions_of d ''ReadOnlyModelViewSet'' @ [(''adjust'', [''POST''])])"

definition StockMovementViewSet :: "rest_framework \<Rightarrow> drf \<Rightarrow> view_class" where
  "StockMovementViewSet rf d = staff_view rf ''StockMovementViewSet'' (actions_of d ''ReadOnlyModelViewSet'')"

definition CouponViewSet :: "rest_framework \<Rightarrow> drf \<Rightarrow> view_class" where
  "CouponViewSet rf d =
     staff_view rf ''CouponViewSet'' (actions_of d ''ModelViewSet'' @ [(''validate_code'', [''GET''])])"

definition DashboardView :: "rest_framework \<Rightarrow> view_class" where
  "DashboardView rf = staff_view rf ''DashboardView'' [(''get'', [''GET''])]"

section \<open>URL tables\<close>

text \<open>
  A table pairs the prefix of a route with its view; \<open>include\<close> puts a prefix before a table. A
  viewset stands under the prefix it is registered with. The OpenAPI pages, the liveness probe and Django's admin
  site are not views of the applications.
\<close>

type_synonym urls = "(string \<times> view_class) list"

definition include_at :: "string \<Rightarrow> urls \<Rightarrow> urls" where
  "include_at prefix us = map (\<lambda>(p, v). (prefix @ p, v)) us"

definition users_urls :: "rest_framework \<Rightarrow> drf \<Rightarrow> urls" where
  "users_urls rf d =
     [(''register/'', RegisterView rf d), (''login/'', LoginView rf d), (''refresh/'', RefreshView rf d),
      (''logout/'', LogoutView rf)]"

definition me_urls :: "rest_framework \<Rightarrow> drf \<Rightarrow> urls" where
  "me_urls rf d = [('''', MeView rf d), (''addresses'', AddressViewSet rf d)]"

definition cart_urls :: "rest_framework \<Rightarrow> urls" where
  "cart_urls rf = [(''cart'', CartViewSet rf)]"

definition orders_urls :: "rest_framework \<Rightarrow> drf \<Rightarrow> urls" where
  "orders_urls rf d = [('''', OrderViewSet rf d)]"

definition payments_urls :: "rest_framework \<Rightarrow> drf \<Rightarrow> urls" where
  "payments_urls rf d = [(''webhooks/'', WebhookView rf), ('''', PaymentViewSet rf d)]"

definition notifications_urls :: "rest_framework \<Rightarrow> drf \<Rightarrow> urls" where
  "notifications_urls rf d = [('''', NotificationViewSet rf d)]"

definition reviews_urls :: "rest_framework \<Rightarrow> drf \<Rightarrow> urls" where
  "reviews_urls rf d = [('''', ReviewViewSet rf d)]"

definition catalog_urls :: "rest_framework \<Rightarrow> drf \<Rightarrow> urls" where
  "catalog_urls rf d =
     [(''brands'', BrandViewSet rf d), (''categories'', CategoryViewSet rf d), (''products'', ProductViewSet rf d),
      (''variants'', ProductVariantViewSet rf d)]"

definition inventory_urls :: "rest_framework \<Rightarrow> drf \<Rightarrow> urls" where
  "inventory_urls rf d =
     [(''warehouses'', WarehouseViewSet rf d), (''stocks'', StockViewSet rf d),
      (''movements'', StockMovementViewSet rf d)]"

definition coupons_urls :: "rest_framework \<Rightarrow> drf \<Rightarrow> urls" where
  "coupons_urls rf d = [('''', CouponViewSet rf d)]"

definition analytics_urls :: "rest_framework \<Rightarrow> urls" where
  "analytics_urls rf = [(''dashboard/'', DashboardView rf)]"

definition admin_urls :: "rest_framework \<Rightarrow> drf \<Rightarrow> urls" where
  "admin_urls rf d =
     include_at ''catalog/'' (catalog_urls rf d) @ include_at ''inventory/'' (inventory_urls rf d) @
     include_at ''coupons/'' (coupons_urls rf d) @ include_at ''analytics/'' (analytics_urls rf)"

definition urlpatterns :: "rest_framework \<Rightarrow> drf \<Rightarrow> urls" where
  "urlpatterns rf d =
     include_at ''/api/admin/'' (admin_urls rf d) @ include_at ''/api/v1/auth/'' (users_urls rf d) @
     include_at ''/api/v1/me/'' (me_urls rf d) @ include_at ''/api/v1/'' (cart_urls rf) @
     include_at ''/api/v1/orders/'' (orders_urls rf d) @ include_at ''/api/v1/payments/'' (payments_urls rf d) @
     include_at ''/api/v1/notifications/'' (notifications_urls rf d) @ include_at ''/api/v1/reviews/'' (reviews_urls rf d)"

section \<open>Before the handler\<close>

definition SAFE_METHODS :: "string list" where
  "SAFE_METHODS = [''GET'', ''HEAD'', ''OPTIONS'']"

definition methods :: "view_class \<Rightarrow> string list" where
  "methods v = concat (map snd (vw_actions v))"

text \<open>The request-level answer of a permission class; \<open>IsOwnerOrStaff\<close> decides on objects only.\<close>

fun has_permission :: "permission_class \<Rightarrow> string \<Rightarrow> user option \<Rightarrow> accounts \<Rightarrow> bool" where
  "has_permission AllowAny m usr db = True"
| "has_permission IsAuthenticatedUser m usr db = IsAuthenticated usr"
| "has_permission IsAuthenticatedOrReadOnly m usr db = (m \<in> set SAFE_METHODS \<or> IsAuthenticated usr)"
| "has_permission StaffRole m usr db = IsStaff usr db"
| "has_permission OwnerOrStaff m usr db = True"

text \<open>
  All classes have to agree. A view without authenticators sees no user; a denial is 401 for a request
  that could have authenticated and did not, 403 otherwise.
\<close>

definition admit :: "view_class \<Rightarrow> string \<Rightarrow> user option \<Rightarrow> accounts \<Rightarrow> py_error + unit" where
  "admit v m usr db =
     (let seen = (if vw_authentication v = [] then None else usr) in
      if list_all (\<lambda>p. has_permission p m seen db) (vw_permissions v) then Inr ()
      else if vw_authentication v \<noteq> [] \<and> seen = None then Inl NotAuthenticated else Inl PermissionDenied)"

text \<open>
  The scopes the throttles of a view ask for, and the question itself: every throttle is asked, and a
  scope without a rate raises. \<open>allow scope rate usr\<close> answers from the history and notes the request in it.
\<close>

definition scopes_checked :: "view_class \<Rightarrow> user option \<Rightarrow> string list" where
  "scopes_checked v usr =
     concat (map (\<lambda>t. case t of
         AnonRateThrottle \<Rightarrow> if usr = None then [''anon''] else []
       | UserRateThrottle \<Rightarrow> [''user'']
       | ScopedRateThrottle \<Rightarrow> (case vw_scope v of None \<Rightarrow> [] | Some s \<Rightarrow> [s])) (vw_throttles v))"

type_synonym 'h limiter = "user option \<Rightarrow> 'h \<Rightarrow> bool \<times> 'h"

fun check_throttles :: "(string \<times> string) list \<Rightarrow> (string \<Rightarrow> string \<Rightarrow> 'h limiter) \<Rightarrow> string list \<Rightarrow> user option
    \<Rightarrow> 'h \<Rightarrow> (py_error + bool) \<times> 'h" where
  "check_throttles rates allow [] usr h = (Inr True, h)"
| "check_throttles rates allow (s # ss) usr h =
     (case map_of rates s of
        None \<Rightarrow> (Inl (KeyError s), h)
      | Some r \<Rightarrow>
          (let (ok, h1) = allow s r usr h; (rest, h2) = check_throttles rates allow ss usr h1 in
           (bindE rest (\<lambda>b. Inr (ok \<and> b)), h2)))"

datatype 'r outcome = Refused py_error | Throttled | Answer 'r

text \<open>
  One request on a fresh instance of the view: permissions, then throttles, then the handler, which
  may change the instance it runs on.
\<close>

definition dispatch :: "(string \<times> string) list \<Rightarrow> (string \<Rightarrow> string \<Rightarrow> 'h limiter) \<Rightarrow> view_class \<Rightarrow> string
    \<Rightarrow> (view_class \<Rightarrow> 's \<Rightarrow> view_class \<times> 'r \<times> 's) \<Rightarrow> accounts \<Rightarrow> user option \<Rightarrow> 'h \<times> 's
    \<Rightarrow> 'r outcome \<times> 'h \<times> 's" where
  "dispatch rates allow v m handler db usr st =
     (case admit v m usr db of
        Inl e \<Rightarrow> (Refused e, st)
      | Inr _ \<Rightarrow>
          (case check_throttles rates allow (scopes_checked v usr) usr (fst st) of
             (Inl e, h) \<Rightarrow> (Refused e, h, snd st)
           | (Inr False, h) \<Rightarrow> (Throttled, h, snd st)
           | (Inr True, h) \<Rightarrow> (let (v', r, s) = handler v (snd st) in (Answer r, h, s))))"

text \<open>\<open>OrderViewSet.checkout\<close> around its \<open>body\<close>: it starts by renaming the scope of its instance.\<close>

definition checkout_handler :: "(user option \<Rightarrow> 's \<Rightarrow> 'r \<times> 's) \<Rightarrow> user option \<Rightarrow> view_class \<Rightarrow> 's \<Rightarrow> view_class \<times> 'r \<times> 's" where
  "checkout_handler body usr v s = (let v' = v\<lparr>vw_scope := Some ''checkout''\<rparr>; (r, s') = body usr s in (v', r, s'))"

definition checkout_request :: "environ \<Rightarrow> drf \<Rightarrow> (string \<Rightarrow> string \<Rightarrow> 'h limiter) \<Rightarrow> (user option \<Rightarrow> 's \<Rightarrow> 'r \<times> 's)
    \<Rightarrow> accounts \<Rightarrow> user option \<Rightarrow> 'h \<times> 's \<Rightarrow> 'r outcome \<times> 'h \<times> 's" where
  "checkout_request e d allow body db usr =
     dispatch (default_throttle_rates (REST_FRAMEWORK e)) allow
       ((OrderViewSet (REST_FRAMEWORK e) d)\<lparr>vw_throttles := [ScopedRateThrottle]\<rparr>) ''POST''
       (checkout_handler body usr) db usr"

fun serve :: "('q \<Rightarrow> 's \<Rightarrow> 'o \<times> 's) \<Rightarrow> 'q list \<Rightarrow> 's \<Rightarrow> 'o list \<times> 's" where
  "serve call [] st = ([], st)"
| "serve call (q # qs) st = (let (o1, st1) = call q st; (os, st2) = serve call qs st1 in (o1 # os, st2))"

section \<open>The access matrix\<close>

definition OPEN_VIEWS :: "string list" where
  "OPEN_VIEWS = [''RegisterView'', ''LoginView'', ''RefreshView'', ''CartViewSet'', ''WebhookView'']"

definition MEMBER_VIEWS :: "string list" where
  "MEMBER_VIEWS =
     [''LogoutView'', ''MeView'', ''AddressViewSet'', ''OrderViewSet'', ''PaymentViewSet'', ''NotificationViewSet'',
      ''ReviewViewSet'']"

lemmas view_defs =
  RegisterView_def LoginView_def RefreshView_def LogoutView_def MeView_def AddressViewSet_def CartViewSet_def
  OrderViewSet_def PaymentViewSet_def WebhookView_def NotificationViewSet_def ReviewViewSet_def BrandViewSet_def
  CategoryViewSet_def ProductViewSet_def ProductVariantViewSet_def WarehouseViewSet_def StockViewSet_def
  StockMovementViewSet_def CouponViewSet_def DashboardView_def staff_view_def token_view_def
  with_permissions_def throttled_as_def api_view_def

lemmas url_defs =
  urlpatterns_def admin_urls_def users_urls_def me_urls_def cart_urls_def orders_urls_def payments_urls_def
  notifications_urls_def reviews_urls_def catalog_urls_def inventory_urls_def coupons_urls_def
  analytics_urls_def include_at_def

text \<open>Every mounted view is open, for members or for staff, and the latter are those below the admin prefix.\<close>

definition open_view :: "view_class \<Rightarrow> bool" where
  "open_view v \<longleftrightarrow> vw_permissions v \<in> {[], [AllowAny]} \<and> vw_name v \<in> set OPEN_VIEWS \<and> vw_name v \<notin> set MEMBER_VIEWS"

definition member_view :: "view_class \<Rightarrow> bool" where
  "member_view v \<longleftrightarrow>
     vw_permissions v \<in> {[IsAuthenticatedUser], [IsAuthenticatedUser, OwnerOrStaff], [IsAuthenticatedOrReadOnly]} \<and>
     vw_authentication v \<noteq> [] \<and> vw_name v \<in> set MEMBER_VIEWS \<and> vw_name v \<notin> set OPEN_VIEWS"

definition staff_only_view :: "view_class \<Rightarrow> bool" where
  "staff_only_view v \<longleftrightarrow> vw_permissions v = [IsAuthenticatedUser, StaffRole] \<and> vw_authentication v \<noteq> [] \<and>
     vw_name v \<notin> set OPEN_VIEWS \<and> vw_name v \<notin> set MEMBER_VIEWS"

lemma admin_views:
  "list_all (\<lambda>(p, v). startswith ''/api/admin/'' p \<and> staff_only_view v)
     (include_at ''/api/admin/'' (admin_urls (REST_FRAMEWORK e) d))"
  by (simp add: url_defs view_defs staff_only_view_def REST_FRAMEWORK_def OPEN_VIEWS_def MEMBER_VIEWS_def startswith_def)

lemma shop_views:
  assumes "documented d"
  shows "list_all (\<lambda>(p, v). startswith ''/api/v1/'' p \<and> (open_view v \<or> member_view v))
     (drop (length (admin_urls (REST_FRAMEWORK e) d)) (urlpatterns (REST_FRAMEWORK e) d))"
  using assms
  by (simp add: url_defs view_defs open_view_def member_view_def REST_FRAMEWORK_def OPEN_VIEWS_def MEMBER_VIEWS_def
      startswith_def documented_def)

lemma offered_methods:
  assumes "documented d"
  shows "list_all (\<lambda>(p, v). set (methods v) \<subseteq> set SAFE_METHODS \<union> set MUTATING) (urlpatterns (REST_FRAMEWORK e) d)"
  using assms by (simp add: url_defs view_defs methods_def documented_def SAFE_METHODS_def MUTATING_def)

lemma mounted_cases:
  assumes "documented d" "(p, v) \<in> set (urlpatterns (REST_FRAMEWORK e) d)"
  obtains (admin) "startswith ''/api/admin/'' p" "staff_only_view v"
    | (shop) "startswith ''/api/v1/'' p" "open_view v \<or> member_view v"
proof -
  let ?n = "length (admin_urls (REST_FRAMEWORK e) d)"
  have "set (urlpatterns (REST_FRAMEWORK e) d) = set (include_at ''/api/admin/'' (admin_urls (REST_FRAMEWORK e) d)) \<union>
      set (drop ?n (urlpatterns (REST_FRAMEWORK e) d))"
    by (simp add: urlpatterns_def include_at_def)
  with assms(2) consider "(p, v) \<in> set (include_at ''/api/admin/'' (admin_urls (REST_FRAMEWORK e) d))"
    | "(p, v) \<in> set (drop ?n (urlpatterns (REST_FRAMEWORK e) d))"
    by blast
  then show ?thesis
  proof cases
    case 1
    with admin_views [of e d] have "startswith ''/api/admin/'' p \<and> staff_only_view v"
      unfolding list_all_iff by blast
    then show ?thesis using admin by blast
  next
    case 2
    with shop_views [OF assms(1), of e] have "startswith ''/api/v1/'' p \<and> (open_view v \<or> member_view v)"
      unfolding list_all_iff by blast
    then show ?thesis using shop by blast
  qed
qed

lemma startswith_iff: "startswith p s \<longleftrightarrow> (\<exists>t. s = p @ t)"
  by (metis append_eq_conv_conj startswith_def)

lemma startswith_trans: "startswith p q \<Longrightarrow> startswith q s \<Longrightarrow> startswith p s"
  by (auto simp: startswith_iff)

lemma shop_not_sensitive:
  "startswith ''/api/v1/'' s \<Longrightarrow> \<not> startswith ''/admin/'' s \<and> \<not> startswith ''/api/admin/'' s"
  by (auto simp: startswith_iff)

text \<open>What the checks come to for each sort of view and a request that is not safe.\<close>

lemma admit_open: "open_view v \<Longrightarrow> admit v m usr db = Inr ()"
  by (auto simp: open_view_def admit_def)

lemma admit_member:
  "member_view v \<Longrightarrow> m \<notin> set SAFE_METHODS \<Longrightarrow> admit v m usr db = (if usr = None then Inl NotAuthenticated else Inr ())"
  by (auto simp: member_view_def admit_def IsAuthenticated_def)

lemma admit_staff:
  "staff_only_view v \<Longrightarrow>
   admit v m usr db = (if usr = None then Inl NotAuthenticated else if IsStaff usr db then Inr () else Inl PermissionDenied)"
  by (auto simp: staff_only_view_def admit_def IsAuthenticated_def)


definition DRF :: drf where
  "DRF = \<lparr>actions_of = (\<lambda>base.
       if base = ''ModelViewSet'' then [(''list'', [''GET'']), (''create'', [''POST'']), (''retrieve'', [''GET'']),
         (''update'', [''PUT'']), (''partial_update'', [''PATCH'']), (''destroy'', [''DELETE''])]
       else if base = ''ReadOnlyModelViewSet'' then [(''list'', [''GET'']), (''retrieve'', [''GET''])]
       else if base = ''CreateAPIView'' \<or> base = ''TokenViewBase'' then [(''post'', [''POST''])]
       else if base = ''RetrieveUpdateAPIView'' then [(''get'', [''GET'']), (''put'', [''PUT'']), (''patch'', [''PATCH''])]
       else []),
     token_view_permissions = [], token_view_authentication = []\<rparr>"

lemma DRF_documented: "documented DRF"
  by (simp add: documented_def DRF_def)


section \<open>Throttling\<close>

text \<open>Every scope a mounted view asks for has a rate, and no view asks for \<open>checkout\<close>.\<close>

lemma scopes_have_rates:
  "list_all (\<lambda>(p, v). list_all (\<lambda>s. s \<in> fst ` set (default_throttle_rates (REST_FRAMEWORK e)) \<and> s \<noteq> ''checkout'')
     (scopes_checked v usr)) (urlpatterns (REST_FRAMEWORK e) d)"
  by (simp add: url_defs view_defs scopes_checked_def REST_FRAMEWORK_def)

text \<open>
  Callbacks of the payment providers carry no user and keep the default throttles: each provider
  shares the rate of anonymous visitors.
\<close>

lemma webhooks_throttled_as_anonymous:
  "scopes_checked (WebhookView (REST_FRAMEWORK e)) None = [''anon'', ''user'']"
  by (simp add: scopes_checked_def view_defs REST_FRAMEWORK_def)

text \<open>The checkout endpoint as one limiter sees it.\<close>

definition limited :: "'h limiter \<Rightarrow> (user option \<Rightarrow> 's \<Rightarrow> 'r \<times> 's) \<Rightarrow> user option \<Rightarrow> 'h \<times> 's \<Rightarrow> 'r outcome \<times> 'h \<times> 's" where
  "limited limit body usr st =
     (if usr = None then (Refused NotAuthenticated, st)
      else case limit usr (fst st) of
        (False, h) \<Rightarrow> (Throttled, h, snd st)
      | (True, h) \<Rightarrow> (case body usr (snd st) of (r, s) \<Rightarrow> (Answer r, h, s)))"

lemma serve_cong: "(\<And>q st. f q st = g q st) \<Longrightarrow> serve f qs st = serve g qs st"
  by (induction qs arbitrary: st) simp_all

text \<open>
  The rate of the scope \<open>checkout\<close> does nothing. \<open>checkout\<close> sets the throttle scope of its view
  in its first line, when the throttles have been asked already, and on an instance that is
  thrown away with the request. So any sequence of checkout requests, whatever the users, the
  histories and the checkout itself, gets the answers of an endpoint limited by the general
  rate of the scope \<open>user\<close>, 300 per minute by default; the 30 per minute of the settings are
  never consulted. Requests without a user are refused before they count.
\<close>

theorem checkout_rate_unused:
  "serve (checkout_request e d allow body db) callers st =
   serve (limited (allow ''user'' (env_text e ''RATE_LIMIT_USER'' ''300/min'')) body) callers st"
proof (rule serve_cong)
  fix usr st
  have "scopes_checked ((OrderViewSet (REST_FRAMEWORK e) d)\<lparr>vw_throttles := [ScopedRateThrottle]\<rparr>) usr = [''user'']"
    by (simp add: scopes_checked_def view_defs)
  moreover have "admit ((OrderViewSet (REST_FRAMEWORK e) d)\<lparr>vw_throttles := [ScopedRateThrottle]\<rparr>) ''POST'' usr db =
      (if usr = None then Inl NotAuthenticated else Inr ())"
    by (simp add: admit_def view_defs REST_FRAMEWORK_def IsAuthenticated_def)
  ultimately show "checkout_request e d allow body db usr st =
      limited (allow ''user'' (env_text e ''RATE_LIMIT_USER'' ''300/min'')) body usr st"
    by (auto simp: checkout_request_def dispatch_def limited_def checkout_handler_def REST_FRAMEWORK_def Let_def
        split: prod.splits bool.splits)
qed

end
