(* ===== verification/Fast_App.thy ===== *)
theory Fast_App
  imports Settings
begin

text \<open>
  The FastAPI process around its endpoints: the application and its routes (\<open>main.py\<close> and the
  \<open>APIRouter\<close>s of \<open>api/v1\<close>), the Redis clients it opens and closes (\<open>core/redis.py\<close>, the lifespan), and the
  log lines of both services (\<open>core/logging.py\<close> of either).
\<close>

section \<open>Routes\<close>

text \<open>
  No path of the application has more than one parameter, and it stands at the end: a route is a
  literal path with or without a last segment to fill in. \<open>WEBSOCKET\<close> stands for the handshake.
\<close>

record route =
  rt_method :: string
  rt_path :: string
  rt_parameter :: bool
  rt_endpoint :: string

definition get :: "string \<Rightarrow> string \<Rightarrow> route" where
  "get p n = \<lparr>rt_method = ''GET'', rt_path = p, rt_parameter = False, rt_endpoint = n\<rparr>"

definition get_one :: "string \<Rightarrow> string \<Rightarrow> route" where
  "get_one p n = (get p n)\<lparr>rt_parameter := True\<rparr>"

definition include_router :: "string \<Rightarrow> route list \<Rightarrow> route list" where
  "include_router prefix rs = map (\<lambda>r. r\<lparr>rt_path := prefix @ rt_path r\<rparr>) rs"

definition health_router :: "route list" where
  "health_router = [get ''/healthz'' ''healthz'', get ''/readyz'' ''readyz'']"

definition catalog_router :: "route list" where
  "catalog_router =
     [get ''/categories'' ''list_categories'', get ''/brands'' ''list_brands'', get ''/products'' ''list_products'',
      get_one ''/products/'' ''product_detail'', get_one ''/variants/'' ''variant_by_sku'']"

definition search_router :: "route list" where
  "search_router = [get '''' ''search'', get ''/autocomplete'' ''autocomplete'']"

definition realtime_router :: "route list" where
  "realtime_router =
     map (\<lambda>r. r\<lparr>rt_method := ''WEBSOCKET''\<rparr>)
       [get_one ''/ws/flash-sale/'' ''flash_sale_ws'', get_one ''/ws/stock/'' ''stock_ws'']"

definition webhooks_router :: "route list" where
  "webhooks_router = map (\<lambda>r. r\<lparr>rt_method := ''POST''\<rparr>) [get_one ''/'' ''receive'']"

definition app_routes :: "route list" where
  "app_routes =
     health_router @ include_router ''/api/v1/catalog'' catalog_router @
     include_router ''/api/v1/search'' search_router @ include_router ''/api/v1/realtime'' realtime_router @
     include_router ''/api/v1/webhooks'' webhooks_router @ [get ''/'' ''root'']"

text \<open>
  Starlette's choice: the first route whose path and method match; 405 if only paths match; a path
  that matches after a slash is put at its end or taken off is redirected there.
\<close>

definition matches :: "route \<Rightarrow> string \<Rightarrow> bool" where
  "matches r path \<longleftrightarrow>
     (if rt_parameter r
      then startswith (rt_path r) path \<and> drop (length (rt_path r)) path \<noteq> [] \<and>
           CHR ''/'' \<notin> set (drop (length (rt_path r)) path)
      else path = rt_path r)"

definition other_slash :: "string \<Rightarrow> string" where
  "other_slash path =
     (if path \<noteq> [] \<and> last path = CHR ''/'' then rev (dropWhile (\<lambda>c. c = CHR ''/'') (rev path)) else path @ ''/'')"

datatype resolved = Endpoint string | MethodNotAllowed | Redirect string | NotFound

definition resolve :: "string \<Rightarrow> string \<Rightarrow> resolved" where
  "resolve m path =
     (case find (\<lambda>r. rt_method r = m \<and> matches r path) app_routes of
        Some r \<Rightarrow> Endpoint (rt_endpoint r)
      | None \<Rightarrow>
          (if list_ex (\<lambda>r. matches r path) app_routes then MethodNotAllowed
           else if path \<noteq> ''/'' \<and> list_ex (\<lambda>r. matches r (other_slash path)) app_routes
           then Redirect (other_slash path)
           else NotFound))"

lemmas route_defs =
  app_routes_def health_router_def catalog_router_def search_router_def realtime_router_def
  webhooks_router_def include_router_def get_def get_one_def

section \<open>The Redis clients\<close>

text \<open>
  The module's two slots, how many clients were opened (they are numbered in that order), which
  were closed, and where \<open>close_redis\<close> is: it waits for one \<open>aclose\<close> after the other. Every other stretch
  of the code runs without giving up control.
\<close>

datatype closing = NotClosing | ClosingCache | ClosingPubsub | Closed | CloseFailed

record redis_clients =
  rd_cache :: "nat option"
  rd_pubsub :: "nat option"
  rd_opened :: nat
  rd_closed :: "nat list"
  rd_closing :: closing

definition redis_start :: redis_clients where
  "redis_start = \<lparr>rd_cache = None, rd_pubsub = None, rd_opened = 0, rd_closed = [], rd_closing = NotClosing\<rparr>"

definition get_cache :: "redis_clients \<Rightarrow> nat \<times> redis_clients" where
  "get_cache s =
     (case rd_cache s of
        Some c \<Rightarrow> (c, s)
      | None \<Rightarrow> (rd_opened s, s\<lparr>rd_cache := Some (rd_opened s), rd_opened := Suc (rd_opened s)\<rparr>))"

definition get_pubsub :: "redis_clients \<Rightarrow> nat \<times> redis_clients" where
  "get_pubsub s =
     (case rd_pubsub s of
        Some c \<Rightarrow> (c, s)
      | None \<Rightarrow> (rd_opened s, s\<lparr>rd_pubsub := Some (rd_opened s), rd_opened := Suc (rd_opened s)\<rparr>))"

text \<open>\<open>close_redis\<close> up to its first wait, from there to the second, and from there to its end.\<close>

definition close_second :: "redis_clients \<Rightarrow> redis_clients" where
  "close_second s = s\<lparr>rd_closing := (if rd_pubsub s = None then Closed else ClosingPubsub)\<rparr>"

definition close_first :: "redis_clients \<Rightarrow> redis_clients" where
  "close_first s = (if rd_cache s = None then close_second s else s\<lparr>rd_closing := ClosingCache\<rparr>)"

text \<open>\<open>ok\<close> says whether the \<open>aclose\<close> waited for returned or raised.\<close>

definition close_resume :: "bool \<Rightarrow> redis_clients \<Rightarrow> redis_clients" where
  "close_resume ok s =
     (if \<not> ok then s\<lparr>rd_closing := CloseFailed\<rparr>
      else case rd_closing s of
        ClosingCache \<Rightarrow>
          (case rd_cache s of
             None \<Rightarrow> close_second s
           | Some c \<Rightarrow> close_second (s\<lparr>rd_closed := rd_closed s @ [c], rd_cache := None\<rparr>))
      | ClosingPubsub \<Rightarrow>
          (case rd_pubsub s of
             None \<Rightarrow> s\<lparr>rd_closing := Closed\<rparr>
           | Some p \<Rightarrow> s\<lparr>rd_closed := rd_closed s @ [p], rd_pubsub := None, rd_closing := Closed\<rparr>)
      | _ \<Rightarrow> s)"

text \<open>Endpoints and websocket consumers ask for clients at any time, also while the lifespan closes.\<close>

inductive redis_step :: "redis_clients \<Rightarrow> redis_clients \<Rightarrow> bool" where
  use_cache: "redis_step s (snd (get_cache s))"
| use_pubsub: "redis_step s (snd (get_pubsub s))"
| closing: "rd_closing s = NotClosing \<Longrightarrow> redis_step s (close_first s)"
| resuming: "rd_closing s \<in> {ClosingCache, ClosingPubsub} \<Longrightarrow> redis_step s (close_resume ok s)"

inductive redis_run :: "redis_clients \<Rightarrow> bool" where
  start: "redis_run redis_start"
| further: "redis_run s \<Longrightarrow> redis_step s t \<Longrightarrow> redis_run t"

inductive_cases redis_stepE: "redis_step s t"

definition slots :: "redis_clients \<Rightarrow> nat list" where
  "slots s = (case rd_cache s of None \<Rightarrow> [] | Some c \<Rightarrow> [c]) @ (case rd_pubsub s of None \<Rightarrow> [] | Some p \<Rightarrow> [p])"

text \<open>Every client opened is in a slot or closed, once; what is being closed is still in its slot.\<close>

definition redis_ok :: "redis_clients \<Rightarrow> bool" where
  "redis_ok s \<longleftrightarrow>
     distinct (rd_closed s @ slots s) \<and> set (rd_closed s @ slots s) = {..<rd_opened s} \<and>
     (rd_closing s = ClosingCache \<longrightarrow> rd_cache s \<noteq> None) \<and> (rd_closing s = ClosingPubsub \<longrightarrow> rd_pubsub s \<noteq> None)"

lemma redis_ok_start: "redis_ok redis_start"
  by (simp add: redis_ok_def redis_start_def slots_def)

lemma redis_ok_get: "redis_ok s \<Longrightarrow> redis_ok (snd (get_cache s)) \<and> redis_ok (snd (get_pubsub s))"
  by (auto simp: redis_ok_def get_cache_def get_pubsub_def slots_def lessThan_Suc split: option.splits)

lemma redis_ok_second: "redis_ok s \<Longrightarrow> redis_ok (close_second s)"
  by (auto simp: redis_ok_def close_second_def slots_def)

lemma redis_ok_first: "redis_ok s \<Longrightarrow> redis_ok (close_first s)"
  by (auto simp: close_first_def redis_ok_second) (auto simp: redis_ok_def slots_def)

lemma redis_ok_resume: "redis_ok s \<Longrightarrow> redis_ok (close_resume ok s)"
  unfolding close_resume_def
  by (auto simp: redis_ok_def slots_def close_second_def split: closing.splits option.splits)

lemma redis_step_ok: "redis_step s t \<Longrightarrow> redis_ok s \<Longrightarrow> redis_ok t"
  by (erule redis_stepE) (auto simp: redis_ok_get redis_ok_first redis_ok_resume)

lemma redis_run_ok: "redis_run s \<Longrightarrow> redis_ok s"
  by (induction rule: redis_run.induct) (auto intro: redis_ok_start redis_step_ok)

lemma shutdown_closes_all:
  "let t = close_resume True (close_resume True (close_first s)) in
   rd_closing t = Closed \<and> rd_cache t = None \<and> rd_pubsub t = None \<and> rd_closed t = rd_closed s @ slots s"
  by (simp add: Let_def close_first_def close_second_def close_resume_def slots_def split: option.splits)

text \<open>
  No Redis client is lost or closed twice. In every interleaving of requests with the shutdown, each
  client that was opened is in one of the two slots or was closed, never both, and is closed
  once; at most two are open; nobody is handed a client that was closed. And a shutdown that no
  request gets in between, and whose two closings return, ends with everything closed.
\<close>

theorem redis_clients_accounted:
  assumes "redis_run s"
  shows "(\<forall>c. c < rd_opened s \<longleftrightarrow> c \<in> set (rd_closed s) \<or> rd_cache s = Some c \<or> rd_pubsub s = Some c) \<and>
    distinct (rd_closed s) \<and> rd_opened s \<le> length (rd_closed s) + 2 \<and>
    fst (get_cache s) \<notin> set (rd_closed s) \<and> fst (get_pubsub s) \<notin> set (rd_closed s) \<and>
    (rd_closing s = NotClosing \<longrightarrow>
      (let t = close_resume True (close_resume True (close_first s)) in
       rd_closing t = Closed \<and> rd_cache t = None \<and> rd_pubsub t = None \<and> set (rd_closed t) = {..<rd_opened s}))"
proof -
  have ok: "redis_ok s" using assms by (rule redis_run_ok)
  then have all: "set (rd_closed s @ slots s) = {..<rd_opened s}" and dist: "distinct (rd_closed s @ slots s)"
    by (simp_all add: redis_ok_def)
  have "rd_opened s = length (rd_closed s @ slots s)"
    using distinct_card [OF dist] unfolding all by simp
  moreover have "length (slots s) \<le> 2" by (simp add: slots_def split: option.splits)
  ultimately have "rd_opened s \<le> length (rd_closed s) + 2" by simp
  moreover have mem: "c < rd_opened s \<longleftrightarrow> c \<in> set (rd_closed s) \<or> rd_cache s = Some c \<or> rd_pubsub s = Some c" for c
    using arg_cong [OF all, of "\<lambda>A. c \<in> A"] by (auto simp: slots_def split: option.splits)
  moreover have "fst (get_cache s) \<notin> set (rd_closed s)" "fst (get_pubsub s) \<notin> set (rd_closed s)"
    using dist mem [of "rd_opened s"] by (auto simp: get_cache_def get_pubsub_def slots_def split: option.splits)
  ultimately show ?thesis using dist all shutdown_closes_all [of s] by (simp add: Let_def)
qed

definition demo_clients :: redis_clients where
  "demo_clients = snd (get_pubsub (snd (get_cache redis_start)))"

lemma demo_clients_run: "redis_run demo_clients"
  unfolding demo_clients_def
  by (rule redis_run.further [OF redis_run.further [OF redis_run.start use_cache] use_pubsub])

theorem redis_clients_accounted_witness:
  "rd_opened demo_clients = 2 \<and> rd_closed (close_resume True (close_resume True (close_first demo_clients))) = [0, 1] \<and>
   set (rd_closed (close_resume True (close_resume True (close_first demo_clients)))) = {..<2}"
proof -
  have "rd_opened demo_clients = 2" "rd_closing demo_clients = NotClosing"
    "rd_closed (close_resume True (close_resume True (close_first demo_clients))) = [0, 1]"
    by (simp_all add: demo_clients_def redis_start_def get_cache_def get_pubsub_def close_first_def
        close_second_def close_resume_def)
  with redis_clients_accounted [OF demo_clients_run] show ?thesis by (simp add: Let_def)
qed

text \<open>A request that asks for the cache while the second closing is waited for leaves a client open.\<close>

lemma shutdown_race: "\<exists>s. redis_run s \<and> rd_closing s = Closed \<and> rd_cache s \<noteq> None"
proof -
  let ?waiting = "close_resume True (close_first demo_clients)"
  let ?final = "close_resume True (snd (get_cache ?waiting))"
  have "redis_run (close_first demo_clients)"
    by (rule redis_run.further [OF demo_clients_run closing]) (simp add: demo_clients_def redis_start_def get_cache_def get_pubsub_def)
  then have "redis_run ?waiting"
    by (rule redis_run.further [OF _ resuming])
      (simp add: demo_clients_def redis_start_def get_cache_def get_pubsub_def close_first_def)
  then have "redis_run (snd (get_cache ?waiting))" by (rule redis_run.further [OF _ use_cache])
  then have "redis_run ?final"
    by (rule redis_run.further [OF _ resuming])
      (simp add: demo_clients_def redis_start_def get_cache_def get_pubsub_def close_first_def close_resume_def close_second_def)
  moreover have "rd_closing ?final = Closed \<and> rd_cache ?final \<noteq> None"
    by (simp add: demo_clients_def redis_start_def get_cache_def get_pubsub_def close_first_def close_resume_def close_second_def)
  ultimately show ?thesis by blast
qed

section \<open>Log lines\<close>

text \<open>
  What a formatter sees of a record: \<open>lr_attributes\<close> is its \<open>__dict__\<close>, standard attributes and
  extras, each with its JSON value if it has one and its \<open>repr\<close>. The time is given as text.
\<close>

record log_record =
  lr_created :: string
  lr_level :: string
  lr_name :: string
  lr_message :: string
  lr_exception :: "string option"
  lr_attributes :: "(string \<times> json option \<times> string) list"

definition RESERVED :: "string list" where
  "RESERVED =
     [''name'', ''msg'', ''args'', ''levelname'', ''levelno'', ''pathname'', ''filename'', ''module'', ''exc_info'',
      ''exc_text'', ''stack_info'', ''lineno'', ''funcName'', ''created'', ''msecs'', ''relativeCreated'', ''thread'',
      ''threadName'', ''processName'', ''process'', ''message'', ''asctime'']"

text \<open>Django's formatter: the fixed keys, the request id if there is one, then the attributes not reserved.\<close>

definition is_extra :: "string \<Rightarrow> bool" where
  "is_extra k \<longleftrightarrow> k \<notin> set RESERVED \<and> \<not> startswith ''_'' k"

definition fixed_keys :: "string \<Rightarrow> log_record \<Rightarrow> (string \<times> json) list" where
  "fixed_keys request_id r =
     [(''ts'', JStr (lr_created r @ ''Z'')), (''level'', JStr (lr_level r)), (''logger'', JStr (lr_name r)),
      (''msg'', JStr (lr_message r))] @
     (if request_id \<noteq> '''' then [(''request_id'', JStr request_id)] else []) @
     (case lr_exception r of None \<Rightarrow> [] | Some x \<Rightarrow> [(''exc'', JStr x)])"

definition rendered :: "json option \<times> string \<Rightarrow> json" where
  "rendered v = (case fst v of Some j \<Rightarrow> j | None \<Rightarrow> JStr (snd v))"

fun add_extras :: "(string \<times> json option \<times> string) list \<Rightarrow> (string \<times> json) list \<Rightarrow> (string \<times> json) list" where
  "add_extras [] payload = payload"
| "add_extras ((k, v) # kvs) payload =
     add_extras kvs (if is_extra k then AList.update k (rendered v) payload else payload)"

definition JsonFormatter_format :: "string \<Rightarrow> log_record \<Rightarrow> json" where
  "JsonFormatter_format request_id r = JObj (add_extras (lr_attributes r) (fixed_keys request_id r))"

text \<open>FastAPI's formatter writes neither time, request id nor extras.\<close>

definition fast_format :: "log_record \<Rightarrow> json" where
  "fast_format r =
     JObj ([(''level'', JStr (lr_level r)), (''logger'', JStr (lr_name r)), (''msg'', JStr (lr_message r))] @
       (case lr_exception r of None \<Rightarrow> [] | Some x \<Rightarrow> [(''exc'', JStr x)]))"

text \<open>\<open>configure_logging\<close>: one handler on the root logger; \<open>upper\<close> is \<open>str.upper\<close>.\<close>

definition configure_logging :: "(string \<Rightarrow> string) \<Rightarrow> fast_config \<Rightarrow> logging_conf" where
  "configure_logging upper c =
     \<lparr>lc_formatter = (if fc_log_format c = ''json'' then ''json'' else ''console''),
      lc_root = \<lparr>lg_handlers = [''stdout''], lg_level = upper (fc_log_level c), lg_propagate = True\<rparr>,
      lc_loggers = []\<rparr>"

lemma add_extras_lookup:
  "distinct (map fst kvs) \<Longrightarrow>
   map_of (add_extras kvs payload) k =
     (case map_of kvs k of Some v \<Rightarrow> if is_extra k then Some (rendered v) else map_of payload k | None \<Rightarrow> map_of payload k)"
proof (induction kvs arbitrary: payload)
  case (Cons kv kvs)
  obtain k1 v where kv: "kv = (k1, v)" by (cases kv)
  have "map_of kvs k1 = None" using Cons.prems by (simp add: kv map_of_eq_None_iff)
  with Cons show ?case by (auto simp: kv update_conv' split: option.splits)
qed simp

text \<open>
  A log line says what was logged. Of the attributes of a record, exactly those that are neither
  reserved nor private appear, as JSON where they have a JSON form and as their \<open>repr\<close>
  otherwise, and all other keys are the fixed ones. An extra called \<open>ts\<close>, \<open>level\<close>, \<open>logger\<close>, \<open>exc\<close> or
  \<open>request_id\<close> replaces the fixed key; the message and the traceback arguments cannot be replaced. Since Python
  3.12 every record has an attribute \<open>taskName\<close>, which the list of reserved names does not have.
\<close>

theorem log_line_exact:
  assumes "distinct (map fst (lr_attributes r))" "JsonFormatter_format request_id r = JObj payload"
  shows "map_of payload k =
      (case map_of (lr_attributes r) k of
         Some v \<Rightarrow> if is_extra k then Some (rendered v) else map_of (fixed_keys request_id r) k
       | None \<Rightarrow> map_of (fixed_keys request_id r) k) \<and>
    (map_of payload ''msg'' = Some (JStr (lr_message r))) \<and>
    (\<forall>v. map_of (lr_attributes r) ''taskName'' = Some v \<longrightarrow> map_of payload ''taskName'' = Some (rendered v))"
proof -
  have "payload = add_extras (lr_attributes r) (fixed_keys request_id r)"
    using assms(2) by (simp add: JsonFormatter_format_def)
  moreover have "is_extra ''taskName''" by (simp add: is_extra_def RESERVED_def startswith_def)
  moreover have "\<not> is_extra ''msg''" by (simp add: is_extra_def RESERVED_def)
  moreover have "map_of (fixed_keys request_id r) ''msg'' = Some (JStr (lr_message r))" by (simp add: fixed_keys_def)
  ultimately show ?thesis
    using add_extras_lookup [OF assms(1)] by (simp split: option.splits)
qed

definition demo_record :: log_record where
  "demo_record = \<lparr>lr_created = ''2025-01-01T00:00:00'', lr_level = ''INFO'', lr_name = ''celery'', lr_message = ''done'',
     lr_exception = None, lr_attributes = [(''args'', Some JNull, ''''), (''level'', Some (JInt 7), ''7''),
       (''taskName'', Some JNull, ''None''), (''user'', None, ''<User>'')]\<rparr>"

theorem log_line_exact_witness:
  "\<exists>payload. JsonFormatter_format ''r1'' demo_record = JObj payload \<and> map_of payload ''level'' = Some (JInt 7) \<and>
     map_of payload ''taskName'' = Some JNull"
proof -
  obtain payload where p: "JsonFormatter_format ''r1'' demo_record = JObj payload"
    by (simp add: JsonFormatter_format_def)
  have d: "distinct (map fst (lr_attributes demo_record))" by (simp add: demo_record_def)
  have "is_extra ''level''" by (simp add: is_extra_def RESERVED_def startswith_def)
  moreover have "map_of (lr_attributes demo_record) ''level'' = Some (Some (JInt 7), ''7'')"
    "map_of (lr_attributes demo_record) ''taskName'' = Some (Some JNull, ''None'')"
    by (simp_all add: demo_record_def)
  ultimately show ?thesis
    using p log_line_exact [OF d p, of "''level''"] by (simp add: rendered_def)
qed

section \<open>The application's lifespan\<close>

text \<open>
  What starting and stopping do: logging, Sentry when a DSN is set and the library is there, and the
  Redis clients at the end, in the case that both closings return.
\<close>

definition lifespan_start :: "(string \<Rightarrow> string) \<Rightarrow> bool \<Rightarrow> fast_config \<Rightarrow> logging_conf \<times> string list \<times> (string \<times> string) option" where
  "lifespan_start upper sentry_installed c =
     (configure_logging upper c,
      ''fastapi starting'' #
      (if fc_sentry_dsn c \<noteq> '''' \<and> \<not> sentry_installed then [''sentry-sdk not installed''] else []),
      if fc_sentry_dsn c \<noteq> '''' \<and> sentry_installed then Some (fc_sentry_dsn c, fc_env c) else None)"

definition lifespan_stop :: "redis_clients \<Rightarrow> redis_clients \<times> string list" where
  "lifespan_stop s = (close_resume True (close_resume True (close_first s)), [''fastapi shutting down''])"

definition root :: json where
  "root = JObj [(''service'', JStr ''novacommerce-fastapi''), (''version'', JStr ''1.0.0'')]"

definition healthz :: "json \<Rightarrow> json" where
  "healthz uptime = JObj [(''status'', JStr ''ok''), (''uptime_s'', uptime)]"

end
