(* ===== verification/Gateway.thy ===== *)
theory Gateway
  imports Access Fast_App
begin

text \<open>
  The two gateways in front of the services: nginx of the compose deployment (\<open>docker/nginx.conf\<close>) and the
  Kubernetes ingress (\<open>k8s/ingress.yaml\<close>), against the URL tables of both services. A path is given
  without its query string; the host is the shop's.
\<close>

datatype upstream = ToDjango | ToFastApi | FromDisk | Answered

section \<open>nginx\<close>

text \<open>
  The locations as nginx chooses among them: an exact one first, then the first regular expression that
  matches, then the longest literal prefix. Both expressions are alternatives of literal
  beginnings, compared without regard to case.
\<close>

definition auth_location :: "string list" where
  "auth_location = [''/api/v1/auth/login'', ''/api/v1/auth/register'', ''/api/admin/auth'']"

definition admin_location :: "string list" where
  "admin_location = [''/api/admin'', ''/admin'', ''/accounts'']"

definition prefix_locations :: "(string \<times> upstream) list" where
  "prefix_locations =
     [(''/ws/'', ToDjango), (''/api/v1/'', ToFastApi), (''/static/'', FromDisk), (''/media/'', FromDisk), (''/'', ToDjango)]"

text \<open>The literal prefixes stand in an order in which a longer one is never behind one it extends.\<close>

definition nginx :: "string \<Rightarrow> upstream option" where
  "nginx path =
     (if path = ''/healthz'' then Some Answered
      else if list_ex (\<lambda>p. startswith p (lower path)) auth_location then Some ToDjango
      else if list_ex (\<lambda>p. startswith p (lower path)) admin_location then Some ToDjango
      else map_option snd (find (\<lambda>(p, u). startswith p path) prefix_locations))"

section \<open>The ingress\<close>

text \<open>Prefixes are compared by path elements, the longest one wins.\<close>

definition element_prefix :: "string \<Rightarrow> string \<Rightarrow> bool" where
  "element_prefix p path \<longleftrightarrow> path = p \<or> startswith (p @ ''/'') path"

definition ingress :: "string \<Rightarrow> upstream" where
  "ingress path =
     (if element_prefix ''/api/v1/catalog'' path \<or> element_prefix ''/api/v1/search'' path then ToFastApi else ToDjango)"

section \<open>Lemmas\<close>

text \<open>Two prefixes that part ways have no common extension.\<close>

definition apart :: "string \<Rightarrow> string \<Rightarrow> bool" where
  "apart p q \<longleftrightarrow> \<not> startswith p q \<and> \<not> startswith q p"

lemma apartD: "apart p q \<Longrightarrow> startswith p s \<Longrightarrow> \<not> startswith q s"
  unfolding apart_def startswith_iff by (auto simp: append_eq_append_conv2)

lemma other_slash_cases:
  obtains (added) "other_slash path = path @ ''/''"
    | (stripped) "startswith (other_slash path) path" "other_slash path \<noteq> ''/''"
proof (cases "path \<noteq> [] \<and> last path = CHR ''/''")
  case False
  then have "other_slash path = path @ ''/''" unfolding other_slash_def by (rule if_not_P)
  then show ?thesis by (rule added)
next
  case True
  let ?rest = "dropWhile (\<lambda>c. c = CHR ''/'') (rev path)"
  have slash: "other_slash path = rev ?rest" using True unfolding other_slash_def by (rule if_P)
  have "rev path = takeWhile (\<lambda>c. c = CHR ''/'') (rev path) @ ?rest" by simp
  then have "path = rev ?rest @ rev (takeWhile (\<lambda>c. c = CHR ''/'') (rev path))"
    by (metis rev_append rev_rev_ident)
  then have "startswith (other_slash path) path" unfolding slash startswith_iff by blast
  moreover have "rev ?rest \<noteq> ''/''"
  proof
    assume "rev ?rest = ''/''"
    then have "?rest = ''/''" by (metis rev_rev_ident rev_singleton_conv)
    then show False using hd_dropWhile [of "\<lambda>c. c = CHR ''/''" "rev path"] by simp
  qed
  ultimately show ?thesis by (intro stripped) (simp_all only: slash not_False_eq_True)
qed

text \<open>A route is out of reach of the paths below a prefix it is apart from, also by way of the slash.\<close>

definition out_of_reach :: "string \<Rightarrow> route \<Rightarrow> bool" where
  "out_of_reach p r \<longleftrightarrow> apart p (rt_path r) \<or> rt_path r = ''/'' \<and> \<not> rt_parameter r \<and> 2 \<le> length p"

lemma matches_startswith: "matches r path \<Longrightarrow> startswith (rt_path r) path"
  by (auto simp: matches_def startswith_def split: if_splits)

lemma out_of_reachD:
  assumes "out_of_reach p r" "startswith p path"
  shows "\<not> matches r path \<and> \<not> matches r (other_slash path)"
proof -
  have below: "\<not> matches r s" if "startswith p s" for s
    using assms(1) unfolding out_of_reach_def
  proof (elim disjE conjE)
    assume "apart p (rt_path r)"
    from apartD [OF this that] matches_startswith show ?thesis by blast
  next
    assume "rt_path r = ''/''" "\<not> rt_parameter r" "2 \<le> length p"
    with that show ?thesis by (cases p) (auto simp: matches_def startswith_iff)
  qed
  moreover have "\<not> matches r (other_slash path)"
  proof (cases path rule: other_slash_cases)
    case added
    have "startswith p (path @ ''/'')" using assms(2) by (auto simp: startswith_iff)
    then show ?thesis unfolding added by (rule below)
  next
    case stripped
    show ?thesis
    proof
      assume m: "matches r (other_slash path)"
      then have "startswith (rt_path r) path"
        using matches_startswith stripped(1) startswith_trans by blast
      with assms have "rt_path r = ''/'' \<and> \<not> rt_parameter r"
        using apartD by (auto simp: out_of_reach_def)
      with m stripped(2) show False by (simp add: matches_def)
    qed
  qed
  ultimately show ?thesis using assms(2) by blast
qed

lemma unresolved:
  assumes "list_all (out_of_reach p) app_routes" "startswith p path"
  shows "resolve m path = NotFound"
proof -
  have "\<not> matches r path \<and> \<not> matches r (other_slash path)" if "r \<in> set app_routes" for r
    using assms that by (intro out_of_reachD) (auto simp: list_all_iff)
  then show ?thesis
    by (auto simp: resolve_def list_ex_iff find_None_iff split: option.splits dest!: find_SomeD)
qed

lemma startswith_lower: "startswith p s \<Longrightarrow> startswith (lower p) (lower s)"
  by (auto simp: startswith_iff lower_def)

section \<open>The mounted prefixes\<close>

definition mounts :: "(string \<times> string) list" where
  "mounts =
     [(''/api/admin/catalog/brands'', ''BrandViewSet''), (''/api/admin/catalog/categories'', ''CategoryViewSet''),
      (''/api/admin/catalog/products'', ''ProductViewSet''), (''/api/admin/catalog/variants'', ''ProductVariantViewSet''),
      (''/api/admin/inventory/warehouses'', ''WarehouseViewSet''), (''/api/admin/inventory/stocks'', ''StockViewSet''),
      (''/api/admin/inventory/movements'', ''StockMovementViewSet''), (''/api/admin/coupons/'', ''CouponViewSet''),
      (''/api/admin/analytics/dashboard/'', ''DashboardView''),
      (''/api/v1/auth/register/'', ''RegisterView''), (''/api/v1/auth/login/'', ''LoginView''),
      (''/api/v1/auth/refresh/'', ''RefreshView''), (''/api/v1/auth/logout/'', ''LogoutView''),
      (''/api/v1/me/'', ''MeView''), (''/api/v1/me/addresses'', ''AddressViewSet''), (''/api/v1/cart'', ''CartViewSet''),
      (''/api/v1/orders/'', ''OrderViewSet''), (''/api/v1/payments/webhooks/'', ''WebhookView''),
      (''/api/v1/payments/'', ''PaymentViewSet''), (''/api/v1/notifications/'', ''NotificationViewSet''),
      (''/api/v1/reviews/'', ''ReviewViewSet'')]"

lemma mounts_of_urlpatterns: "map (\<lambda>(p, v). (p, vw_name v)) (urlpatterns rf d) = mounts"
  by (simp add: url_defs view_defs mounts_def)

text \<open>What decides about a prefix, checked for all of them at once.\<close>

definition to_fast_api :: "string \<Rightarrow> bool" where
  "to_fast_api p \<longleftrightarrow> startswith ''/api/v1/'' p \<and> list_all (apart p) (auth_location @ admin_location @ [''/ws/'']) \<and>
     list_all (out_of_reach p) app_routes"

definition to_django :: "string \<Rightarrow> bool" where
  "to_django p \<longleftrightarrow> list_ex (\<lambda>q. startswith q p) (auth_location @ admin_location)"

lemma mounts_classified:
  "list_all (\<lambda>(p, n). lower p = p \<and> list_all (apart p) [''/healthz'', ''/api/v1/catalog'', ''/api/v1/search''] \<and>
     (if startswith ''/api/admin/'' p \<or> n = ''LoginView'' \<or> n = ''RegisterView'' then to_django p else to_fast_api p)) mounts"
  by code_simp

lemma nginx_to_django:
  assumes "to_django p" "lower p = p" "startswith p path" "apart p ''/healthz''"
  shows "nginx path = Some ToDjango"
proof -
  have "startswith p (lower path)" using startswith_lower [OF assms(3)] assms(2) by simp
  with assms(1) have "list_ex (\<lambda>q. startswith q (lower path)) (auth_location @ admin_location)"
    unfolding to_django_def list_ex_iff by (meson startswith_trans)
  moreover have "path \<noteq> ''/healthz''"
    using apartD [OF assms(4,3)] by (auto simp: startswith_def)
  ultimately show ?thesis by (auto simp: nginx_def)
qed

lemma nginx_to_fast_api:
  assumes "to_fast_api p" "lower p = p" "startswith p path" "apart p ''/healthz''"
  shows "nginx path = Some ToFastApi"
proof -
  have low: "startswith p (lower path)" using startswith_lower [OF assms(3)] assms(2) by simp
  have apart: "apart p q" if "q \<in> set (auth_location @ admin_location @ [''/ws/''])" for q
    using assms(1) that unfolding to_fast_api_def list_all_iff by blast
  have "\<not> startswith q (lower path)" if "q \<in> set auth_location \<union> set admin_location" for q
    using apartD [OF apart low] that by auto
  moreover have "\<not> startswith ''/ws/'' path" by (rule apartD [OF apart assms(3)]) simp
  moreover have "startswith ''/api/v1/'' path"
    using assms(1,3) startswith_trans by (auto simp: to_fast_api_def)
  moreover have "path \<noteq> ''/healthz''"
    using apartD [OF assms(4,3)] by (auto simp: startswith_def)
  ultimately show ?thesis
    by (simp add: nginx_def list_ex_iff prefix_locations_def)
qed

lemma ingress_to_django:
  "apart p ''/api/v1/catalog'' \<Longrightarrow> apart p ''/api/v1/search'' \<Longrightarrow> startswith p path \<Longrightarrow> ingress path = ToDjango"
  using apartD [of p "''/api/v1/catalog''" path] apartD [of p "''/api/v1/search''" path]
  by (auto simp: ingress_def element_prefix_def startswith_iff)

text \<open>
  C21. The nginx configuration hides the shop. Behind nginx, of all requests below the URLs the Django
  applications mount, only those to the staff API, to login and to registration reach Django.
  Every other one - carts, orders, payments and the callbacks of their providers, token refresh and logout,
  addresses, reviews, notifications - is sent to FastAPI, which has no route for it under any method and not by a
  redirect either, and so answers 404. Behind the Kubernetes ingress all of them reach Django.
\<close>

theorem nginx_hides_shop:
  assumes "(p, v) \<in> set (urlpatterns (REST_FRAMEWORK e) d)" "startswith p path"
  shows "nginx path =
      (if startswith ''/api/admin/'' p \<or> vw_name v \<in> {''LoginView'', ''RegisterView''} then Some ToDjango
       else Some ToFastApi) \<and>
    (nginx path = Some ToFastApi \<longrightarrow> (\<forall>m. resolve m path = NotFound)) \<and>
    ingress path = ToDjango"
proof -
  have "(p, vw_name v) \<in> set mounts"
    using imageI [OF assms(1), of "\<lambda>(p, v). (p, vw_name v)"] mounts_of_urlpatterns [of "REST_FRAMEWORK e" d]
    by (metis case_prod_conv list.set_map)
  with mounts_classified have c: "lower p = p" "apart p ''/healthz''" "apart p ''/api/v1/catalog''"
    "apart p ''/api/v1/search''"
    "if startswith ''/api/admin/'' p \<or> vw_name v = ''LoginView'' \<or> vw_name v = ''RegisterView''
     then to_django p else to_fast_api p"
    unfolding list_all_iff by auto
  have "resolve m path = NotFound" if "to_fast_api p" for m
    using that assms(2) by (intro unresolved) (simp_all add: to_fast_api_def)
  with c nginx_to_django [OF _ c(1) assms(2) c(2)] nginx_to_fast_api [OF _ c(1) assms(2) c(2)]
    ingress_to_django [OF c(3,4) assms(2)]
  show ?thesis by (simp split: if_splits)
qed

theorem nginx_hides_shop_witness:
  "nginx ''/api/v1/payments/webhooks/payme/'' = Some ToFastApi \<and>
   resolve ''POST'' ''/api/v1/payments/webhooks/payme/'' = NotFound"
proof -
  let ?rf = "REST_FRAMEWORK (demo_environ [])"
  have "(''/api/v1/payments/webhooks/'', WebhookView ?rf) \<in> set (urlpatterns ?rf DRF)"
    by (simp add: urlpatterns_def payments_urls_def include_at_def)
  moreover have "startswith ''/api/v1/payments/webhooks/'' ''/api/v1/payments/webhooks/payme/''"
    "\<not> startswith ''/api/admin/'' ''/api/v1/payments/webhooks/''"
    by (simp_all add: startswith_def)
  ultimately show ?thesis
    using nginx_hides_shop [of "''/api/v1/payments/webhooks/''" "WebhookView ?rf"]
    by (force simp: view_defs)
qed

section \<open>FastAPI's own routes\<close>

text \<open>No path leads to two endpoints: the order of the routers in \<open>main.py\<close> does not matter.\<close>

definition clash :: "route \<Rightarrow> route \<Rightarrow> bool" where
  "clash r q \<longleftrightarrow>
     (if rt_parameter r \<and> rt_parameter q then \<not> apart (rt_path r) (rt_path q)
      else if rt_parameter r then matches r (rt_path q)
      else if rt_parameter q then matches q (rt_path r)
      else rt_path r = rt_path q)"

lemma matches_clash: "matches r path \<Longrightarrow> matches q path \<Longrightarrow> clash r q"
  using matches_startswith [of r path] matches_startswith [of q path] apartD [of "rt_path r" "rt_path q" path]
  by (auto simp: clash_def matches_def split: if_splits)

lemma no_clashes: "list_all (\<lambda>r. list_all (\<lambda>q. r = q \<or> \<not> clash r q) app_routes) app_routes"
  by code_simp

lemma routes_unambiguous:
  "r \<in> set app_routes \<Longrightarrow> q \<in> set app_routes \<Longrightarrow> matches r path \<Longrightarrow> matches q path \<Longrightarrow> r = q"
  using no_clashes matches_clash unfolding list_all_iff by blast

end
