(* ===== verification/Ledger_Spec.thy ===== *)
theory Ledger_Spec
  imports Inventory
begin

text \<open>
  What the stock ledger promises, without rows, warehouses or loops: three counters for each variant
  (\<open>free\<close> may still be promised, \<open>held\<close> is reserved, \<open>shelf\<close> is on hand) and, for each call of
  \<open>inventory/services.py\<close>, the moves of the counters it may make. The services of \<open>Inventory\<close> refine
  this machine, and what is proved of the machine holds for them.
\<close>

section \<open>The abstract ledger\<close>

record counters =
  free :: "nat \<Rightarrow> int"
  held :: "nat \<Rightarrow> int"
  shelf :: "nat \<Rightarrow> int"

definition move :: "nat \<Rightarrow> int \<Rightarrow> int \<Rightarrow> int \<Rightarrow> counters \<Rightarrow> counters" where
  "move v f h s c =
     \<lparr>free = (free c)(v := free c v + f), held = (held c)(v := held c v + h),
      shelf = (shelf c)(v := shelf c v + s)\<rparr>"

text \<open>
  A reservation may be refused although enough is free, when part of it lies in inactive
  warehouses; new stock may be swallowed in part by a safety buffer. Releasing and selling are
  functions of the counters.
\<close>

fun counter_spec :: "ledger_call \<Rightarrow> counters \<Rightarrow> counters \<Rightarrow> bool" where
  "counter_spec (Reserve now ref v q) c c' \<longleftrightarrow>
     c' = c \<or> 0 < q \<and> q \<le> free c v \<and> c' = move v (- q) q 0 c"
| "counter_spec (Release now ref v q) c c' \<longleftrightarrow>
     (let r = max 0 (min q (held c v)) in c' = move v r (- r) 0 c)"
| "counter_spec (Commit now ref v q) c c' \<longleftrightarrow>
     c' = (if 0 < q \<and> q \<le> held c v then move v 0 (- q) (- q) c else c)"
| "counter_spec (Adjust now v code delta note) c c' \<longleftrightarrow>
     c' = c \<or> (\<exists>m. 0 \<le> m \<and> m \<le> delta \<and> c' = move v m 0 delta c)"

inductive counter_run :: "ledger_call list \<Rightarrow> counters \<Rightarrow> counters \<Rightarrow> bool" where
  no_call: "counter_run [] c c"
| next_call: "counter_spec call c d \<Longrightarrow> counter_run calls d e \<Longrightarrow> counter_run (call # calls) c e"

inductive_simps counter_run_Cons: "counter_run (call # calls) c e"

definition counters_ok :: "counters \<Rightarrow> bool" where
  "counters_ok c \<longleftrightarrow> (\<forall>v. 0 \<le> free c v \<and> 0 \<le> held c v \<and> free c v + held c v \<le> shelf c v)"

lemma move_none [simp]: "move v 0 0 0 c = c"
  by (simp add: move_def)

lemma counters_ok_move:
  assumes "counters_ok c" "0 \<le> free c v + f" "0 \<le> held c v + h" "f + h \<le> s"
  shows "counters_ok (move v f h s c)"
proof -
  have "free c v + held c v \<le> shelf c v" using assms(1) by (simp add: counters_ok_def)
  with assms(4) have "free c v + f + (held c v + h) \<le> shelf c v + s" by linarith
  with assms(1-3) show ?thesis by (simp add: counters_ok_def move_def)
qed

lemma counter_spec_ok:
  assumes "counter_spec call c c'" "counters_ok c"
  shows "counters_ok c'"
proof -
  have "0 \<le> free c v" "0 \<le> held c v" for v using assms(2) by (simp_all add: counters_ok_def)
  with assms show ?thesis
    by (cases call) (auto simp: Let_def intro: counters_ok_move split: if_splits)
qed

lemma counter_run_ok: "counter_run calls c c' \<Longrightarrow> counters_ok c \<Longrightarrow> counters_ok c'"
  by (induction rule: counter_run.induct) (auto dest: counter_spec_ok)

section \<open>The services refine it\<close>

definition counters_of :: "inventory \<Rightarrow> counters" where
  "counters_of db =
     \<lparr>free = (\<lambda>v. get_available v db), held = (\<lambda>v. total_reserved v db), shelf = (\<lambda>v. total_on_hand v db)\<rparr>"

lemma counters_of_move:
  assumes "\<And>w. get_available w db' = get_available w db + (if w = v then f else 0)"
    and "\<And>w. total_reserved w db' = total_reserved w db + (if w = v then h else 0)"
    and "\<And>w. total_on_hand w db' = total_on_hand w db + (if w = v then s else 0)"
  shows "counters_of db' = move v f h s (counters_of db)"
  by (auto simp: counters_of_def move_def assms fun_eq_iff)

lemma sound_counters:
  assumes "sound_inventory db"
  shows "counters_ok (counters_of db)"
proof -
  have le: "0 \<le> available r \<and> 0 \<le> reserved r \<and> available r + reserved r \<le> on_hand r"
    if "r \<in> set (stocks db)" for r
    using assms that row_in_ok [of db r] row_in_covered [of db r]
    by (auto simp: sound_inventory_def available_def covered_def row_ok_def)
  have "0 \<le> total_of available v db \<and> 0 \<le> total_of reserved v db \<and>
      total_of available v db + total_of reserved v db \<le> total_of on_hand v db" for v
    unfolding total_of_def sum_list_addf [symmetric]
    by (intro conjI sum_list_nonneg sum_list_mono) (use le in \<open>auto simp: get_queryset_def\<close>)
  then show ?thesis by (simp add: counters_ok_def counters_of_def get_available_total)
qed

lemma adjust_stock_totals:
  assumes "inventory_ok db" "adjust_stock now fk v code delta note db = Inr (s', db')"
  obtains s where "row_ok s" "s' = s\<lparr>on_hand := max (on_hand s + delta) 0, updated_at := now\<rparr>"
    "\<And>g w. g \<in> {available, reserved, on_hand} \<Longrightarrow>
       total_of g w db' = total_of g w db + (if w = v then g s' - g s else 0)"
  using assms(2)
proof (rule adjust_stock_Inr)
  fix wh s created tbl
  assume g: "get_or_create ''inventory_stock'' (\<lambda>s. st_variant s = v \<and> st_warehouse s = pk wh)
       ((\<exists>s \<in> set (stocks db). st_variant s = v \<and> st_warehouse s = pk wh) \<or> \<not> fk v)
       (new_stock now v (pk wh)) (stocks db) = Inr (s, created, tbl)"
    and s': "s' = s\<lparr>on_hand := max (on_hand s + delta) 0, updated_at := now\<rparr>"
    and db': "db' = create_movement now (pk s) delta ADJUSTMENT '''' note
             (db\<lparr>stocks := save_row (pk s) (\<lambda>r. r\<lparr>on_hand := on_hand s', updated_at := now\<rparr>) tbl\<rparr>)"
  note t = adjusted_table [OF assms(1) g]
  have f: "s\<lparr>on_hand := on_hand s', updated_at := now\<rparr> = s'" by (simp add: s')
  have al: "is_alive s' = is_alive s" "st_variant s' = st_variant s" by (simp_all add: s' is_alive_def)
  have "total_of g w db' = total_of g w db + (if w = v then g s' - g s else 0)"
    if "g \<in> {available, reserved, on_hand}" for g w
  proof -
    have "total_of g w db' = total_of g w (db\<lparr>stocks := tbl\<rparr>) + (if w = v then g s' - g s else 0)"
      using t(6,7) by (auto simp: total_of_all_rows db' sum_save_row [OF t(1,4)] f al)
    moreover have "total_of g w (db\<lparr>stocks := tbl\<rparr>) = total_of g w db"
      using g
      by (rule get_or_create_cases) (use that in \<open>auto simp: total_of_all_rows available_def new_stock_def\<close>)
    ultimately show ?thesis by simp
  qed
  moreover have "row_ok s" using t(3,4) by (simp add: list_all_iff)
  ultimately show thesis using s' by (intro that) auto
qed

lemma reserve_refines:
  assumes "sound_inventory db" "reserve_units now ref v q db = Inr db'"
  shows "counter_spec (Reserve now ref v q) (counters_of db) (counters_of db')"
proof -
  have ok: "inventory_ok db" using assms(1) by (simp add: sound_inventory_def)
  from assms(2) obtain snap where r: "reserve_stock now ref v q db = Inr (snap, db')"
    by (auto simp: reserve_units_Inr)
  note w = reserve_stock_Inr [OF ok r]
  have "counters_of db' = move v (- q) q 0 (counters_of db)"
    by (rule counters_of_move)
      (simp_all add: ledger.reserve_avail [OF assms] ledger.reserve_held [OF assms]
        stock_writes_on_hand [OF w(3) ok])
  moreover have "reservable v db \<le> get_available v db"
  proof -
    have le: "sum_list (map available (filter (\<lambda>s. st_variant s = v \<and> P s) xs)) \<le>
        sum_list (map available (filter (\<lambda>s. st_variant s = v) xs))" for P and xs :: "stock list"
      by (induction xs) (auto simp: available_def)
    show ?thesis unfolding reservable_def get_available_def by (rule le)
  qed
  ultimately show ?thesis using w(1,2) by (simp add: counters_of_def)
qed

lemma release_refines:
  assumes "sound_inventory db" "release_reservation now ref v q db = Inr db'"
  shows "counter_spec (Release now ref v q) (counters_of db) (counters_of db')"
proof (cases "0 \<le> q")
  case True
  have ok: "inventory_ok db" "no_deficit db" using assms(1) by (simp_all add: sound_inventory_def)
  have "0 \<le> total_reserved v db" using ok(1) by (rule total_of_nonneg) (simp add: row_ok_def)
  with True have r: "max 0 (min q (total_reserved v db)) = min q (total_reserved v db)" by simp
  note w = release_reservation_writes [OF ok(1) True assms(2)]
  have "counters_of db' =
      move v (min q (total_reserved v db)) (- min q (total_reserved v db)) 0 (counters_of db)"
    by (rule counters_of_move)
      (simp_all add: stock_writes_available [OF w ok(1)] stock_writes_reserved [OF w ok(1)]
        stock_writes_on_hand [OF w ok(1)] avail_delta_def ok(2))
  with r show ?thesis by (simp add: counters_of_def)
next
  case False
  with assms(2) release_nonpositive [of q now ref v db] have "db' = db" by simp
  with False show ?thesis by (simp add: counters_of_def Let_def min_def)
qed

lemma commit_refines:
  assumes "sound_inventory db" "commit_sale now ref v q db = Inr db'"
  shows "counter_spec (Commit now ref v q) (counters_of db) (counters_of db')"
proof (cases "0 < q")
  case True
  then have q: "0 \<le> q" by simp
  have ok: "inventory_ok db" using assms(1) by (simp add: sound_inventory_def)
  note w = commit_sale_Inr [OF ok q assms(2)]
  have "get_available u db' = get_available u db" for u
    using stock_writes_available [OF w(1) ok, of u] by (simp add: avail_delta_def)
  then have "counters_of db' = move v 0 (- q) (- q) (counters_of db)"
    by (intro counters_of_move)
      (simp_all add: stock_writes_reserved [OF w(1) ok] stock_writes_on_hand [OF w(1) ok])
  with True w(2) show ?thesis
    by (simp add: counters_of_def total_committable_covered [OF assms(1)])
next
  case False
  with assms(2) commit_sale_nonpositive [of q now ref v db] have "db' = db" by simp
  with False show ?thesis by simp
qed

lemma commit_refused_refines:
  assumes "sound_inventory db" "commit_sale now ref v q db = Inl e"
  shows "counter_spec (Commit now ref v q) (counters_of db) (counters_of db)"
proof (cases "0 < q")
  case True
  have "inventory_ok db" using assms(1) by (simp add: sound_inventory_def)
  from commit_sale_Inl [OF this _ assms(2)] True show ?thesis
    by (simp add: counters_of_def total_committable_covered [OF assms(1)])
qed simp

lemma adjust_refines:
  assumes "sound_inventory db" "adjust_stock now fk v code delta note db = Inr (s', db')" "0 \<le> delta"
  shows "counter_spec (Adjust now v code delta note) (counters_of db) (counters_of db')"
proof -
  have ok: "inventory_ok db" using assms(1) by (simp add: sound_inventory_def)
  from adjust_stock_totals [OF ok assms(2)] obtain s where
    s: "row_ok s" "s' = s\<lparr>on_hand := max (on_hand s + delta) 0, updated_at := now\<rparr>"
    and g: "\<And>g w. g \<in> {available, reserved, on_hand} \<Longrightarrow>
       total_of g w db' = total_of g w db + (if w = v then g s' - g s else 0)" by blast
  have "on_hand s' - on_hand s = delta" "reserved s' - reserved s = 0"
    and m: "0 \<le> available s' - available s" "available s' - available s \<le> delta"
    using s assms(3) by (auto simp: row_ok_def available_def)
  then have "counters_of db' = move v (available s' - available s) 0 delta (counters_of db)"
    by (intro counters_of_move) (simp_all add: g get_available_total)
  with m show ?thesis by (simp only: counter_spec.simps) blast
qed

lemma run_call_refines:
  assumes "sound_inventory db" "only_restocks call"
  shows "counter_spec call (counters_of db)
    (counters_of (case run_call fk call db of Inl e \<Rightarrow> db | Inr db' \<Rightarrow> db'))"
proof (cases call)
  case (Reserve now ref v q)
  then show ?thesis using reserve_refines [OF assms(1)] by (auto split: sum.split)
next
  case (Release now ref v q)
  moreover have "is_ok (release_reservation now ref v q db)"
    by (simp add: release_reservation_def split: prod.splits)
  ultimately show ?thesis using release_refines [OF assms(1)] by (auto simp: is_ok_iff)
next
  case (Commit now ref v q)
  then show ?thesis
    using commit_refines [OF assms(1), of now ref v q] commit_refused_refines [OF assms(1), of now ref v q]
    by (cases "commit_sale now ref v q db") simp_all
next
  case (Adjust now v code delta why)
  then show ?thesis
    using assms(2) adjust_refines [OF assms(1), of now fk v code delta why]
    by (cases "adjust_stock now fk v code delta why db") (auto simp only: result_simps only_restocks.simps
        run_call.simps counter_spec.simps bindE_def sum.case prod.case split: prod.split)
qed

lemma run_calls_refine:
  "sound_inventory db \<Longrightarrow> list_all only_restocks calls \<Longrightarrow>
   counter_run calls (counters_of db) (counters_of (run_calls fk calls db))"
proof (induction calls arbitrary: db)
  case (Cons call calls)
  let ?db = "case run_call fk call db of Inl e \<Rightarrow> db | Inr db' \<Rightarrow> db'"
  have "sound_inventory ?db" using run_calls_sound [of db "[call]" fk] Cons.prems by simp
  with Cons.IH [of ?db] run_call_refines [OF Cons.prems(1), of call fk] Cons.prems(2) show ?case
    by (auto intro: next_call)
qed (simp add: no_call)

section \<open>Properties\<close>

text \<open>
  C10. The stock services refine an abstract ledger of three counters for each variant. Whatever rows,
  warehouses and priorities there are, every history of calls in which adjustments only add stock
  moves what is free, held and on the shelf as the abstract ledger may: a reservation moves its
  whole quantity from free to held or is refused, a release moves back what is held up to its
  quantity, a sale takes exactly its quantity from held and shelf or is refused because less is held.
  So what is free and held together never exceeds the shelf.
\<close>

theorem ledger_refines_counters:
  assumes "sound_inventory db" "list_all only_restocks calls"
  shows "counter_run calls (counters_of db) (counters_of (run_calls fk calls db)) \<and>
    get_available v (run_calls fk calls db) + total_reserved v (run_calls fk calls db) \<le>
      total_on_hand v (run_calls fk calls db)"
proof -
  have r: "counter_run calls (counters_of db) (counters_of (run_calls fk calls db))"
    by (rule run_calls_refine [OF assms])
  have "counters_ok (counters_of (run_calls fk calls db))"
    using counter_run_ok [OF r sound_counters [OF assms(1)]] .
  with r show ?thesis by (simp add: counters_ok_def counters_of_def)
qed

theorem ledger_refines_counters_witness:
  "counter_run [Reserve 1 ''o1'' 7 3, Commit 2 ''o1'' 7 3] (counters_of demo_ledger)
     (counters_of (run_calls (\<lambda>v. True) [Reserve 1 ''o1'' 7 3, Commit 2 ''o1'' 7 3] demo_ledger))"
  using ledger_refines_counters [OF demo_ledger_sound, of "[Reserve 1 ''o1'' 7 3, Commit 2 ''o1'' 7 3]"] by simp

end
