(* ===== verification/Sql_Reads.thy ===== *)
theory Sql_Reads
  imports Registry
begin

text \<open>
  The SQL of FastAPI's catalogue (\<open>fastapi_app/api/v1/catalog.py\<close>, \<open>search.py\<close>) against the tables
  Django's migrations create. FastAPI shares no model code with Django: its statements name tables and
  columns as text, so a renamed column would only show in production. A statement is kept as the
  tables it reads with their aliases, the columns it names with the alias they belong to, and the
  names of its result columns. (What the statements compute is modelled in \<open>Fast_Api\<close>.)
\<close>

section \<open>Statements\<close>

record sql_read =
  sr_from :: "(string \<times> string) list"
  sr_columns :: "(string \<times> string) list"
  sr_output :: "string list"

definition also_where :: "(string \<times> string) list \<Rightarrow> (string \<times> string) list \<Rightarrow> sql_read \<Rightarrow> sql_read" where
  "also_where frm cols r = r\<lparr>sr_from := sr_from r @ frm, sr_columns := sr_columns r @ cols\<rparr>"

definition children_sql :: sql_read where
  "children_sql =
     \<lparr>sr_from = [(''c'', ''catalog_category''), (''p'', ''catalog_category'')],
      sr_columns = [(''c'', ''id''), (''c'', ''name''), (''c'', ''slug''), (''c'', ''parent_id''), (''c'', ''is_active''),
         (''c'', ''sort_order''), (''p'', ''id''), (''p'', ''slug'')],
      sr_output = [''id'', ''name'', ''slug'', ''parent_id'', ''is_active'', ''sort_order'']\<rparr>"

definition roots_sql :: sql_read where
  "roots_sql =
     \<lparr>sr_from = [('''', ''catalog_category'')],
      sr_columns = [('''', ''id''), ('''', ''name''), ('''', ''slug''), ('''', ''parent_id''), ('''', ''is_active''),
         ('''', ''sort_order'')],
      sr_output = [''id'', ''name'', ''slug'', ''parent_id'', ''is_active'', ''sort_order'']\<rparr>"

definition brands_sql :: sql_read where
  "brands_sql =
     \<lparr>sr_from = [('''', ''catalog_brand'')],
      sr_columns = [('''', ''id''), ('''', ''name''), ('''', ''slug''), ('''', ''is_active'')],
      sr_output = [''id'', ''name'', ''slug'', ''is_active'']\<rparr>"

definition products_sql :: sql_read where
  "products_sql =
     \<lparr>sr_from = [(''v'', ''catalog_product_variant''), (''i'', ''catalog_product_image''), (''p'', ''catalog_product'')],
      sr_columns = [(''p'', ''id''), (''p'', ''name''), (''p'', ''slug''), (''p'', ''short_description''),
         (''p'', ''brand_id''), (''p'', ''status''), (''p'', ''is_featured''), (''p'', ''rating_avg''),
         (''p'', ''rating_count''), (''p'', ''sold_count''), (''p'', ''created_at''),
         (''v'', ''price''), (''v'', ''product_id''), (''v'', ''is_active''), (''i'', ''product_id''),
         (''i'', ''is_primary''), (''i'', ''sort_order''), (''i'', ''image'')],
      sr_output = [''id'', ''name'', ''slug'', ''short_description'', ''brand_id'', ''status'', ''is_featured'',
         ''rating_avg'', ''rating_count'', ''sold_count'', ''created_at'', ''min_price'',
         ''primary_image'']\<rparr>"

definition active_where :: "sql_read \<Rightarrow> sql_read" where
  "active_where = also_where []
     [(''p'', ''status''), (''p'', ''deleted_at'')]"

definition category_where :: "sql_read \<Rightarrow> sql_read" where
  "category_where = also_where [(''pc'', ''catalog_product_categories''), (''c'', ''catalog_category'')]
     [(''c'', ''id''), (''pc'', ''category_id''), (''pc'', ''product_id''), (''p'', ''id''),
        (''c'', ''slug'')]"

definition brand_where :: "sql_read \<Rightarrow> sql_read" where
  "brand_where = also_where [('''', ''catalog_brand'')]
     [(''p'', ''brand_id''), ('''', ''id''), ('''', ''slug'')]"

definition min_price_where :: "sql_read \<Rightarrow> sql_read" where
  "min_price_where = also_where [(''v'', ''catalog_product_variant'')]
     [(''v'', ''product_id''), (''p'', ''id''), (''v'', ''is_active''), (''v'', ''price'')]"

definition max_price_where :: "sql_read \<Rightarrow> sql_read" where
  "max_price_where = also_where [(''v'', ''catalog_product_variant'')]
     [(''v'', ''product_id''), (''p'', ''id''), (''v'', ''is_active''), (''v'', ''price'')]"

definition cursor_where :: "sql_read \<Rightarrow> sql_read" where
  "cursor_where = also_where []
     [(''p'', ''created_at'')]"

datatype sort_order = newest | popular | price_asc | price_desc

text \<open>The names a sort order uses: columns of \<open>p\<close>, and the output column \<open>min_price\<close>.\<close>

fun order_by :: "sort_order \<Rightarrow> (string \<times> string) list \<times> string list" where
  "order_by newest = ([(''p'', ''created_at'')], [])"
| "order_by popular = ([(''p'', ''sold_count''), (''p'', ''created_at'')], [])"
| "order_by price_asc = ([(''p'', ''created_at'')], [''min_price''])"
| "order_by price_desc = ([(''p'', ''created_at'')], [''min_price''])"

text \<open>The statement \<open>list_products\<close> puts together for the filters that are given.\<close>

definition list_products_sql :: "bool \<Rightarrow> bool \<Rightarrow> bool \<Rightarrow> bool \<Rightarrow> bool \<Rightarrow> sort_order \<Rightarrow> sql_read" where
  "list_products_sql by_category by_brand lo hi after ordr =
     (let r0 = active_where products_sql;
          r1 = (if by_category then category_where r0 else r0);
          r2 = (if by_brand then brand_where r1 else r1);
          r3 = (if lo then min_price_where r2 else r2);
          r4 = (if hi then max_price_where r3 else r3);
          r5 = (if after then cursor_where r4 else r4) in
      r5\<lparr>sr_columns := sr_columns r5 @ fst (order_by ordr)\<rparr>)"

definition product_sql :: sql_read where
  "product_sql =
     \<lparr>sr_from = [(''p'', ''catalog_product''), (''b'', ''catalog_brand'')],
      sr_columns = [(''p'', ''id''), (''p'', ''name''), (''p'', ''slug''), (''p'', ''short_description''),
         (''p'', ''description''), (''p'', ''brand_id''), (''p'', ''status''), (''p'', ''is_featured''),
         (''p'', ''rating_avg''), (''p'', ''rating_count''), (''p'', ''sold_count''),
         (''p'', ''metadata''), (''p'', ''created_at''), (''b'', ''name''), (''b'', ''slug''),
         (''b'', ''id''), (''p'', ''deleted_at'')],
      sr_output = [''id'', ''name'', ''slug'', ''short_description'', ''description'', ''brand_id'', ''status'',
         ''is_featured'', ''rating_avg'', ''rating_count'', ''sold_count'', ''metadata'',
         ''created_at'', ''brand_name'', ''brand_slug'']\<rparr>"

definition variants_sql :: sql_read where
  "variants_sql =
     \<lparr>sr_from = [('''', ''catalog_product_variant'')],
      sr_columns = [('''', ''id''), ('''', ''sku''), ('''', ''name''), ('''', ''price''), ('''', ''compare_at_price''),
         ('''', ''currency''), ('''', ''is_default''), ('''', ''is_active''),
         ('''', ''attributes_snapshot''), ('''', ''product_id'')],
      sr_output = [''id'', ''sku'', ''name'', ''price'', ''compare_at_price'', ''currency'', ''is_default'',
         ''is_active'', ''attributes_snapshot'']\<rparr>"

definition images_sql :: sql_read where
  "images_sql =
     \<lparr>sr_from = [('''', ''catalog_product_image'')],
      sr_columns = [('''', ''id''), ('''', ''image''), ('''', ''alt_text''), ('''', ''sort_order''),
         ('''', ''is_primary''), ('''', ''variant_id''), ('''', ''product_id'')],
      sr_output = [''id'', ''image'', ''alt_text'', ''sort_order'', ''is_primary'', ''variant_id'']\<rparr>"

definition variant_sql :: sql_read where
  "variant_sql =
     \<lparr>sr_from = [(''v'', ''catalog_product_variant''), (''p'', ''catalog_product'')],
      sr_columns = [(''v'', ''id''), (''v'', ''sku''), (''v'', ''name''), (''v'', ''price''),
         (''v'', ''compare_at_price''), (''v'', ''currency''), (''v'', ''is_default''),
         (''v'', ''is_active''), (''v'', ''attributes_snapshot''), (''v'', ''product_id''),
         (''p'', ''slug''), (''p'', ''name''), (''p'', ''id'')],
      sr_output = [''id'', ''sku'', ''name'', ''price'', ''compare_at_price'', ''currency'', ''is_default'',
         ''is_active'', ''attributes_snapshot'', ''product_id'', ''product_slug'', ''product_name'']\<rparr>"

definition search_sql :: sql_read where
  "search_sql =
     \<lparr>sr_from = [(''v'', ''catalog_product_variant''), (''p'', ''catalog_product'')],
      sr_columns = [(''p'', ''id''), (''p'', ''name''), (''p'', ''slug''), (''p'', ''short_description''),
         (''v'', ''price''), (''v'', ''product_id''), (''v'', ''is_active''),
         (''p'', ''search_vector''), (''p'', ''status''), (''p'', ''deleted_at''),
         (''p'', ''sold_count'')],
      sr_output = [''id'', ''name'', ''slug'', ''short_description'', ''min_price'', ''rank'', ''sim'']\<rparr>"

definition autocomplete_sql :: sql_read where
  "autocomplete_sql =
     \<lparr>sr_from = [('''', ''catalog_product'')],
      sr_columns = [('''', ''name''), ('''', ''slug''), ('''', ''status''), ('''', ''deleted_at''), ('''', ''sold_count'')],
      sr_output = [''name'', ''slug'']\<rparr>"

text \<open>The fields of the response models, and whether they are required.\<close>

definition BrandOut_fields :: "(string \<times> bool) list" where
  "BrandOut_fields =
     [(''id'', True), (''name'', True), (''slug'', True), (''is_active'', True)]"

definition CategoryOut_fields :: "(string \<times> bool) list" where
  "CategoryOut_fields =
     [(''id'', True), (''name'', True), (''slug'', True), (''parent_id'', False), (''is_active'', True),
      (''sort_order'', True)]"

definition VariantOut_fields :: "(string \<times> bool) list" where
  "VariantOut_fields =
     [(''id'', True), (''sku'', True), (''name'', False), (''price'', True), (''compare_at_price'', False),
      (''currency'', True), (''is_default'', True), (''is_active'', True), (''attributes_snapshot'',
      False), (''product_id'', False), (''product_slug'', False), (''product_name'', False)]"

definition ProductImageOut_fields :: "(string \<times> bool) list" where
  "ProductImageOut_fields =
     [(''id'', True), (''image'', True), (''alt_text'', False), (''sort_order'', False), (''is_primary'',
      False), (''variant_id'', False)]"

definition ProductOut_fields :: "(string \<times> bool) list" where
  "ProductOut_fields =
     [(''id'', True), (''name'', True), (''slug'', True), (''short_description'', False), (''brand_id'',
      False), (''status'', True), (''is_featured'', False), (''rating_avg'', False), (''rating_count'',
      False), (''sold_count'', False), (''created_at'', True), (''min_price'', False),
      (''primary_image'', False)]"

definition ProductDetailOut_fields :: "(string \<times> bool) list" where
  "ProductDetailOut_fields =
     ProductOut_fields @
      [(''description'', False), (''metadata'', False), (''brand_name'', False), (''brand_slug'', False),
      (''variants'', False), (''images'', False)]"

definition PaginatedProducts_fields :: "(string \<times> bool) list" where
  "PaginatedProducts_fields =
     [(''items'', True), (''next_cursor'', False), (''page_size'', True)]"

section \<open>Tables of a schema\<close>

text \<open>
  Django's column names: a foreign key \<open>f\<close> is the column \<open>f_id\<close>; a many-to-many field is a table of its own,
  named after table and field, with a key of either model.
\<close>

definition class_of :: "string \<Rightarrow> string" where
  "class_of k = drop 1 (dropWhile (\<lambda>c. c \<noteq> CHR ''.'') k)"

fun db_column :: "string \<times> column \<Rightarrow> string list" where
  "db_column (n, c) =
     (if many_to_many (col_kind c) then [] else if target (col_kind c) \<noteq> None then [n @ ''_id''] else [n])"

fun join_table :: "string \<Rightarrow> string \<Rightarrow> string \<times> column \<Rightarrow> (string \<times> string list) list" where
  "join_table k tab (n, c) =
     (case col_kind c of
        ManyToManyField t \<Rightarrow> [(tab @ ''_'' @ n, [''id'', class_of k @ ''_id'', class_of t @ ''_id''])]
      | _ \<Rightarrow> [])"

definition model_tables :: "string \<Rightarrow> model_state \<Rightarrow> (string \<times> string list) list" where
  "model_tables k m =
     (table_name m, concat (map db_column (columns m))) # concat (map (join_table k (table_name m)) (columns m))"

definition db_tables :: "schema \<Rightarrow> (string \<times> string list) list" where
  "db_tables s = concat (map (\<lambda>(k, m). model_tables k m) s)"

definition has_column :: "schema \<Rightarrow> string \<Rightarrow> string \<Rightarrow> bool" where
  "has_column s t c \<longleftrightarrow> list_ex (\<lambda>(t', cs). t' = t \<and> c \<in> set cs) (db_tables s)"

text \<open>A statement that resolves: every alias has one table, and every column is one of its table's.\<close>

definition resolves :: "schema \<Rightarrow> sql_read \<Rightarrow> bool" where
  "resolves s r \<longleftrightarrow>
     list_all (\<lambda>(a, t). map_of (sr_from r) a = Some t \<and> has_column s t ''id'') (sr_from r) \<and>
     list_all (\<lambda>(a, c). case map_of (sr_from r) a of None \<Rightarrow> False | Some t \<Rightarrow> has_column s t c) (sr_columns r)"

text \<open>A row of the statement makes the response model: its required fields are among the results.\<close>

definition serves :: "string list \<Rightarrow> (string \<times> bool) list \<Rightarrow> bool" where
  "serves out fs \<longleftrightarrow> list_all (\<lambda>(f, req). req \<longrightarrow> f \<in> set out) fs"

section \<open>Lemmas\<close>

lemma has_columnI:
  "(k, m) \<in> set s \<Longrightarrow> (t, cs) \<in> set (model_tables k m) \<Longrightarrow> c \<in> set cs \<Longrightarrow> has_column s t c"
  unfolding has_column_def db_tables_def list_ex_iff by (intro bexI [of _ "(t, cs)"]) auto

lemma has_columnE:
  assumes "has_column s t c"
  obtains k m cs where "(k, m) \<in> set s" "(t, cs) \<in> set (model_tables k m)" "c \<in> set cs"
  using assms unfolding has_column_def db_tables_def list_ex_iff by auto

text \<open>Schemas that agree have the same columns.\<close>

lemma model_tables_mono:
  assumes "table_name m' = table_name m" "set (columns m) \<subseteq> set (columns m')" "(t, cs) \<in> set (model_tables k m)"
  shows "\<exists>cs'. (t, cs') \<in> set (model_tables k m') \<and> set cs \<subseteq> set cs'"
proof (cases "(t, cs) = (table_name m, concat (map db_column (columns m)))")
  case True
  with assms(1,2) show ?thesis
    by (intro exI [of _ "concat (map db_column (columns m'))"]) (auto simp: model_tables_def)
next
  case False
  with assms(3) obtain x where "x \<in> set (columns m)" "(t, cs) \<in> set (join_table k (table_name m) x)"
    by (auto simp: model_tables_def)
  with assms(1,2) have "(t, cs) \<in> set (model_tables k m')" by (auto simp: model_tables_def)
  then show ?thesis by blast
qed

lemma same_schema_columns:
  assumes "same_schema d s" "has_column d t c"
  shows "has_column s t c"
proof -
  from assms(2) obtain k m cs where m: "(k, m) \<in> set d" "(t, cs) \<in> set (model_tables k m)" "c \<in> set cs"
    by (rule has_columnE)
  from assms(1) m(1) obtain m' where m': "map_of s k = Some m'" "same_model m m'"
    by (fastforce simp: same_schema_def list_all_iff split: option.splits)
  have "set (columns m) \<subseteq> set (columns m')"
    using m'(2) by (auto simp: same_model_def same_columns_def list_all_iff dest: map_of_SomeD)
  from model_tables_mono [OF _ this m(2)] m'(2) obtain cs' where
    "(t, cs') \<in> set (model_tables k m')" "set cs \<subseteq> set cs'" by (auto simp: same_model_def)
  with map_of_SomeD [OF m'(1)] m(3) show ?thesis by (blast intro: has_columnI)
qed

lemma same_schema_resolves:
  assumes "same_schema d s" "resolves d r"
  shows "resolves s r"
proof -
  have c: "has_column d t c \<Longrightarrow> has_column s t c" for t c by (rule same_schema_columns [OF assms(1)])
  have "list_all (\<lambda>(a, t). map_of (sr_from r) a = Some t \<and> has_column s t ''id'') (sr_from r)"
    by (rule list.pred_mono_strong [OF conjunct1 [OF assms(2) [unfolded resolves_def]]]) (auto dest: c)
  moreover have "list_all (\<lambda>(a, c). case map_of (sr_from r) a of None \<Rightarrow> False | Some t \<Rightarrow> has_column s t c)
      (sr_columns r)"
    by (rule list.pred_mono_strong [OF conjunct2 [OF assms(2) [unfolded resolves_def]]])
      (auto dest: c split: option.splits)
  ultimately show ?thesis by (simp add: resolves_def)
qed

text \<open>The tables of the catalogue.\<close>

lemma declared_column:
  assumes "map_of declared k = Some m" "table_name m = t" "c \<in> set (concat (map db_column (columns m)))"
  shows "has_column declared t c"
  by (rule has_columnI [OF map_of_SomeD [OF assms(1)] _ assms(3)]) (simp add: model_tables_def assms(2))

lemma declared_join:
  assumes "map_of declared k = Some m" "x \<in> set (columns m)"
    "(t, cs) \<in> set (join_table k (table_name m) x)" "c \<in> set cs"
  shows "has_column declared t c"
  using assms(2,3) by (intro has_columnI [OF map_of_SomeD [OF assms(1)] _ assms(4)]) (auto simp: model_tables_def)

lemma catalog_table_names:
  "table_name Category_model = ''catalog_category''" "table_name Brand_model = ''catalog_brand''"
  "table_name Product_model = ''catalog_product''" "table_name ProductVariant_model = ''catalog_product_variant''"
  "table_name ProductImage_model = ''catalog_product_image''"
  by (simp_all add: Category_model_def Brand_model_def Product_model_def ProductVariant_model_def ProductImage_model_def)

lemma product_categories_columns:
  "c \<in> {''id'', ''product_id'', ''category_id''} \<Longrightarrow> has_column declared ''catalog_product_categories'' c"
  by (rule declared_join [of "''catalog.product''" Product_model "(''categories'',
        column (ManyToManyField ''catalog.category''))" _ "[''id'', ''product_id'', ''category_id'']"])
    (auto simp: declared_lookup Product_model_def class_of_def)

lemmas catalog_columns =
  declared_column [OF declared_lookup(6) catalog_table_names(1)]
  declared_column [OF declared_lookup(5) catalog_table_names(2)]
  declared_column [OF declared_lookup(9) catalog_table_names(3)]
  declared_column [OF declared_lookup(10) catalog_table_names(4)]
  declared_column [OF declared_lookup(11) catalog_table_names(5)]
  product_categories_columns

lemmas read_defs =
  resolves_def catalog_columns Category_model_def Brand_model_def Product_model_def ProductVariant_model_def
  ProductImage_model_def base_columns_def key_column_def timestamp_columns_def soft_delete_column_def

lemma fixed_reads_resolve:
  "resolves declared children_sql" "resolves declared roots_sql" "resolves declared brands_sql"
  "resolves declared product_sql" "resolves declared variants_sql" "resolves declared images_sql"
  "resolves declared variant_sql" "resolves declared search_sql" "resolves declared autocomplete_sql"
  by (simp_all add: read_defs children_sql_def roots_sql_def brands_sql_def product_sql_def variants_sql_def
      images_sql_def variant_sql_def search_sql_def autocomplete_sql_def)

text \<open>In the statement of the product list every alias means one table, with any filters.\<close>

definition alias_table :: "(string \<times> string) list" where
  "alias_table =
     [(''p'', ''catalog_product''), (''v'', ''catalog_product_variant''), (''i'', ''catalog_product_image''),
      (''pc'', ''catalog_product_categories''), (''c'', ''catalog_category''), ('''', ''catalog_brand'')]"

definition placed :: "string \<times> string \<Rightarrow> bool" where
  "placed = (\<lambda>(a, t). map_of alias_table a = Some t \<and> has_column declared t ''id'')"

definition known :: "string \<times> string \<Rightarrow> bool" where
  "known = (\<lambda>(a, c). case map_of alias_table a of None \<Rightarrow> False | Some t \<Rightarrow> has_column declared t c)"

definition in_list :: "sql_read \<Rightarrow> bool" where
  "in_list r \<longleftrightarrow> list_all placed (sr_from r) \<and> list_all known (sr_columns r) \<and>
     fst ` set (sr_columns r) \<subseteq> fst ` set (sr_from r) \<and> {''p'', ''v''} \<subseteq> fst ` set (sr_from r)"

lemma in_list_resolves:
  assumes "in_list r"
  shows "resolves declared r"
proof -
  have same: "map_of (sr_from r) a = Some t" if a: "a \<in> fst ` set (sr_from r)" "map_of alias_table a = Some t" for a t
  proof -
    obtain u where u: "map_of (sr_from r) a = Some u" using a(1) by (metis map_of_eq_None_iff option.exhaust)
    have "placed (a, u)" using assms map_of_SomeD [OF u] by (simp add: in_list_def list_all_iff)
    with a(2) u show ?thesis by (simp add: placed_def)
  qed
  have "list_all (\<lambda>(a, t). map_of (sr_from r) a = Some t \<and> has_column declared t ''id'') (sr_from r)"
    using assms same unfolding in_list_def list_all_iff placed_def by force
  moreover have "list_all (\<lambda>(a, c). case map_of (sr_from r) a of None \<Rightarrow> False | Some t \<Rightarrow> has_column declared t c)
      (sr_columns r)"
    unfolding list_all_iff
  proof (intro ballI, clarify)
    fix a c assume m: "(a, c) \<in> set (sr_columns r)"
    then have "known (a, c)" "a \<in> fst ` set (sr_from r)" using assms by (force simp: in_list_def list_all_iff)+
    then show "case map_of (sr_from r) a of None \<Rightarrow> False | Some t \<Rightarrow> has_column declared t c"
      using same by (auto simp: known_def split: option.splits)
  qed
  ultimately show ?thesis by (simp add: resolves_def)
qed

lemma in_list_where:
  assumes "in_list r" "list_all placed frm" "list_all known cols"
    and "fst ` set cols \<subseteq> {''p'', ''v''} \<union> fst ` set frm"
  shows "in_list (also_where frm cols r)"
proof -
  have a: "{''p'', ''v''} \<subseteq> fst ` set (sr_from r)" using assms(1) by (simp only: in_list_def)
  have "fst ` set cols \<subseteq> fst ` set (sr_from r) \<union> fst ` set frm"
    using assms(4) a by (meson Un_mono order_refl order_trans)
  moreover have "fst ` set (sr_columns r) \<subseteq> fst ` set (sr_from r) \<union> fst ` set frm"
    using assms(1) unfolding in_list_def by (metis sup.coboundedI1)
  ultimately show ?thesis
    using assms(1-3) a by (simp add: in_list_def also_where_def image_Un del: insert_subset) (metis sup.coboundedI1)
qed

lemmas list_read_defs =
  placed_def known_def alias_table_def read_defs(2-)

lemma in_list_wheres:
  assumes "in_list r"
  shows "in_list (active_where r)" "in_list (category_where r)" "in_list (brand_where r)"
    "in_list (min_price_where r)" "in_list (max_price_where r)" "in_list (cursor_where r)"
  unfolding active_where_def category_where_def brand_where_def min_price_where_def max_price_where_def cursor_where_def
  by (rule in_list_where [OF assms]; simp add: list_read_defs)+

lemma in_list_order: "in_list r \<Longrightarrow> in_list (also_where [] (fst (order_by ordr)) r)"
  by (rule in_list_where; cases ordr; simp add: list_read_defs)

lemma list_products_resolves: "resolves declared (list_products_sql by_category by_brand lo hi after ordr)"
proof (rule in_list_resolves)
  have alt: "list_products_sql by_category by_brand lo hi after ordr =
      also_where [] (fst (order_by ordr))
        ((if after then cursor_where else id) ((if hi then max_price_where else id)
          ((if lo then min_price_where else id) ((if by_brand then brand_where else id)
            ((if by_category then category_where else id) (active_where products_sql))))))"
    by (simp add: list_products_sql_def Let_def also_where_def)
  have "in_list products_sql" by (simp add: in_list_def products_sql_def list_read_defs)
  then show "in_list (list_products_sql by_category by_brand lo hi after ordr)"
    unfolding alt by (intro in_list_order) (simp add: in_list_wheres)
qed

lemma order_names: "set (snd (order_by ordr)) \<subseteq> set (sr_output products_sql)"
  by (cases ordr) (simp_all add: products_sql_def)

lemmas response_defs =
  serves_def BrandOut_fields_def CategoryOut_fields_def VariantOut_fields_def ProductImageOut_fields_def
  ProductOut_fields_def ProductDetailOut_fields_def children_sql_def roots_sql_def brands_sql_def
  product_sql_def variants_sql_def images_sql_def variant_sql_def products_sql_def

lemma list_products_output: "sr_output (list_products_sql by_category by_brand lo hi after ordr) = sr_output products_sql"
  by (simp add: list_products_sql_def Let_def active_where_def category_where_def brand_where_def
      min_price_where_def max_price_where_def cursor_where_def also_where_def)

lemma responses_complete:
  "serves (sr_output children_sql) CategoryOut_fields" "serves (sr_output roots_sql) CategoryOut_fields"
  "serves (sr_output brands_sql) BrandOut_fields" "serves (sr_output products_sql) ProductOut_fields"
  "serves (sr_output product_sql @ [''variants'', ''images'']) ProductDetailOut_fields"
  "serves (sr_output variants_sql) VariantOut_fields" "serves (sr_output images_sql) ProductImageOut_fields"
  "serves (sr_output variant_sql) VariantOut_fields"
  by (simp_all add: response_defs)

section \<open>Properties\<close>

text \<open>
  C39. Every table and column FastAPI's SQL names exists in the database Django's migrations build,
  under Django's column naming and with one table per alias, for each of its statements and for the
  product list with any combination of filters and any sort order; and each statement returns every
  field its response model requires.
\<close>

theorem sql_reads_resolve:
  "\<exists>s. migrate [''auth.group'', ''auth.permission''] [(''auth'', ''0012_alter_user_first_name_max_length'')]
       migrations [] = Some s \<and>
     list_all (resolves s) [children_sql, roots_sql, brands_sql, product_sql, variants_sql, images_sql,
                            variant_sql, search_sql, autocomplete_sql] \<and>
     resolves s (list_products_sql by_category by_brand lo hi after ordr) \<and>
     serves (sr_output children_sql) CategoryOut_fields \<and> serves (sr_output roots_sql) CategoryOut_fields \<and>
     serves (sr_output brands_sql) BrandOut_fields \<and>
     serves (sr_output (list_products_sql by_category by_brand lo hi after ordr)) ProductOut_fields \<and>
     serves (sr_output product_sql @ [''variants'', ''images'']) ProductDetailOut_fields \<and>
     serves (sr_output variants_sql) VariantOut_fields \<and> serves (sr_output images_sql) ProductImageOut_fields \<and>
     serves (sr_output variant_sql) VariantOut_fields"
proof -
  obtain s where s: "migrate [''auth.group'', ''auth.permission'']
      [(''auth'', ''0012_alter_user_first_name_max_length'')] migrations [] = Some s" "same_schema declared s"
    using migrate_all by (auto simp: declared_def split: option.splits)
  note r = fixed_reads_resolve list_products_resolves [of by_category by_brand lo hi after ordr]
  note all = r [THEN same_schema_resolves [OF s(2)]]
  show ?thesis
    by (intro exI [of _ s] conjI s(1)) (simp_all add: all responses_complete list_products_output)
qed

end
