(* ===== verification/Realtime.thy ===== *)
theory Realtime
  imports Storefront
begin

text \<open>
  The websocket streams: \<open>django_app/apps/realtime/consumers.py\<close> (order, user and admin streams over
  the channel layer) and \<open>fastapi_app/realtime/manager.py\<close> with the endpoints of
  \<open>fastapi_app/api/v1/realtime.py\<close> (public counters over Redis). The channel layer is the list of
  its memberships; \<open>None\<close> as user is an anonymous or missing one.
\<close>

section \<open>Django Channels\<close>

type_synonym memberships = "(string \<times> string) list"

datatype ws_frame = Accept | Close int | SendJson json

record consumer =
  group_name :: "string option"
  channel_name :: string

text \<open>The layer refuses group names of 100 characters and more.\<close>

definition group_add :: "string \<Rightarrow> string \<Rightarrow> memberships \<Rightarrow> py_error + memberships" where
  "group_add g ch layer =
     (if 100 \<le> length g then Inl (TypeError ''Group name must be a valid unicode string'')
      else Inr (List.insert (g, ch) layer))"

definition group_discard :: "string \<Rightarrow> string \<Rightarrow> memberships \<Rightarrow> memberships" where
  "group_discard g ch layer = removeAll (g, ch) layer"

text \<open>\<open>group_send\<close>: the channels that receive the payload, each as one JSON frame.\<close>

definition group_send :: "memberships \<Rightarrow> string \<times> json \<Rightarrow> (string \<times> json) list" where
  "group_send layer msg = map (\<lambda>(g, ch). (ch, snd msg)) (filter (\<lambda>(g, ch). g = fst msg) layer)"

text \<open>\<open>_user_owns_order\<close>; a path segment that is no UUID raises in the query.\<close>

definition user_owns_order :: "nat \<Rightarrow> string \<Rightarrow> bool \<Rightarrow> order list \<Rightarrow> py_error + bool" where
  "user_owns_order user_id order_id is_staff tbl =
     (if is_staff then Inr True
      else case uuid_parse order_id of
        None \<Rightarrow> Inl (ValidationError ''not a valid UUID'')
      | Some k \<Rightarrow> Inr (\<exists>x \<in> set (objects tbl). pk x = k \<and> od_user x = Some user_id))"

definition connected :: "(string \<times> json) list \<Rightarrow> ws_frame" where
  "connected kvs = SendJson (JObj ((''type'', JStr ''connected'') # kvs))"

definition order_connect :: "string \<Rightarrow> user option \<Rightarrow> order list \<Rightarrow> consumer \<Rightarrow> memberships
    \<Rightarrow> py_error + (ws_frame list \<times> consumer \<times> memberships)" where
  "order_connect order_id usr tbl self layer =
     (let self1 = self\<lparr>group_name := Some (''order.'' @ order_id)\<rparr> in
      case usr of
        None \<Rightarrow> Inr ([Close 4401], self1, layer)
      | Some u \<Rightarrow>
        bindE (user_owns_order (pk u) order_id (us_is_staff u) tbl) (\<lambda>owns.
          if \<not> owns then Inr ([Close 4403], self1, layer)
          else bindE (group_add (''order.'' @ order_id) (channel_name self) layer) (\<lambda>layer1.
            Inr ([Accept, connected [(''order_id'', JStr order_id)]], self1, layer1))))"

definition user_connect :: "user option \<Rightarrow> consumer \<Rightarrow> memberships
    \<Rightarrow> py_error + (ws_frame list \<times> consumer \<times> memberships)" where
  "user_connect usr self layer =
     (case usr of
        None \<Rightarrow> Inr ([Close 4401], self, layer)
      | Some u \<Rightarrow>
        let self1 = self\<lparr>group_name := Some (''user.'' @ uuid_str (pk u))\<rparr> in
        bindE (group_add (''user.'' @ uuid_str (pk u)) (channel_name self) layer) (\<lambda>layer1.
          Inr ([Accept, connected []], self1, layer1)))"

definition GROUP :: string where "GROUP = ''admin.dashboard''"

definition admin_connect :: "user option \<Rightarrow> consumer \<Rightarrow> memberships
    \<Rightarrow> py_error + (ws_frame list \<times> consumer \<times> memberships)" where
  "admin_connect usr self layer =
     (if (case usr of None \<Rightarrow> True | Some u \<Rightarrow> \<not> us_is_staff u)
      then Inr ([Close 4403], self, layer)
      else bindE (group_add GROUP (channel_name self) layer) (\<lambda>layer1.
        Inr ([Accept, connected [(''channel'', JStr GROUP)]], self, layer1)))"

text \<open>\<open>disconnect\<close> of the order and user streams, and of the dashboard.\<close>

definition group_disconnect :: "consumer \<Rightarrow> memberships \<Rightarrow> memberships" where
  "group_disconnect self layer =
     (case group_name self of None \<Rightarrow> layer | Some g \<Rightarrow> group_discard g (channel_name self) layer)"

definition admin_disconnect :: "consumer \<Rightarrow> memberships \<Rightarrow> memberships" where
  "admin_disconnect self layer = group_discard GROUP (channel_name self) layer"

text \<open>\<open>order_event\<close>, \<open>notification\<close> and \<open>metric\<close>: the event goes to the client as it is.\<close>

definition relay :: "json \<Rightarrow> ws_frame list" where
  "relay event = [SendJson event]"

section \<open>The FastAPI connection manager\<close>

text \<open>
  Sockets are numbers. \<open>_channels\<close> is a \<open>defaultdict(set)\<close>: reading a missing key inserts the empty
  set. A task in \<open>_pubsub_tasks\<close> may have finished: a consumer that crashed stays in the dict.
\<close>

datatype task = Running | Finished

record manager =
  chans :: "string \<Rightarrow> nat set option"
  tasks :: "string \<Rightarrow> task option"

definition ConnectionManager :: manager where
  "ConnectionManager = \<lparr>chans = Map.empty, tasks = Map.empty\<rparr>"

definition members :: "string \<Rightarrow> manager \<Rightarrow> nat set" where
  "members c m = (case chans m c of None \<Rightarrow> {} | Some s \<Rightarrow> s)"

definition connect :: "nat \<Rightarrow> string \<Rightarrow> manager \<Rightarrow> manager" where
  "connect ws c m =
     (let m1 = m\<lparr>chans := (chans m)(c \<mapsto> insert ws (members c m))\<rparr> in
      if tasks m1 c = None then m1\<lparr>tasks := (tasks m1)(c \<mapsto> Running)\<rparr> else m1)"

definition discard :: "nat \<Rightarrow> string \<Rightarrow> manager \<Rightarrow> manager" where
  "discard ws c m = m\<lparr>chans := (chans m)(c \<mapsto> members c m - {ws})\<rparr>"

definition disconnect :: "nat \<Rightarrow> string \<Rightarrow> manager \<Rightarrow> manager" where
  "disconnect ws c m =
     (let m1 = discard ws c m in
      if members c m1 = {} then m1\<lparr>chans := (chans m1)(c := None), tasks := (tasks m1)(c := None)\<rparr>
      else m1)"

text \<open>
  \<open>broadcast\<close> and the inner loop of \<open>_consume\<close>: the sockets of a snapshot are tried one by one, and
  one that fails is discarded. The loop awaits each send, so other calls may come between;
  \<open>send_one\<close> is the part between two awaits.
\<close>

definition send_one :: "bool \<Rightarrow> nat \<Rightarrow> string \<Rightarrow> manager \<Rightarrow> manager" where
  "send_one delivered ws c m = (if delivered then m else discard ws c m)"

fun broadcast :: "(nat \<Rightarrow> bool) \<Rightarrow> string \<Rightarrow> nat list \<Rightarrow> manager \<Rightarrow> nat list \<times> manager" where
  "broadcast delivered c [] m = ([], m)"
| "broadcast delivered c (ws # rest) m =
     (let (got, m') = broadcast delivered c rest (send_one (delivered ws) ws c m) in
      (if delivered ws then ws # got else got, m'))"

text \<open>\<open>_consume\<close> reaching its \<open>except Exception\<close>: the task ends and nothing else changes.\<close>

definition consumer_crash :: "string \<Rightarrow> manager \<Rightarrow> manager" where
  "consumer_crash c m =
     (if tasks m c = Some Running then m\<lparr>tasks := (tasks m)(c \<mapsto> Finished)\<rparr> else m)"

text \<open>The endpoints: \<open>flash_sale_ws\<close> answers pings, both disconnect in their \<open>finally\<close>.\<close>

definition flash_sale_ws :: "string \<Rightarrow> string list \<Rightarrow> nat \<Rightarrow> manager \<Rightarrow> string list \<times> manager" where
  "flash_sale_ws sale_id received ws m =
     (let c = ''flash_sale.'' @ sale_id; m1 = connect ws c m in
      (map (\<lambda>_. ''pong'') (filter (\<lambda>d. d = ''ping'') received), disconnect ws c m1))"

definition stock_ws :: "string \<Rightarrow> nat \<Rightarrow> nat \<Rightarrow> manager \<Rightarrow> json list \<times> manager" where
  "stock_ws sku wakeups ws m =
     (let c = ''stock.'' @ sku; m1 = connect ws c m in
      (replicate wakeups (JObj [(''type'', JStr ''ping'')]), disconnect ws c m1))"

text \<open>All interleavings of calls on one manager; \<open>crashes\<close> says whether consumers may crash.\<close>

inductive manager_step :: "bool \<Rightarrow> manager \<Rightarrow> manager \<Rightarrow> bool" where
  connecting: "manager_step crashes m (connect ws c m)"
| disconnecting: "manager_step crashes m (disconnect ws c m)"
| sending: "manager_step crashes m (send_one delivered ws c m)"
| crashing: "crashes \<Longrightarrow> manager_step crashes m (consumer_crash c m)"

inductive manager_run :: "bool \<Rightarrow> manager \<Rightarrow> manager \<Rightarrow> bool" where
  start: "manager_run crashes m m"
| further: "manager_run crashes m m' \<Longrightarrow> manager_step crashes m' m'' \<Longrightarrow> manager_run crashes m m''"

section \<open>Sockets and consumers\<close>

definition manager_ok :: "bool \<Rightarrow> manager \<Rightarrow> bool" where
  "manager_ok crashes m \<longleftrightarrow>
     (\<forall>c. (members c m \<noteq> {} \<longrightarrow> tasks m c \<noteq> None) \<and> (tasks m c \<noteq> None \<longrightarrow> chans m c \<noteq> None) \<and>
          (\<not> crashes \<longrightarrow> tasks m c \<noteq> Some Finished))"

lemma members_connect: "members d (connect ws c m) = (if d = c then insert ws (members c m) else members d m)"
  by (simp add: connect_def members_def Let_def)

lemma members_discard: "members d (discard ws c m) = (if d = c then members c m - {ws} else members d m)"
  by (simp add: discard_def members_def)

lemma members_disconnect:
  "members d (disconnect ws c m) = (if d = c then members c m - {ws} else members d m)"
  by (simp add: disconnect_def Let_def members_discard) (simp add: members_def discard_def)

lemma tasks_connect: "tasks (connect ws c m) d = (if d = c \<and> tasks m c = None then Some Running else tasks m d)"
  by (simp add: connect_def Let_def)

lemma tasks_disconnect:
  "tasks (disconnect ws c m) d = (if d = c \<and> members c m \<subseteq> {ws} then None else tasks m d)"
  by (auto simp: disconnect_def Let_def members_discard) (simp_all add: discard_def)

lemma chans_disconnect:
  "chans (disconnect ws c m) d =
     (if d = c then if members c m \<subseteq> {ws} then None else Some (members c m - {ws}) else chans m d)"
  by (auto simp: disconnect_def Let_def members_discard) (simp_all add: discard_def)

lemma manager_step_ok:
  assumes "manager_step crashes m m'" "manager_ok crashes m"
  shows "manager_ok crashes m'"
  using assms
proof (cases rule: manager_step.cases)
  case (connecting ws c)
  with assms(2) show ?thesis
    by (auto simp: manager_ok_def members_connect tasks_connect) (auto simp: connect_def Let_def)
next
  case (disconnecting ws c)
  with assms(2) show ?thesis
    unfolding manager_ok_def disconnecting members_disconnect tasks_disconnect chans_disconnect by auto
next
  case (sending delivered ws c)
  with assms(2) show ?thesis
    by (auto simp: manager_ok_def send_one_def members_discard) (auto simp: discard_def)
next
  case (crashing c)
  with assms(2) show ?thesis by (auto simp: manager_ok_def consumer_crash_def members_def)
qed

lemma manager_run_ok: "manager_run crashes m m' \<Longrightarrow> manager_ok crashes m \<Longrightarrow> manager_ok crashes m'"
  by (induction rule: manager_run.induct) (auto intro: manager_step_ok)

text \<open>
  C31. Every socket has a consumer. However connects, disconnects, sends and failed sends interleave
  on a fresh manager, a channel with a connected socket has a pub/sub task, and while no consumer
  crashes that task is running; and when the last socket of a channel disconnects the channel and
  its task are gone.
\<close>

theorem sockets_have_consumer:
  assumes "manager_run crashes ConnectionManager m"
  shows "(ws \<in> members c m \<longrightarrow> tasks m c \<noteq> None \<and> (\<not> crashes \<longrightarrow> tasks m c = Some Running)) \<and>
         (members c m \<subseteq> {ws} \<longrightarrow> chans (disconnect ws c m) c = None \<and> tasks (disconnect ws c m) c = None)"
proof -
  have "manager_ok crashes ConnectionManager"
    by (simp add: manager_ok_def ConnectionManager_def members_def)
  with assms have ok: "manager_ok crashes m" using manager_run_ok by blast
  have "tasks m c = Some Running" if "tasks m c \<noteq> None" "tasks m c \<noteq> Some Finished"
    using that by (cases "tasks m c"; cases "the (tasks m c)") auto
  with ok show ?thesis
    by (auto simp: manager_ok_def tasks_disconnect chans_disconnect)
qed

theorem sockets_have_consumer_witness:
  "tasks (connect 1 ''stock.a'' ConnectionManager) ''stock.a'' = Some Running"
proof -
  have "manager_run False ConnectionManager (connect 1 ''stock.a'' ConnectionManager)"
    by (rule further [OF start connecting])
  from sockets_have_consumer [OF this, of 1 "''stock.a''"] show ?thesis
    by (simp add: members_connect)
qed

text \<open>A consumer that crashed is not started again while sockets stay: its task is in the dict.\<close>

lemma crashed_consumer_stays:
  "tasks m c = Some Finished \<Longrightarrow> tasks (connect ws c m) c = Some Finished"
  by (simp add: tasks_connect)

section \<open>The order stream\<close>

lemma uuid_str_hyphen: "CHR ''-'' \<in> set (uuid_str k)"
  by (simp add: uuid_str_def Let_def)

lemma hex_no_hyphen: "CHR ''-'' \<notin> set (hex_fixed w k)"
  using set_hex_fixed by fast

lemma uuid_parse_hex: "k < 2 ^ 128 \<Longrightarrow> uuid_parse (hex_fixed 32 k) = Some k"
proof -
  assume k: "k < 2 ^ 128"
  have "\<forall>c \<in> set (hex_fixed 32 k). \<not> (c = CHR ''{'' \<or> c = CHR ''}'')" using set_hex_fixed by blast
  moreover have "filter (\<lambda>c. c \<noteq> CHR ''-'') (hex_fixed 32 k) = hex_fixed 32 k"
    using hex_no_hyphen [of 32 k] by (intro filter_True) auto
  ultimately show ?thesis using k by (simp add: uuid_parse_def strip_noop hex_parse_fixed)
qed

lemma hex_not_dashed: "hex_fixed 32 k \<noteq> uuid_str j"
  using hex_no_hyphen [of 32 k] uuid_str_hyphen [of j] by metis

definition may_watch :: "user \<Rightarrow> nat \<Rightarrow> order list \<Rightarrow> bool" where
  "may_watch u k tbl \<longleftrightarrow> us_is_staff u \<or> (\<exists>x \<in> set (objects tbl). pk x = k \<and> od_user x = Some (pk u))"

lemma order_connect_known:
  assumes "uuid_parse t = Some k" "length t \<le> 36"
  shows "order_connect t (Some u) tbl self layer =
    Inr (if may_watch u k tbl
         then ([Accept, connected [(''order_id'', JStr t)]], self\<lparr>group_name := Some (''order.'' @ t)\<rparr>,
               List.insert (''order.'' @ t, channel_name self) layer)
         else ([Close 4403], self\<lparr>group_name := Some (''order.'' @ t)\<rparr>, layer))"
  using assms by (auto simp: order_connect_def user_owns_order_def may_watch_def group_add_def Let_def)

definition receives :: "memberships \<Rightarrow> string \<Rightarrow> (string \<times> json) list \<Rightarrow> bool" where
  "receives layer ch msgs \<longleftrightarrow> (\<exists>m \<in> set msgs. (fst m, ch) \<in> set layer)"

lemma receives_group_send:
  "receives layer ch msgs \<longleftrightarrow> ch \<in> fst ` set (concat (map (group_send layer) msgs))"
  by (force simp: receives_def group_send_def)

text \<open>
  Who hears an order. A socket opened for an order's key is accepted for staff and for the
  user of the living order with that key, and closed with 4403 for anyone else. If the path
  spells the key as the broadcasts do, the accepted socket receives every event of the order; if it
  spells the same key without hyphens, the socket is accepted as well and never receives one.
\<close>

theorem order_socket_exact:
  assumes "k < 2 ^ 128" "t = uuid_str k \<or> t = hex_fixed 32 k"
    and "channel_name self \<notin> snd ` set layer" "oe_order ev = k"
  shows "\<exists>frames self' layer'. order_connect t (Some u) tbl self layer = Inr (frames, self', layer') \<and>
     (Accept \<in> set frames \<longleftrightarrow> may_watch u k tbl) \<and> (Close 4403 \<in> set frames \<longleftrightarrow> \<not> may_watch u k tbl) \<and>
     (receives layer' (channel_name self) (broadcast_order_event ev o') \<longleftrightarrow> may_watch u k tbl \<and> t = uuid_str k)"
proof -
  have t: "uuid_parse t = Some k" "length t \<le> 36"
    using assms(1,2) uuid_round_trip uuid_parse_hex by (auto simp: length_uuid_str)
  have fresh: "(g, channel_name self) \<notin> set layer" for g using assms(3) by force
  have "receives layer (channel_name self) msgs \<longleftrightarrow> False" for msgs
    using fresh by (simp add: receives_def)
  moreover have "receives (List.insert (''order.'' @ t, channel_name self) layer) (channel_name self)
      (broadcast_order_event ev o') \<longleftrightarrow> t = uuid_str k"
    using assms(2,4) fresh hex_not_dashed [of k k]
    by (auto simp: receives_def broadcast_order_event_def split: option.splits)
  ultimately show ?thesis
    unfolding order_connect_known [OF t] by (simp add: connected_def)
qed

definition demo_consumer :: consumer where
  "demo_consumer = \<lparr>group_name = None, channel_name = ''specific.1''\<rparr>"

definition demo_event :: order_event where
  "demo_event = \<lparr>pk = 1, created_at = 0, updated_at = 0, deleted_at = None, oe_order = 2,
     oe_code = ''status:paid'', oe_message = '''', oe_actor = None, oe_payload = JObj []\<rparr>"

definition demo_watcher :: user where
  "demo_watcher = \<lparr>pk = 5, created_at = 0, updated_at = 0, deleted_at = None, us_email = ''a@b.co'',
     us_password = '''', us_first_name = '''', us_last_name = '''', us_phone = '''', us_is_active = True,
     us_is_staff = False, us_is_superuser = False, us_email_verified_at = None,
     us_phone_verified_at = None, us_last_login_ip = None, us_roles = []\<rparr>"

theorem order_socket_exact_witness:
  "\<exists>frames self' layer'.
     order_connect (hex_fixed 32 2) (Some demo_watcher) [demo_order 2 PENDING] demo_consumer [] =
       Inr (frames, self', layer') \<and> Accept \<in> set frames \<and>
     \<not> receives layer' (channel_name demo_consumer) (broadcast_order_event demo_event (demo_order 2 PENDING))"
proof -
  have may: "may_watch demo_watcher 2 [demo_order 2 PENDING]"
    by (simp add: may_watch_def demo_watcher_def demo_order_def is_alive_def)
  have "(2::nat) < 2 ^ 128" "channel_name demo_consumer \<notin> snd ` set []" "oe_order demo_event = 2"
    by (simp_all add: demo_event_def)
  from order_socket_exact [OF this(1) _ this(2,3), of "hex_fixed 32 2" demo_watcher
      "[demo_order 2 PENDING]" "demo_order 2 PENDING"] may
  show ?thesis using hex_not_dashed [of 2 2] by auto
qed

end
