(* ===== verification/Processes.thy ===== *)
theory Processes
  imports Settings Realtime
begin

text \<open>
  How the processes of the Django service start: the entry points \<open>novacommerce/asgi.py\<close>, \<open>wsgi.py\<close>,
  \<open>celery.py\<close> and \<open>manage.py\<close> with the settings module each ends up with, \<open>settings/test.py\<close>, and the
  websocket half of the ASGI application with the routes of \<open>realtime/routing.py\<close>.
\<close>

section \<open>The settings module\<close>

type_synonym env = "string \<Rightarrow> string option"

text \<open>\<open>os.environ.setdefault\<close>: only an unset variable is set.\<close>

definition setdefault :: "string \<Rightarrow> string \<Rightarrow> env \<Rightarrow> env" where
  "setdefault k v env = (case env k of None \<Rightarrow> env(k \<mapsto> v) | Some _ \<Rightarrow> env)"

abbreviation SETTINGS_VARIABLE :: string where
  "SETTINGS_VARIABLE \<equiv> ''DJANGO_SETTINGS_MODULE''"

text \<open>
  Importing a module of a package runs the package's \<open>__init__.py\<close> first, and that of \<open>novacommerce\<close>
  imports \<open>novacommerce.celery\<close>.
\<close>

definition celery_module :: "env \<Rightarrow> env" where
  "celery_module env = setdefault SETTINGS_VARIABLE ''novacommerce.settings.dev'' env"

definition novacommerce_init :: "env \<Rightarrow> env" where
  "novacommerce_init env = celery_module env"

definition asgi_module :: "env \<Rightarrow> env" where
  "asgi_module env = setdefault SETTINGS_VARIABLE ''novacommerce.settings.prod'' (novacommerce_init env)"

definition wsgi_module :: "env \<Rightarrow> env" where
  "wsgi_module env = setdefault SETTINGS_VARIABLE ''novacommerce.settings.prod'' (novacommerce_init env)"

definition celery_worker :: "env \<Rightarrow> env" where
  "celery_worker env = novacommerce_init env"

text \<open>\<open>manage.py\<close> is outside the package; it sets its default before Django imports the settings.\<close>

definition manage_main :: "env \<Rightarrow> env" where
  "manage_main env = novacommerce_init (setdefault SETTINGS_VARIABLE ''novacommerce.settings.dev'' env)"

definition entry_points :: "(env \<Rightarrow> env) list" where
  "entry_points = [asgi_module, wsgi_module, celery_worker, manage_main]"

definition load_settings :: "env \<Rightarrow> environ \<Rightarrow> py_error + django_settings" where
  "load_settings env e =
     (case env SETTINGS_VARIABLE of
        None \<Rightarrow> Inl (ValueError ''ImproperlyConfigured'')
      | Some m \<Rightarrow>
          if m = ''novacommerce.settings.dev'' then dev_settings e
          else if m = ''novacommerce.settings.prod'' then prod_settings e
          else if m = ''novacommerce.settings.base'' then base_settings e
          else Inl (ValueError ''ModuleNotFoundError''))"

section \<open>\<open>settings/test.py\<close>\<close>

text \<open>
  The variables the module sets before it imports \<open>base.py\<close>: they win over the \<open>.env\<close> file, which only
  sets what is unset, and lose against the process environment.
\<close>

definition test_defaults :: "(string \<times> string) list" where
  "test_defaults =
     [(''SECRET_KEY'', ''test-secret''), (''DATABASE_URL'', ''sqlite:///test_db.sqlite3''),
      (''REDIS_URL'', ''redis://localhost:6379/0''), (''REDIS_CACHE_URL'', ''redis://localhost:6379/1''),
      (''REDIS_CHANNELS_URL'', ''redis://localhost:6379/2''), (''CELERY_BROKER_URL'', ''memory://''),
      (''CELERY_RESULT_BACKEND'', ''cache+memory://''), (''CELERY_TASK_ALWAYS_EAGER'', ''true'')]"

definition test_environ :: "env \<Rightarrow> env \<Rightarrow> environ \<Rightarrow> environ" where
  "test_environ env dotenv e =
     e\<lparr>variables := (\<lambda>k. case fold (\<lambda>(x, v). setdefault x v) test_defaults env k of
                          Some v \<Rightarrow> Some v | None \<Rightarrow> dotenv k)\<rparr>"

record test_settings =
  ts_base :: django_settings
  ts_debug :: bool
  ts_testing :: bool
  ts_caches :: "(string \<times> string \<times> string) list"
  ts_databases :: "(string \<times> database_conf) list"
  ts_atomic_requests :: bool
  ts_channel_layers :: "(string \<times> string) list"
  ts_password_hashers :: "string list"
  ts_email_backend :: string
  ts_celery_always_eager :: bool
  ts_celery_eager_propagates :: bool

definition test_settings :: "env \<Rightarrow> env \<Rightarrow> environ \<Rightarrow> py_error + test_settings" where
  "test_settings env dotenv e =
     bindE (base_settings (test_environ env dotenv e)) (\<lambda>s.
       Inr \<lparr>ts_base = s, ts_debug = False, ts_testing = True,
            ts_caches = [(''default'', ''django.core.cache.backends.locmem.LocMemCache'', ''test-cache'')],
            ts_databases = map (\<lambda>(a, d). (a, d\<lparr>connect_timeout := None, conn_max_age := 0,
                                                 conn_health_checks := False\<rparr>)) (ds_databases s),
            ts_atomic_requests = False,
            ts_channel_layers = [(''default'', ''channels.layers.InMemoryChannelLayer'')],
            ts_password_hashers = [''django.contrib.auth.hashers.MD5PasswordHasher''],
            ts_email_backend = ''django.core.mail.backends.locmem.EmailBackend'',
            ts_celery_always_eager = True, ts_celery_eager_propagates = True\<rparr>)"

section \<open>The websocket application\<close>

datatype ws_target = OrderStatusConsumer string | UserFirehoseConsumer | AdminDashboardConsumer

definition hex_or_dash :: "char \<Rightarrow> bool" where
  "hex_or_dash c \<longleftrightarrow> c \<in> set ''0123456789abcdef-''"

text \<open>\<open>^ws/orders/(?P<order_id>[0-9a-f-]+)/$\<close>, and the two routes without a variable.\<close>

definition order_path :: "string \<Rightarrow> string option" where
  "order_path p =
     (let r = drop 10 p; i = butlast r in
      if startswith ''ws/orders/'' p \<and> r \<noteq> [] \<and> last r = CHR ''/'' \<and> i \<noteq> [] \<and> list_all hex_or_dash i
      then Some i else None)"

text \<open>Channels drops the leading slash of the path; the first pattern that matches decides.\<close>

definition websocket_urlpatterns :: "string \<Rightarrow> ws_target option" where
  "websocket_urlpatterns path =
     (let p = dropWhile (\<lambda>c. c = CHR ''/'') path in
      case order_path p of
        Some i \<Rightarrow> Some (OrderStatusConsumer i)
      | None \<Rightarrow> if p = ''ws/me/'' then Some UserFirehoseConsumer
                else if p = ''ws/admin/dashboard/'' then Some AdminDashboardConsumer else None)"

text \<open>
  The stack: \<open>AllowedHostsOriginValidator\<close> (\<open>allowed\<close> is its verdict on the handshake), the user of the
  session cookie, the router, the consumer. \<open>None\<close> is a handshake that is denied before the router.
\<close>

definition websocket_application :: "bool \<Rightarrow> string \<Rightarrow> user option \<Rightarrow> order list \<Rightarrow> consumer \<Rightarrow> memberships
    \<Rightarrow> (py_error + (ws_frame list \<times> consumer \<times> memberships)) option" where
  "websocket_application allowed path usr tbl self layer =
     (if \<not> allowed then None
      else Some (case websocket_urlpatterns path of
          None \<Rightarrow> Inl (ValueError ''No route found'')
        | Some (OrderStatusConsumer i) \<Rightarrow> order_connect i usr tbl self layer
        | Some UserFirehoseConsumer \<Rightarrow> user_connect usr self layer
        | Some AdminDashboardConsumer \<Rightarrow> admin_connect usr self layer))"

section \<open>Lemmas\<close>

lemma setdefault_twice: "setdefault k v (setdefault k w env) = setdefault k w env"
  by (auto simp: setdefault_def split: option.splits)

lemma setdefault_get: "setdefault k v env k = Some (case env k of None \<Rightarrow> v | Some x \<Rightarrow> x)"
  by (simp add: setdefault_def split: option.splits)

lemma entry_points_same:
  "asgi_module env SETTINGS_VARIABLE = Some (case env SETTINGS_VARIABLE of None \<Rightarrow> ''novacommerce.settings.dev'' | Some m \<Rightarrow> m)"
  "wsgi_module env SETTINGS_VARIABLE = Some (case env SETTINGS_VARIABLE of None \<Rightarrow> ''novacommerce.settings.dev'' | Some m \<Rightarrow> m)"
  "celery_worker env SETTINGS_VARIABLE = Some (case env SETTINGS_VARIABLE of None \<Rightarrow> ''novacommerce.settings.dev'' | Some m \<Rightarrow> m)"
  "manage_main env SETTINGS_VARIABLE = Some (case env SETTINGS_VARIABLE of None \<Rightarrow> ''novacommerce.settings.dev'' | Some m \<Rightarrow> m)"
  by (simp_all only: asgi_module_def wsgi_module_def celery_worker_def manage_main_def novacommerce_init_def
      celery_module_def setdefault_twice setdefault_get)

lemma fold_setdefault:
  "fold (\<lambda>(x, v). setdefault x v) xs env k = (case env k of Some v \<Rightarrow> Some v | None \<Rightarrow> map_of xs k)"
proof (induction xs arbitrary: env)
  case (Cons x xs)
  obtain a v where x: "x = (a, v)" by (cases x)
  show ?case unfolding fold_simps x prod.case comp_def
    by (simp add: Cons.IH setdefault_def split: option.splits)
qed (simp split: option.splits)

lemma test_database:
  "variables (test_environ env dotenv e) ''DATABASE_URL'' =
     Some (case env ''DATABASE_URL'' of None \<Rightarrow> ''sqlite:///test_db.sqlite3'' | Some v \<Rightarrow> v)"
  unfolding test_environ_def fold_setdefault by (simp add: test_defaults_def split: option.splits)

text \<open>The characters of a key's text fit the route's pattern.\<close>

lemma hex_digit_or_dash: "d < 16 \<Longrightarrow> hex_or_dash (''0123456789abcdef'' ! d)"
proof -
  assume "d < 16"
  then have "''0123456789abcdef'' ! d \<in> set ''0123456789abcdef''" by (intro nth_mem) simp
  then show ?thesis by (auto simp only: hex_or_dash_def list.set insert_iff empty_iff simp_thms)
qed

lemma hex_fixed_chars: "list_all hex_or_dash (hex_fixed w n)"
  by (induction w n rule: hex_fixed.induct) (simp_all add: hex_digit_or_dash)

lemma uuid_str_chars: "list_all hex_or_dash (uuid_str k)"
proof -
  have "hex_or_dash (CHR ''-'')" by (simp add: hex_or_dash_def)
  moreover have "\<forall>c \<in> set (hex_fixed 32 k). hex_or_dash c"
    using hex_fixed_chars [of 32 k] by (simp add: list_all_iff)
  ultimately show ?thesis
    unfolding uuid_str_def Let_def list_all_append list_all_iff by (auto dest: in_set_takeD in_set_dropD)
qed

lemma order_path_key: "order_path (''ws/orders/'' @ uuid_str k @ ''/'') = Some (uuid_str k)"
proof -
  have "uuid_str k \<noteq> []" using length_uuid_str [of k] by auto
  then show ?thesis by (simp add: order_path_def startswith_def uuid_str_chars)
qed

lemma order_route: "websocket_urlpatterns (''/ws/orders/'' @ uuid_str k @ ''/'') = Some (OrderStatusConsumer (uuid_str k))"
  using order_path_key [of k] by (simp add: websocket_urlpatterns_def)

lemma other_routes:
  "websocket_urlpatterns ''/ws/me/'' = Some UserFirehoseConsumer"
  "websocket_urlpatterns ''/ws/admin/dashboard/'' = Some AdminDashboardConsumer"
  by (simp_all add: websocket_urlpatterns_def order_path_def startswith_def)

text \<open>What an order route hands to the consumer is never empty and has only the pattern's characters.\<close>

lemma order_route_chars:
  "websocket_urlpatterns path = Some (OrderStatusConsumer i) \<Longrightarrow> i \<noteq> [] \<and> list_all hex_or_dash i"
  by (auto simp: websocket_urlpatterns_def order_path_def Let_def split: if_splits option.splits)

lemma transition_broadcast:
  assumes "transition_status now k new actor msg db = Inr (o1, db')"
  obtains ev where "oe_order ev = k" "broadcasts db' = broadcasts db @ broadcast_order_event ev o1"
proof -
  from assms obtain o0 stk where o: "get_one ''Order'' (\<lambda>o'. pk o' = k) (orders db) = Inr o0" "o1 = with_status now new o0"
    "db' = create_event now o1 (''status:'' @ status_value new)
       (if msg = '''' then ''Status changed to '' @ status_value new else msg) actor
       (db\<lparr>stock_db := stk, orders := save_row (pk o0) (with_status now new) (orders db)\<rparr>)"
    unfolding transition_status_def by (auto simp: result_simps Let_def split: if_splits)
  have "pk o1 = k" using get_one_Inr [OF o(1)] o(2) by simp
  with o(3) show ?thesis unfolding create_event_def Let_def by (intro that) auto
qed

section \<open>Properties\<close>

text \<open>
  Which settings the processes run with. All four entry points follow the process environment where it names
  a settings module. Where it names none, all four use the development settings, the ASGI and WSGI servers
  too: the package's import of \<open>celery.py\<close> has set the variable before the line of \<open>asgi.py\<close> that
  wants production. A server so started has \<open>DEBUG\<close> on and accepts every origin.
\<close>

theorem entry_points_settings:
  "list_all (\<lambda>start. load_settings (start env) e =
     (case env SETTINGS_VARIABLE of
        None \<Rightarrow> dev_settings e
      | Some m \<Rightarrow> load_settings env e)) entry_points \<and>
   (case load_settings (asgi_module (env(SETTINGS_VARIABLE := None))) e of
      Inl _ \<Rightarrow> True
    | Inr s \<Rightarrow> ds_debug s \<and> ds_cors_allow_all_origins s \<and> ds_secure_ssl_redirect s = Some False)"
proof -
  have "load_settings (start env) e = (case env SETTINGS_VARIABLE of None \<Rightarrow> dev_settings e | Some m \<Rightarrow> load_settings env e)"
    if "start env SETTINGS_VARIABLE =
      Some (case env SETTINGS_VARIABLE of None \<Rightarrow> ''novacommerce.settings.dev'' | Some m \<Rightarrow> m)" for start env
    unfolding load_settings_def that by (simp split: option.splits)
  then have one: "list_all (\<lambda>start. load_settings (start env) e =
     (case env SETTINGS_VARIABLE of None \<Rightarrow> dev_settings e | Some m \<Rightarrow> load_settings env e)) entry_points" for env
    using entry_points_same [of env] by (simp add: entry_points_def)
  then have "load_settings (asgi_module (env(SETTINGS_VARIABLE := None))) e = dev_settings e"
    by (fastforce simp: entry_points_def)
  with one [of env] show ?thesis by (auto simp: dev_settings_def result_simps split: sum.splits)
qed

text \<open>
  C20. An order's stream end to end. The path with the order's key as the API shows it reaches the order consumer; a
  user who may watch the order is accepted, and the next status change of the order is broadcast to that
  socket; a handshake with a foreign origin reaches nothing.
\<close>

theorem order_stream_delivers:
  assumes "k < 2 ^ 128" "may_watch u k (orders db)"
    and "transition_status now k new actor msg db = Inr (o1, db')"
  shows "websocket_application False path (Some u) (orders db) self layer = None \<and>
    (\<exists>frames self' layer'.
       websocket_application True (''/ws/orders/'' @ uuid_str k @ ''/'') (Some u) (orders db) self layer =
         Some (Inr (frames, self', layer')) \<and>
       Accept \<in> set frames \<and>
       receives layer' (channel_name self) (drop (length (broadcasts db)) (broadcasts db')))"
proof -
  from assms(3) obtain ev where ev: "oe_order ev = k"
    "broadcasts db' = broadcasts db @ broadcast_order_event ev o1"
    by (rule transition_broadcast)
  have t: "uuid_parse (uuid_str k) = Some k" "length (uuid_str k) \<le> 36"
    using uuid_round_trip [OF assms(1)] by (simp_all add: length_uuid_str)
  have "websocket_application True (''/ws/orders/'' @ uuid_str k @ ''/'') (Some u) (orders db) self layer =
      Some (order_connect (uuid_str k) (Some u) (orders db) self layer)"
    unfolding websocket_application_def order_route by simp
  then show ?thesis
    unfolding order_connect_known [OF t] using assms(2) ev
    by (simp add: websocket_application_def connected_def receives_def broadcast_order_event_def)
qed

theorem order_stream_delivers_witness:
  "\<exists>o1 db' frames self' layer'. transition_status 3 2 PAID None '''' busy_shop = Inr (o1, db') \<and>
     websocket_application True (''/ws/orders/'' @ uuid_str 2 @ ''/'') (Some demo_watcher) (orders busy_shop)
       demo_consumer [] = Some (Inr (frames, self', layer')) \<and>
     receives layer' (channel_name demo_consumer) (drop (length (broadcasts busy_shop)) (broadcasts db'))"
proof -
  have may: "may_watch demo_watcher 2 (orders busy_shop)"
    unfolding may_watch_def by (intro disjI2 bexI [of _ "demo_order 2 PENDING"])
      (simp_all add: demo_watcher_def busy_shop_def demo_order_def is_alive_def)
  have "is_ok (transition_status 3 2 PAID None '''' busy_shop)" by code_simp
  then obtain o1 db' where t: "transition_status 3 2 PAID None '''' busy_shop = Inr (o1, db')"
    by (auto simp: is_ok_iff)
  have "(2::nat) < 2 ^ 128" by simp
  from order_stream_delivers [OF this may t, of "''''" demo_consumer "[]"] t show ?thesis by blast
qed

end
