(* ===== verification/Streams.thy ===== *)
theory Streams
  imports Processes
begin

text \<open>
  What arrives at a socket. Django: the method of a consumer that a message of the channel layer is
  dispatched to (\<open>realtime/consumers.py\<close>; Channels takes the message's type and replaces dots by
  underscores). FastAPI: the loop of \<open>ConnectionManager._consume\<close> over the messages of Redis, which the
  connection manager is shown to turn into a plain relation of subscriptions.
\<close>

section \<open>Consumers and their handlers\<close>

datatype consumer_class = OrderStatusConsumer | UserFirehoseConsumer | AdminDashboardConsumer

definition order_event_OrderStatus :: "json \<Rightarrow> ws_frame list" where
  "order_event_OrderStatus event = relay event"

definition order_event_UserFirehose :: "json \<Rightarrow> ws_frame list" where
  "order_event_UserFirehose event = relay event"

definition notification_UserFirehose :: "json \<Rightarrow> ws_frame list" where
  "notification_UserFirehose event = relay event"

definition metric_AdminDashboard :: "json \<Rightarrow> ws_frame list" where
  "metric_AdminDashboard event = relay event"

definition order_event_AdminDashboard :: "json \<Rightarrow> ws_frame list" where
  "order_event_AdminDashboard event = relay event"

definition handlers :: "consumer_class \<Rightarrow> (string \<times> (json \<Rightarrow> ws_frame list)) list" where
  "handlers c =
     (case c of
        OrderStatusConsumer \<Rightarrow> [(''order_event'', order_event_OrderStatus)]
      | UserFirehoseConsumer \<Rightarrow>
          [(''order_event'', order_event_UserFirehose), (''notification'', notification_UserFirehose)]
      | AdminDashboardConsumer \<Rightarrow>
          [(''metric'', metric_AdminDashboard), (''order_event'', order_event_AdminDashboard)])"

definition disconnect_of :: "consumer_class \<Rightarrow> consumer \<Rightarrow> memberships \<Rightarrow> memberships" where
  "disconnect_of c = (case c of AdminDashboardConsumer \<Rightarrow> admin_disconnect | _ \<Rightarrow> group_disconnect)"

text \<open>Channels' \<open>dispatch\<close>: a type without a method raises.\<close>

definition handler_name :: "string \<Rightarrow> string" where
  "handler_name t = map (\<lambda>c. if c = CHR ''.'' then CHR ''_'' else c) t"

definition dispatch :: "consumer_class \<Rightarrow> json \<Rightarrow> py_error + ws_frame list" where
  "dispatch c msg =
     bindE (json_get msg ''type'' JNull) (\<lambda>t.
       case t of
         JStr s \<Rightarrow> (case map_of (handlers c) (handler_name s) of
                     None \<Rightarrow> Inl (ValueError ''No handler for message type'') | Some h \<Rightarrow> Inr (h msg))
       | _ \<Rightarrow> Inl (ValueError ''No handler for message type''))"

text \<open>The class of the sockets of a group, by the name the three \<open>connect\<close> methods give it.\<close>

definition class_of_group :: "string \<Rightarrow> consumer_class option" where
  "class_of_group g =
     (if startswith ''order.'' g then Some OrderStatusConsumer
      else if startswith ''user.'' g then Some UserFirehoseConsumer
      else if g = GROUP then Some AdminDashboardConsumer else None)"

text \<open>What one socket is sent for a list of messages to groups, in their order.\<close>

definition socket_frames :: "memberships \<Rightarrow> string \<Rightarrow> (string \<times> json) list \<Rightarrow> (py_error + ws_frame list) list" where
  "socket_frames layer ch msgs =
     map (\<lambda>(g, msg). case class_of_group g of None \<Rightarrow> Inr [] | Some c \<Rightarrow> dispatch c msg)
       (filter (\<lambda>(g, msg). (g, ch) \<in> set layer) msgs)"

section \<open>The consumer loop of FastAPI\<close>

text \<open>The data of a Redis message; the confirmations of a subscription carry a number.\<close>

datatype payload = Text string | Bytes string | Number int

record redis_message =
  msg_type :: string
  msg_data :: payload

definition text_of :: "(string \<Rightarrow> string option) \<Rightarrow> payload \<Rightarrow> string option" where
  "text_of utf8 p = (case p of Text s \<Rightarrow> Some s | Bytes b \<Rightarrow> utf8 b | Number _ \<Rightarrow> None)"

text \<open>
  The inner loop, over a snapshot of the channel's sockets. A send to a socket of \<open>dead\<close> fails, and so
  does the decoding of the payload, which is inside the same \<open>try\<close>.
\<close>

fun fan_out :: "nat set \<Rightarrow> string \<Rightarrow> string option \<Rightarrow> nat list \<Rightarrow> manager \<Rightarrow> (nat \<times> string) list \<times> manager" where
  "fan_out dead c t [] m = ([], m)"
| "fan_out dead c t (ws # rest) m =
     (let delivered = (t \<noteq> None \<and> ws \<notin> dead);
          (sent, m') = fan_out dead c t rest (send_one delivered ws c m) in
      (if delivered then (ws, the t) # sent else sent, m'))"

definition on_message ::
  "(nat set \<Rightarrow> nat list) \<Rightarrow> (string \<Rightarrow> string option) \<Rightarrow> nat set \<Rightarrow> string \<Rightarrow> redis_message \<Rightarrow> manager
   \<Rightarrow> (nat \<times> string) list \<times> manager" where
  "on_message listed utf8 dead c msg m =
     (if msg_type msg \<noteq> ''message'' then ([], m)
      else fan_out dead c (text_of utf8 (msg_data msg)) (listed (members c m)) m)"

text \<open>
  What happens to a manager: sockets join and leave, Redis publishes to a channel whose consumer is
  running. One message is fanned out before the next event.
\<close>

datatype ws_event = Join nat string | Leave nat string | Publish "nat set" string redis_message

definition manager_event ::
  "(nat set \<Rightarrow> nat list) \<Rightarrow> (string \<Rightarrow> string option) \<Rightarrow> ws_event \<Rightarrow> manager \<Rightarrow> (nat \<times> string) list \<times> manager" where
  "manager_event listed utf8 e m =
     (case e of
        Join ws c \<Rightarrow> ([], connect ws c m)
      | Leave ws c \<Rightarrow> ([], disconnect ws c m)
      | Publish dead c msg \<Rightarrow> if tasks m c = Some Running then on_message listed utf8 dead c msg m else ([], m))"

fun manager_events ::
  "(nat set \<Rightarrow> nat list) \<Rightarrow> (string \<Rightarrow> string option) \<Rightarrow> ws_event list \<Rightarrow> manager \<Rightarrow> (nat \<times> string) list list \<times> manager" where
  "manager_events listed utf8 [] m = ([], m)"
| "manager_events listed utf8 (e # es) m =
     (let (sent, m1) = manager_event listed utf8 e m; (more_sent, m2) = manager_events listed utf8 es m1 in
      (sent # more_sent, m2))"

section \<open>Publish and subscribe, abstractly\<close>

text \<open>
  The contract: a set of pairs of socket and channel. A message goes to the subscribers of its channel that
  can be reached, and whoever cannot be reached is no subscriber any more.
\<close>

type_synonym subscriptions = "(nat \<times> string) set"

definition subscription_event :: "(string \<Rightarrow> string option) \<Rightarrow> ws_event \<Rightarrow> subscriptions \<Rightarrow> (nat \<times> string) set \<times> subscriptions" where
  "subscription_event utf8 e s =
     (case e of
        Join ws c \<Rightarrow> ({}, insert (ws, c) s)
      | Leave ws c \<Rightarrow> ({}, s - {(ws, c)})
      | Publish dead c msg \<Rightarrow>
          if msg_type msg \<noteq> ''message'' then ({}, s)
          else case text_of utf8 (msg_data msg) of
            None \<Rightarrow> ({}, {(ws, d) \<in> s. d \<noteq> c})
          | Some t \<Rightarrow> ({(ws, u). (ws, c) \<in> s \<and> ws \<notin> dead \<and> u = t}, {(ws, d) \<in> s. d = c \<longrightarrow> ws \<notin> dead}))"

fun subscription_events :: "(string \<Rightarrow> string option) \<Rightarrow> ws_event list \<Rightarrow> subscriptions \<Rightarrow> (nat \<times> string) set list \<times> subscriptions" where
  "subscription_events utf8 [] s = ([], s)"
| "subscription_events utf8 (e # es) s =
     (let (sent, s1) = subscription_event utf8 e s; (more_sent, s2) = subscription_events utf8 es s1 in
      (sent # more_sent, s2))"

definition subscribed :: "manager \<Rightarrow> subscriptions" where
  "subscribed m = {(ws, c). ws \<in> members c m}"

section \<open>Lemmas\<close>

lemma members_send_one:
  "members d (send_one delivered ws c m) = (if \<not> delivered \<and> d = c then members c m - {ws} else members d m)"
  by (simp add: send_one_def members_discard)

lemma tasks_send_one [simp]: "tasks (send_one delivered ws c m) = tasks m"
  by (simp add: send_one_def discard_def)

lemma fan_out_Cons:
  "fst (fan_out dead c t (ws # rest) m) =
     (if t \<noteq> None \<and> ws \<notin> dead then [(ws, the t)] else []) @
     fst (fan_out dead c t rest (send_one (t \<noteq> None \<and> ws \<notin> dead) ws c m))"
  "snd (fan_out dead c t (ws # rest) m) = snd (fan_out dead c t rest (send_one (t \<noteq> None \<and> ws \<notin> dead) ws c m))"
  by (simp_all add: case_prod_unfold Let_def)

lemma fan_out_exact:
  "fst (fan_out dead c t wss m) = map (\<lambda>ws. (ws, the t)) (filter (\<lambda>ws. t \<noteq> None \<and> ws \<notin> dead) wss)"
  "members d (snd (fan_out dead c t wss m)) =
     (if d = c then members c m - {ws \<in> set wss. t = None \<or> ws \<in> dead} else members d m)"
  "tasks (snd (fan_out dead c t wss m)) = tasks m"
proof (induction wss arbitrary: m)
  case (Cons ws wss)
  { case 1 show ?case unfolding fan_out_Cons Cons.IH by simp }
  { case 2 show ?case unfolding fan_out_Cons Cons.IH members_send_one by auto }
  { case 3 show ?case unfolding fan_out_Cons Cons.IH by simp }
qed simp_all

definition served :: "manager \<Rightarrow> bool" where
  "served m \<longleftrightarrow> manager_ok False m \<and> (\<forall>c. finite (members c m))"

lemma fan_out_served:
  assumes "served m"
  shows "served (snd (fan_out dead c t wss m))"
proof -
  have "manager_ok False (snd (fan_out dead c t wss m))" if "manager_ok False m" for m
    using that
  proof (induction wss arbitrary: m)
    case (Cons ws wss)
    show ?case unfolding fan_out_Cons by (rule Cons.IH [OF manager_step_ok [OF sending Cons.prems]])
  qed simp
  with assms show ?thesis by (simp add: served_def fan_out_exact(2))
qed

lemma not_running: "served m \<Longrightarrow> tasks m c \<noteq> Some Running \<Longrightarrow> members c m = {}"
  unfolding served_def manager_ok_def by (metis option.exhaust task.exhaust)

lemma subscribed_simps:
  "subscribed (connect ws c m) = insert (ws, c) (subscribed m)"
  "subscribed (disconnect ws c m) = subscribed m - {(ws, c)}"
  by (auto simp: subscribed_def members_connect members_disconnect split: if_splits)

lemma event_refines:
  assumes "\<And>S. finite S \<Longrightarrow> distinct (listed S) \<and> set (listed S) = S" "served m"
    and "manager_event listed utf8 e m = (sent, m')"
  shows "subscription_event utf8 e (subscribed m) = (set sent, subscribed m') \<and> distinct sent \<and> served m'"
proof (cases e)
  case (Join ws c)
  with assms(2,3) show ?thesis
    using manager_step_ok [OF connecting, of False m ws c]
    by (auto simp: manager_event_def subscription_event_def subscribed_simps served_def members_connect)
next
  case (Leave ws c)
  with assms(2,3) show ?thesis
    using manager_step_ok [OF disconnecting, of False m ws c]
    by (auto simp: manager_event_def subscription_event_def subscribed_simps served_def members_disconnect)
next
  case (Publish dead c msg)
  show ?thesis
  proof (cases "tasks m c = Some Running \<and> msg_type msg = ''message''")
    case True
    let ?t = "text_of utf8 (msg_data msg)"
    have l: "distinct (listed (members c m))" "set (listed (members c m)) = members c m"
      using assms(1,2) by (simp_all add: served_def)
    have r: "sent = fst (fan_out dead c ?t (listed (members c m)) m)" "m' = snd (fan_out dead c ?t (listed (members c m)) m)"
      using assms(3) Publish True by (simp_all add: manager_event_def on_message_def)
    have "subscribed m' = {(ws, d). ws \<in> members d m \<and> (d = c \<longrightarrow> ?t \<noteq> None \<and> ws \<notin> dead)}"
      using l(2) by (auto simp: subscribed_def r(2) fan_out_exact(2) split: if_splits)
    moreover have "set sent = {(ws, u). ws \<in> members c m \<and> ?t = Some u \<and> ws \<notin> dead}"
      using l(2) by (auto simp: r(1) fan_out_exact(1))
    moreover have "distinct sent"
      using l(1) by (auto simp: r(1) fan_out_exact(1) distinct_map intro: inj_onI)
    moreover have "served m'" using fan_out_served [OF assms(2)] r(2) by simp
    ultimately show ?thesis using Publish True
      by (auto simp: subscription_event_def subscribed_def split: option.splits)
  next
    case False
    then have "sent = []" "m' = m" "msg_type msg = ''message'' \<Longrightarrow> members c m = {}"
      using assms(2,3) Publish not_running by (auto simp: manager_event_def on_message_def split: if_splits)
    with Publish assms(2) show ?thesis
      by (cases "msg_type msg = ''message''")
        (auto simp: subscription_event_def subscribed_def split: option.splits)
  qed
qed

lemma events_refine:
  assumes "\<And>S. finite S \<Longrightarrow> distinct (listed S) \<and> set (listed S) = S" "served m"
    and "manager_events listed utf8 es m = (sent, m')"
  shows "subscription_events utf8 es (subscribed m) = (map set sent, subscribed m') \<and> list_all distinct sent"
  using assms(2,3)
proof (induction es arbitrary: m sent)
  case (Cons e es)
  obtain s1 m1 where e: "manager_event listed utf8 e m = (s1, m1)" by (cases "manager_event listed utf8 e m")
  obtain s2 m2 where es: "manager_events listed utf8 es m1 = (s2, m2)" by (cases "manager_events listed utf8 es m1")
  from event_refines [OF assms(1) Cons.prems(1) e]
  have a: "subscription_event utf8 e (subscribed m) = (set s1, subscribed m1)" "distinct s1" "served m1" by blast+
  from Cons.prems(2) e es have "sent = s1 # s2" "m' = m2" by simp_all
  with Cons.IH [OF a(3)] a(1,2) es show ?case by simp
qed simp

section \<open>Properties\<close>


definition demo_events :: "ws_event list" where
  "demo_events =
     [Join 1 ''stock.a'', Join 2 ''stock.a'', Join 2 ''stock.b'',
      Publish {} ''stock.a'' \<lparr>msg_type = ''subscribe'', msg_data = Number 1\<rparr>,
      Publish {2} ''stock.a'' \<lparr>msg_type = ''message'', msg_data = Text ''left: 3''\<rparr>,
      Publish {} ''stock.a'' \<lparr>msg_type = ''message'', msg_data = Text ''left: 2''\<rparr>]"


text \<open>A payload that is no text silences the channel: its sockets stay open and get nothing more.\<close>

lemma undecodable_payload_unsubscribes:
  assumes "msg_type msg = ''message''" "text_of utf8 (msg_data msg) = None"
  shows "subscription_event utf8 (Publish dead c msg) s = ({}, {(ws, d) \<in> s. d \<noteq> c})"
  using assms by (simp add: subscription_event_def)

lemma class_of_groups:
  "class_of_group (''order.'' @ t) = Some OrderStatusConsumer" "class_of_group (''user.'' @ t) = Some UserFirehoseConsumer"
  "class_of_group GROUP = Some AdminDashboardConsumer"
  by (simp_all add: class_of_group_def startswith_def GROUP_def)

lemmas class_of_groups_simps [simp] = class_of_groups [simplified]

lemma event_handled: "dispatch c (event_payload ev o') = Inr [SendJson (event_payload ev o')]"
proof -
  have "json_get (event_payload ev o') ''type'' JNull = Inr (JStr ''order.event'')"
    by (simp add: event_payload_def)
  moreover have "handler_name ''order.event'' = ''order_event''" by code_simp
  ultimately show ?thesis
    by (cases c) (simp_all add: dispatch_def handlers_def order_event_OrderStatus_def order_event_UserFirehose_def
        order_event_AdminDashboard_def relay_def)
qed

text \<open>A socket that joined one group is sent the events of that group.\<close>

lemma socket_frames_joined:
  assumes "ch \<notin> snd ` set layer"
  shows "socket_frames (List.insert (g, ch) layer) ch (broadcast_order_event ev o') =
    (if g = ''order.'' @ uuid_str (oe_order ev) \<or> (\<exists>k. od_user o' = Some k \<and> g = ''user.'' @ uuid_str k)
     then [Inr [SendJson (event_payload ev o')]] else [])"
proof -
  have "(h, ch) \<notin> set layer" for h using assms by force
  then show ?thesis
    by (auto simp: socket_frames_def broadcast_order_event_def event_handled class_of_groups split: option.splits)
qed

text \<open>
  C33. Who hears of a status change. The stream of a customer gets exactly one frame, the event, for a
  change of one of the customer's own orders and nothing for any other order; the dashboard stream of staff gets
  nothing, since no code sends to its group, although it has handlers for two kinds of message.
\<close>

theorem personal_streams_exact:
  assumes "transition_status now k new actor msg db = Inr (o1, db')"
    and "channel_name self \<notin> snd ` set layer" "pk u < 2 ^ 128" "\<forall>j. od_user o1 = Some j \<longrightarrow> j < 2 ^ 128"
  shows "\<exists>self1 layer1 ev. user_connect (Some u) self layer = Inr ([Accept, connected []], self1, layer1) \<and>
      oe_order ev = k \<and>
      socket_frames layer1 (channel_name self) (drop (length (broadcasts db)) (broadcasts db')) =
        (if od_user o1 = Some (pk u) then [Inr [SendJson (event_payload ev o1)]] else []) \<and>
      (us_is_staff u \<longrightarrow> (\<exists>layer2.
         admin_connect (Some u) self layer = Inr ([Accept, connected [(''channel'', JStr GROUP)]], self, layer2) \<and>
         socket_frames layer2 (channel_name self) (drop (length (broadcasts db)) (broadcasts db')) = []))"
proof -
  from assms(1) obtain ev where ev: "oe_order ev = k" "broadcasts db' = broadcasts db @ broadcast_order_event ev o1"
    by (rule transition_broadcast)
  let ?new = "drop (length (broadcasts db)) (broadcasts db')" and ?ch = "channel_name self"
  have new: "?new = broadcast_order_event ev o1" by (simp add: ev(2))
  have group: "''user.'' @ uuid_str (pk u) \<noteq> ''order.'' @ t" "GROUP \<noteq> ''order.'' @ t" "GROUP \<noteq> ''user.'' @ t" for t
    by (simp_all add: GROUP_def)
  have mine: "(\<exists>j. od_user o1 = Some j \<and> ''user.'' @ uuid_str (pk u) = ''user.'' @ uuid_str j) \<longleftrightarrow> od_user o1 = Some (pk u)"
    using assms(3,4) uuid_str_inject [of "pk u"] by auto
  have "user_connect (Some u) self layer = Inr ([Accept, connected []],
      self\<lparr>group_name := Some (''user.'' @ uuid_str (pk u))\<rparr>, List.insert (''user.'' @ uuid_str (pk u), ?ch) layer)"
    by (simp add: user_connect_def group_add_def Let_def length_uuid_str)
  moreover have "socket_frames (List.insert (''user.'' @ uuid_str (pk u), ?ch) layer) ?ch ?new =
      (if od_user o1 = Some (pk u) then [Inr [SendJson (event_payload ev o1)]] else [])"
    unfolding new socket_frames_joined [OF assms(2)] mine using group(1) by presburger
  moreover have "admin_connect (Some u) self layer = Inr ([Accept, connected [(''channel'', JStr GROUP)]], self,
      List.insert (GROUP, ?ch) layer)" if "us_is_staff u"
    using that by (simp add: admin_connect_def group_add_def GROUP_def)
  moreover have "socket_frames (List.insert (GROUP, ?ch) layer) ?ch ?new = []"
    unfolding new socket_frames_joined [OF assms(2)] using group(2,3) by presburger
  ultimately show ?thesis using ev(1) by blast
qed

theorem personal_streams_exact_witness:
  "\<exists>o1 db' self1 layer1 f. transition_status 3 2 PAID None '''' busy_shop = Inr (o1, db') \<and>
     user_connect (Some demo_watcher) demo_consumer [] = Inr ([Accept, connected []], self1, layer1) \<and>
     socket_frames layer1 ''specific.1'' (drop (length (broadcasts busy_shop)) (broadcasts db')) = [Inr [SendJson f]]"
proof -
  have "case transition_status 3 2 PAID None '''' busy_shop of Inl _ \<Rightarrow> False | Inr (o1, db') \<Rightarrow> od_user o1 = Some 5"
    by code_simp
  then obtain o1 db' where t: "transition_status 3 2 PAID None '''' busy_shop = Inr (o1, db')" "od_user o1 = Some 5"
    by (auto split: sum.splits)
  have s: "channel_name demo_consumer \<notin> snd ` set []" "pk demo_watcher < 2 ^ 128" "pk demo_watcher = 5"
    "channel_name demo_consumer = ''specific.1''" "\<forall>j. od_user o1 = Some j \<longrightarrow> j < 2 ^ 128"
    by (simp_all add: demo_watcher_def demo_consumer_def t(2))
  from personal_streams_exact [OF t(1) s(1,2,5)] t s(3,4) show ?thesis by auto
qed

end
