(* ===== verification/Purchase.thy ===== *)
theory Purchase
  imports Storefront
begin

text \<open>
  The way of a purchase through the components: \<open>create_order_from_cart\<close> of \<open>orders/services.py\<close>,
  \<open>create_payment\<close> and \<open>handle_webhook\<close> of \<open>payments/services.py\<close> with the Payme provider, and the
  stock ledger below them; and who may follow and stop an order (\<open>orders/views.py\<close>).
\<close>

section \<open>From the cart to the paid order\<close>

text \<open>The callback with which Payme reports a performed transaction for an account.\<close>

definition perform_transaction :: "string \<Rightarrow> json \<Rightarrow> json" where
  "perform_transaction ref tid =
     JObj [(''method'', JStr ''PerformTransaction''),
           (''params'', JObj [(''id'', tid), (''account'', JObj [(''order_id'', JStr ref)])])]"

lemma payme_provider:
  "get_provider env se cfg ''payme'' =
     Inr \<lparr>create_charge = payme_create_charge env cfg, parse_webhook = payme_parse_webhook env cfg,
          refund = base_refund\<rparr>"
  by (simp add: get_provider_def REGISTRY_def)

definition performed :: "string \<Rightarrow> json \<Rightarrow> webhook_result" where
  "performed ref tid =
     \<lparr>wr_accepted = True, wr_event_type = JStr ''PerformTransaction'', wr_order_id = JStr ref,
      wr_payment_reference = tid, wr_new_status = ''captured'', wr_raw = perform_transaction ref tid,
      wr_error = ''''\<rparr>"

lemma performed_simps [simp]:
  "wr_accepted (performed ref tid)" "wr_event_type (performed ref tid) = JStr ''PerformTransaction''"
  "wr_order_id (performed ref tid) = JStr ref" "wr_new_status (performed ref tid) = ''captured''"
  "wr_raw (performed ref tid) = perform_transaction ref tid"
  by (simp_all add: performed_def)

lemma payme_performed:
  assumes "verify_basic_auth env cfg hs" "load_body env body = Loaded (perform_transaction ref tid)"
  shows "payme_parse_webhook env cfg hs body = Inr (performed ref tid)"
  using assms
  by (simp add: payme_parse_webhook_def perform_transaction_def json_or_def payme_status_def performed_def)

text \<open>What \<open>create_payment\<close> writes to the order's row.\<close>

definition referenced :: "int \<Rightarrow> string \<Rightarrow> string \<Rightarrow> order \<Rightarrow> order" where
  "referenced now code ref o' =
     o'\<lparr>od_payment_provider := code, od_payment_reference := ref, updated_at := now\<rparr>"

lemma referenced_simps [simp]:
  "pk (referenced now code ref o') = pk o'" "od_number (referenced now code ref o') = od_number o'"
  "od_status (referenced now code ref o') = od_status o'"
  "od_grand_total (referenced now code ref o') = od_grand_total o'"
  "is_alive (referenced now code ref o') = is_alive o'"
  "times_ok (referenced now code ref o') = times_ok o'"
  "totals_ok (referenced now code ref o') tbl = totals_ok o' tbl"
  by (simp_all add: referenced_def is_alive_def times_ok_def totals_ok_def)

lemma save_row_in: "x \<in> set tbl \<Longrightarrow> f x \<in> set (save_row (pk x) f tbl)"
  unfolding set_save_row by (rule image_eqI [of _ _ x]) simp_all

lemma orders_ok_referenced:
  assumes "orders_ok db"
  shows "orders_ok (db\<lparr>orders := save_row k (referenced now code ref) (orders db)\<rparr>)"
proof -
  have "map pk (save_row k (referenced now code ref) tbl) = map pk tbl"
    "map od_number (save_row k (referenced now code ref) tbl) = map od_number tbl" for tbl
    by (simp_all add: save_row_def update_where_def)
  moreover from this(1) have "pk ` set (save_row k (referenced now code ref) tbl) = pk ` set tbl" for tbl
    by (metis set_map)
  moreover have "times_ok x \<and> totals_ok x (order_items db)"
    if "x \<in> set (save_row k (referenced now code ref) (orders db))" for x
    using that assms by (auto simp: set_save_row orders_ok_def)
  ultimately show ?thesis using assms by (simp add: orders_ok_def distinct_pks_def)
qed

lemma payme_payment_Inr:
  assumes "create_payment now (get_provider env se cfg) o' ''payme'' su cu db = Inr (pay, db')"
    and "py_status pay \<noteq> ''failed''"
  shows "py_provider_reference pay = uuid_str (pk o')" "py_order pay = pk o'" "py_provider pay = ''payme''"
    "py_amount pay = od_grand_total o'" "is_alive pay" "pay \<in> set (payments db')"
    "shop_db db' = (shop_db db)\<lparr>orders :=
       save_row (pk o') (referenced now ''payme'' (uuid_str (pk o'))) (orders (shop_db db))\<rparr>"
  using assms
  by (auto simp: create_payment_def payme_provider payme_create_charge_def charge_failed_def Let_def
      intent_of_def new_payment_def is_alive_def referenced_def [abs_def] split: if_splits)

text \<open>The lines of a fresh order can be sold whenever it is paid, and what that leaves.\<close>

lemma checkout_saleable:
  assumes "shop_ok db" "create_order_from_cart t0 number c usr p db = Inr (o', db1)"
  obtains u where
    "each_line (commit_sale t ref) (lines_of (pk o') (order_items db1)) (stock_db db1) = Inr u"
    "\<And>v. total_on_hand v u = total_on_hand v (stock_db db) - quantity_of (pk c) (cart_db db) v"
    "\<And>v. get_available v u = get_available v (stock_db db) - quantity_of (pk c) (cart_db db) v"
    "\<And>v. total_reserved v u = total_reserved v (stock_db db)"
  using assms(2)
proof (cases rule: create_order_Inr)
  case (1 coupon new)
  let ?s = "stock_db db" and ?ls = "cart_lines (items_of (pk c) (cart_db db))"
  have sound: "sound_inventory ?s" and ok: "orders_ok db" using assms(1) by (simp_all add: shop_ok_def)
  have lines: "lines_of (pk o') (order_items db1) = ?ls"
    using no_lines_yet [OF ok] 1(3,8,10) by (simp add: lines_of_append)
  have "\<forall>v. 0 \<le> total_reserved v ?s"
    using sound by (auto simp: sound_inventory_def row_ok_def intro: total_of_nonneg)
  with ledger.reserve_lines [OF sound 1(6)] have r: "sound_inventory (stock_db db1)"
    "\<forall>v. demand v ?ls \<le> total_reserved v (stock_db db1)" by auto
  have pos: "\<forall>(v, q) \<in> set ?ls. 0 \<le> q" using ledger.reserve_lines_positive [OF 1(6)] by auto
  from ledger.commit_lines [OF r(1) pos r(2), of t ref] obtain u where
    u: "each_line (commit_sale t ref) ?ls (stock_db db1) = Inr u"
    "\<forall>v. get_available v u = get_available v (stock_db db1)"
    "\<forall>v. total_reserved v u = total_reserved v (stock_db db1) - demand v ?ls" by auto
  show thesis
    using that [of u] u lines ledger.reserve_lines [OF sound 1(6)] stocktake.reserve_lines_shelf [OF sound 1(6)]
      stocktake.commit_lines_shelf [OF r(1) pos u(1)]
    by (simp add: demand_cart_lines)
qed

text \<open>A performed transaction of a pending order whose lines can be sold.\<close>

lemma performed_pays:
  assumes "orders_ok (shop_db db)" "o2 \<in> set (orders (shop_db db))" "is_alive o2" "od_status o2 = PENDING"
    and "pk o2 < 2 ^ 128" "verify_basic_auth env cfg hs"
    and "load_body env body = Loaded (perform_transaction (uuid_str (pk o2)) tid)"
    and "each_line (commit_sale t (uuid_str (pk o2))) (lines_of (pk o2) (order_items (shop_db db)))
           (stock_db (shop_db db)) = Inr u"
  obtains s where
    "handle_webhook t (get_provider env se cfg) repr ''payme'' hs body db =
       Inr (Matched (od_number o2), db\<lparr>shop_db := s, payments := update_payments (pk o2) ''payme'' ''captured''
         (perform_transaction (uuid_str (pk o2)) tid) (payments db)\<rparr>)"
    "stock_db s = u" "with_status t PAID o2 \<in> set (orders s)"
proof -
  let ?w = "performed (uuid_str (pk o2)) tid"
  let ?ev = "webhook_event t o2 (''webhook:'' @ py_str repr (wr_event_type ?w)) (wr_raw ?w) (shop_db db)"
  have ev: "orders_ok ?ev" "o2 \<in> set (orders ?ev)" using assms(1,2) by (simp_all add: orders_ok_def)
  obtain o3 s where s: "transition_status t (pk o2) PAID None ''paid via webhook'' ?ev = Inr (o3, s)"
      "stock_db s = u" "orders s = save_row (pk o2) (with_status t PAID) (orders ?ev)"
    using transition_living [OF ev assms(3), of t PAID None "''paid via webhook''"] assms(4,8)
    by (simp add: can_transition_to_def move_stock_def)
  have "with_status t PAID o2 \<in> set (orders s)" unfolding s(3) by (rule save_row_in [OF ev(2)])
  moreover have "find_by_id (wr_order_id ?w) (shop_db db) = Inr (Some o2)"
    using find_by_id_order [OF assms(1-3,5)] by simp
  ultimately show thesis
    using handle_webhook_matched [where get_prov = "get_provider env se cfg" and w = ?w and o' = o2 and
        repr = repr and now = t, OF payme_provider] payme_performed [OF assms(6,7)] s(1,2)
    by (intro that [of s]) (simp_all add: apply_status_def)
qed



definition payme_env :: provider_env where
  "payme_env = demo_payme_env
     \<lparr>b64encode := (\<lambda>_. ''bT1t''),
      json_loads := (\<lambda>_. Loaded (perform_transaction (uuid_str (fresh_pk (orders idle_shop))) (JStr ''t1'')))\<rparr>"

definition idle_store :: store where
  "idle_store = \<lparr>shop_db = idle_shop, payments = [], refunds = []\<rparr>"

lemma payme_payment_fits:
  assumes "PAYME_MERCHANT_ID cfg \<noteq> ''''" "\<And>s. length (b64encode env s) \<le> 100"
  obtains pay db' where "create_payment now (get_provider env se cfg) o' ''payme'' su cu db = Inr (pay, db')"
    "py_status pay \<noteq> ''failed''"
proof -
  have short: "length (b64encode env s) \<le> 173" for s using assms(2) [of s] by simp
  with that assms(1) show thesis
    by (simp add: create_payment_def payme_provider payme_create_charge_def intent_of_def Let_def result_fits_def
        length_uuid_str)
qed


section \<open>Who may stop an order\<close>

lemma release_lines_succeed: "\<exists>s'. each_line (release_reservation now ref) ls s = Inr s'"
proof (induction ls arbitrary: s)
  case (Cons l ls)
  obtain v q where "l = (v, q)" by (cases l)
  moreover obtain t where "release_reservation now ref v q s = Inr t"
    by (simp add: release_reservation_def split: prod.splits)
  ultimately show ?case using Cons.IH [of t] by simp
qed simp

definition may_see :: "user \<Rightarrow> order \<Rightarrow> bool" where
  "may_see u x \<longleftrightarrow> us_is_staff u \<or> us_is_superuser u \<or> od_user x = Some (pk u)"

lemma get_order_exact:
  assumes "orders_ok db"
  shows "get_order u k db =
    (case find (\<lambda>x. pk x = k \<and> is_alive x \<and> may_see u x) (orders db) of
       None \<Rightarrow> Inl Http404 | Some x \<Rightarrow> Inr x)"
proof -
  let ?P = "\<lambda>x. pk x = k \<and> is_alive x \<and> may_see u x"
  have seen: "set (order_queryset u db) = {x \<in> set (orders db). is_alive x \<and> may_see u x}"
    by (auto simp: order_queryset_def may_see_def get_queryset_def is_alive_def)
  show ?thesis
  proof (cases "find ?P (orders db)")
    case None
    then have "find (\<lambda>x. pk x = k) (order_queryset u db) = None"
      unfolding find_None_iff seen by auto
    with None show ?thesis by (simp add: get_order_def)
  next
    case (Some x)
    then have x: "x \<in> set (orders db)" "pk x = k" "is_alive x" "may_see u x"
      by (auto simp: find_Some_iff)
    have "find (\<lambda>x. pk x = k) (order_queryset u db) \<noteq> None"
      using x unfolding find_None_iff seen by auto
    then obtain y where y: "find (\<lambda>x. pk x = k) (order_queryset u db) = Some y" by auto
    then have "y \<in> set (orders db)" "pk y = k"
      using seen find_SomeD [OF y] by auto
    with row_unique [of "orders db" y x] x assms have "y = x" by (simp add: orders_ok_def)
    with x(4) y Some show ?thesis by (auto simp: get_order_def may_see_def IsOwnerOrStaff_def)
  qed
qed

text \<open>
  C17. Who may cancel an order, and when. The cancel endpoint answers 404 and changes nothing unless the key
  is that of a living order which is the requester's own or the requester is staff or superuser;
  it answers 409 with the source's message and changes nothing for an order that is neither pending,
  paid nor packed; in every other case it answers 200 with the cancelled order, and only that
  order's row has changed in the table.
\<close>

theorem order_cancel_exact:
  assumes "orders_ok db"
  shows "case find (\<lambda>x. pk x = k \<and> is_alive x \<and> may_see u x) (orders db) of
      None \<Rightarrow> order_cancel now isotime u k db = (Inl Http404, db)
    | Some x \<Rightarrow>
        if od_status x \<in> {PENDING, PAID, PACKED}
        then \<exists>db1. order_cancel now isotime u k db =
               (Inr (Response 200 (OrderSerializer isotime db1 (with_status now CANCELLED x))), db1) \<and>
             orders db1 = save_row k (with_status now CANCELLED) (orders db)
        else order_cancel now isotime u k db =
               (Inr (error_response 409 ''invalid_transition'' (refused_message x CANCELLED)), db)"
proof (cases "find (\<lambda>x. pk x = k \<and> is_alive x \<and> may_see u x) (orders db)")
  case None
  then show ?thesis by (simp add: order_cancel_def get_order_exact [OF assms])
next
  case (Some x)
  then have x: "x \<in> set (orders db)" "pk x = k" "is_alive x" by (auto simp: find_Some_iff)
  obtain stk where "each_line (release_reservation now (uuid_str k)) (lines_of k (order_items db)) (stock_db db) = Inr stk"
    using release_lines_succeed by blast
  with transition_living [OF assms x(1,3), of now CANCELLED "Some (pk u)" "''cancelled by user''"] x(2) Some
  show ?thesis
    by (cases "od_status x")
      (simp_all add: order_cancel_def get_order_exact [OF assms] can_transition_to_def move_stock_def)
qed

definition passer_by :: user where
  "passer_by = \<lparr>pk = 6, created_at = 0, updated_at = 0, deleted_at = None, us_email = ''c@d.co'',
     us_password = '''', us_first_name = '''', us_last_name = '''', us_phone = '''', us_is_active = True,
     us_is_staff = False, us_is_superuser = False, us_email_verified_at = None,
     us_phone_verified_at = None, us_last_login_ip = None, us_roles = []\<rparr>"

theorem order_cancel_exact_witness:
  "order_cancel 9 (\<lambda>_. '''') passer_by 2 busy_shop = (Inl Http404, busy_shop)"
proof -
  have "orders_ok busy_shop" using busy_shop_ok by (simp add: shop_ok_def)
  moreover have "find (\<lambda>x. pk x = 2 \<and> is_alive x \<and> may_see passer_by x) (orders busy_shop) = None"
    by code_simp
  ultimately show ?thesis
    using order_cancel_exact [where db = busy_shop and k = 2 and u = passer_by and now = 9 and
        isotime = "\<lambda>_. ''''"] by simp
qed

end
