(* ===== verification/Payment_Races.thy ===== *)
theory Payment_Races
  imports Purchase
begin

text \<open>
  What \<open>payments/services.py\<close> does not look at. \<open>create_payment\<close> asks neither for the status of the
  order nor for payments there are already; and it calls the provider inside its transaction, so the
  provider's callback can be handled before the payment's row is visible (the row's foreign keys are
  checked at the commit, so nothing makes the callback wait). The order \<open>create_payment\<close> works with is the
  one the view read before; it writes two of its columns.
\<close>

section \<open>Lemmas\<close>

definition charged :: "int \<Rightarrow> order \<Rightarrow> string \<Rightarrow> string \<Rightarrow> string \<Rightarrow> charge_result \<Rightarrow> nat \<Rightarrow> payment" where
  "charged now o' code su cu r k =
     (new_payment now o' code (intent_of o' su cu) k)
       \<lparr>py_status := payment_value P_PENDING, py_provider_reference := cr_provider_reference r,
        py_provider_intent_id := cr_intent_id r, py_redirect_url := cr_redirect_url r,
        py_raw_response := cr_raw r\<rparr>"

lemma charged_simps [simp]:
  "pk (charged now o' code su cu r k) = k" "py_order (charged now o' code su cu r k) = pk o'"
  "py_provider (charged now o' code su cu r k) = code" "py_status (charged now o' code su cu r k) = ''pending''"
  "py_amount (charged now o' code su cu r k) = od_grand_total o'" "is_alive (charged now o' code su cu r k)"
  "created_at (charged now o' code su cu r k) = now"
  by (simp_all add: charged_def new_payment_def is_alive_def)

lemma create_payment_charged:
  assumes "get_prov code = Inr p" "create_charge p (intent_of o' su cu) = Inr r" "cr_success r" "result_fits r"
  shows "create_payment now get_prov o' code su cu db =
    Inr (charged now o' code su cu r (fresh_pk (payments db)),
      db\<lparr>payments := payments db @ [charged now o' code su cu r (fresh_pk (payments db))],
         shop_db := (shop_db db)\<lparr>orders := save_row (pk o') (referenced now code (cr_provider_reference r))
                                            (orders (shop_db db))\<rparr>\<rparr>)"
  using assms by (simp add: create_payment_def charged_def referenced_def [abs_def] Let_def)

lemma update_payments_hits:
  assumes "x \<in> set tbl" "is_alive x" "py_order x = ord" "py_provider x = code"
  shows "\<exists>y \<in> set (update_payments ord code ''captured'' raw tbl). pk y = pk x \<and> py_status y = ''captured'' \<and>
    py_amount y = py_amount x"
  unfolding update_payments_def set_update_where
  by (rule bexI [OF _ imageI [OF assms(1)]]) (use assms(2-4) in simp)

lemma expire_hits:
  assumes "x \<in> set tbl" "is_alive x" "py_status x = ''pending''" "created_at x < now - older * 60000000"
  shows "\<exists>y \<in> set (snd (expire_pending_payments now older tbl)). pk y = pk x \<and> py_status y = ''failed''"
  unfolding expire_pending_payments_def Let_def snd_conv set_update_where
  by (rule bexI [OF _ imageI [OF assms(1)]]) (use assms(2-4) in simp)

section \<open>Properties\<close>


definition payer :: user where
  "payer = \<lparr>pk = 5, created_at = 0, updated_at = 0, deleted_at = None, us_email = ''a@b.co'',
     us_password = '''', us_first_name = '''', us_last_name = '''', us_phone = '''', us_is_active = True,
     us_is_staff = False, us_is_superuser = False, us_email_verified_at = None,
     us_phone_verified_at = None, us_last_login_ip = None, us_roles = []\<rparr>"

lemma hook_provider_charges:
  "hook_provider (hook st k) code =
     Inr \<lparr>create_charge = manual_create_charge, parse_webhook = (\<lambda>_ _. Inr (hook st k)), refund = base_refund\<rparr>"
  "\<exists>r. manual_create_charge (intent_of o' su cu) = Inr r \<and> cr_success r \<and> result_fits r"
  by (simp_all add: hook_provider_def manual_create_charge_def result_fits_def intent_of_def length_uuid_str)


text \<open>
  C26. A callback that overtakes the payment loses it. The provider confirms a pending order while
  \<open>create_payment\<close> still waits for the provider's answer: the order becomes PAID, no payment row is there
  to be marked, and the row that is committed afterwards is pending, as is every payment of the order. The expiry task
  then declares it failed, while the order stays paid.
\<close>

theorem callback_overtakes_payment:
  assumes "shop_ok (shop_db db)" "reservations_match (shop_db db)"
    and "o' \<in> set (orders (shop_db db))" "is_alive o'" "od_status o' = PENDING" "pk o' < 2 ^ 128"
    and "get_prov code = Inr p" "create_charge p (intent_of o' su cu) = Inr r" "cr_success r" "result_fits r"
    and "parse_webhook p hs body = Inr w" "wr_accepted w"
    and "wr_order_id w = JStr (uuid_str (pk o'))" "wr_new_status w = ''captured''"
    and "length (''webhook:'' @ py_str repr (wr_event_type w)) \<le> 64"
    and "\<forall>x \<in> set (payments db). py_order x \<noteq> pk o'"
  shows "\<exists>pay db1 db2. handle_webhook t1 get_prov repr code hs body db = Inr (Matched (od_number o'), db1) \<and>
    create_payment t0 get_prov o' code su cu db1 = Inr (pay, db2) \<and>
    (\<exists>x \<in> set (orders (shop_db db2)). pk x = pk o' \<and> od_status x = PAID) \<and>
    pay \<in> set (payments db2) \<and> (\<forall>x \<in> set (payments db2). py_order x = pk o' \<longrightarrow> py_status x = ''pending'') \<and>
    (\<forall>t older. t0 < t - older * 60000000 \<longrightarrow>
       (\<exists>x \<in> set (snd (expire_pending_payments t older (payments db2))). pk x = pk pay \<and> py_status x = ''failed''))"
proof -
  from pending_order_webhook [where get_prov = get_prov and repr = repr and now = t1, OF assms(1-7,11-15)] obtain s' where
    h: "handle_webhook t1 get_prov repr code hs body db = Inr (Matched (od_number o'),
       db\<lparr>shop_db := s', payments := update_payments (pk o') code ''captured'' (wr_raw w) (payments db)\<rparr>)"
    (is "_ = Inr (_, ?db1)")
    and m: "with_status t1 PAID o' \<in> set (orders s')" .
  have same: "update_payments (pk o') code ''captured'' (wr_raw w) (payments db) = payments db"
    using assms(16) by (auto simp: update_payments_def update_where_def intro: map_idI)
  let ?pay = "charged t0 o' code su cu r (fresh_pk (payments db))"
  let ?ref = "referenced t0 code (cr_provider_reference r)"
  define db2 where "db2 = ?db1\<lparr>payments := payments db @ [?pay],
    shop_db := s'\<lparr>orders := save_row (pk o') ?ref (orders s')\<rparr>\<rparr>"
  have c: "create_payment t0 get_prov o' code su cu ?db1 = Inr (?pay, db2)"
    using create_payment_charged [where get_prov = get_prov and now = t0 and db = ?db1, OF assms(7-10)] by (simp add: same db2_def)
  have "?ref (with_status t1 PAID o') \<in> set (orders (shop_db db2))"
    using save_row_in [OF m, of ?ref] by (simp add: db2_def)
  then have paid: "\<exists>x \<in> set (orders (shop_db db2)). pk x = pk o' \<and> od_status x = PAID"
    by (rule rev_bexI) (simp add: with_status_def Let_def)
  have pay: "?pay \<in> set (payments db2)" by (simp add: db2_def)
  have all: "\<forall>x \<in> set (payments db2). py_order x = pk o' \<longrightarrow> py_status x = ''pending''"
    using assms(16) by (simp add: db2_def)
  have "\<exists>x \<in> set (snd (expire_pending_payments t older (payments db2))). pk x = pk ?pay \<and> py_status x = ''failed''"
    if "t0 < t - older * 60000000" for t older
    using expire_hits [OF pay] that by simp
  with h c paid pay all show ?thesis by blast
qed

theorem callback_overtakes_payment_witness:
  "\<exists>pay db1 db2. handle_webhook 8 (hook_provider (hook ''captured'' 2)) (\<lambda>_. '''') ''payme'' [] '''' (demo_store\<lparr>payments := []\<rparr>) =
       Inr (Matched (od_number (demo_order 2 PENDING)), db1) \<and>
     create_payment 7 (hook_provider (hook ''captured'' 2)) (demo_order 2 PENDING) ''payme'' '''' '''' db1 = Inr (pay, db2) \<and>
     (\<exists>x \<in> set (orders (shop_db db2)). pk x = 2 \<and> od_status x = PAID) \<and>
     (\<exists>x \<in> set (snd (expire_pending_payments 4000000000 60 (payments db2))). pk x = pk pay \<and> py_status x = ''failed'')"
proof -
  let ?prov = "hook_provider (hook ''captured'' 2)" and ?o = "demo_order 2 PENDING" and ?db = "demo_store\<lparr>payments := []\<rparr>"
  let ?p = "\<lparr>create_charge = manual_create_charge, parse_webhook = (\<lambda>_ _. Inr (hook ''captured'' 2)), refund = base_refund\<rparr>"
  obtain r where r: "create_charge ?p (intent_of ?o '''' '''') = Inr r" "cr_success r" "result_fits r"
    using hook_provider_charges(2) [of ?o "[]" "[]"] by auto
  have s: "shop_ok (shop_db ?db)" "reservations_match (shop_db ?db)" "?o \<in> set (orders (shop_db ?db))"
    using demo_store_orders by simp_all
  have u: "od_status ?o = PENDING" "pk ?o < 2 ^ 128" by (simp_all add: demo_order_def)
  have w: "wr_accepted (hook ''captured'' 2)" "wr_order_id (hook ''captured'' 2) = JStr (uuid_str (pk ?o))"
    "wr_new_status (hook ''captured'' 2) = ''captured''"
    "length (''webhook:'' @ py_str (\<lambda>_. '''') (wr_event_type (hook ''captured'' 2))) \<le> 64"
    by (simp_all add: hook_def demo_order_def)
  have h: "parse_webhook ?p [] '''' = Inr (hook ''captured'' 2)" "\<forall>x \<in> set (payments ?db). py_order x \<noteq> pk ?o" by simp_all
  have late: "(7::int) < 4000000000 - 60 * 60000000" by simp
  obtain pay db1 db2 where
    "handle_webhook 8 ?prov (\<lambda>_. '''') ''payme'' [] '''' ?db = Inr (Matched (od_number ?o), db1)"
    "create_payment 7 ?prov ?o ''payme'' '''' '''' db1 = Inr (pay, db2)"
    "\<exists>x \<in> set (orders (shop_db db2)). pk x = pk ?o \<and> od_status x = PAID"
    "\<forall>t older. 7 < t - older * 60000000 \<longrightarrow>
       (\<exists>x \<in> set (snd (expire_pending_payments t older (payments db2))). pk x = pk pay \<and> py_status x = ''failed'')"
    using callback_overtakes_payment [where get_prov = ?prov and repr = "\<lambda>_. []" and ?t0.0 = 7 and ?t1.0 = 8,
      OF s demo_store_orders(6) u hook_provider_charges(1) r h(1) w h(2)] by metis
  with late show ?thesis unfolding demo_store_orders(7) by blast
qed

end
