(* ===== verification/Catalog_Admin.thy ===== *)
theory Catalog_Admin
  imports Storefront
begin

text \<open>
  The staff side of the catalogue and the user-facing serializers:
  \<open>catalog/serializers.py\<close>, \<open>catalog/admin_views.py\<close>, \<open>catalog/management/commands/seed_demo.py\<close> and
  \<open>users/serializers.py\<close> with \<open>MeView\<close>. Related managers (\<open>variants\<close>, \<open>images\<close>, \<open>categories\<close>,
  \<open>roles\<close>) return living rows in the order of the related model; \<open>collate\<close> ranks texts as the
  database does, \<open>media\<close> is the URL of a stored file, \<open>isotime\<close> renders an instant.
\<close>

section \<open>Catalogue serializers\<close>

definition file_url :: "(string \<Rightarrow> string) \<Rightarrow> string \<Rightarrow> json" where
  "file_url media path = (if path = '''' then JNull else JStr (media path))"

definition BrandSerializer :: "(string \<Rightarrow> string) \<Rightarrow> brand \<Rightarrow> json" where
  "BrandSerializer media b =
     JObj [(''id'', json_pk (pk b)), (''name'', JStr (br_name b)), (''slug'', JStr (br_slug b)),
           (''description'', JStr (br_description b)), (''logo'', file_url media (br_logo b)),
           (''is_active'', JBool (br_is_active b))]"

text \<open>
  \<open>get_children\<close> lists the living active children, without children of their own, of an object that
  carries \<open>_include_children\<close>. Nothing in the repository sets that attribute, so callers
  pass false.
\<close>

fun CategorySerializer :: "(string \<Rightarrow> string) \<Rightarrow> (string \<Rightarrow> nat) \<Rightarrow> bool \<Rightarrow> category list \<Rightarrow> category \<Rightarrow> json" where
  "CategorySerializer media collate include_children tbl c =
     JObj [(''id'', json_pk (pk c)), (''name'', JStr (cat_name c)), (''slug'', JStr (cat_slug c)),
           (''parent'', json_opt json_pk (cat_parent c)), (''description'', JStr (cat_description c)),
           (''image'', file_url media (cat_image c)), (''sort_order'', JInt (cat_sort_order c)),
           (''is_active'', JBool (cat_is_active c)),
           (''children'', JList (if \<not> include_children then []
              else map (CategorySerializer media collate False [])
                     (sort_key cat_sort_order (sort_key (collate \<circ> cat_name)
                       (filter (\<lambda>x. cat_parent x = Some (pk c) \<and> cat_is_active x) (objects tbl))))))]"

definition AttributeOptionSerializer :: "attribute_option \<Rightarrow> json" where
  "AttributeOptionSerializer x =
     JObj [(''id'', json_pk (pk x)), (''value'', JStr (ao_value x)), (''label'', JStr (ao_label x)),
           (''sort_order'', JInt (ao_sort_order x))]"

definition attribute_kind_value :: "attribute_kind \<Rightarrow> string" where
  "attribute_kind_value k =
     (case k of TEXT \<Rightarrow> ''text'' | NUMBER \<Rightarrow> ''number'' | BOOLEAN \<Rightarrow> ''boolean'' | OPTION \<Rightarrow> ''option'')"

definition AttributeSerializer :: "(string \<Rightarrow> nat) \<Rightarrow> attribute_option list \<Rightarrow> attribute_def \<Rightarrow> json" where
  "AttributeSerializer collate opts a =
     JObj [(''id'', json_pk (pk a)), (''code'', JStr (at_code a)), (''name'', JStr (at_name a)),
           (''kind'', JStr (attribute_kind_value (at_kind a))), (''is_filterable'', JBool (at_is_filterable a)),
           (''is_required'', JBool (at_is_required a)),
           (''options'', JList (map AttributeOptionSerializer
              (sort_key ao_sort_order (sort_key (collate \<circ> ao_label)
                (filter (\<lambda>x. ao_attribute x = pk a) (objects opts))))))]"

definition ProductImageSerializer :: "(string \<Rightarrow> string) \<Rightarrow> product_image \<Rightarrow> json" where
  "ProductImageSerializer media i =
     JObj [(''id'', json_pk (pk i)), (''image'', file_url media (pi_image i)),
           (''alt_text'', JStr (pi_alt_text i)), (''sort_order'', JInt (pi_sort_order i)),
           (''is_primary'', JBool (pi_is_primary i)), (''variant'', json_opt json_pk (pi_variant i))]"

definition ProductVariantSerializer :: "product_variant \<Rightarrow> json" where
  "ProductVariantSerializer v =
     JObj [(''id'', json_pk (pk v)), (''sku'', JStr (pv_sku v)), (''barcode'', JStr (pv_barcode v)),
           (''name'', JStr (pv_name v)), (''price'', JStr (str_money (pv_price v))),
           (''compare_at_price'', json_opt (JStr \<circ> str_money) (pv_compare_at_price v)),
           (''currency'', JStr (pv_currency v)), (''weight_g'', JInt (pv_weight_g v)),
           (''is_default'', JBool (pv_is_default v)), (''is_active'', JBool (pv_is_active v)),
           (''attributes_snapshot'', pv_attributes_snapshot v),
           (''discount_percent'', JInt (discount_percent v))]"

text \<open>\<open>product.variants\<close>, \<open>product.images\<close> and \<open>product.categories\<close>.\<close>

definition variants_of :: "(string \<Rightarrow> nat) \<Rightarrow> product \<Rightarrow> catalog \<Rightarrow> product_variant list" where
  "variants_of collate p cat =
     sort_key (\<lambda>v. if pv_is_default v then 0 else 1 :: int) (sort_key (collate \<circ> pv_name)
       (filter (\<lambda>v. pv_product v = pk p) (objects (variants cat))))"

definition images_of :: "product \<Rightarrow> catalog \<Rightarrow> product_image list" where
  "images_of p cat = sort_key pi_sort_order (filter (\<lambda>i. pi_product i = pk p) (objects (images cat)))"

definition categories_of :: "(string \<Rightarrow> nat) \<Rightarrow> product \<Rightarrow> catalog \<Rightarrow> category list" where
  "categories_of collate p cat =
     sort_key cat_sort_order (sort_key (collate \<circ> cat_name)
       (filter (\<lambda>c. pk c \<in> set (pr_categories p)) (objects (categories cat))))"

definition status_text :: "product_status \<Rightarrow> string" where
  "status_text s = (case s of DRAFT \<Rightarrow> ''draft'' | ACTIVE \<Rightarrow> ''active'' | ARCHIVED \<Rightarrow> ''archived'')"

definition ProductSerializer :: "(string \<Rightarrow> string) \<Rightarrow> (string \<Rightarrow> nat) \<Rightarrow> (int \<Rightarrow> string) \<Rightarrow> catalog \<Rightarrow> product \<Rightarrow> json" where
  "ProductSerializer media collate isotime cat p =
     JObj [(''id'', json_pk (pk p)), (''name'', JStr (pr_name p)), (''slug'', JStr (pr_slug p)),
           (''short_description'', JStr (pr_short_description p)), (''description'', JStr (pr_description p)),
           (''brand'', json_opt (BrandSerializer media)
              (Option.bind (pr_brand p) (\<lambda>k. find_pk k (brands cat)))),
           (''categories'', JList (map (CategorySerializer media collate False (categories cat))
              (categories_of collate p cat))),
           (''status'', JStr (status_text (pr_status p))), (''is_featured'', JBool (pr_is_featured p)),
           (''rating_avg'', JStr (str_money (pr_rating_avg p))), (''rating_count'', JInt (pr_rating_count p)),
           (''sold_count'', JInt (pr_sold_count p)), (''metadata'', pr_metadata p),
           (''variants'', JList (map ProductVariantSerializer (variants_of collate p cat))),
           (''images'', JList (map (ProductImageSerializer media) (images_of p cat))),
           (''created_at'', JStr (isotime (created_at p))), (''updated_at'', JStr (isotime (updated_at p)))]"

section \<open>Admin view sets\<close>

text \<open>Their querysets, and \<open>get_serializer_class\<close>: true where the write serializer is chosen.\<close>

definition brand_queryset :: "(string \<Rightarrow> nat) \<Rightarrow> catalog \<Rightarrow> brand list" where
  "brand_queryset collate cat = sort_key (collate \<circ> br_name) (objects (brands cat))"

definition category_queryset :: "(string \<Rightarrow> nat) \<Rightarrow> catalog \<Rightarrow> category list" where
  "category_queryset collate cat =
     sort_key cat_sort_order (sort_key (collate \<circ> cat_name) (objects (categories cat)))"

definition product_queryset :: "catalog \<Rightarrow> product list" where
  "product_queryset cat = sort_key (\<lambda>p. - created_at p) (objects (products cat))"

definition uses_write_serializer :: "string \<Rightarrow> bool" where
  "uses_write_serializer act \<longleftrightarrow> act \<in> {''create'', ''update'', ''partial_update''}"

definition product_name_of :: "catalog \<Rightarrow> product_variant \<Rightarrow> string" where
  "product_name_of cat v = (case find_product (pv_product v) cat of None \<Rightarrow> '''' | Some p \<Rightarrow> pr_name p)"

definition variant_queryset :: "(string \<Rightarrow> nat) \<Rightarrow> catalog \<Rightarrow> product_variant list" where
  "variant_queryset collate cat =
     sort_key (collate \<circ> product_name_of cat) (sort_key (collate \<circ> pv_name) (objects (variants cat)))"

section \<open>Users\<close>

definition RoleSerializer :: "role \<Rightarrow> json" where
  "RoleSerializer r =
     JObj [(''id'', json_pk (pk r)), (''code'', JStr (ro_code r)), (''name'', JStr (ro_name r)),
           (''description'', JStr (ro_description r))]"

definition UserSerializer :: "(int \<Rightarrow> string) \<Rightarrow> accounts \<Rightarrow> user \<Rightarrow> json" where
  "UserSerializer isotime db u =
     JObj [(''id'', json_pk (pk u)), (''email'', JStr (us_email u)), (''first_name'', JStr (us_first_name u)),
           (''last_name'', JStr (us_last_name u)), (''full_name'', JStr (full_name u)),
           (''phone'', JStr (us_phone u)), (''is_active'', JBool (us_is_active u)),
           (''is_staff'', JBool (us_is_staff u)),
           (''email_verified_at'', json_opt (JStr \<circ> isotime) (us_email_verified_at u)),
           (''phone_verified_at'', json_opt (JStr \<circ> isotime) (us_phone_verified_at u)),
           (''roles'', JList (map RoleSerializer (roles_of u db))),
           (''created_at'', JStr (isotime (created_at u)))]"

definition address_kind_value :: "address_kind \<Rightarrow> string" where
  "address_kind_value k = (case k of SHIPPING \<Rightarrow> ''shipping'' | BILLING \<Rightarrow> ''billing'' | BOTH \<Rightarrow> ''both'')"

definition AddressSerializer :: "(int \<Rightarrow> string) \<Rightarrow> address \<Rightarrow> json" where
  "AddressSerializer isotime a =
     JObj [(''id'', json_pk (pk a)), (''label'', JStr (ad_label a)),
           (''kind'', JStr (address_kind_value (ad_kind a))), (''full_name'', JStr (ad_full_name a)),
           (''phone'', JStr (ad_phone a)), (''country'', JStr (ad_country a)), (''region'', JStr (ad_region a)),
           (''city'', JStr (ad_city a)), (''street'', JStr (ad_street a)), (''apartment'', JStr (ad_apartment a)),
           (''postal_code'', JStr (ad_postal_code a)), (''is_default'', JBool (ad_is_default a)),
           (''location'', ad_location a), (''created_at'', JStr (isotime (created_at a)))]"

section \<open>Seeding the demo catalogue\<close>

text \<open>
  \<open>seed_demo\<close> is one transaction. Each step is a \<open>get_or_create\<close> on a unique column; a row that
  exists but is soft-deleted makes the insert fail.
\<close>

definition seed_warehouse :: "int \<Rightarrow> inventory \<Rightarrow> py_error + (warehouse \<times> inventory)" where
  "seed_warehouse now db =
     bindE (get_or_create ''inventory_warehouse'' (\<lambda>w. wh_code w = ''main'')
              (\<exists>w \<in> set (warehouses db). wh_code w = ''main'')
              (\<lambda>k. \<lparr>pk = k, created_at = now, updated_at = now, deleted_at = None, wh_code = ''main'',
                    wh_name = ''Main warehouse'', wh_address = '''', wh_is_active = True,
                    wh_priority = 10\<rparr>) (warehouses db))
       (\<lambda>(w, _, tbl). Inr (w, db\<lparr>warehouses := tbl\<rparr>))"

definition seed_category :: "int \<Rightarrow> string \<Rightarrow> string \<Rightarrow> catalog \<Rightarrow> py_error + (category \<times> catalog)" where
  "seed_category now slug name cat =
     bindE (get_or_create ''catalog_category'' (\<lambda>c. cat_slug c = slug) (\<exists>c \<in> set (categories cat). cat_slug c = slug)
              (\<lambda>k. \<lparr>pk = k, created_at = now, updated_at = now, deleted_at = None, cat_parent = None,
                    cat_name = name, cat_slug = slug, cat_description = '''', cat_image = '''',
                    cat_sort_order = 0, cat_is_active = True\<rparr>) (categories cat))
       (\<lambda>(c, _, tbl). Inr (c, cat\<lparr>categories := tbl\<rparr>))"

definition seed_brand :: "int \<Rightarrow> string \<Rightarrow> string \<Rightarrow> catalog \<Rightarrow> py_error + (brand \<times> catalog)" where
  "seed_brand now slug name cat =
     bindE (get_or_create ''catalog_brand'' (\<lambda>b. br_slug b = slug)
              (\<exists>b \<in> set (brands cat). br_slug b = slug \<or> br_name b = name)
              (\<lambda>k. \<lparr>pk = k, created_at = now, updated_at = now, deleted_at = None, br_name = name,
                    br_slug = slug, br_description = '''', br_logo = '''', br_is_active = True\<rparr>) (brands cat))
       (\<lambda>(b, _, tbl). Inr (b, cat\<lparr>brands := tbl\<rparr>))"

text \<open>\<open>Product.objects.get_or_create\<close>, then \<open>product.categories.add\<close>.\<close>

definition seed_product :: "int \<Rightarrow> string \<Rightarrow> string \<Rightarrow> nat \<Rightarrow> string \<Rightarrow> string \<Rightarrow> nat \<Rightarrow> catalog
    \<Rightarrow> py_error + (product \<times> catalog)" where
  "seed_product now slug name brand short long category cat =
     bindE (get_or_create ''catalog_product'' (\<lambda>p. pr_slug p = slug) (\<exists>p \<in> set (products cat). pr_slug p = slug)
              (\<lambda>k. \<lparr>pk = k, created_at = now, updated_at = now, deleted_at = None, pr_name = name,
                    pr_slug = slug, pr_short_description = short, pr_description = long,
                    pr_brand = Some brand, pr_categories = [], pr_attributes = [], pr_status = ACTIVE,
                    pr_is_featured = True, pr_rating_avg = 0, pr_rating_count = 0, pr_sold_count = 0,
                    pr_view_count = 0, pr_seo_title = '''', pr_seo_description = '''',
                    pr_seo_keywords = '''', pr_metadata = JObj []\<rparr>) (products cat))
       (\<lambda>(p, _, tbl).
         let add = (\<lambda>r. r\<lparr>pr_categories := if category \<in> set (pr_categories r) then pr_categories r
                                            else pr_categories r @ [category]\<rparr>) in
         Inr (add p, cat\<lparr>products := save_row (pk p) add tbl\<rparr>))"

definition seed_variant :: "int \<Rightarrow> string \<Rightarrow> nat \<Rightarrow> string \<Rightarrow> int \<Rightarrow> int \<Rightarrow> bool \<Rightarrow> json \<Rightarrow> catalog
    \<Rightarrow> py_error + (product_variant \<times> catalog)" where
  "seed_variant now sku product name price compare is_def attrs cat =
     bindE (get_or_create ''catalog_product_variant'' (\<lambda>v. pv_sku v = sku) (\<exists>v \<in> set (variants cat). pv_sku v = sku)
              (\<lambda>k. \<lparr>pk = k, created_at = now, updated_at = now, deleted_at = None, pv_product = product,
                    pv_sku = sku, pv_barcode = '''', pv_name = name, pv_price = price,
                    pv_compare_at_price = Some compare, pv_cost_price = None, pv_currency = ''USD'',
                    pv_weight_g = 0, pv_length_mm = 0, pv_width_mm = 0, pv_height_mm = 0,
                    pv_is_default = is_def, pv_is_active = True, pv_attributes_snapshot = attrs\<rparr>)
              (variants cat))
       (\<lambda>(v, _, tbl). Inr (v, cat\<lparr>variants := tbl\<rparr>))"

definition seed_stock :: "int \<Rightarrow> nat \<Rightarrow> nat \<Rightarrow> int \<Rightarrow> inventory \<Rightarrow> py_error + (stock \<times> inventory)" where
  "seed_stock now v w initial db =
     bindE (get_or_create ''inventory_stock'' (\<lambda>s. st_variant s = v \<and> st_warehouse s = w)
              (\<exists>s \<in> set (stocks db). st_variant s = v \<and> st_warehouse s = w)
              (\<lambda>k. (new_stock now v w k)\<lparr>on_hand := initial\<rparr>) (stocks db))
       (\<lambda>(s, _, tbl). Inr (s, db\<lparr>stocks := tbl\<rparr>))"

definition refill :: "stock \<Rightarrow> inventory \<Rightarrow> inventory" where
  "refill s db = (if on_hand s < 100 then db\<lparr>stocks := save_row (pk s) (\<lambda>r. r\<lparr>on_hand := 100\<rparr>) (stocks db)\<rparr> else db)"

fun seed_tees :: "int \<Rightarrow> nat \<Rightarrow> nat \<Rightarrow> (string \<times> int) list \<Rightarrow> catalog \<times> inventory
    \<Rightarrow> py_error + (catalog \<times> inventory)" where
  "seed_tees now product warehouse [] db = Inr db"
| "seed_tees now product warehouse ((sz, price) # rest) db =
     bindE (seed_variant now (''NOVA-TEE-'' @ sz) product (''Size '' @ sz) price 2499 (sz = ''M'')
              (JObj [(''size'', JStr sz), (''color'', JStr ''black'')]) (fst db)) (\<lambda>(v, cat).
     bindE (seed_stock now (pk v) warehouse 0 (snd db)) (\<lambda>(s, inv).
       seed_tees now product warehouse rest (cat, refill s inv)))"

definition seed_demo :: "int \<Rightarrow> catalog \<times> inventory \<Rightarrow> py_error + (catalog \<times> inventory)" where
  "seed_demo now db =
     bindE (seed_warehouse now (snd db)) (\<lambda>(w, inv).
     bindE (seed_category now ''apparel'' ''Apparel'' (fst db)) (\<lambda>(apparel, cat1).
     bindE (seed_category now ''electronics'' ''Electronics'' cat1) (\<lambda>(electronics, cat2).
     bindE (seed_brand now ''nova'' ''Nova'' cat2) (\<lambda>(nova, cat3).
     bindE (seed_brand now ''acme'' ''ACME'' cat3) (\<lambda>(_, cat4).
     bindE (seed_product now ''nova-tee'' ''Nova Classic Tee'' (pk nova) ''Soft cotton tee''
              ''A clean, soft-cotton tee from Nova.'' (pk apparel) cat4) (\<lambda>(tee, cat5).
     bindE (seed_tees now (pk tee) (pk w) [(''S'', 1999), (''M'', 1999), (''L'', 2199)] (cat5, inv))
       (\<lambda>(cat6, inv1).
     bindE (seed_product now ''nova-headphones'' ''Nova Wireless Headphones'' (pk nova)
              ''ANC over-ear headphones'' ''Premium noise-cancelling headphones with 40h battery.''
              (pk electronics) cat6) (\<lambda>(phones, cat7).
     bindE (seed_variant now ''NOVA-HP-BLK'' (pk phones) ''Black'' 19900 24900 True
              (JObj [(''color'', JStr ''black'')]) cat7) (\<lambda>(v2, cat8).
     bindE (seed_stock now (pk v2) (pk w) 50 inv1) (\<lambda>(_, inv2). Inr (cat8, inv2)))))))))))"

definition empty_store :: "catalog \<times> inventory" where
  "empty_store = (\<lparr>brands = [], categories = [], products = [], variants = [], images = []\<rparr>,
                  \<lparr>warehouses = [], stocks = [], movements = []\<rparr>)"

text \<open>Seeding an empty database stocks four variants, and seeding again changes nothing.\<close>

lemma seed_demo_stock:
  "map_sum id (\<lambda>(cat, inv). (map (pv_sku) (variants cat), map on_hand (stocks inv))) (seed_demo 1 empty_store) =
     Inr ([''NOVA-TEE-S'', ''NOVA-TEE-M'', ''NOVA-TEE-L'', ''NOVA-HP-BLK''], [100, 100, 100, 50])"
  by code_simp

lemma seed_demo_twice: "bindE (seed_demo 1 empty_store) (seed_demo 2) = seed_demo 1 empty_store"
  by code_simp

end
