(* ===== verification/Catalog_Writes.thy ===== *)
theory Catalog_Writes
  imports Catalog_Admin Fast_Api
begin

text \<open>
  What the staff API writes to the catalogue: create, update and destroy of the four view sets of
  \<open>catalog/admin_views.py\<close> through the serializers of \<open>catalog/serializers.py\<close>, and their lists with
  the search and ordering fields and \<open>core/pagination.py\<close>. The checks are those DRF derives from the
  model fields a serializer names, for a JSON body whose values have the field's JSON type; \<open>None\<close> is
  a key the body does not have. A refused body comes back with the fields that are wrong.
\<close>

section \<open>Fields\<close>

datatype refusal = Invalid "string list" | Crashed py_error

definition raised :: "py_error + 'a \<Rightarrow> refusal + 'a" where
  "raised r = (case r of Inl e \<Rightarrow> Inl (Crashed e) | Inr x \<Rightarrow> Inr x)"

definition given_or :: "'a option \<Rightarrow> 'a \<Rightarrow> 'a" where
  "given_or v old = (case v of None \<Rightarrow> old | Some x \<Rightarrow> x)"

text \<open>One field: missing though required, or present and not accepted.\<close>

definition wrong :: "bool \<Rightarrow> string \<Rightarrow> ('a \<Rightarrow> bool) \<Rightarrow> 'a option \<Rightarrow> string list" where
  "wrong required name ok v =
     (case v of None \<Rightarrow> if required then [name] else [] | Some x \<Rightarrow> if ok x then [] else [name])"

text \<open>\<open>CharField\<close> strips the text, refuses NUL, and a blank text unless the model field has \<open>blank\<close>.\<close>

definition char_ok :: "bool \<Rightarrow> nat \<Rightarrow> string \<Rightarrow> bool" where
  "char_ok blank n s \<longleftrightarrow>
     (blank \<or> strip s \<noteq> '''') \<and> length (strip s) \<le> n \<and> CHR 0x00 \<notin> set (strip s)"

definition text_ok :: "string \<Rightarrow> bool" where
  "text_ok s \<longleftrightarrow> CHR 0x00 \<notin> set (strip s)"

definition slug_char :: "char \<Rightarrow> bool" where
  "slug_char c \<longleftrightarrow> c \<in> set ''-_0123456789abcdefghijklmnopqrstuvwxyzABCDEFGHIJKLMNOPQRSTUVWXYZ''"

definition slug_ok :: "nat \<Rightarrow> string \<Rightarrow> bool" where
  "slug_ok n s \<longleftrightarrow> char_ok False n s \<and> list_all slug_char (strip s)"

definition count_ok :: "int \<Rightarrow> bool" where
  "count_ok n \<longleftrightarrow> 0 \<le> n \<and> n \<le> 2147483647"

definition price_ok :: "int \<Rightarrow> bool" where
  "price_ok c \<longleftrightarrow> \<bar>c\<bar> < 10 ^ 12"

text \<open>
  \<open>UniqueValidator\<close> and the related fields ask the default manager, so they see living rows only.
\<close>

definition free_for :: "('a base_model_scheme \<Rightarrow> 'b) \<Rightarrow> nat option \<Rightarrow> 'b \<Rightarrow> 'a base_model_scheme list \<Rightarrow> bool" where
  "free_for col inst v tbl \<longleftrightarrow> (\<forall>x \<in> set (objects tbl). col x = v \<longrightarrow> inst = Some (pk x))"

definition exists_in :: "'a base_model_scheme list \<Rightarrow> nat \<Rightarrow> bool" where
  "exists_in tbl k \<longleftrightarrow> k \<in> pk ` set (objects tbl)"

definition nullable :: "('a \<Rightarrow> bool) \<Rightarrow> 'a option \<Rightarrow> bool" where
  "nullable ok v = (case v of None \<Rightarrow> True | Some x \<Rightarrow> ok x)"

definition get_object :: "nat \<Rightarrow> 'a base_model_scheme list \<Rightarrow> refusal + 'a base_model_scheme" where
  "get_object k tbl = (case find_pk k (objects tbl) of None \<Rightarrow> Inl (Crashed Http404) | Some r \<Rightarrow> Inr r)"

text \<open>\<open>perform_destroy\<close>: \<open>instance.delete()\<close>, the soft delete of the model.\<close>

definition destroy :: "int \<Rightarrow> nat \<Rightarrow> 'a base_model_scheme list \<Rightarrow> refusal + 'a base_model_scheme list" where
  "destroy now k tbl = bindE (get_object k tbl) (\<lambda>r. Inr (delete_row now (pk r) tbl))"

section \<open>Brands\<close>

record brand_data =
  bd_name :: "string option"
  bd_slug :: "string option"
  bd_description :: "string option"
  bd_logo :: "string option"
  bd_is_active :: "bool option"

definition brand_errors :: "bool \<Rightarrow> nat option \<Rightarrow> brand_data \<Rightarrow> catalog \<Rightarrow> string list" where
  "brand_errors partial inst d cat =
     wrong (\<not> partial) ''name'' (\<lambda>s. char_ok False 200 s \<and> free_for br_name inst (strip s) (brands cat)) (bd_name d) @
     wrong (\<not> partial) ''slug'' (\<lambda>s. slug_ok 220 s \<and> free_for br_slug inst (strip s) (brands cat)) (bd_slug d) @
     wrong False ''description'' text_ok (bd_description d)"

definition apply_brand :: "brand_data \<Rightarrow> brand \<Rightarrow> brand" where
  "apply_brand d b =
     b\<lparr>br_name := given_or (map_option strip (bd_name d)) (br_name b),
       br_slug := given_or (map_option strip (bd_slug d)) (br_slug b),
       br_description := given_or (map_option strip (bd_description d)) (br_description b),
       br_logo := given_or (bd_logo d) (br_logo b), br_is_active := given_or (bd_is_active d) (br_is_active b)\<rparr>"

definition blank_brand :: "nat \<Rightarrow> brand" where
  "blank_brand k =
     \<lparr>pk = k, created_at = 0, updated_at = 0, deleted_at = None, br_name = '''', br_slug = '''',
      br_description = '''', br_logo = '''', br_is_active = True\<rparr>"

definition brand_create :: "(string \<Rightarrow> string) \<Rightarrow> int \<Rightarrow> brand_data \<Rightarrow> catalog \<Rightarrow> refusal + catalog" where
  "brand_create slugify now d cat =
     (if brand_errors False None d cat \<noteq> [] then Inl (Invalid (brand_errors False None d cat))
      else bindE (raised (brand_save slugify now (apply_brand d (blank_brand (fresh_pk (brands cat)))) (brands cat)))
        (\<lambda>tbl. Inr (cat\<lparr>brands := tbl\<rparr>)))"

definition brand_update :: "(string \<Rightarrow> string) \<Rightarrow> int \<Rightarrow> bool \<Rightarrow> nat \<Rightarrow> brand_data \<Rightarrow> catalog \<Rightarrow> refusal + catalog" where
  "brand_update slugify now partial k d cat =
     bindE (get_object k (brands cat)) (\<lambda>b.
       if brand_errors partial (Some k) d cat \<noteq> [] then Inl (Invalid (brand_errors partial (Some k) d cat))
       else bindE (raised (brand_save slugify now (apply_brand d b) (brands cat))) (\<lambda>tbl. Inr (cat\<lparr>brands := tbl\<rparr>)))"

definition brand_destroy :: "int \<Rightarrow> nat \<Rightarrow> catalog \<Rightarrow> refusal + catalog" where
  "brand_destroy now k cat = bindE (destroy now k (brands cat)) (\<lambda>tbl. Inr (cat\<lparr>brands := tbl\<rparr>))"

section \<open>Categories\<close>

text \<open>\<open>cd_parent\<close> is \<open>Some None\<close> for a null. Nothing looks at the ancestors of the new parent.\<close>

record category_data =
  cd_name :: "string option"
  cd_slug :: "string option"
  cd_parent :: "nat option option"
  cd_description :: "string option"
  cd_image :: "string option"
  cd_sort_order :: "int option"
  cd_is_active :: "bool option"

definition category_errors :: "bool \<Rightarrow> nat option \<Rightarrow> category_data \<Rightarrow> catalog \<Rightarrow> string list" where
  "category_errors partial inst d cat =
     wrong (\<not> partial) ''name'' (char_ok False 200) (cd_name d) @
     wrong (\<not> partial) ''slug'' (\<lambda>s. slug_ok 220 s \<and> free_for cat_slug inst (strip s) (categories cat)) (cd_slug d) @
     wrong False ''parent'' (nullable (exists_in (categories cat))) (cd_parent d) @
     wrong False ''description'' text_ok (cd_description d) @
     wrong False ''sort_order'' count_ok (cd_sort_order d)"

definition apply_category :: "category_data \<Rightarrow> category \<Rightarrow> category" where
  "apply_category d c =
     c\<lparr>cat_name := given_or (map_option strip (cd_name d)) (cat_name c),
       cat_slug := given_or (map_option strip (cd_slug d)) (cat_slug c),
       cat_parent := given_or (cd_parent d) (cat_parent c),
       cat_description := given_or (map_option strip (cd_description d)) (cat_description c),
       cat_image := given_or (cd_image d) (cat_image c), cat_sort_order := given_or (cd_sort_order d) (cat_sort_order c),
       cat_is_active := given_or (cd_is_active d) (cat_is_active c)\<rparr>"

definition blank_category :: "nat \<Rightarrow> category" where
  "blank_category k =
     \<lparr>pk = k, created_at = 0, updated_at = 0, deleted_at = None, cat_parent = None, cat_name = '''',
      cat_slug = '''', cat_description = '''', cat_image = '''', cat_sort_order = 0, cat_is_active = True\<rparr>"

definition category_create :: "(string \<Rightarrow> string) \<Rightarrow> int \<Rightarrow> category_data \<Rightarrow> catalog \<Rightarrow> refusal + catalog" where
  "category_create slugify now d cat =
     (if category_errors False None d cat \<noteq> [] then Inl (Invalid (category_errors False None d cat))
      else bindE (raised (category_save slugify now (apply_category d (blank_category (fresh_pk (categories cat))))
                    (categories cat)))
        (\<lambda>tbl. Inr (cat\<lparr>categories := tbl\<rparr>)))"

definition category_update ::
  "(string \<Rightarrow> string) \<Rightarrow> int \<Rightarrow> bool \<Rightarrow> nat \<Rightarrow> category_data \<Rightarrow> catalog \<Rightarrow> refusal + catalog" where
  "category_update slugify now partial k d cat =
     bindE (get_object k (categories cat)) (\<lambda>c.
       if category_errors partial (Some k) d cat \<noteq> []
       then Inl (Invalid (category_errors partial (Some k) d cat))
       else bindE (raised (category_save slugify now (apply_category d c) (categories cat)))
              (\<lambda>tbl. Inr (cat\<lparr>categories := tbl\<rparr>)))"

definition category_destroy :: "int \<Rightarrow> nat \<Rightarrow> catalog \<Rightarrow> refusal + catalog" where
  "category_destroy now k cat = bindE (destroy now k (categories cat)) (\<lambda>tbl. Inr (cat\<lparr>categories := tbl\<rparr>))"

section \<open>Products\<close>

record product_data =
  pd_name :: "string option"
  pd_slug :: "string option"
  pd_short_description :: "string option"
  pd_description :: "string option"
  pd_brand :: "nat option option"
  pd_categories :: "nat list option"
  pd_attributes :: "nat list option"
  pd_status :: "string option"
  pd_is_featured :: "bool option"
  pd_seo_title :: "string option"
  pd_seo_description :: "string option"
  pd_seo_keywords :: "string option"
  pd_metadata :: "json option"

definition status_of :: "string \<Rightarrow> product_status option" where
  "status_of s = map_of (map (\<lambda>x. (status_text x, x)) [DRAFT, ACTIVE, ARCHIVED]) s"

definition product_errors ::
  "bool \<Rightarrow> nat option \<Rightarrow> attribute_def list \<Rightarrow> product_data \<Rightarrow> catalog \<Rightarrow> string list" where
  "product_errors partial inst attrs d cat =
     wrong (\<not> partial) ''name'' (char_ok False 255) (pd_name d) @
     wrong (\<not> partial) ''slug'' (\<lambda>s. slug_ok 280 s \<and> free_for pr_slug inst (strip s) (products cat)) (pd_slug d) @
     wrong False ''short_description'' (char_ok True 500) (pd_short_description d) @
     wrong False ''description'' text_ok (pd_description d) @
     wrong False ''brand'' (nullable (exists_in (brands cat))) (pd_brand d) @
     wrong False ''categories'' (list_all (exists_in (categories cat))) (pd_categories d) @
     wrong False ''attributes'' (list_all (exists_in attrs)) (pd_attributes d) @
     wrong False ''status'' (\<lambda>s. status_of s \<noteq> None) (pd_status d) @
     wrong False ''seo_title'' (char_ok True 255) (pd_seo_title d) @
     wrong False ''seo_description'' (char_ok True 500) (pd_seo_description d) @
     wrong False ''seo_keywords'' (char_ok True 255) (pd_seo_keywords d) @
     wrong False ''metadata'' (\<lambda>j. j \<noteq> JNull) (pd_metadata d)"

text \<open>The columns are set and saved first, the two many-to-many relations afterwards.\<close>

definition apply_product :: "product_data \<Rightarrow> product \<Rightarrow> product" where
  "apply_product d p =
     p\<lparr>pr_name := given_or (map_option strip (pd_name d)) (pr_name p),
       pr_slug := given_or (map_option strip (pd_slug d)) (pr_slug p),
       pr_short_description := given_or (map_option strip (pd_short_description d)) (pr_short_description p),
       pr_description := given_or (map_option strip (pd_description d)) (pr_description p),
       pr_brand := given_or (pd_brand d) (pr_brand p),
       pr_status := given_or (Option.bind (pd_status d) status_of) (pr_status p),
       pr_is_featured := given_or (pd_is_featured d) (pr_is_featured p),
       pr_seo_title := given_or (map_option strip (pd_seo_title d)) (pr_seo_title p),
       pr_seo_description := given_or (map_option strip (pd_seo_description d)) (pr_seo_description p),
       pr_seo_keywords := given_or (map_option strip (pd_seo_keywords d)) (pr_seo_keywords p),
       pr_metadata := given_or (pd_metadata d) (pr_metadata p)\<rparr>"

definition set_related :: "product_data \<Rightarrow> product \<Rightarrow> product" where
  "set_related d p =
     p\<lparr>pr_categories := given_or (map_option remdups (pd_categories d)) (pr_categories p),
       pr_attributes := given_or (map_option remdups (pd_attributes d)) (pr_attributes p)\<rparr>"

definition blank_product :: "nat \<Rightarrow> product" where
  "blank_product k =
     \<lparr>pk = k, created_at = 0, updated_at = 0, deleted_at = None, pr_name = '''', pr_slug = '''',
      pr_short_description = '''', pr_description = '''', pr_brand = None, pr_categories = [],
      pr_attributes = [], pr_status = DRAFT, pr_is_featured = False, pr_rating_avg = 0,
      pr_rating_count = 0, pr_sold_count = 0, pr_view_count = 0, pr_seo_title = '''',
      pr_seo_description = '''', pr_seo_keywords = '''', pr_metadata = JObj []\<rparr>"

definition save_product ::
  "(string \<Rightarrow> string) \<Rightarrow> int \<Rightarrow> product_data \<Rightarrow> product \<Rightarrow> catalog \<Rightarrow> refusal + catalog" where
  "save_product slugify now d p cat =
     bindE (raised (product_save slugify now p (products cat))) (\<lambda>tbl.
       Inr (cat\<lparr>products := save_row (pk p) (set_related d) tbl\<rparr>))"

definition product_create ::
  "(string \<Rightarrow> string) \<Rightarrow> int \<Rightarrow> attribute_def list \<Rightarrow> product_data \<Rightarrow> catalog \<Rightarrow> refusal + catalog" where
  "product_create slugify now attrs d cat =
     (if product_errors False None attrs d cat \<noteq> [] then Inl (Invalid (product_errors False None attrs d cat))
      else save_product slugify now d (apply_product d (blank_product (fresh_pk (products cat)))) cat)"

definition product_update :: "(string \<Rightarrow> string) \<Rightarrow> int \<Rightarrow> bool \<Rightarrow> nat \<Rightarrow> attribute_def list \<Rightarrow> product_data
    \<Rightarrow> catalog \<Rightarrow> refusal + catalog" where
  "product_update slugify now partial k attrs d cat =
     bindE (get_object k (products cat)) (\<lambda>p.
       if product_errors partial (Some k) attrs d cat \<noteq> []
       then Inl (Invalid (product_errors partial (Some k) attrs d cat))
       else save_product slugify now d (apply_product d p) cat)"

definition product_destroy :: "int \<Rightarrow> nat \<Rightarrow> catalog \<Rightarrow> refusal + catalog" where
  "product_destroy now k cat = bindE (destroy now k (products cat)) (\<lambda>tbl. Inr (cat\<lparr>products := tbl\<rparr>))"

section \<open>Variants\<close>

text \<open>
  The serializer has no \<open>product\<close>, so a body that passes all checks is inserted with a null product,
  which the column refuses.
\<close>

record variant_data =
  vd_sku :: "string option"
  vd_barcode :: "string option"
  vd_name :: "string option"
  vd_price :: "int option"
  vd_compare_at_price :: "int option option"
  vd_currency :: "string option"
  vd_weight_g :: "int option"
  vd_is_default :: "bool option"
  vd_is_active :: "bool option"
  vd_attributes_snapshot :: "json option"

definition variant_errors :: "bool \<Rightarrow> nat option \<Rightarrow> variant_data \<Rightarrow> catalog \<Rightarrow> string list" where
  "variant_errors partial inst d cat =
     wrong (\<not> partial) ''sku'' (\<lambda>s. char_ok False 64 s \<and> free_for pv_sku inst (strip s) (variants cat)) (vd_sku d) @
     wrong False ''barcode'' (char_ok True 64) (vd_barcode d) @
     wrong False ''name'' (char_ok True 200) (vd_name d) @
     wrong (\<not> partial) ''price'' price_ok (vd_price d) @
     wrong False ''compare_at_price'' (nullable price_ok) (vd_compare_at_price d) @
     wrong False ''currency'' (char_ok False 3) (vd_currency d) @
     wrong False ''weight_g'' count_ok (vd_weight_g d) @
     wrong False ''attributes_snapshot'' (\<lambda>j. j \<noteq> JNull) (vd_attributes_snapshot d)"

definition apply_variant :: "variant_data \<Rightarrow> product_variant \<Rightarrow> product_variant" where
  "apply_variant d v =
     v\<lparr>pv_sku := given_or (map_option strip (vd_sku d)) (pv_sku v),
       pv_barcode := given_or (map_option strip (vd_barcode d)) (pv_barcode v),
       pv_name := given_or (map_option strip (vd_name d)) (pv_name v),
       pv_price := given_or (vd_price d) (pv_price v),
       pv_compare_at_price := given_or (vd_compare_at_price d) (pv_compare_at_price v),
       pv_currency := given_or (map_option strip (vd_currency d)) (pv_currency v),
       pv_weight_g := given_or (vd_weight_g d) (pv_weight_g v),
       pv_is_default := given_or (vd_is_default d) (pv_is_default v),
       pv_is_active := given_or (vd_is_active d) (pv_is_active v),
       pv_attributes_snapshot := given_or (vd_attributes_snapshot d) (pv_attributes_snapshot v)\<rparr>"

definition variant_create :: "variant_data \<Rightarrow> catalog \<Rightarrow> refusal + catalog" where
  "variant_create d cat =
     (if variant_errors False None d cat \<noteq> [] then Inl (Invalid (variant_errors False None d cat))
      else Inl (Crashed (IntegrityError ''catalog_product_variant'')))"

definition variant_update :: "int \<Rightarrow> bool \<Rightarrow> nat \<Rightarrow> variant_data \<Rightarrow> catalog \<Rightarrow> refusal + catalog" where
  "variant_update now partial k d cat =
     bindE (get_object k (variants cat)) (\<lambda>v.
       if variant_errors partial (Some k) d cat \<noteq> [] then Inl (Invalid (variant_errors partial (Some k) d cat))
       else let v' = apply_variant d v in
         if taken pv_sku v' (variants cat) then Inl (Crashed (IntegrityError ''catalog_product_variant''))
         else Inr (cat\<lparr>variants := write_row now v' (variants cat)\<rparr>))"

definition variant_destroy :: "int \<Rightarrow> nat \<Rightarrow> catalog \<Rightarrow> refusal + catalog" where
  "variant_destroy now k cat = bindE (destroy now k (variants cat)) (\<lambda>tbl. Inr (cat\<lparr>variants := tbl\<rparr>))"

section \<open>Lists\<close>

record cursor_pagination =
  page_size :: nat
  page_size_query_param :: string
  max_page_size :: nat
  page_ordering :: string

definition CursorPagePagination :: cursor_pagination where
  "CursorPagePagination =
     \<lparr>page_size = 25, page_size_query_param = ''page_size'', max_page_size = 100,
      page_ordering = ''-created_at''\<rparr>"

text \<open>The size the query asks for: positive, cut off at the maximum, or the default (\<open>None\<close>: no number).\<close>

definition get_page_size :: "cursor_pagination \<Rightarrow> int option \<Rightarrow> nat" where
  "get_page_size c q =
     (case q of None \<Rightarrow> page_size c
      | Some n \<Rightarrow> if n \<le> 0 then page_size c else min (nat n) (max_page_size c))"

text \<open>
  \<open>SearchFilter\<close>: every term must occur (\<open>icontains\<close>) in one of the searched texts. The related texts
  come by joins, which do not look at \<open>deleted_at\<close>.
\<close>

definition search_filter ::
  "(string \<Rightarrow> string \<Rightarrow> bool) \<Rightarrow> ('a \<Rightarrow> string list) \<Rightarrow> string list \<Rightarrow> 'a list \<Rightarrow> 'a list" where
  "search_filter icontains texts terms rows =
     filter (\<lambda>r. list_all (\<lambda>t. list_ex (\<lambda>x. icontains x t) (texts r)) terms) rows"

definition brand_texts :: "brand \<Rightarrow> string list" where
  "brand_texts b = [br_name b, br_slug b]"

definition category_texts :: "category \<Rightarrow> string list" where
  "category_texts c = [cat_name c, cat_slug c]"

definition product_texts :: "catalog \<Rightarrow> product \<Rightarrow> string list" where
  "product_texts cat p =
     [pr_name p, pr_slug p] @ map pv_sku (filter (\<lambda>v. pv_product v = pk p) (variants cat)) @
     (case Option.bind (pr_brand p) (\<lambda>k. find_pk k (brands cat)) of None \<Rightarrow> [] | Some b \<Rightarrow> [br_name b])"

definition variant_texts :: "catalog \<Rightarrow> product_variant \<Rightarrow> string list" where
  "variant_texts cat v = [pv_sku v, pv_barcode v, product_name_of cat v]"

definition ordering_fields :: "string list" where
  "ordering_fields = [''name'', ''created_at'', ''rating_avg'', ''sold_count'']"

text \<open>
  \<open>CursorPagination\<close> always enforces an ordering: that of the \<open>OrderingFilter\<close> where the view has one and
  the query names fields it allows, else its own. It replaces the \<open>order_by\<close> of the view's queryset.
\<close>

definition field_of_term :: "string \<Rightarrow> string" where
  "field_of_term t = (if startswith ''-'' t then drop 1 t else t)"

definition product_ordering :: "string list \<Rightarrow> string list" where
  "product_ordering asked =
     (let ok = filter (\<lambda>t. field_of_term t \<in> set ordering_fields) asked in
      if ok = [] then [page_ordering CursorPagePagination] else ok)"

definition product_key :: "(string \<Rightarrow> nat) \<Rightarrow> string \<Rightarrow> product \<Rightarrow> int" where
  "product_key collate f p =
     (if f = ''name'' then int (collate (pr_name p)) else if f = ''rating_avg'' then pr_rating_avg p
      else if f = ''sold_count'' then pr_sold_count p else created_at p)"

definition order_rows :: "('a \<Rightarrow> string \<Rightarrow> int) \<Rightarrow> string list \<Rightarrow> 'a list \<Rightarrow> 'a list" where
  "order_rows key terms rows =
     foldr (\<lambda>t. sort_key (\<lambda>r. if startswith ''-'' t then - key r (field_of_term t) else key r (field_of_term t)))
       terms rows"

definition first_page :: "('a base_model_scheme \<Rightarrow> string \<Rightarrow> int) \<Rightarrow> string list \<Rightarrow> int option
    \<Rightarrow> 'a base_model_scheme list \<Rightarrow> 'a base_model_scheme list" where
  "first_page key terms q rows = take (get_page_size CursorPagePagination q) (order_rows key terms rows)"

definition brand_list :: "(string \<Rightarrow> string \<Rightarrow> bool) \<Rightarrow> string list \<Rightarrow> int option \<Rightarrow> catalog \<Rightarrow> brand list" where
  "brand_list icontains terms q cat =
     first_page (\<lambda>r _. created_at r) [page_ordering CursorPagePagination] q
       (search_filter icontains brand_texts terms (objects (brands cat)))"

definition category_list :: "(string \<Rightarrow> string \<Rightarrow> bool) \<Rightarrow> string list \<Rightarrow> int option \<Rightarrow> catalog \<Rightarrow> category list" where
  "category_list icontains terms q cat =
     first_page (\<lambda>r _. created_at r) [page_ordering CursorPagePagination] q
       (search_filter icontains category_texts terms (objects (categories cat)))"

definition product_list :: "(string \<Rightarrow> string \<Rightarrow> bool) \<Rightarrow> (string \<Rightarrow> nat) \<Rightarrow> string list \<Rightarrow> string list \<Rightarrow> int option
    \<Rightarrow> catalog \<Rightarrow> product list" where
  "product_list icontains collate terms asked q cat =
     first_page (\<lambda>p f. product_key collate f p) (product_ordering asked) q
       (search_filter icontains (product_texts cat) terms (objects (products cat)))"

definition variant_list :: "(string \<Rightarrow> string \<Rightarrow> bool) \<Rightarrow> string list \<Rightarrow> int option \<Rightarrow> catalog \<Rightarrow> product_variant list" where
  "variant_list icontains terms q cat =
     first_page (\<lambda>r _. created_at r) [page_ordering CursorPagePagination] q
       (search_filter icontains (variant_texts cat) terms (objects (variants cat)))"

section \<open>Lemmas\<close>

lemma given_or_simps [simp]: "given_or None x = x" "given_or (Some v) x = v"
  by (simp_all add: given_or_def)

lemma raised_Inr_iff [result_simps]: "raised r = Inr x \<longleftrightarrow> r = Inr x"
  by (auto simp: raised_def split: sum.splits)

lemma raised_Inl_iff [result_simps]: "raised r = Inl e \<longleftrightarrow> (\<exists>x. r = Inl x \<and> e = Crashed x)"
  by (auto simp: raised_def split: sum.splits)

lemma wrong_nil: "wrong req name ok v = [] \<longleftrightarrow> (case v of None \<Rightarrow> \<not> req | Some x \<Rightarrow> ok x)"
  by (simp add: wrong_def split: option.splits)

lemma wrong_name: "n \<in> set (wrong req name ok v) \<Longrightarrow> n = name"
  by (auto simp: wrong_def split: option.splits if_splits)

lemma save_fresh_append:
  assumes "pk p = fresh_pk tbl"
  shows "save_row (fresh_pk tbl) f (tbl @ [p]) = tbl @ [f p]"
proof -
  have "pk x \<noteq> fresh_pk tbl" if "x \<in> set tbl" for x
    using fresh_pk_notin [of tbl] that by (metis image_eqI)
  then show ?thesis using assms by (simp add: save_row_def update_where_def map_idI)
qed

lemma get_object_Inr:
  assumes "get_object k tbl = Inr r"
  shows "r \<in> set tbl" "is_alive r" "pk r = k"
  using assms find_pk_Some [of k "objects tbl" r]
  by (auto simp: get_object_def get_queryset_def is_alive_def split: option.splits)

lemma destroy_Inr:
  assumes "destroy now k tbl = Inr tbl'"
  shows "tbl' = delete_row now k tbl" "\<exists>r \<in> set tbl. pk r = k \<and> is_alive r"
  using assms get_object_Inr [of k tbl] by (auto simp: destroy_def result_simps)

text \<open>Deleting a row leaves every look-up by key with the same columns.\<close>

lemma find_pk_delete_row: "find_pk j (delete_row now k tbl) =
    map_option (\<lambda>r. if pk r = k then r\<lparr>deleted_at := Some now\<rparr> else r) (find_pk j tbl)"
  unfolding delete_row_def by (induction tbl) (auto simp: find_pk_def save_row_def update_where_def)

lemma deleted_not_listed: "k \<notin> pk ` set (objects (delete_row t k tbl))"
  by (induction tbl) (auto simp: delete_row_def save_row_def update_where_def get_queryset_def)

lemma apply_product_columns:
  "pk (apply_product d p) = pk p" "deleted_at (apply_product d p) = deleted_at p"
  "pr_name (apply_product d p) = given_or (map_option strip (pd_name d)) (pr_name p)"
  "pr_slug (apply_product d p) = given_or (map_option strip (pd_slug d)) (pr_slug p)"
  "pr_categories (apply_product d p) = pr_categories p"
  by (simp_all add: apply_product_def)

lemma set_related_columns:
  "pk (set_related d p) = pk p" "deleted_at (set_related d p) = deleted_at p" "pr_slug (set_related d p) = pr_slug p"
  "pr_name (set_related d p) = pr_name p" "created_at (set_related d p) = created_at p"
  "pr_categories (set_related d p) = given_or (map_option remdups (pd_categories d)) (pr_categories p)"
  by (simp_all add: set_related_def)

text \<open>A body without errors has a name and a slug, neither of them blank.\<close>

lemma product_errors_nil:
  assumes "product_errors False None attrs d cat = []"
  obtains n s where "pd_name d = Some n" "pd_slug d = Some s" "strip s \<noteq> ''''" "strip n \<noteq> ''''"
    "free_for pr_slug None (strip s) (products cat)"
    "list_all (exists_in (categories cat)) (given_or (pd_categories d) [])"
  using assms by (auto simp: product_errors_def wrong_nil slug_ok_def char_ok_def given_or_def split: option.splits)

text \<open>The insert of a product with a slug of its own: the text of the name is never consulted.\<close>

lemma save_new_product:
  assumes "pk p = fresh_pk (products cat)" "pr_slug p \<noteq> ''''"
  shows "save_product slugify now d p cat =
     (if pr_slug p \<in> pr_slug ` set (products cat) then Inl (Crashed (IntegrityError ''catalog_product''))
      else Inr (cat\<lparr>products := products cat @ [set_related d (p\<lparr>created_at := now, updated_at := now\<rparr>)]\<rparr>))"
proof -
  have "taken pr_slug p (products cat) \<longleftrightarrow> pr_slug p \<in> pr_slug ` set (products cat)"
    using assms(1) fresh_pk_notin [of "products cat"] unfolding taken_def by (metis (mono_tags, lifting) image_iff)
  moreover have "write_row now p (products cat) = products cat @ [p\<lparr>created_at := now, updated_at := now\<rparr>]"
    using assms(1) by (simp add: write_row_def)
  ultimately show ?thesis
    using assms save_fresh_append [of "p\<lparr>created_at := now, updated_at := now\<rparr>" "products cat" "set_related d"]
    by (simp add: save_product_def product_save_def Let_def raised_def)
qed

lemma column_unique_append:
  assumes "column_unique col tbl" "col r \<notin> col ` set tbl"
  shows "column_unique col (tbl @ [r])"
  unfolding column_unique_def
proof (intro ballI impI)
  fix x y assume m: "x \<in> set (tbl @ [r])" "y \<in> set (tbl @ [r])" and eq: "col x = col y"
  show "pk x = pk y"
  proof (cases "x = r")
    case True
    with assms(2) eq m(2) have "y = r" by (metis Un_iff empty_iff imageI insert_iff list.set set_append)
    with True show ?thesis by simp
  next
    case False
    then have x: "x \<in> set tbl" using m(1) by simp
    have "y \<noteq> r" using imageI [OF x, of col] assms(2) eq by metis
    then have "y \<in> set tbl" using m(2) by simp
    with x eq assms(1) show ?thesis unfolding column_unique_def by blast
  qed
qed

lemma first_page_subset: "set (first_page key terms q rows) \<subseteq> set rows"
proof -
  have "set (order_rows key terms rows) = set rows" by (induction terms) (simp_all add: order_rows_def)
  then show ?thesis unfolding first_page_def using set_take_subset by metis
qed

lemma product_list_subset: "set (product_list icontains collate terms asked q cat) \<subseteq> set (objects (products cat))"
  unfolding product_list_def search_filter_def using first_page_subset by (rule order_trans) auto

text \<open>A checkout reads the variants and the names of their products, whether these live or not.\<close>

definition same_names :: "catalog \<Rightarrow> catalog \<Rightarrow> bool" where
  "same_names a b \<longleftrightarrow> variants a = variants b \<and>
     (\<forall>k. map_option pr_name (find_product k a) = map_option pr_name (find_product k b))"

lemma same_names_delete:
  "cat' = cat\<lparr>products := delete_row t k (products cat)\<rparr> \<Longrightarrow> same_names cat' cat"
  by (auto simp: same_names_def find_product_def find_pk_delete_row option.map_comp comp_def intro!: option.map_cong)

lemma write_lines_names:
  assumes "same_names a b"
  shows "write_lines now ord a its stk tbl = write_lines now ord b its stk tbl"
proof (induction its arbitrary: stk tbl)
  case (Cons it its)
  have v: "variant_of it a = variant_of it b"
    using assms by (simp add: variant_of_def find_variant_def same_names_def)
  have p: "map_sum id pr_name (product_of w a) = map_sum id pr_name (product_of w b)" for w
  proof -
    have "map_option pr_name (find_product (pv_product w) a) = map_option pr_name (find_product (pv_product w) b)"
      using assms by (simp add: same_names_def)
    then show ?thesis
      by (cases "find_product (pv_product w) a"; cases "find_product (pv_product w) b") (simp_all add: product_of_def)
  qed
  have bind: "bindE (product_of w a) h = bindE (product_of w b) h"
    if h: "\<And>x y. pr_name x = pr_name y \<Longrightarrow> h x = h y"
    for w and h :: "product \<Rightarrow> py_error + (inventory \<times> order_item list)"
  proof (cases "product_of w a")
    case (Inr x)
    with p [of w] obtain y where y: "product_of w b = Inr y" "pr_name x = pr_name y"
      by (cases "product_of w b") auto
    show ?thesis unfolding Inr y(1) bindE_simps by (rule h [OF y(2)])
  next
    case (Inl e)
    with p [of w] show ?thesis by (cases "product_of w b") auto
  qed
  let ?next = "\<lambda>stk' w p. if \<not> fits12 (line_total it) then Inl (DataError ''numeric field overflow'')
    else write_lines now ord b its stk' (tbl @ [order_line now ord it w p (fresh_pk tbl)])"
  have "bindE (product_of w a) (?next stk' w) = bindE (product_of w b) (?next stk' w)" for stk' w
    by (rule bind) (simp only: order_line_def)
  then show ?case by (simp only: write_lines.simps v Cons.IH)
qed simp

lemma checkout_reads_names:
  assumes "same_names a b"
  shows "create_order_from_cart now number c usr p (s\<lparr>catalog_db := a\<rparr>) =
    map_sum id (\<lambda>(o', s'). (o', s'\<lparr>catalog_db := a\<rparr>)) (create_order_from_cart now number c usr p (s\<lparr>catalog_db := b\<rparr>))"
  using write_lines_names [OF assms]
  by (auto simp: create_order_from_cart_def Let_def bindE_def create_event_def split: sum.splits option.splits)

lemma find_pk_objects:
  assumes "distinct_pks tbl" "x \<in> set tbl" "is_alive x"
  shows "find_pk (pk x) (objects tbl) = Some x"
proof -
  have "distinct_pks (objects tbl)" using assms(1) by (simp add: distinct_pks_def get_queryset_def distinct_map_filter)
  then show ?thesis using assms(2,3) by (intro find_pk_in) (simp_all add: get_queryset_def is_alive_def)
qed

definition only_parent :: "nat option \<Rightarrow> category_data" where
  "only_parent parent =
     \<lparr>cd_name = None, cd_slug = None, cd_parent = Some parent, cd_description = None, cd_image = None,
      cd_sort_order = None, cd_is_active = None\<rparr>"

section \<open>Properties\<close>

text \<open>
  C34. Creating a product through the staff API, completely: a body with errors is answered with exactly
  the wrong fields; otherwise either one product is appended, alive, under the name and the slug of the body
  and with its categories, all of which are living rows, and keys and slugs stay unique; or the slug belongs
  to a soft-deleted product, which the serializer's check does not see, and the insert raises
  IntegrityError. The slug a save would make from the name is never used.
\<close>

theorem product_create_exact:
  assumes "distinct_pks (products cat)" "column_unique pr_slug (products cat)"
  shows "case product_create slugify now attrs d cat of
      Inl (Invalid fs) \<Rightarrow> fs \<noteq> [] \<and> fs = product_errors False None attrs d cat
    | Inl (Crashed e) \<Rightarrow> product_errors False None attrs d cat = [] \<and> e = IntegrityError ''catalog_product'' \<and>
        (\<exists>x \<in> set (products cat). \<not> is_alive x \<and> map_option strip (pd_slug d) = Some (pr_slug x))
    | Inr cat' \<Rightarrow> product_errors False None attrs d cat = [] \<and>
        (\<exists>p. cat' = cat\<lparr>products := products cat @ [p]\<rparr> \<and> pk p = fresh_pk (products cat) \<and> is_alive p \<and>
             created_at p = now \<and> Some (pr_name p) = map_option strip (pd_name d) \<and>
             Some (pr_slug p) = map_option strip (pd_slug d) \<and> pr_name p \<noteq> '''' \<and> pr_slug p \<noteq> '''' \<and>
             set (pr_categories p) = set (given_or (pd_categories d) []) \<and>
             list_all (exists_in (categories cat)) (pr_categories p)) \<and>
        distinct_pks (products cat') \<and> column_unique pr_slug (products cat')"
proof (cases "product_errors False None attrs d cat = []")
  case True
  then obtain n s where ns: "pd_name d = Some n" "pd_slug d = Some s" "strip s \<noteq> ''''" "strip n \<noteq> ''''"
    "free_for pr_slug None (strip s) (products cat)" "list_all (exists_in (categories cat)) (given_or (pd_categories d) [])"
    by (rule product_errors_nil)
  let ?p = "apply_product d (blank_product (fresh_pk (products cat)))"
  have p: "pk ?p = fresh_pk (products cat)" "pr_slug ?p = strip s" "pr_name ?p = strip n" "is_alive ?p"
    "pr_categories ?p = []"
    using ns by (simp_all add: apply_product_columns blank_product_def is_alive_def)
  have run: "product_create slugify now attrs d cat = save_product slugify now d ?p cat"
    using True by (simp add: product_create_def)
  show ?thesis
  proof (cases "strip s \<in> pr_slug ` set (products cat)")
    case clash: True
    then obtain x where x: "x \<in> set (products cat)" "pr_slug x = strip s" by auto
    with ns(5) have "\<not> is_alive x" by (auto simp: free_for_def is_alive_def get_queryset_def)
    with x show ?thesis using clash True ns(2) p by (auto simp: run save_new_product ns(3))
  next
    case False
    define q where "q = set_related d (?p\<lparr>created_at := now, updated_at := now\<rparr>)"
    have q: "pk q = fresh_pk (products cat)" "pr_slug q = strip s" "pr_name q = strip n" "is_alive q"
      "created_at q = now" "pr_categories q = given_or (map_option remdups (pd_categories d)) []"
      using p by (simp_all add: q_def set_related_columns is_alive_def)
    have created: "product_create slugify now attrs d cat = Inr (cat\<lparr>products := products cat @ [q]\<rparr>)"
      unfolding run q_def using save_new_product [OF p(1)] p(2) ns(3) False by simp
    have cats: "set (pr_categories q) = set (given_or (pd_categories d) [])"
      "list_all (exists_in (categories cat)) (pr_categories q)"
      using ns(6) by (auto simp: q(6) given_or_def list_all_iff split: option.splits)
    have keys: "distinct_pks (products cat @ [q])" "column_unique pr_slug (products cat @ [q])"
      using distinct_pks_append_fresh [OF assms(1) q(1)] column_unique_append [OF assms(2), of q] q(2) False
      by simp_all
    have cols: "Some (pr_name q) = map_option strip (pd_name d)" "Some (pr_slug q) = map_option strip (pd_slug d)"
      "pr_name q \<noteq> ''''" "pr_slug q \<noteq> ''''"
      using ns(1-4) q(2,3) by simp_all
    show ?thesis
      unfolding created sum.case
    proof (intro conjI exI [of _ q])
      show "distinct_pks (products (cat\<lparr>products := products cat @ [q]\<rparr>))"
        "column_unique pr_slug (products (cat\<lparr>products := products cat @ [q]\<rparr>))"
        using keys by simp_all
    qed (fact True refl q cols cats)+
  qed
qed (simp add: product_create_def)

definition demo_body :: "string \<Rightarrow> product_data" where
  "demo_body slug =
     \<lparr>pd_name = Some '' Tee'', pd_slug = Some slug, pd_short_description = None, pd_description = Some '''',
      pd_brand = Some None, pd_categories = Some [], pd_attributes = None, pd_status = Some ''active'',
      pd_is_featured = None, pd_seo_title = None, pd_seo_description = None, pd_seo_keywords = None,
      pd_metadata = None\<rparr>"

definition demo_shelf :: "int option \<Rightarrow> catalog" where
  "demo_shelf dead =
     \<lparr>brands = [], categories = [(blank_category 3)\<lparr>cat_slug := ''shirts''\<rparr>],
      products = [(blank_product 1)\<lparr>pr_slug := ''tee'', pr_name := ''Tee'', deleted_at := dead\<rparr>],
      variants = [demo_variant 7 1 ''TEE-M'' 1999], images = []\<rparr>"

theorem product_create_exact_witness:
  "distinct_pks (products (demo_shelf (Some 4))) \<and>
   product_create id 5 [] (demo_body ''tee'') (demo_shelf (Some 4)) = Inl (Crashed (IntegrityError ''catalog_product'')) \<and>
   (\<exists>p. product_create id 5 [] (demo_body ''mug'') (demo_shelf (Some 4)) =
        Inr ((demo_shelf (Some 4))\<lparr>products := products (demo_shelf (Some 4)) @ [p]\<rparr>) \<and> pr_slug p = ''mug'')"
proof -
  have ok: "distinct_pks (products (demo_shelf (Some 4)))" "column_unique pr_slug (products (demo_shelf (Some 4)))"
    by (simp_all add: demo_shelf_def distinct_pks_def column_unique_def)
  have "is_ok (product_create id 5 [] (demo_body ''mug'') (demo_shelf (Some 4)))" by code_simp
  then obtain cat' where c: "product_create id 5 [] (demo_body ''mug'') (demo_shelf (Some 4)) = Inr cat'"
    by (auto simp: is_ok_iff)
  have "map_option strip (pd_slug (demo_body ''mug'')) = Some ''mug''" by code_simp
  with product_create_exact [OF ok, where slugify = id and now = 5 and attrs = "[]" and d = "demo_body ''mug''"] c have
    "\<exists>p. cat' = (demo_shelf (Some 4))\<lparr>products := products (demo_shelf (Some 4)) @ [p]\<rparr> \<and> pr_slug p = ''mug''"
    by auto
  moreover have "product_create id 5 [] (demo_body ''tee'') (demo_shelf (Some 4)) =
      Inl (Crashed (IntegrityError ''catalog_product''))" by code_simp
  ultimately show ?thesis using ok(1) c by blast
qed

text \<open>
  C35. A deleted product stays on sale. Once the staff API has destroyed a product, its list never shows
  the product again; but its variants are untouched: adding one to a cart gives what it gave before, error
  or not, and a checkout of any cart ends as before, with the same order, order items and reservations.
\<close>

theorem destroyed_product_still_sold:
  assumes "product_destroy t k cat = Inr cat'"
  shows "k \<notin> pk ` set (product_list icontains collate terms asked q cat') \<and>
    add_item now cat' stk c v n db = add_item now cat stk c v n db \<and>
    create_order_from_cart now number c usr p (s\<lparr>catalog_db := cat'\<rparr>) =
      map_sum id (\<lambda>(o', s'). (o', s'\<lparr>catalog_db := cat'\<rparr>))
        (create_order_from_cart now number c usr p (s\<lparr>catalog_db := cat\<rparr>))"
proof -
  have cat': "cat' = cat\<lparr>products := delete_row t k (products cat)\<rparr>"
    using assms destroy_Inr(1) by (fastforce simp: product_destroy_def result_simps)
  have "products cat' = delete_row t k (products cat)" by (simp add: cat')
  then have "k \<notin> pk ` set (objects (products cat'))" by (simp only: deleted_not_listed not_False_eq_True)
  then have "k \<notin> pk ` set (product_list icontains collate terms asked q cat')"
    using product_list_subset [of icontains collate terms asked q cat'] by blast
  moreover have "add_item now cat' stk c v n db = add_item now cat stk c v n db"
    by (simp add: add_item_def get_active_variant_def cat')
  ultimately show ?thesis using checkout_reads_names [OF same_names_delete [OF cat']] by blast
qed

theorem destroyed_product_still_sold_witness:
  "\<exists>cat'. product_destroy 9 1 (demo_shelf None) = Inr cat' \<and> is_ok (add_item 10 cat' demo_ledger (demo_cart 1 (Some 5) '''') 7 2 demo_carts)"
proof -
  have "is_ok (product_destroy 9 1 (demo_shelf None))" by code_simp
  then obtain cat' where d: "product_destroy 9 1 (demo_shelf None) = Inr cat'" by (auto simp: is_ok_iff)
  have "is_ok (add_item 10 (demo_shelf None) demo_ledger (demo_cart 1 (Some 5) '''') 7 2 demo_carts)" by code_simp
  with destroyed_product_still_sold [OF d, where now = 10 and stk = demo_ledger and c = "demo_cart 1 (Some 5) ''''" and v = 7 and n = 2
      and db = demo_carts] d
  show ?thesis by metis
qed

text \<open>
  A category may become its own parent, since an update checks only that the parent is a living row. It
  then is in no list of the public API but that of its own slug, so no walk from the roots finds it or
  what is below it.
\<close>

theorem self_parent_unlisted:
  assumes "distinct_pks (categories cat)" "column_unique cat_slug (categories cat)"
    and "x \<in> set (categories cat)" "is_alive x" "cat_slug x \<noteq> ''''"
  shows "\<exists>cat'. category_update slugify now True (pk x) (only_parent (Some (pk x))) cat = Inr cat' \<and>
    (\<forall>collate slug. pk x \<in> pk ` set (category_rows collate slug cat') \<longrightarrow> slug = Some (cat_slug x))"
proof -
  let ?y = "x\<lparr>cat_parent := Some (pk x), updated_at := now\<rparr>"
  have obj: "get_object (pk x) (categories cat) = Inr x"
    using find_pk_objects [OF assms(1,3,4)] by (simp add: get_object_def)
  have e: "category_errors True (Some (pk x)) (only_parent (Some (pk x))) cat = []"
    using assms(3,4) by (auto simp: category_errors_def only_parent_def wrong_nil nullable_def exists_in_def
        get_queryset_def is_alive_def)
  have "\<forall>y \<in> set (categories cat). cat_slug y = cat_slug x \<longrightarrow> pk y = pk x"
    using assms(2,3) unfolding column_unique_def by blast
  then have "\<not> taken cat_slug (x\<lparr>cat_parent := Some (pk x)\<rparr>) (categories cat)"
    unfolding taken_def by auto
  moreover have "write_row now (x\<lparr>cat_parent := Some (pk x)\<rparr>) (categories cat) = save_row (pk x) (\<lambda>_. ?y) (categories cat)"
    using assms(3) by (simp add: write_row_def)
  moreover have "apply_category (only_parent (Some (pk x))) x = x\<lparr>cat_parent := Some (pk x)\<rparr>"
    by (simp add: apply_category_def only_parent_def)
  ultimately have "category_update slugify now True (pk x) (only_parent (Some (pk x))) cat =
      Inr (cat\<lparr>categories := save_row (pk x) (\<lambda>_. ?y) (categories cat)\<rparr>)" (is "_ = Inr ?cat'")
    using assms(5) by (simp add: category_update_def obj e category_save_def Let_def raised_def)
  moreover have "slug = Some (cat_slug x)" if "pk x \<in> pk ` set (category_rows collate slug ?cat')" for collate slug
  proof -
    from that obtain z where z: "z \<in> set (category_rows collate slug ?cat')" "pk z = pk x" by force
    then have cond: "case slug of None \<Rightarrow> cat_parent z = None
        | Some s \<Rightarrow> (case cat_parent z of None \<Rightarrow> False
            | Some k \<Rightarrow> (\<exists>p \<in> set (categories ?cat'). pk p = k \<and> cat_slug p = s))"
      and "z \<in> set (categories ?cat')" by (simp_all only: category_rows_def set_sort set_filter mem_Collect_eq)
    have row: "w = ?y" if "w \<in> set (categories ?cat')" "pk w = pk x" for w
      using that by (auto simp: set_save_row split: if_splits)
    from row [OF \<open>z \<in> set (categories ?cat')\<close> z(2)] have "cat_parent z = Some (pk x)" by simp
    with cond obtain s p where "slug = Some s" "p \<in> set (categories ?cat')" "pk p = pk x" "cat_slug p = s"
      by (auto split: option.splits)
    with row show ?thesis by fastforce
  qed
  ultimately show ?thesis by blast
qed

end
