(* ===== verification/Requests.thy ===== *)
theory Requests
  imports Catalog_Writes Accounts_Laws
begin

text \<open>
  Two request bodies of customers before and behind the checks of their serializers: registration
  (\<open>users/serializers.py\<close>, \<open>RegisterView\<close>) and the start of a payment (\<open>CreatePaymentSerializer\<close>,
  \<open>payments/views.py\<close>). The formats of an e-mail and of a URL and Django's password validators are
  parameters.
\<close>

section \<open>Registration\<close>

record register_data =
  rd_email :: "string option"
  rd_password :: "string option"
  rd_first_name :: "string option"
  rd_last_name :: "string option"
  rd_phone :: "string option"

text \<open>
  \<open>User.objects\<close> is the plain \<open>UserManager\<close>, so the unique check of the e-mail sees deleted users; it
  compares the text as sent.
\<close>

definition register_errors :: "(string \<Rightarrow> bool) \<Rightarrow> (string \<Rightarrow> bool) \<Rightarrow> register_data \<Rightarrow> accounts \<Rightarrow> string list" where
  "register_errors email_ok password_ok d db =
     wrong True ''email'' (\<lambda>s. char_ok False 254 s \<and> email_ok (strip s) \<and>
       strip s \<notin> us_email ` set (users db)) (rd_email d) @
     wrong True ''password'' (\<lambda>s. strip s \<noteq> '''' \<and> text_ok s \<and> password_ok (strip s)) (rd_password d) @
     wrong False ''first_name'' (char_ok True 120) (rd_first_name d) @
     wrong False ''last_name'' (char_ok True 120) (rd_last_name d) @
     wrong False ''phone'' (char_ok True 24) (rd_phone d)"

definition RegisterView_create :: "(string \<Rightarrow> bool) \<Rightarrow> (string \<Rightarrow> bool) \<Rightarrow> (string \<Rightarrow> string) \<Rightarrow> (string option \<Rightarrow> string)
    \<Rightarrow> int \<Rightarrow> register_data \<Rightarrow> accounts \<Rightarrow> refusal + (user \<times> accounts)" where
  "RegisterView_create email_ok password_ok normalize_email hash now d db =
     (if register_errors email_ok password_ok d db \<noteq> [] then Inl (Invalid (register_errors email_ok password_ok d db))
      else raised (RegisterSerializer_create normalize_email hash now (strip (the (rd_email d)))
             (strip (the (rd_password d))) (strip (given_or (rd_first_name d) ''''))
             (strip (given_or (rd_last_name d) '''')) (strip (given_or (rd_phone d) '''')) db))"

section \<open>Starting a payment\<close>

record payment_data =
  pq_order_id :: "nat option"
  pq_provider :: "string option"
  pq_success_url :: "string option"
  pq_cancel_url :: "string option"

definition provider_choices_of :: "(string \<times> provider) list \<Rightarrow> string list" where
  "provider_choices_of registry = map fst registry"

definition payment_errors :: "(string \<Rightarrow> bool) \<Rightarrow> (string \<times> provider) list \<Rightarrow> payment_data \<Rightarrow> string list" where
  "payment_errors url_ok registry d =
     wrong True ''order_id'' (\<lambda>_. True) (pq_order_id d) @
     wrong True ''provider'' (\<lambda>s. s \<in> set (provider_choices_of registry)) (pq_provider d) @
     wrong False ''success_url'' (\<lambda>s. strip s = '''' \<or> url_ok (strip s)) (pq_success_url d) @
     wrong False ''cancel_url'' (\<lambda>s. strip s = '''' \<or> url_ok (strip s)) (pq_cancel_url d)"

definition payment_start :: "(string \<Rightarrow> bool) \<Rightarrow> provider_env \<Rightarrow> (int \<Rightarrow> string) \<Rightarrow> provider_settings \<Rightarrow> int
    \<Rightarrow> (int \<Rightarrow> string) \<Rightarrow> user \<Rightarrow> payment_data \<Rightarrow> store \<Rightarrow> (refusal + response) \<times> store" where
  "payment_start url_ok env status_error cfg now isotime u d db =
     (let errs = payment_errors url_ok (REGISTRY env status_error cfg) d in
      if errs \<noteq> [] then (Inl (Invalid errs), db)
      else map_prod raised id
        (create_for_order now (get_provider env status_error cfg) isotime u (the (pq_order_id d)) (the (pq_provider d))
           (strip (given_or (pq_success_url d) '''')) (strip (given_or (pq_cancel_url d) '''')) db))"

section \<open>Lemmas\<close>

lemma register_errors_nil:
  assumes "register_errors email_ok password_ok d db = []"
  obtains em pw where "rd_email d = Some em" "rd_password d = Some pw" "strip em \<noteq> ''''" "strip pw \<noteq> ''''"
    "password_ok (strip pw)" "strip em \<notin> us_email ` set (users db)"
  using assms by (auto simp: register_errors_def wrong_nil char_ok_def split: option.splits)

text \<open>Which exceptions a registration can end with, and what a successful one stores.\<close>

lemma create_user_cases:
  assumes "accounts_ok db" "email \<noteq> ''''"
  shows "case create_user normalize_email hash now email (Some password) ex db of
      Inl err \<Rightarrow> err = IntegrityError ''users_user'' \<and> (\<exists>x \<in> set (users db). us_email x = normalize_email email)
    | Inr (u, db') \<Rightarrow> us_email u = normalize_email email \<and> us_password u = hash (Some password) \<and>
        us_email u \<notin> us_email ` set (users db)"
proof -
  have "fresh_pk (users db) \<notin> wl_user ` set (wishlists db)"
    using assms(1) fresh_pk_notin [of "users db"] unfolding accounts_ok_def by (metis imageE)
  then have w: "create_wishlist now (fresh_pk (users db)) (db\<lparr>users := users db @ [u]\<rparr>) \<noteq> Inl e" for u e
    using create_wishlist_new [of "fresh_pk (users db)" "db\<lparr>users := users db @ [u]\<rparr>" now] by auto
  show ?thesis
  proof (cases "\<exists>x \<in> set (users db). us_email x = normalize_email email")
    case True
    then show ?thesis using assms(2) by (simp add: create_user_def create_user_row_def Let_def)
  next
    case False
    then have "normalize_email email \<notin> us_email ` set (users db)" by auto
    with False assms(2) show ?thesis
      by (auto simp: create_user_def create_user_row_def Let_def result_simps w split: sum.splits)
  qed
qed

lemma register_serializer_cases:
  assumes "accounts_ok db" "email \<noteq> ''''"
  shows "case RegisterSerializer_create normalize_email hash now email password fn ln phone db of
      Inl err \<Rightarrow> err = MultipleObjectsReturned ''Role'' \<or>
        err = IntegrityError ''users_user'' \<and> (\<exists>x \<in> set (users db). us_email x = normalize_email email)
    | Inr (u, db') \<Rightarrow> us_email u = normalize_email email \<and> us_password u = hash (Some password) \<and>
        us_email u \<notin> us_email ` set (users db)"
proof -
  let ?ex = "\<lparr>ex_first_name = fn, ex_last_name = ln, ex_phone = phone, ex_is_staff = None, ex_is_superuser = None,
    ex_is_active = None\<rparr>"
  have roles: "(\<exists>x. get_one ''Role'' p tbl = Inr x) \<or> get_one ''Role'' p tbl = Inl (DoesNotExist ''Role'') \<or>
      get_one ''Role'' p tbl = Inl (MultipleObjectsReturned ''Role'')" for p and tbl :: "role list"
    by (auto simp: get_one_def split: list.splits)
  show ?thesis
  proof (cases "create_user normalize_email hash now email (Some password) ?ex db")
    case (Inl err)
    with create_user_cases [OF assms, where normalize_email = normalize_email and hash = hash and now = now
        and password = password and ex = ?ex] show ?thesis
      by (simp add: RegisterSerializer_create_def)
  next
    case (Inr r)
    obtain u db1 where r: "r = (u, db1)" by (cases r)
    from create_user_cases [OF assms, where normalize_email = normalize_email and hash = hash and now = now
        and password = password and ex = ?ex] Inr r
      roles [of "\<lambda>r. ro_code r = ''customer''" "roles db1"]
    show ?thesis by (auto simp: RegisterSerializer_create_def Let_def)
  qed
qed

text \<open>
  Registering through the API, completely. A body with errors is answered with exactly the wrong
  fields. One without creates the user under the normalised e-mail with the hash of the password, as the
  last row, neither staff nor superuser. The rest end in an exception, and the e-mail does only where its normal
  form is taken though its own spelling is free: the check compares the text as sent, the column the
  normal form.
\<close>

theorem register_exact:
  assumes "accounts_ok db"
  shows "case RegisterView_create email_ok password_ok normalize_email hash now d db of
      Inl (Invalid fs) \<Rightarrow> fs \<noteq> [] \<and> fs = register_errors email_ok password_ok d db
    | Inl (Crashed err) \<Rightarrow> register_errors email_ok password_ok d db = [] \<and>
        (err = MultipleObjectsReturned ''Role'' \<or>
         err = IntegrityError ''users_user'' \<and>
         (\<exists>x \<in> set (users db). us_email x = normalize_email (strip (the (rd_email d))) \<and>
            us_email x \<noteq> strip (the (rd_email d))))
    | Inr (u, db') \<Rightarrow> register_errors email_ok password_ok d db = [] \<and> users db' = users db @ [u] \<and>
        us_email u = normalize_email (strip (the (rd_email d))) \<and> us_email u \<notin> us_email ` set (users db) \<and>
        us_password u = hash (Some (strip (the (rd_password d)))) \<and> \<not> us_is_staff u \<and> \<not> us_is_superuser u"
proof (cases "register_errors email_ok password_ok d db = []")
  case True
  then obtain em pw where b: "rd_email d = Some em" "rd_password d = Some pw" "strip em \<noteq> ''''" "strip pw \<noteq> ''''"
    "password_ok (strip pw)" "strip em \<notin> us_email ` set (users db)"
    by (rule register_errors_nil)
  let ?run = "RegisterSerializer_create normalize_email hash now (strip em) (strip pw)
    (strip (given_or (rd_first_name d) '''')) (strip (given_or (rd_last_name d) ''''))
    (strip (given_or (rd_phone d) '''')) db"
  have run: "RegisterView_create email_ok password_ok normalize_email hash now d db = raised ?run"
    using True b(1,2) by (simp add: RegisterView_create_def)
  note c = register_serializer_cases [OF assms b(3), where normalize_email = normalize_email and hash = hash and now = now
      and password = "strip pw" and fn = "strip (given_or (rd_first_name d) '''')"
      and ln = "strip (given_or (rd_last_name d) '''')" and phone = "strip (given_or (rd_phone d) '''')"]
  show ?thesis
  proof (cases ?run)
    case (Inl err)
    from c [unfolded Inl sum.case] have "err = MultipleObjectsReturned ''Role'' \<or>
        err = IntegrityError ''users_user'' \<and>
        (\<exists>x \<in> set (users db). us_email x = normalize_email (strip em) \<and> us_email x \<noteq> strip em)"
      using b(6) by (metis image_eqI)
    then show ?thesis using True b(1) unfolding run Inl by (simp add: raised_def)
  next
    case (Inr r)
    obtain u db' where r: "r = (u, db')" by (cases r)
    from c [unfolded Inr r sum.case prod.case] registration_grants_nothing [OF assms Inr [unfolded r]]
    show ?thesis using True unfolding run Inr r raised_def sum.case prod.case b(1,2) option.sel by blast
  qed
qed (simp add: RegisterView_create_def)

definition demo_registration :: "string \<Rightarrow> register_data" where
  "demo_registration email =
     \<lparr>rd_email = Some email, rd_password = Some ''correct horse'', rd_first_name = None, rd_last_name = Some '''',
      rd_phone = None\<rparr>"

theorem register_exact_witness:
  "\<exists>u db'. RegisterView_create (\<lambda>_. True) (\<lambda>_. True) lower (\<lambda>_. ''hash'') 5 (demo_registration ''A@B.co'') seeded_accounts =
       Inr (u, db') \<and> us_email u = ''a@b.co'' \<and>
     RegisterView_create (\<lambda>_. True) (\<lambda>_. True) lower (\<lambda>_. ''hash'') 6 (demo_registration ''A@B.co'') db' =
       Inl (Crashed (IntegrityError ''users_user''))"
proof -
  let ?reg = "\<lambda>now db. RegisterView_create (\<lambda>_. True) (\<lambda>_. True) lower (\<lambda>_. ''hash'') now (demo_registration ''A@B.co'') db"
  have "case ?reg 5 seeded_accounts of Inl _ \<Rightarrow> False | Inr (u, db') \<Rightarrow> ?reg 6 db' = Inl (Crashed (IntegrityError ''users_user''))"
    by code_simp
  then obtain u db' where r: "?reg 5 seeded_accounts = Inr (u, db')" "?reg 6 db' = Inl (Crashed (IntegrityError ''users_user''))"
    by (auto split: sum.splits)
  have ok: "accounts_ok seeded_accounts" by (simp add: accounts_ok_def seeded_accounts_def distinct_pks_def)
  have "lower (strip (the (rd_email (demo_registration ''A@B.co'')))) = ''a@b.co''" by code_simp
  then have "us_email u = ''a@b.co''"
    using register_exact [OF ok, where email_ok = "\<lambda>_. True" and password_ok = "\<lambda>_. True" and normalize_email = lower
        and hash = "\<lambda>_. ''hash''" and now = 5 and d = "demo_registration ''A@B.co''"]
    unfolding r(1) by simp
  with r show ?thesis by blast
qed

text \<open>
  The payment endpoint knows every provider it lets through, so the registry's \<open>ValueError\<close> cannot be
  reached by a body; a provider it does not know, like the model's choice \<open>uzum\<close>, is a wrong field.
\<close>

theorem payment_provider_known:
  assumes "pq_provider d = Some code"
  shows "code \<in> {''stripe'', ''paypal'', ''click'', ''payme'', ''manual''} \<and>
      (\<exists>p. get_provider env status_error cfg code = Inr p) \<or>
    (\<exists>fs. payment_start url_ok env status_error cfg now isotime u d db = (Inl (Invalid fs), db) \<and> ''provider'' \<in> set fs)"
proof (cases "code \<in> {''stripe'', ''paypal'', ''click'', ''payme'', ''manual''}")
  case True
  then show ?thesis by (auto simp: get_provider_def REGISTRY_def)
next
  case False
  then have "''provider'' \<in> set (payment_errors url_ok (REGISTRY env status_error cfg) d)"
    using assms by (simp add: payment_errors_def wrong_def provider_choices_of_def REGISTRY_def)
  moreover from this have "payment_errors url_ok (REGISTRY env status_error cfg) d \<noteq> []" by auto
  ultimately show ?thesis by (simp add: payment_start_def Let_def)
qed

end
