(* ===== verification/Profile.thy ===== *)
theory Profile
  imports Requests
begin

text \<open>
  What a customer can change of an account: \<open>MeView\<close> and \<open>AddressViewSet\<close> of \<open>users/views.py\<close> with
  the checks of their serializers, and that no sequence of such requests, registrations included, gives anybody a
  right. The format of an e-mail is a parameter. A request's user is the row the token names; DRF's
  \<open>get_object\<close> of an address looks in the user's own living addresses.
\<close>

section \<open>The profile\<close>

record user_data =
  ud_email :: "string option"
  ud_first_name :: "string option"
  ud_last_name :: "string option"
  ud_phone :: "string option"

text \<open>The other fields of \<open>UserSerializer\<close> are read-only; the unique check sees deleted users.\<close>

definition me_errors :: "(string \<Rightarrow> bool) \<Rightarrow> bool \<Rightarrow> nat \<Rightarrow> user_data \<Rightarrow> accounts \<Rightarrow> string list" where
  "me_errors email_ok partial k d db =
     wrong (\<not> partial) ''email'' (\<lambda>s. char_ok False 254 s \<and> email_ok (strip s) \<and>
       \<not> (\<exists>x \<in> set (users db). us_email x = strip s \<and> pk x \<noteq> k)) (ud_email d) @
     wrong False ''first_name'' (char_ok True 120) (ud_first_name d) @
     wrong False ''last_name'' (char_ok True 120) (ud_last_name d) @
     wrong False ''phone'' (char_ok True 24) (ud_phone d)"

definition apply_user :: "user_data \<Rightarrow> user \<Rightarrow> user" where
  "apply_user d u =
     u\<lparr>us_email := given_or (map_option strip (ud_email d)) (us_email u),
       us_first_name := given_or (map_option strip (ud_first_name d)) (us_first_name u),
       us_last_name := given_or (map_option strip (ud_last_name d)) (us_last_name u),
       us_phone := given_or (map_option strip (ud_phone d)) (us_phone u)\<rparr>"

definition me_retrieve :: "(int \<Rightarrow> string) \<Rightarrow> user \<Rightarrow> accounts \<Rightarrow> response" where
  "me_retrieve isotime u db = Response 200 (UserSerializer isotime db u)"

text \<open>\<open>get_object\<close> is \<open>request.user\<close>; \<open>save()\<close> writes all of its columns.\<close>

definition me_update :: "(string \<Rightarrow> bool) \<Rightarrow> int \<Rightarrow> bool \<Rightarrow> user \<Rightarrow> user_data \<Rightarrow> accounts \<Rightarrow> refusal + (user \<times> accounts)" where
  "me_update email_ok now partial u d db =
     (if me_errors email_ok partial (pk u) d db \<noteq> [] then Inl (Invalid (me_errors email_ok partial (pk u) d db))
      else let u' = apply_user d u in
        if taken us_email u' (users db) then Inl (Crashed (IntegrityError ''users_user''))
        else Inr (u'\<lparr>updated_at := now\<rparr>, db\<lparr>users := write_row now u' (users db)\<rparr>))"

section \<open>Addresses\<close>

record address_data =
  dd_label :: "string option"
  dd_kind :: "string option"
  dd_full_name :: "string option"
  dd_phone :: "string option"
  dd_country :: "string option"
  dd_region :: "string option"
  dd_city :: "string option"
  dd_street :: "string option"
  dd_apartment :: "string option"
  dd_postal_code :: "string option"
  dd_is_default :: "bool option"
  dd_location :: "json option"

definition address_kind_of :: "string \<Rightarrow> address_kind option" where
  "address_kind_of s = map_of (map (\<lambda>k. (address_kind_value k, k)) [SHIPPING, BILLING, BOTH]) s"

definition address_errors :: "bool \<Rightarrow> address_data \<Rightarrow> string list" where
  "address_errors partial d =
     wrong False ''label'' (char_ok True 64) (dd_label d) @
     wrong False ''kind'' (\<lambda>s. address_kind_of s \<noteq> None) (dd_kind d) @
     wrong (\<not> partial) ''full_name'' (char_ok False 200) (dd_full_name d) @
     wrong (\<not> partial) ''phone'' (char_ok False 24) (dd_phone d) @
     wrong False ''country'' (char_ok False 2) (dd_country d) @
     wrong False ''region'' (char_ok True 120) (dd_region d) @
     wrong (\<not> partial) ''city'' (char_ok False 120) (dd_city d) @
     wrong (\<not> partial) ''street'' (char_ok False 255) (dd_street d) @
     wrong False ''apartment'' (char_ok True 64) (dd_apartment d) @
     wrong False ''postal_code'' (char_ok True 20) (dd_postal_code d) @
     wrong False ''location'' (\<lambda>j. j \<noteq> JNull) (dd_location d)"

definition apply_address :: "address_data \<Rightarrow> address \<Rightarrow> address" where
  "apply_address d a =
     a\<lparr>ad_label := given_or (map_option strip (dd_label d)) (ad_label a),
       ad_kind := given_or (Option.bind (dd_kind d) address_kind_of) (ad_kind a),
       ad_full_name := given_or (map_option strip (dd_full_name d)) (ad_full_name a),
       ad_phone := given_or (map_option strip (dd_phone d)) (ad_phone a),
       ad_country := given_or (map_option strip (dd_country d)) (ad_country a),
       ad_region := given_or (map_option strip (dd_region d)) (ad_region a),
       ad_city := given_or (map_option strip (dd_city d)) (ad_city a),
       ad_street := given_or (map_option strip (dd_street d)) (ad_street a),
       ad_apartment := given_or (map_option strip (dd_apartment d)) (ad_apartment a),
       ad_postal_code := given_or (map_option strip (dd_postal_code d)) (ad_postal_code a),
       ad_is_default := given_or (dd_is_default d) (ad_is_default a),
       ad_location := given_or (dd_location d) (ad_location a)\<rparr>"

definition blank_address :: address where
  "blank_address =
     \<lparr>pk = 0, created_at = 0, updated_at = 0, deleted_at = None, ad_user = 0, ad_label = '''',
      ad_kind = SHIPPING, ad_full_name = '''', ad_phone = '''', ad_country = ''UZ'', ad_region = '''',
      ad_city = '''', ad_street = '''', ad_apartment = '''', ad_postal_code = '''', ad_is_default = False,
      ad_location = JObj []\<rparr>"

definition AddressViewSet_create :: "int \<Rightarrow> user \<Rightarrow> address_data \<Rightarrow> accounts \<Rightarrow> refusal + (address \<times> accounts)" where
  "AddressViewSet_create now u d db =
     (if address_errors False d \<noteq> [] then Inl (Invalid (address_errors False d))
      else Inr (address_create now (pk u) (apply_address d blank_address) db))"

definition AddressViewSet_update ::
  "int \<Rightarrow> bool \<Rightarrow> user \<Rightarrow> nat \<Rightarrow> address_data \<Rightarrow> accounts \<Rightarrow> refusal + (address \<times> accounts)" where
  "AddressViewSet_update now partial u k d db =
     (if find (\<lambda>a. pk a = k) (address_queryset (pk u) db) = None then Inl (Crashed Http404)
      else if address_errors partial d \<noteq> [] then Inl (Invalid (address_errors partial d))
      else raised (address_update now (pk u) k (apply_address d) db))"

definition AddressViewSet_make_default :: "user \<Rightarrow> nat \<Rightarrow> accounts \<Rightarrow> refusal + (address \<times> accounts)" where
  "AddressViewSet_make_default u k db = raised (make_default (pk u) k db)"

definition AddressViewSet_destroy :: "int \<Rightarrow> user \<Rightarrow> nat \<Rightarrow> accounts \<Rightarrow> refusal + accounts" where
  "AddressViewSet_destroy now u k db =
     (if find (\<lambda>a. pk a = k) (address_queryset (pk u) db) = None then Inl (Crashed Http404)
      else Inr (db\<lparr>addresses := delete_row now k (addresses db)\<rparr>))"

section \<open>Requests about accounts\<close>

text \<open>
  The requests a customer can make that write an account: by anybody to register, by an existing user
  the others. The parameters of registration are arbitrary at each step.
\<close>

inductive account_step :: "accounts \<Rightarrow> accounts \<Rightarrow> bool" where
  registering: "RegisterView_create email_ok password_ok normal hash now r db = Inr (u, db') \<Longrightarrow> account_step db db'"
| editing: "u \<in> set (users db) \<Longrightarrow> me_update email_ok now partial u d db = Inr (u', db') \<Longrightarrow> account_step db db'"
| adding: "AddressViewSet_create now u a db = Inr (x, db') \<Longrightarrow> account_step db db'"
| changing: "AddressViewSet_update now partial u k a db = Inr (x, db') \<Longrightarrow> account_step db db'"
| choosing: "AddressViewSet_make_default u k db = Inr (x, db') \<Longrightarrow> account_step db db'"
| removing: "AddressViewSet_destroy now u k db = Inr db' \<Longrightarrow> account_step db db'"

inductive account_run :: "accounts \<Rightarrow> accounts \<Rightarrow> bool" where
  nothing: "account_run db db"
| more: "account_run db db' \<Longrightarrow> account_step db' db'' \<Longrightarrow> account_run db db''"

section \<open>Lemmas\<close>

definition same_rights :: "user \<Rightarrow> user \<Rightarrow> bool" where
  "same_rights a b \<longleftrightarrow> pk a = pk b \<and> us_is_staff a = us_is_staff b \<and> us_is_superuser a = us_is_superuser b \<and>
     us_roles a = us_roles b \<and> us_is_active a = us_is_active b \<and> us_password a = us_password b \<and>
     us_email_verified_at a = us_email_verified_at b"

text \<open>A user with the customer role at most.\<close>

definition ordinary :: "accounts \<Rightarrow> user \<Rightarrow> bool" where
  "ordinary db u \<longleftrightarrow> \<not> us_is_staff u \<and> \<not> us_is_superuser u \<and>
     (\<forall>j \<in> set (us_roles u). \<exists>c \<in> set (roles db). pk c = j \<and> ro_code c = ''customer'')"

definition gains_nothing :: "accounts \<Rightarrow> accounts \<Rightarrow> bool" where
  "gains_nothing db db' \<longleftrightarrow> roles db' = roles db \<and>
     (\<forall>u' \<in> set (users db'). (\<exists>u \<in> set (users db). same_rights u u') \<or> pk u' \<notin> pk ` set (users db) \<and> ordinary db u')"

definition book_ok :: "accounts \<Rightarrow> bool" where
  "book_ok db \<longleftrightarrow> accounts_ok db \<and> column_unique us_email (users db)"

lemma same_rights_refl [simp]: "same_rights u u"
  by (simp add: same_rights_def)

lemma gains_nothing_same: "roles db' = roles db \<Longrightarrow> users db' = users db \<Longrightarrow> gains_nothing db db'"
  by (auto simp: gains_nothing_def intro: same_rights_refl)

lemma gains_nothing_trans:
  assumes "gains_nothing a b" "gains_nothing b c" "pk ` set (users a) \<subseteq> pk ` set (users b)"
  shows "gains_nothing a c"
  unfolding gains_nothing_def
proof (intro conjI ballI)
  fix w assume "w \<in> set (users c)"
  with assms(2) consider v where "v \<in> set (users b)" "same_rights v w" | "pk w \<notin> pk ` set (users b)" "ordinary b w"
    unfolding gains_nothing_def by blast
  then show "(\<exists>u \<in> set (users a). same_rights u w) \<or> pk w \<notin> pk ` set (users a) \<and> ordinary a w"
  proof cases
    case 1
    then have w: "pk w = pk v" "us_is_staff w = us_is_staff v" "us_is_superuser w = us_is_superuser v" "us_roles w = us_roles v"
      by (simp_all add: same_rights_def)
    from assms(1) 1(1) consider u where "u \<in> set (users a)" "same_rights u v" | "pk v \<notin> pk ` set (users a)" "ordinary a v"
      unfolding gains_nothing_def by blast
    then show ?thesis
    proof cases
      case 1
      with \<open>same_rights v w\<close> have "same_rights u w" by (simp add: same_rights_def)
      with 1(1) show ?thesis by blast
    qed (use w in \<open>simp add: ordinary_def\<close>)
  next
    case 2
    with assms(1,3) show ?thesis by (auto simp: ordinary_def gains_nothing_def)
  qed
qed (use assms in \<open>simp add: gains_nothing_def\<close>)

text \<open>What a successful registration leaves alone, and the roles of the user it makes.\<close>

lemma register_row:
  assumes "accounts_ok db"
    and "RegisterSerializer_create normal hash now email password fn ln phone db = Inr (u, db')"
  shows "roles db' = roles db" "addresses db' = addresses db" "ordinary db u" "pk u = fresh_pk (users db)"
    "us_email u = normal email"
proof -
  let ?extra = "\<lparr>ex_first_name = fn, ex_last_name = ln, ex_phone = phone, ex_is_staff = None,
                ex_is_superuser = None, ex_is_active = None\<rparr>"
  from assms(2) obtain u0 db0 where
    made: "create_user normal hash now email (Some password) ?extra db = Inr (u0, db0)"
    and rest: "(case get_one ''Role'' (\<lambda>r. ro_code r = ''customer'') (roles db0) of
           Inr customer \<Rightarrow>
             let u' = u0\<lparr>us_roles := us_roles u0 @ [pk customer]\<rparr> in
             Inr (u', db0\<lparr>users := save_row (pk u0) (\<lambda>r. r\<lparr>us_roles := us_roles u'\<rparr>) (users db0)\<rparr>)
         | Inl (DoesNotExist _) \<Rightarrow> Inr (u0, db0)
         | Inl e \<Rightarrow> Inl e) = Inr (u, db')"
    by (auto simp: RegisterSerializer_create_def bindE_Inr_iff)
  from create_user_Inr [OF made assms(1)] have u0: "roles db0 = roles db" "addresses db0 = addresses db"
    "pk u0 = fresh_pk (users db)" "us_roles u0 = []" "\<not> us_is_staff u0" "\<not> us_is_superuser u0" "us_email u0 = normal email"
    by auto
  have "roles db' = roles db \<and> addresses db' = addresses db \<and> ordinary db u \<and> pk u = fresh_pk (users db) \<and>
      us_email u = normal email"
  proof (cases "get_one ''Role'' (\<lambda>r. ro_code r = ''customer'') (roles db0)")
    case (Inr c)
    then have "c \<in> set (roles db)" "ro_code c = ''customer''" using u0(1) by (auto dest: get_one_Inr)
    then show ?thesis using rest Inr u0 by (auto simp: Let_def ordinary_def)
  next
    case (Inl e)
    then show ?thesis using rest u0 by (auto simp: ordinary_def split: py_error.splits)
  qed
  then show "roles db' = roles db" "addresses db' = addresses db" "ordinary db u" "pk u = fresh_pk (users db)"
    "us_email u = normal email" by simp_all
qed

lemma apply_user_columns [simp]:
  "pk (apply_user d u) = pk u" "deleted_at (apply_user d u) = deleted_at u"
  "us_email (apply_user d u) = given_or (map_option strip (ud_email d)) (us_email u)"
  "us_is_staff (apply_user d u) = us_is_staff u" "us_is_superuser (apply_user d u) = us_is_superuser u"
  "us_roles (apply_user d u) = us_roles u" "us_is_active (apply_user d u) = us_is_active u"
  "us_password (apply_user d u) = us_password u" "us_email_verified_at (apply_user d u) = us_email_verified_at u"
  by (simp_all add: apply_user_def)

lemma me_update_Inr:
  assumes "me_update email_ok now partial u d db = Inr (u', db')" "u \<in> set (users db)"
  shows "u' = (apply_user d u)\<lparr>updated_at := now\<rparr>" "db' = db\<lparr>users := save_row (pk u) (\<lambda>_. u') (users db)\<rparr>"
    "\<not> taken us_email (apply_user d u) (users db)" "me_errors email_ok partial (pk u) d db = []"
  using assms by (auto simp: me_update_def Let_def write_row_def split: if_splits)

lemma save_const_row:
  assumes "pk r = k" "k \<in> pk ` set tbl"
  shows "set (save_row k (\<lambda>_. r) tbl) = insert r {x \<in> set tbl. pk x \<noteq> k}"
  using assms unfolding save_row_def set_update_where by auto

lemma registering_step:
  assumes "book_ok db" "RegisterView_create email_ok password_ok normal hash now r db = Inr (u, db')"
  shows "gains_nothing db db' \<and> book_ok db' \<and> pk ` set (users db) \<subseteq> pk ` set (users db')"
proof -
  have ok: "accounts_ok db" "column_unique us_email (users db)" using assms(1) by (simp_all add: book_ok_def)
  obtain email pw fn ln ph where run: "RegisterSerializer_create normal hash now email pw fn ln ph db = Inr (u, db')"
    using assms(2) by (auto simp: RegisterView_create_def result_simps split: if_splits)
  note row = register_row [OF ok(1) run]
  from registration_grants_nothing [OF ok(1) run] obtain w where
    new: "users db' = users db @ [u]" "wishlists db' = wishlists db @ [w]" "wl_user w = pk u" by blast
  have "us_email u \<notin> us_email ` set (users db)"
    using register_exact [OF ok(1), where email_ok = email_ok and password_ok = password_ok and normalize_email = normal
        and hash = hash and now = now and d = r] unfolding assms(2) sum.case prod.case by blast
  with column_unique_append [OF ok(2)] have "column_unique us_email (users db')" by (simp add: new(1))
  moreover have "accounts_ok db'"
    using ok(1) row(1,4) distinct_pks_append_fresh [of "users db" u] new by (auto simp: accounts_ok_def)
  moreover have "pk u \<notin> pk ` set (users db)" using row(4) by simp
  with row(1,3) have "gains_nothing db db'" by (auto simp: gains_nothing_def new(1) intro: same_rights_refl)
  ultimately show ?thesis by (auto simp: book_ok_def new(1))
qed

lemma editing_step:
  assumes "book_ok db" "u \<in> set (users db)" "me_update email_ok now partial u d db = Inr (u', db')"
  shows "gains_nothing db db' \<and> book_ok db' \<and> pk ` set (users db) \<subseteq> pk ` set (users db')"
proof -
  note up = me_update_Inr [OF assms(3,2)]
  have k: "pk u \<in> pk ` set (users db)" using assms(2) by simp
  have rows: "set (users db') = insert u' {x \<in> set (users db). pk x \<noteq> pk u}"
    using save_const_row [of u' "pk u" "users db"] k by (simp add: up(1,2))
  have "pk u' = pk u" by (simp add: up(1))
  then have "map pk (save_row (pk u) (\<lambda>_. u') (users db)) = map pk (users db)" by (intro map_pk_save_row_eq)
  then have pks: "map pk (users db') = map pk (users db)" by (simp add: up(2))
  then have keys: "pk ` set (users db') = pk ` set (users db)" by (metis list.set_map)
  have "users db' = write_row now (apply_user d u) (users db)" using k by (simp add: up(1,2) write_row_def)
  with column_unique_write_row [OF _ up(3), where now = now] assms(1) have "column_unique us_email (users db')"
    by (simp add: book_ok_def)
  with assms(1) pks keys have "book_ok db'" by (simp add: book_ok_def accounts_ok_def distinct_pks_def up(2))
  moreover have "same_rights u u'" by (simp add: same_rights_def up(1))
  with assms(2) rows have "gains_nothing db db'"
    by (auto simp: gains_nothing_def up(2) intro: same_rights_refl)
  ultimately show ?thesis using keys by simp
qed

lemma address_step:
  assumes "book_ok db" "db' = db\<lparr>addresses := tbl\<rparr>"
  shows "gains_nothing db db' \<and> book_ok db' \<and> pk ` set (users db) \<subseteq> pk ` set (users db')"
  using assms gains_nothing_same [of db' db] by (simp add: book_ok_def accounts_ok_def)

lemma address_writes:
  "AddressViewSet_create now u a db = Inr (x, db') \<Longrightarrow> \<exists>tbl. db' = db\<lparr>addresses := tbl\<rparr>"
  "AddressViewSet_update now partial u k a db = Inr (x, db') \<Longrightarrow> \<exists>tbl. db' = db\<lparr>addresses := tbl\<rparr>"
  "AddressViewSet_make_default u k db = Inr (x, db') \<Longrightarrow> \<exists>tbl. db' = db\<lparr>addresses := tbl\<rparr>"
  "AddressViewSet_destroy now u k db = Inr db' \<Longrightarrow> \<exists>tbl. db' = db\<lparr>addresses := tbl\<rparr>"
  by (auto simp: AddressViewSet_create_def address_create_def AddressViewSet_update_def address_update_def
      AddressViewSet_make_default_def make_default_def AddressViewSet_destroy_def Let_def result_simps
      split: if_splits option.splits)

lemma account_step_keeps:
  assumes "account_step db db'" "book_ok db"
  shows "gains_nothing db db' \<and> book_ok db' \<and> pk ` set (users db) \<subseteq> pk ` set (users db')"
  using assms(1)
proof cases
  case registering
  from registering_step [OF assms(2) this] show ?thesis .
next
  case editing
  from editing_step [OF assms(2) this] show ?thesis .
next
  case adding
  from address_writes(1) [OF this] address_step [OF assms(2)] show ?thesis by blast
next
  case changing
  from address_writes(2) [OF this] address_step [OF assms(2)] show ?thesis by blast
next
  case choosing
  from address_writes(3) [OF this] address_step [OF assms(2)] show ?thesis by blast
next
  case removing
  from address_writes(4) [OF this] address_step [OF assms(2)] show ?thesis by blast
qed

lemma account_run_keeps:
  assumes "account_run db db'" "book_ok db"
  shows "gains_nothing db db' \<and> book_ok db' \<and> pk ` set (users db) \<subseteq> pk ` set (users db')"
  using assms
proof (induction rule: account_run.induct)
  case (nothing db)
  then show ?case using gains_nothing_same by simp
next
  case (more db db' db'')
  from more.IH [OF more.prems] have a: "gains_nothing db db'" "book_ok db'" "pk ` set (users db) \<subseteq> pk ` set (users db')"
    by blast+
  from account_step_keeps [OF more.hyps(2) a(2)] have "gains_nothing db' db''" "book_ok db''"
    "pk ` set (users db') \<subseteq> pk ` set (users db'')" by blast+
  with gains_nothing_trans [OF a(1) _ a(3)] a(3) show ?case by blast
qed

text \<open>Roles of an ordinary user, as the permission classes read them.\<close>

lemma ordinary_HasRole:
  assumes "ordinary db u" "distinct_pks (roles db)" "''customer'' \<notin> set rs"
  shows "\<not> HasRole rs (Some u) db"
proof -
  have "ro_code r = ''customer''" if "r \<in> set (roles_of u db)" for r
  proof -
    from that have r: "r \<in> set (roles db)" "pk r \<in> set (us_roles u)" by (auto simp: roles_of_def)
    then obtain c where "c \<in> set (roles db)" "pk c = pk r" "ro_code c = ''customer''"
      using assms(1) unfolding ordinary_def by blast
    with r(1) assms(2) show ?thesis using find_pk_in by (metis option.inject)
  qed
  with assms(1,3) show ?thesis by (auto simp: HasRole_def ordinary_def list_ex_iff)
qed

text \<open>Writes to the rows of one user, seen from the rows of the others.\<close>

lemma filter_update_where_other:
  assumes "\<And>x. x \<in> set tbl \<Longrightarrow> p x \<Longrightarrow> \<not> Q x \<and> \<not> Q (f x)"
  shows "filter Q (update_where p f tbl) = filter Q tbl"
  using assms by (induction tbl) auto

lemma clear_defaults_others:
  "filter (\<lambda>y. ad_user y \<noteq> u) (clear_defaults u kind e tbl) = filter (\<lambda>y. ad_user y \<noteq> u) tbl"
  unfolding clear_defaults_def by (rule filter_update_where_other) simp

lemma not_in_queryset:
  assumes "distinct_pks (addresses db)" "b \<in> set (addresses db)" "ad_user b \<noteq> u"
  shows "find (\<lambda>a. pk a = pk b) (address_queryset u db) = None"
proof (rule ccontr)
  assume "\<not> ?thesis"
  then obtain a where "find (\<lambda>a. pk a = pk b) (address_queryset u db) = Some a" by auto
  note a = address_in_queryset [OF this]
  with assms(1,2) have "a = b" using find_pk_in by (metis option.inject)
  with a(3) assms(3) show False by simp
qed

lemma owned_by_pk:
  assumes "find (\<lambda>a. pk a = k) (address_queryset u db) = Some a" "distinct_pks (addresses db)" "x \<in> set (addresses db)" "pk x = k"
  shows "ad_user x = u"
  using address_in_queryset [OF assms(1)] assms(2-4) find_pk_in by (metis option.inject)

lemma create_keeps_others:
  assumes "AddressViewSet_create now u a db = Inr (x, db')"
  shows "filter (\<lambda>y. ad_user y \<noteq> pk u) (addresses db') = filter (\<lambda>y. ad_user y \<noteq> pk u) (addresses db)"
  using assms by (auto simp: AddressViewSet_create_def address_create_def Let_def clear_defaults_others split: if_splits)

lemma update_keeps_others:
  assumes "distinct_pks (addresses db)" "AddressViewSet_update now partial u k a db = Inr (x, db')"
  shows "filter (\<lambda>y. ad_user y \<noteq> pk u) (addresses db') = filter (\<lambda>y. ad_user y \<noteq> pk u) (addresses db)"
proof -
  obtain y where y: "find (\<lambda>a. pk a = k) (address_queryset (pk u) db) = Some y"
    using assms(2) by (auto simp: AddressViewSet_update_def split: if_splits)
  note m = address_in_queryset [OF y]
  obtain r where "addresses db' = save_row k (\<lambda>_. r) (addresses db)" "ad_user r = pk u"
    using assms(2) m(3,4) by (auto simp: AddressViewSet_update_def address_update_def y Let_def result_simps split: if_splits)
  with owned_by_pk [OF y assms(1)] show ?thesis by (simp add: save_row_def filter_update_where_other)
qed

lemma make_default_keeps_others:
  assumes "distinct_pks (addresses db)" "AddressViewSet_make_default u k db = Inr (x, db')"
  shows "filter (\<lambda>y. ad_user y \<noteq> pk u) (addresses db') = filter (\<lambda>y. ad_user y \<noteq> pk u) (addresses db)"
proof -
  obtain y where y: "find (\<lambda>a. pk a = k) (address_queryset (pk u) db) = Some y"
    using assms(2) by (auto simp: AddressViewSet_make_default_def make_default_def result_simps split: option.splits)
  note m = address_in_queryset [OF y]
  have f: "filter (\<lambda>z. ad_user z \<noteq> pk u) tbl =
      filter (\<lambda>z. ad_user z \<noteq> pk u) (filter (\<lambda>z. ad_user z \<noteq> ad_user y \<or> ad_kind z \<noteq> ad_kind y) tbl)" for tbl
    using m(3) by (simp only: filter_filter) (intro filter_cong, auto)
  have "addresses db' = map (defaulted y) (addresses db)"
    using assms(2) make_default_Inr [OF y] by (auto simp: AddressViewSet_make_default_def result_simps)
  then have "filter (\<lambda>z. ad_user z \<noteq> ad_user y \<or> ad_kind z \<noteq> ad_kind y) (addresses db') =
      filter (\<lambda>z. ad_user z \<noteq> ad_user y \<or> ad_kind z \<noteq> ad_kind y) (addresses db)"
    using other_addresses_kept [OF assms(1) m(1)] by simp
  then show ?thesis using f [of "addresses db"] f [of "addresses db'"] by simp
qed

lemma destroy_keeps_others:
  assumes "distinct_pks (addresses db)" "AddressViewSet_destroy now u k db = Inr db'"
  shows "filter (\<lambda>y. ad_user y \<noteq> pk u) (addresses db') = filter (\<lambda>y. ad_user y \<noteq> pk u) (addresses db)"
proof -
  obtain y where y: "find (\<lambda>a. pk a = k) (address_queryset (pk u) db) = Some y"
    using assms(2) by (auto simp: AddressViewSet_destroy_def split: if_splits)
  have "addresses db' = delete_row now k (addresses db)"
    using assms(2) by (auto simp: AddressViewSet_destroy_def split: if_splits)
  with owned_by_pk [OF y assms(1)] show ?thesis
    by (simp add: delete_row_def save_row_def filter_update_where_other)
qed

section \<open>Properties\<close>

text \<open>
  C22. Nobody gains a right. However registrations, profile updates and changes of the address book
  follow each other, whoever passes a staff, admin or vendor check afterwards, or carries one of the two
  flags, is a user who passed it or carried it before; nobody's roles, password or activity change; keys and
  e-mails of users stay unique.
\<close>

theorem no_right_is_gained:
  assumes "account_run db db'" "book_ok db" "u' \<in> set (users db')"
  shows "(us_is_staff u' \<or> us_is_superuser u' \<or> IsStaff (Some u') db' \<or> IsAdmin (Some u') db' \<or> IsVendor (Some u') db' \<longrightarrow>
      (\<exists>u \<in> set (users db). pk u = pk u' \<and> us_is_staff u = us_is_staff u' \<and> us_is_superuser u = us_is_superuser u' \<and>
         IsStaff (Some u) db = IsStaff (Some u') db' \<and> IsAdmin (Some u) db = IsAdmin (Some u') db' \<and>
         IsVendor (Some u) db = IsVendor (Some u') db')) \<and>
    (\<forall>u \<in> set (users db). pk u = pk u' \<longrightarrow> same_rights u u') \<and>
    distinct_pks (users db') \<and> column_unique us_email (users db')"
proof -
  from account_run_keeps [OF assms(1,2)] have g: "gains_nothing db db'" "book_ok db'" by blast+
  then have roles: "roles db' = roles db" by (simp add: gains_nothing_def)
  have keys: "distinct_pks (users db)" "distinct_pks (users db')" "distinct_pks (roles db')" "column_unique us_email (users db')"
    using assms(2) g(2) by (simp_all add: book_ok_def accounts_ok_def)
  from g(1) assms(3) consider u where "u \<in> set (users db)" "same_rights u u'"
    | "pk u' \<notin> pk ` set (users db)" "ordinary db u'" unfolding gains_nothing_def by blast
  then show ?thesis
  proof cases
    case 1
    then have same: "pk u = pk u'" "us_is_staff u = us_is_staff u'" "us_is_superuser u = us_is_superuser u'" "us_roles u = us_roles u'"
      by (simp_all add: same_rights_def)
    then have has: "HasRole rs (Some u) db = HasRole rs (Some u') db'" for rs
      by (simp add: HasRole_def roles_of_def roles)
    have "x = u" if "x \<in> set (users db)" "pk x = pk u'" for x
      using find_pk_in [OF keys(1)] that 1(1) same(1) by (metis option.inject)
    with 1(2) have "\<forall>x \<in> set (users db). pk x = pk u' \<longrightarrow> same_rights x u'" by blast
    with 1(1) same keys(2,4) has show ?thesis unfolding IsStaff_def IsAdmin_def IsVendor_def by blast
  next
    case 2
    then have "ordinary db' u'" by (simp add: ordinary_def roles)
    with keys(3) have "\<not> IsStaff (Some u') db'" "\<not> IsAdmin (Some u') db'" "\<not> IsVendor (Some u') db'"
      unfolding IsStaff_def IsAdmin_def IsVendor_def by (intro ordinary_HasRole; simp)+
    moreover have "\<forall>x \<in> set (users db). pk x \<noteq> pk u'" using 2(1) by (metis imageI)
    ultimately show ?thesis using 2(2) keys(2,4) unfolding ordinary_def by blast
  qed
qed

definition root_user :: user where
  "root_user = \<lparr>pk = 1, created_at = 0, updated_at = 0, deleted_at = None, us_email = ''root@b.co'',
     us_password = ''hash'', us_first_name = '''', us_last_name = '''', us_phone = '''', us_is_active = True,
     us_is_staff = True, us_is_superuser = False, us_email_verified_at = Some 1, us_phone_verified_at = None,
     us_last_login_ip = None, us_roles = [2]\<rparr>"

definition staffed_accounts :: accounts where
  "staffed_accounts = seeded_accounts\<lparr>users := [root_user], addresses := [demo_address 1 True]\<rparr>"

definition renamed :: user_data where
  "renamed = \<lparr>ud_email = Some ''boss@b.co'', ud_first_name = None, ud_last_name = None, ud_phone = None\<rparr>"

theorem no_right_is_gained_witness:
  "\<exists>u db1 u' db2. RegisterView_create (\<lambda>_. True) (\<lambda>_. True) lower (\<lambda>_. ''hash'') 5 (demo_registration ''a@b.co'') staffed_accounts =
       Inr (u, db1) \<and> me_update (\<lambda>_. True) 6 True root_user renamed db1 = Inr (u', db2) \<and>
     u \<in> set (users db2) \<and> \<not> IsAdmin (Some u) db2 \<and> \<not> us_is_staff u \<and>
     (\<forall>x \<in> set (users db2). pk x = 1 \<longrightarrow> us_is_staff x)"
proof -
  have "case RegisterView_create (\<lambda>_. True) (\<lambda>_. True) lower (\<lambda>_. ''hash'') 5 (demo_registration ''a@b.co'') staffed_accounts of
      Inl _ \<Rightarrow> False | Inr (u, db1) \<Rightarrow> root_user \<in> set (users db1) \<and> pk u = 2 \<and>
        (case me_update (\<lambda>_. True) 6 True root_user renamed db1 of Inl _ \<Rightarrow> False | Inr (u', db2) \<Rightarrow> u \<in> set (users db2))"
    by code_simp
  then obtain u db1 where r: "RegisterView_create (\<lambda>_. True) (\<lambda>_. True) lower (\<lambda>_. ''hash'') 5
      (demo_registration ''a@b.co'') staffed_accounts = Inr (u, db1)" "root_user \<in> set (users db1)" "pk u = 2"
    and "case me_update (\<lambda>_. True) 6 True root_user renamed db1 of Inl _ \<Rightarrow> False | Inr (u', db2) \<Rightarrow> u \<in> set (users db2)"
    by (cases "RegisterView_create (\<lambda>_. True) (\<lambda>_. True) lower (\<lambda>_. ''hash'') 5 (demo_registration ''a@b.co'') staffed_accounts")
       auto
  then obtain u' db2 where e: "me_update (\<lambda>_. True) 6 True root_user renamed db1 = Inr (u', db2)" "u \<in> set (users db2)"
    by (cases "me_update (\<lambda>_. True) 6 True root_user renamed db1") auto
  have run: "account_run staffed_accounts db2"
    using account_run.more [OF account_run.more [OF account_run.nothing registering [OF r(1)]] editing [OF r(2) e(1)]] .
  have ok: "book_ok staffed_accounts"
    by (simp add: book_ok_def accounts_ok_def staffed_accounts_def seeded_accounts_def root_user_def distinct_pks_def
        column_unique_def)
  have us: "users staffed_accounts = [root_user]" "pk root_user = 1" "us_is_staff root_user"
    by (simp_all add: staffed_accounts_def root_user_def)
  have "us_is_staff x" if "x \<in> set (users db2)" "pk x = 1" for x
    using no_right_is_gained [OF run ok that(1)] that(2) us by (simp add: same_rights_def)
  moreover have "\<not> IsAdmin (Some u) db2" "\<not> us_is_staff u"
    using no_right_is_gained [OF run ok e(2)] r(3) us by auto
  ultimately show ?thesis using r(1) e by blast
qed

text \<open>
  A profile update, completely: a body with errors is answered with exactly the wrong fields, any other
  succeeds, changes the user's own row only and none of the rights. An e-mail that is verified stays so
  when it is replaced.
\<close>

theorem profile_update_exact:
  assumes "column_unique us_email (users db)" "u \<in> set (users db)"
  shows "case me_update email_ok now partial u d db of
      Inl (Invalid fs) \<Rightarrow> fs \<noteq> [] \<and> fs = me_errors email_ok partial (pk u) d db
    | Inl (Crashed e) \<Rightarrow> False
    | Inr (u', db') \<Rightarrow> me_errors email_ok partial (pk u) d db = [] \<and> same_rights u u' \<and>
        us_email u' = given_or (map_option strip (ud_email d)) (us_email u) \<and>
        db' = db\<lparr>users := users db'\<rparr> \<and> set (users db') = insert u' {x \<in> set (users db). pk x \<noteq> pk u}"
proof (cases "me_errors email_ok partial (pk u) d db = []")
  case True
  have free: "\<not> taken us_email (apply_user d u) (users db)"
  proof (cases "ud_email d")
    case None
    with assms show ?thesis unfolding taken_def column_unique_def apply_user_columns by (metis given_or_simps(1) option.map(1))
  next
    case (Some s)
    with True show ?thesis by (auto simp: me_errors_def wrong_nil taken_def)
  qed
  let ?u = "(apply_user d u)\<lparr>updated_at := now\<rparr>"
  have k: "pk u \<in> pk ` set (users db)" using assms(2) by simp
  have run: "me_update email_ok now partial u d db = Inr (?u, db\<lparr>users := save_row (pk u) (\<lambda>_. ?u) (users db)\<rparr>)"
    using True free k by (simp add: me_update_def Let_def write_row_def)
  show ?thesis using True save_const_row [of ?u "pk u" "users db"] k by (simp add: run same_rights_def)
qed (simp add: me_update_def)

text \<open>
  C23. The address book is private. Whatever a user does to addresses leaves every address of another user and
  everything else of the accounts as it was, and a user who names another's address is told it does not exist.
\<close>

theorem address_book_private:
  assumes "distinct_pks (addresses db)"
    and "AddressViewSet_create now u a db = Inr (x, db') \<or> AddressViewSet_update now partial u k a db = Inr (x, db') \<or>
      AddressViewSet_make_default u k db = Inr (x, db') \<or> AddressViewSet_destroy now u k db = Inr db'"
    and "b \<in> set (addresses db)" "ad_user b \<noteq> pk u"
  shows "filter (\<lambda>y. ad_user y \<noteq> pk u) (addresses db') = filter (\<lambda>y. ad_user y \<noteq> pk u) (addresses db) \<and>
    users db' = users db \<and> roles db' = roles db \<and> wishlists db' = wishlists db \<and>
    AddressViewSet_update now partial u (pk b) a db = Inl (Crashed Http404) \<and>
    AddressViewSet_make_default u (pk b) db = Inl (Crashed Http404) \<and>
    AddressViewSet_destroy now u (pk b) db = Inl (Crashed Http404)"
proof -
  have "\<exists>tbl. db' = db\<lparr>addresses := tbl\<rparr>" using assms(2) by (elim disjE) (erule address_writes)+
  moreover have "filter (\<lambda>y. ad_user y \<noteq> pk u) (addresses db') = filter (\<lambda>y. ad_user y \<noteq> pk u) (addresses db)"
    using assms(2)
    by (elim disjE) (erule create_keeps_others update_keeps_others [OF assms(1)]
      make_default_keeps_others [OF assms(1)] destroy_keeps_others [OF assms(1)])+
  moreover have "make_default (pk u) (pk b) db = Inl Http404"
    using not_in_queryset [OF assms(1,3,4)] by (simp add: make_default_def)
  ultimately show ?thesis using not_in_queryset [OF assms(1,3,4)]
    by (auto simp: AddressViewSet_update_def AddressViewSet_make_default_def AddressViewSet_destroy_def raised_def)
qed

definition only_default_flag :: address_data where
  "only_default_flag = \<lparr>dd_label = None, dd_kind = None, dd_full_name = None, dd_phone = None, dd_country = None,
     dd_region = None, dd_city = None, dd_street = None, dd_apartment = None, dd_postal_code = None,
     dd_is_default = Some False, dd_location = None\<rparr>"

theorem address_book_private_witness:
  "\<exists>x db'. AddressViewSet_update 9 True (root_user\<lparr>pk := 7\<rparr>) 2 only_default_flag (two_addresses\<lparr>addresses :=
       [demo_address 1 True, demo_address 2 True, (demo_address 3 True)\<lparr>ad_user := 8\<rparr>]\<rparr>) = Inr (x, db') \<and>
     filter (\<lambda>y. ad_user y \<noteq> 7) (addresses db') = [(demo_address 3 True)\<lparr>ad_user := 8\<rparr>]"
proof -
  let ?b = "(demo_address 3 True)\<lparr>ad_user := 8\<rparr>" and ?u = "root_user\<lparr>pk := 7\<rparr>"
  let ?db = "two_addresses\<lparr>addresses := [demo_address 1 True, demo_address 2 True, ?b]\<rparr>"
  have "is_ok (AddressViewSet_update 9 True ?u 2 only_default_flag ?db)" by code_simp
  then obtain x db' where r: "AddressViewSet_update 9 True ?u 2 only_default_flag ?db = Inr (x, db')"
    by (auto simp: is_ok_iff)
  have s: "distinct_pks (addresses ?db)" "?b \<in> set (addresses ?db)" "ad_user ?b \<noteq> pk ?u"
    by (simp_all add: distinct_pks_def demo_address_def)
  have "filter (\<lambda>y. ad_user y \<noteq> pk ?u) (addresses db') = filter (\<lambda>y. ad_user y \<noteq> pk ?u) (addresses ?db)"
    using address_book_private [where now = 9 and u = ?u and partial = True and k = 2 and a = only_default_flag and x = x,
        OF s(1) _ s(2,3)] r by blast
  with r show ?thesis by (simp add: demo_address_def)
qed

end
