(* ===== verification/Framework.thy ===== *)
theory Framework
  imports Access Backoffice Processes
begin

text \<open>
  What the code tells the frameworks beside its own work: the rest of \<open>settings/base.py\<close> with Django's
  start-up checks of the admin against it, the documentation routes and the probe of \<open>novacommerce/urls.py\<close>,
  the texts of the models (\<open>__str__\<close>) that the admin shows, and the FastAPI application object of
  \<open>main.py\<close>.
\<close>

section \<open>Constants of \<open>settings/base.py\<close>\<close>

record framework_settings =
  default_auto_field :: string
  root_urlconf :: string
  wsgi_application :: string
  asgi_application :: string
  auth_user_model :: string
  language_code :: string
  use_i18n :: bool
  use_tz :: bool

definition framework :: framework_settings where
  "framework =
     \<lparr>default_auto_field = ''django.db.models.BigAutoField'', root_urlconf = ''novacommerce.urls'',
      wsgi_application = ''novacommerce.wsgi.application'', asgi_application = ''novacommerce.asgi.application'',
      auth_user_model = ''users.User'', language_code = ''en-us'', use_i18n = True, use_tz = True\<rparr>"

record session_settings =
  redis_ignore_exceptions :: bool
  redis_log_ignored_exceptions :: bool
  session_engine :: string
  session_cache_alias :: string

definition sessions :: session_settings where
  "sessions =
     \<lparr>redis_ignore_exceptions = True, redis_log_ignored_exceptions = True,
      session_engine = ''django.contrib.sessions.backends.cache'', session_cache_alias = ''default''\<rparr>"

definition SECURE_PROXY_SSL_HEADER :: "string \<times> string" where
  "SECURE_PROXY_SSL_HEADER = (''HTTP_X_FORWARDED_PROTO'', ''https'')"

record file_settings =
  static_url :: string
  static_root :: string
  staticfiles_dirs :: "string list"
  media_url :: string
  media_root :: string

definition served_files :: "string \<Rightarrow> environ \<Rightarrow> file_settings" where
  "served_files base_dir e =
     \<lparr>static_url = ''/static/'', static_root = STATIC_ROOT base_dir e, staticfiles_dirs = [],
      media_url = ''/media/'', media_root = MEDIA_ROOT base_dir e\<rparr>"

text \<open>The scheme \<open>environ.Env(...)\<close>: the type and the default of a variable read without a default of its own.\<close>

datatype env_default = BoolDefault bool | IntDefault int | ListDefault "string list"

definition env_scheme :: "(string \<times> env_default) list" where
  "env_scheme =
     [(''DEBUG'', BoolDefault False), (''ALLOWED_HOSTS'', ListDefault [''localhost'', ''127.0.0.1'']),
      (''CORS_ALLOWED_ORIGINS'', ListDefault []), (''JWT_ACCESS_TTL_MINUTES'', IntDefault 15),
      (''JWT_REFRESH_TTL_DAYS'', IntDefault 14), (''CELERY_TASK_ALWAYS_EAGER'', BoolDefault False),
      (''EMAIL_USE_TLS'', BoolDefault False), (''EMAIL_PORT'', IntDefault 25)]"

text \<open>\<open>env_file\<close>: a \<open>.env\<close> file, where there is one, sets what the process environment leaves unset.\<close>

definition read_env :: "env option \<Rightarrow> env \<Rightarrow> env" where
  "read_env file process = (case file of None \<Rightarrow> process | Some f \<Rightarrow> (\<lambda>k. case process k of None \<Rightarrow> f k | Some v \<Rightarrow> Some v))"

record template_engine =
  te_backend :: string
  te_dirs :: "string list"
  te_app_dirs :: bool
  te_context_processors :: "string list"

definition TEMPLATES :: "string \<Rightarrow> template_engine list" where
  "TEMPLATES app_dir =
     [\<lparr>te_backend = ''django.template.backends.django.DjangoTemplates'', te_dirs = [app_dir @ ''/templates''],
       te_app_dirs = True,
       te_context_processors =
         [''django.template.context_processors.debug'', ''django.template.context_processors.request'',
          ''django.contrib.auth.context_processors.auth'',
          ''django.contrib.messages.context_processors.messages'']\<rparr>]"

record spectacular_settings =
  sp_title :: string
  sp_description :: string
  sp_version :: string
  sp_serve_include_schema :: bool
  sp_component_split_request :: bool
  sp_schema_path_prefix :: string

definition SPECTACULAR_SETTINGS :: spectacular_settings where
  "SPECTACULAR_SETTINGS =
     \<lparr>sp_title = ''NovaCommerce Core API'',
      sp_description = ''Production-grade e-commerce backend (Django + FastAPI hybrid)'',
      sp_version = ''1.0.0'', sp_serve_include_schema = False, sp_component_split_request = True,
      sp_schema_path_prefix = ''/api/admin/''\<rparr>"

text \<open>
  Django's checks of what the admin needs (\<open>check_dependencies\<close>): its companion applications, a
  template engine with three context processors, three middleware classes in the installed set, and the user
  model among the models. The result is the codes of the failing checks.
\<close>

definition missing :: "string \<Rightarrow> 'a \<Rightarrow> 'a list \<Rightarrow> string list" where
  "missing code x xs = (if x \<in> set xs then [] else [code])"

definition admin_dependencies :: "django_settings \<Rightarrow> template_engine list \<Rightarrow> string list" where
  "admin_dependencies s engines =
     (let apps = ds_installed_apps s; mw = ds_middleware s in
      missing ''admin.E401'' ''django.contrib.contenttypes'' apps @
      missing ''admin.E405'' ''django.contrib.auth'' apps @
      missing ''admin.E406'' ''django.contrib.messages'' apps @
      (case filter (\<lambda>t. te_backend t = ''django.template.backends.django.DjangoTemplates'') engines of
         [] \<Rightarrow> [''admin.E403'']
       | t # _ \<Rightarrow>
           missing ''admin.E402'' ''django.contrib.auth.context_processors.auth'' (te_context_processors t) @
           missing ''admin.E404'' ''django.contrib.messages.context_processors.messages'' (te_context_processors t) @
           missing ''admin.W411'' ''django.template.context_processors.request'' (te_context_processors t)) @
      missing ''admin.E408'' ''django.contrib.auth.middleware.AuthenticationMiddleware'' mw @
      missing ''admin.E409'' ''django.contrib.messages.middleware.MessageMiddleware'' mw @
      missing ''admin.E410'' ''django.contrib.sessions.middleware.SessionMiddleware'' mw)"

section \<open>\<open>novacommerce/urls.py\<close>\<close>

definition healthz_response :: response where
  "healthz_response = Response 200 (JObj [(''status'', JStr ''ok''), (''service'', JStr ''django'')])"

datatype root_target = AdminSite | Probe | ApiViews urls | SchemaView | SwaggerView | RedocView | DebugToolbar

text \<open>
  The whole table. The toolbar is mounted in debug mode where its package is installed; the schema and
  the two documentation pages are mounted in every mode.
\<close>

definition root_urls :: "rest_framework \<Rightarrow> drf \<Rightarrow> bool \<Rightarrow> bool \<Rightarrow> (string \<times> root_target) list" where
  "root_urls rf d debug toolbar_installed =
     [(''healthz'', Probe), (''admin/'', AdminSite), ('''', ApiViews (urlpatterns rf d)),
      (''api/schema/'', SchemaView), (''api/docs/'', SwaggerView), (''api/redoc/'', RedocView)] @
     (if debug \<and> toolbar_installed then [(''__debug__/'', DebugToolbar)] else [])"

section \<open>Texts of the models\<close>

definition attribute_option_str :: "attribute_def list \<Rightarrow> attribute_option \<Rightarrow> py_error + string" where
  "attribute_option_str tbl x =
     (case find_pk (ao_attribute x) tbl of None \<Rightarrow> Inl (DoesNotExist ''Attribute'')
      | Some a \<Rightarrow> Inr (at_code a @ ''='' @ ao_value x))"

definition variant_str :: "catalog \<Rightarrow> product_variant \<Rightarrow> py_error + string" where
  "variant_str cat v =
     (case find_product (pv_product v) cat of None \<Rightarrow> Inl (DoesNotExist ''Product'')
      | Some p \<Rightarrow> Inr (pr_name p @ '' :: '' @ pv_sku v))"

definition address_str :: "address \<Rightarrow> string" where
  "address_str a = ad_full_name a @ '', '' @ ad_city a"

definition order_item_str :: "order_item \<Rightarrow> string" where
  "order_item_str it = oi_sku it @ '' x '' @ str_int (oi_quantity it)"

definition stock_str :: "catalog \<Rightarrow> inventory \<Rightarrow> stock \<Rightarrow> py_error + string" where
  "stock_str cat db s =
     (case find_variant (st_variant s) cat of None \<Rightarrow> Inl (DoesNotExist ''ProductVariant'')
      | Some v \<Rightarrow>
          (case find_pk (st_warehouse s) (warehouses db) of None \<Rightarrow> Inl (DoesNotExist ''Warehouse'')
           | Some w \<Rightarrow> Inr (pv_sku v @ '' @ '' @ wh_code w @ '': '' @ str_int (on_hand s))))"

definition cart_str :: "user list \<Rightarrow> cart \<Rightarrow> py_error + string" where
  "cart_str tbl c =
     bindE (case ct_user c of None \<Rightarrow> Inr (''anon:'' @ take 8 (ct_session_key c))
            | Some k \<Rightarrow> (case find_pk k tbl of None \<Rightarrow> Inl (DoesNotExist ''User'') | Some u \<Rightarrow> Inr (us_email u)))
       (\<lambda>owner. Inr (''Cart<'' @ owner @ ''>''))"

section \<open>The FastAPI application\<close>

datatype fast_middleware =
    CORSMiddleware "string list" bool "string list" "string list"
  | GZipMiddleware nat

record fast_application =
  fa_title :: string
  fa_version :: string
  fa_description :: string
  fa_default_response :: string
  fa_middleware :: "fast_middleware list"

text \<open>\<open>add_middleware\<close> puts the new class outside those that are there; the list starts with the outermost.\<close>

definition add_middleware :: "fast_middleware \<Rightarrow> fast_application \<Rightarrow> fast_application" where
  "add_middleware x a = a\<lparr>fa_middleware := x # fa_middleware a\<rparr>"

definition fast_app :: "fast_settings \<Rightarrow> fast_application" where
  "fast_app s =
     add_middleware (GZipMiddleware 1024)
       (add_middleware (CORSMiddleware (cors_origins s) True [''*''] [''*''])
         \<lparr>fa_title = ''NovaCommerce Core - FastAPI'', fa_version = ''1.0.0'',
          fa_description = ''High-speed public APIs for the NovaCommerce platform.'',
          fa_default_response = ''ORJSONResponse'', fa_middleware = []\<rparr>)"

section \<open>Lemmas\<close>

text \<open>What the admin needs is there in all the settings modules.\<close>

theorem admin_dependencies_met:
  assumes "base_settings e = Inr s \<or> dev_settings e = Inr s \<or> prod_settings e = Inr s"
  shows "admin_dependencies s (TEMPLATES dir) = [] \<and> map_of declared ''users.user'' \<noteq> None \<and>
    lower (auth_user_model framework) = ''users.user''"
proof -
  have "set DJANGO_APPS \<subseteq> set (ds_installed_apps s)" "set MIDDLEWARE \<subseteq> set (ds_middleware s)"
    using assms
    by (auto simp: dev_settings_def prod_settings_def base_settings_def INSTALLED_APPS_def result_simps Let_def)
  then have "admin_dependencies s (TEMPLATES dir) = []"
    by (auto simp: admin_dependencies_def TEMPLATES_def missing_def DJANGO_APPS_def MIDDLEWARE_def)
  moreover have "lower (auth_user_model framework) = ''users.user''"
    by code_simp
  ultimately show ?thesis using declared_lookup by simp
qed

text \<open>The documentation is served in every mode, the toolbar in debug mode only.\<close>

lemma docs_always_mounted:
  "{SchemaView, SwaggerView, RedocView} \<subseteq> snd ` set (root_urls rf d debug installed)"
  "DebugToolbar \<in> snd ` set (root_urls rf d debug installed) \<longleftrightarrow> debug \<and> installed"
  by (auto simp: root_urls_def)

text \<open>The scheme's default of the allowed hosts is not the one a process gets.\<close>

lemma scheme_default_unused:
  "variables e ''ALLOWED_HOSTS'' = None \<Longrightarrow> map_of env_scheme ''ALLOWED_HOSTS'' = Some (ListDefault [''localhost'', ''127.0.0.1'']) \<and>
   ALLOWED_HOSTS e = [''*'']"
  by (simp add: env_scheme_def ALLOWED_HOSTS_def env_list_def)

text \<open>
  Without configured origins every origin is allowed, with credentials.
\<close>

lemma open_cors: "strip (fs_cors_allowed_origins s) = '''' \<Longrightarrow>
    CORSMiddleware [''*''] True [''*''] [''*''] \<in> set (fa_middleware (fast_app s))"
  by (simp add: fast_app_def add_middleware_def cors_origins_def)

end
