(* ===== verification/Staff_Writes.thy ===== *)
theory Staff_Writes
  imports Requests
begin

text \<open>
  What the staff API writes outside the catalogue: create, update and destroy of \<open>CouponViewSet\<close>
  (\<open>coupons/views.py\<close>) and \<open>WarehouseViewSet\<close> (\<open>inventory/views.py\<close>) through their serializers, with
  the checks DRF derives from the fields, and what these writes mean for checkouts and for the ledger.
\<close>

section \<open>Coupons\<close>

record coupon_data =
  cpd_code :: "string option"
  cpd_name :: "string option"
  cpd_kind :: "string option"
  cpd_value :: "int option"
  cpd_min_subtotal :: "int option"
  cpd_max_discount :: "int option option"
  cpd_max_uses :: "int option"
  cpd_per_user_limit :: "int option"
  cpd_starts_at :: "int option option"
  cpd_ends_at :: "int option option"
  cpd_is_active :: "bool option"

definition kind_of :: "string \<Rightarrow> coupon_kind option" where
  "kind_of s = map_of (map (\<lambda>k. (kind_value k, k)) [PERCENT, FIXED, FREE_SHIPPING]) s"

text \<open>\<open>used_count\<close> is read-only; an amount may be negative, and no field is compared with another.\<close>

definition coupon_errors :: "bool \<Rightarrow> nat option \<Rightarrow> coupon_data \<Rightarrow> coupon list \<Rightarrow> string list" where
  "coupon_errors partial inst d tbl =
     wrong (\<not> partial) ''code'' (\<lambda>s. char_ok False 64 s \<and> free_for cp_code inst (strip s) tbl) (cpd_code d) @
     wrong False ''name'' (char_ok True 200) (cpd_name d) @
     wrong False ''kind'' (\<lambda>s. kind_of s \<noteq> None) (cpd_kind d) @
     wrong False ''value'' price_ok (cpd_value d) @
     wrong False ''min_subtotal'' price_ok (cpd_min_subtotal d) @
     wrong False ''max_discount'' (nullable price_ok) (cpd_max_discount d) @
     wrong False ''max_uses'' count_ok (cpd_max_uses d) @
     wrong False ''per_user_limit'' count_ok (cpd_per_user_limit d)"

definition apply_coupon :: "coupon_data \<Rightarrow> coupon \<Rightarrow> coupon" where
  "apply_coupon d c =
     c\<lparr>cp_code := given_or (map_option strip (cpd_code d)) (cp_code c),
       cp_name := given_or (map_option strip (cpd_name d)) (cp_name c),
       cp_kind := given_or (Option.bind (cpd_kind d) kind_of) (cp_kind c),
       cp_value := given_or (cpd_value d) (cp_value c),
       cp_min_subtotal := given_or (cpd_min_subtotal d) (cp_min_subtotal c),
       cp_max_discount := given_or (cpd_max_discount d) (cp_max_discount c),
       cp_max_uses := given_or (cpd_max_uses d) (cp_max_uses c),
       cp_per_user_limit := given_or (cpd_per_user_limit d) (cp_per_user_limit c),
       cp_starts_at := given_or (cpd_starts_at d) (cp_starts_at c),
       cp_ends_at := given_or (cpd_ends_at d) (cp_ends_at c),
       cp_is_active := given_or (cpd_is_active d) (cp_is_active c)\<rparr>"

text \<open>The defaults of the model.\<close>

definition blank_coupon :: "nat \<Rightarrow> coupon" where
  "blank_coupon k =
     \<lparr>pk = k, created_at = 0, updated_at = 0, deleted_at = None, cp_code = '''', cp_name = '''',
      cp_kind = PERCENT, cp_value = 0, cp_min_subtotal = 0, cp_max_discount = None, cp_max_uses = 0,
      cp_used_count = 0, cp_per_user_limit = 1, cp_starts_at = None, cp_ends_at = None,
      cp_is_active = True\<rparr>"

text \<open>\<open>save()\<close> against the unique column.\<close>

definition coupon_save :: "int \<Rightarrow> coupon \<Rightarrow> coupon list \<Rightarrow> py_error + coupon list" where
  "coupon_save now c tbl =
     (if taken cp_code c tbl then Inl (IntegrityError ''coupons_coupon'') else Inr (write_row now c tbl))"

definition coupon_create :: "int \<Rightarrow> coupon_data \<Rightarrow> coupon list \<Rightarrow> refusal + coupon list" where
  "coupon_create now d tbl =
     (if coupon_errors False None d tbl \<noteq> [] then Inl (Invalid (coupon_errors False None d tbl))
      else raised (coupon_save now (apply_coupon d (blank_coupon (fresh_pk tbl))) tbl))"

definition coupon_update :: "int \<Rightarrow> bool \<Rightarrow> nat \<Rightarrow> coupon_data \<Rightarrow> coupon list \<Rightarrow> refusal + coupon list" where
  "coupon_update now partial k d tbl =
     bindE (get_object k tbl) (\<lambda>c.
       if coupon_errors partial (Some k) d tbl \<noteq> [] then Inl (Invalid (coupon_errors partial (Some k) d tbl))
       else raised (coupon_save now (apply_coupon d c) tbl))"

definition coupon_destroy :: "int \<Rightarrow> nat \<Rightarrow> coupon list \<Rightarrow> refusal + coupon list" where
  "coupon_destroy now k tbl = destroy now k tbl"

text \<open>The list of \<open>get_queryset\<close>: living coupons, newest first.\<close>

definition coupon_queryset :: "coupon list \<Rightarrow> coupon list" where
  "coupon_queryset tbl = sort_key (\<lambda>c. - created_at c) (objects tbl)"

section \<open>Warehouses\<close>

record warehouse_data =
  wd_code :: "string option"
  wd_name :: "string option"
  wd_address :: "string option"
  wd_is_active :: "bool option"
  wd_priority :: "int option"

definition warehouse_errors :: "bool \<Rightarrow> nat option \<Rightarrow> warehouse_data \<Rightarrow> warehouse list \<Rightarrow> string list" where
  "warehouse_errors partial inst d tbl =
     wrong (\<not> partial) ''code'' (\<lambda>s. slug_ok 64 s \<and> free_for wh_code inst (strip s) tbl) (wd_code d) @
     wrong (\<not> partial) ''name'' (char_ok False 200) (wd_name d) @
     wrong False ''address'' (char_ok True 500) (wd_address d) @
     wrong False ''priority'' count_ok (wd_priority d)"

definition apply_warehouse :: "warehouse_data \<Rightarrow> warehouse \<Rightarrow> warehouse" where
  "apply_warehouse d w =
     w\<lparr>wh_code := given_or (map_option strip (wd_code d)) (wh_code w),
       wh_name := given_or (map_option strip (wd_name d)) (wh_name w),
       wh_address := given_or (map_option strip (wd_address d)) (wh_address w),
       wh_is_active := given_or (wd_is_active d) (wh_is_active w),
       wh_priority := given_or (wd_priority d) (wh_priority w)\<rparr>"

definition blank_warehouse :: "nat \<Rightarrow> warehouse" where
  "blank_warehouse k =
     \<lparr>pk = k, created_at = 0, updated_at = 0, deleted_at = None, wh_code = '''', wh_name = '''',
      wh_address = '''', wh_is_active = True, wh_priority = 10\<rparr>"

definition warehouse_save :: "int \<Rightarrow> warehouse \<Rightarrow> inventory \<Rightarrow> py_error + inventory" where
  "warehouse_save now w db =
     (if taken wh_code w (warehouses db) then Inl (IntegrityError ''inventory_warehouse'')
      else Inr (db\<lparr>warehouses := write_row now w (warehouses db)\<rparr>))"

definition warehouse_create :: "int \<Rightarrow> warehouse_data \<Rightarrow> inventory \<Rightarrow> refusal + inventory" where
  "warehouse_create now d db =
     (if warehouse_errors False None d (warehouses db) \<noteq> []
      then Inl (Invalid (warehouse_errors False None d (warehouses db)))
      else raised (warehouse_save now (apply_warehouse d (blank_warehouse (fresh_pk (warehouses db)))) db))"

definition warehouse_update :: "int \<Rightarrow> bool \<Rightarrow> nat \<Rightarrow> warehouse_data \<Rightarrow> inventory \<Rightarrow> refusal + inventory" where
  "warehouse_update now partial k d db =
     bindE (get_object k (warehouses db)) (\<lambda>w.
       if warehouse_errors partial (Some k) d (warehouses db) \<noteq> []
       then Inl (Invalid (warehouse_errors partial (Some k) d (warehouses db)))
       else raised (warehouse_save now (apply_warehouse d w) db))"

definition warehouse_destroy :: "int \<Rightarrow> nat \<Rightarrow> inventory \<Rightarrow> refusal + inventory" where
  "warehouse_destroy now k db =
     bindE (destroy now k (warehouses db)) (\<lambda>tbl. Inr (db\<lparr>warehouses := tbl\<rparr>))"

section \<open>Lemmas\<close>

lemma write_row_fresh: "pk r = fresh_pk tbl \<Longrightarrow> write_row now r tbl = tbl @ [r\<lparr>created_at := now, updated_at := now\<rparr>]"
  by (simp add: write_row_def)

lemma taken_fresh: "pk r = fresh_pk tbl \<Longrightarrow> taken col r tbl \<longleftrightarrow> col r \<in> col ` set tbl"
  using fresh_pk_notin [of tbl] unfolding taken_def by (metis (mono_tags, lifting) image_iff)

lemma two_members: "x \<in> set xs \<Longrightarrow> y \<in> set xs \<Longrightarrow> x \<noteq> y \<Longrightarrow> \<exists>a b rest. xs = a # b # rest"
  by (cases xs; cases "tl xs") auto

lemma get_one_many:
  assumes "x \<in> set tbl" "y \<in> set tbl" "is_alive x" "is_alive y" "p x" "p y" "x \<noteq> y"
  shows "get_one m p tbl = Inl (MultipleObjectsReturned m)"
proof -
  have "x \<in> set (filter p (objects tbl))" "y \<in> set (filter p (objects tbl))" using assms by simp_all
  then obtain a b rest where "filter p (objects tbl) = a # b # rest" using two_members assms(7) by metis
  then show ?thesis by (simp add: get_one_def)
qed

lemma get_one_none: "(\<And>x. x \<in> set tbl \<Longrightarrow> is_alive x \<Longrightarrow> \<not> p x) \<Longrightarrow> get_one m p tbl = Inl (DoesNotExist m)"
  by (simp add: get_one_def filter_empty_conv)

lemma apply_coupon_columns [simp]:
  "pk (apply_coupon d c) = pk c" "deleted_at (apply_coupon d c) = deleted_at c"
  "cp_code (apply_coupon d c) = given_or (map_option strip (cpd_code d)) (cp_code c)"
  "cp_used_count (apply_coupon d c) = cp_used_count c" "cp_value (apply_coupon d c) = given_or (cpd_value d) (cp_value c)"
  by (simp_all add: apply_coupon_def)

lemma blank_coupon_columns [simp]:
  "pk (blank_coupon k) = k" "is_alive (blank_coupon k)" "deleted_at (blank_coupon k) = None"
  "cp_used_count (blank_coupon k) = 0" "cp_value (blank_coupon k) = 0"
  by (simp_all add: blank_coupon_def is_alive_def)

text \<open>The row a body without errors describes, and what creating it comes to.\<close>

definition made_coupon :: "int \<Rightarrow> coupon_data \<Rightarrow> nat \<Rightarrow> coupon" where
  "made_coupon now d k = (apply_coupon d (blank_coupon k))\<lparr>created_at := now, updated_at := now\<rparr>"

lemma made_coupon_columns [simp]:
  "pk (made_coupon now d k) = k" "is_alive (made_coupon now d k)" "cp_used_count (made_coupon now d k) = 0"
  "cp_code (made_coupon now d k) = cp_code (apply_coupon d (blank_coupon k))"
  by (simp_all add: made_coupon_def is_alive_def)

lemma coupon_errors_nil:
  assumes "coupon_errors False None d tbl = []"
  obtains s where "cpd_code d = Some s" "strip s \<noteq> ''''" "free_for cp_code None (strip s) tbl"
  using assms by (auto simp: coupon_errors_def wrong_nil char_ok_def split: option.splits)

lemma coupon_create_run:
  assumes "coupon_errors False None d tbl = []"
  shows "coupon_create now d tbl =
    (if map_option strip (cpd_code d) \<in> Some ` cp_code ` set tbl then Inl (Crashed (IntegrityError ''coupons_coupon''))
     else Inr (tbl @ [made_coupon now d (fresh_pk tbl)]))"
proof -
  obtain s where s: "cpd_code d = Some s" using assms by (rule coupon_errors_nil)
  let ?c = "apply_coupon d (blank_coupon (fresh_pk tbl))"
  have "taken cp_code ?c tbl \<longleftrightarrow> strip s \<in> cp_code ` set tbl" using taken_fresh [of ?c tbl cp_code] s by simp
  then show ?thesis using assms s
    by (simp add: coupon_create_def coupon_save_def raised_def write_row_fresh made_coupon_def image_iff)
qed

lemma lower_Nil: "lower s = '''' \<longleftrightarrow> s = ''''"
  by (simp add: lower_def)

lemma find_coupon_many:
  "get_coupon code tbl = Inl (MultipleObjectsReturned m) \<Longrightarrow> code \<noteq> '''' \<Longrightarrow>
   find_coupon now code tbl = Inl (MultipleObjectsReturned m)"
  by (simp add: find_coupon_def)

lemma twins_unreadable:
  assumes "x \<in> set tbl" "y \<in> set tbl" "is_alive x" "is_alive y" "pk x \<noteq> pk y"
    and "lower (cp_code x) = lower t" "lower (cp_code y) = lower t"
  shows "get_coupon t tbl = Inl (MultipleObjectsReturned ''Coupon'')"
  unfolding get_coupon_def using assms by (intro get_one_many [of x _ y]) auto

lemma in_delete_row: "x \<in> set (delete_row t k tbl) \<longleftrightarrow>
    x \<in> set tbl \<and> pk x \<noteq> k \<or> (\<exists>y \<in> set tbl. pk y = k \<and> x = y\<lparr>deleted_at := Some t\<rparr>)"
  unfolding delete_row_def save_row_def set_update_where by auto

lemma alive_delete_row:
  assumes "x \<in> set (delete_row t k tbl)" "is_alive x"
  shows "x \<in> set tbl" "pk x \<noteq> k"
proof -
  have "\<not> is_alive (y\<lparr>deleted_at := Some t\<rparr>)" for y :: "'a base_model_scheme" by (simp add: is_alive_def)
  with assms(2) have "x \<noteq> y\<lparr>deleted_at := Some t\<rparr>" for y by blast
  with assms(1) show "x \<in> set tbl" "pk x \<noteq> k" unfolding in_delete_row by blast+
qed

text \<open>A reservation reads the warehouses and leaves them alone.\<close>

lemma movement_warehouses:
  "create_movement now k q why ref note (db\<lparr>warehouses := ws\<rparr>) = (create_movement now k q why ref note db)\<lparr>warehouses := ws\<rparr>"
  "save_reserved now s (db\<lparr>warehouses := ws\<rparr>) = (save_reserved now s db)\<lparr>warehouses := ws\<rparr>"
  by (simp_all add: create_movement_def save_reserved_def)

lemma reserve_loop_warehouses:
  "reserve_loop now ref rows remaining oh rs (db\<lparr>warehouses := ws\<rparr>) =
     (let (r, a, b, db') = reserve_loop now ref rows remaining oh rs db in (r, a, b, db'\<lparr>warehouses := ws\<rparr>))"
  by (induction rows arbitrary: remaining oh rs db)
     (simp_all add: Let_def movement_warehouses)

lemma reserve_rows_deleted:
  assumes "ws = delete_row now k (warehouses db)"
  shows "reserve_rows v (db\<lparr>warehouses := ws\<rparr>) = reserve_rows v db"
proof -
  have "in_active_warehouse (db\<lparr>warehouses := ws\<rparr>) = in_active_warehouse db"
    "priority_of (db\<lparr>warehouses := ws\<rparr>) = priority_of db"
    using assms by (auto simp: in_active_warehouse_def priority_of_def warehouse_of_def find_pk_delete_row fun_eq_iff
        split: option.splits)
  then show ?thesis by (simp add: reserve_rows_def)
qed

lemma reserve_stock_deleted:
  assumes "ws = delete_row now k (warehouses db)"
  shows "reserve_stock t ref v q (db\<lparr>warehouses := ws\<rparr>) =
    map_sum id (\<lambda>(s, db'). (s, db'\<lparr>warehouses := ws\<rparr>)) (reserve_stock t ref v q db)"
  unfolding reserve_stock_def reserve_rows_deleted [OF assms] reserve_loop_warehouses
  by (simp add: Let_def split: prod.splits)

section \<open>Properties\<close>

text \<open>
  Creating a coupon through the staff API, completely. A body with errors is answered with exactly
  the wrong fields. Otherwise one coupon is appended, alive and never used, under the stripped code, which no other
  row has; or the code belongs to a deleted coupon, which the check does not see, and the insert raises
  IntegrityError. Whether the amounts make sense is not asked: any value below 10 to the 10 in
  size is accepted for any kind.
\<close>

theorem coupon_create_exact:
  assumes "distinct_pks tbl" "column_unique cp_code tbl"
  shows "case coupon_create now d tbl of
      Inl (Invalid fs) \<Rightarrow> fs \<noteq> [] \<and> fs = coupon_errors False None d tbl
    | Inl (Crashed e) \<Rightarrow> coupon_errors False None d tbl = [] \<and> e = IntegrityError ''coupons_coupon'' \<and>
        (\<exists>x \<in> set tbl. \<not> is_alive x \<and> map_option strip (cpd_code d) = Some (cp_code x))
    | Inr tbl' \<Rightarrow> coupon_errors False None d tbl = [] \<and> distinct_pks tbl' \<and> column_unique cp_code tbl' \<and>
        (\<exists>c. tbl' = tbl @ [c] \<and> is_alive c \<and> Some (cp_code c) = map_option strip (cpd_code d) \<and>
             cp_used_count c = 0 \<and> cp_value c = given_or (cpd_value d) 0)"
proof (cases "coupon_errors False None d tbl = []")
  case True
  then obtain s where s: "cpd_code d = Some s" "strip s \<noteq> ''''" "free_for cp_code None (strip s) tbl"
    by (rule coupon_errors_nil)
  show ?thesis
  proof (cases "strip s \<in> cp_code ` set tbl")
    case clash: True
    then obtain x where "x \<in> set tbl" "cp_code x = strip s" by auto
    moreover from this have "\<not> is_alive x" using s(3) by (auto simp: free_for_def)
    ultimately show ?thesis using True s(1) clash by (auto simp: coupon_create_run)
  next
    case False
    let ?c = "made_coupon now d (fresh_pk tbl)"
    have "cp_code ?c \<notin> cp_code ` set tbl" using False s(1) by simp
    from column_unique_append [OF assms(2) this] distinct_pks_append_fresh [OF assms(1), of ?c]
    have "distinct_pks (tbl @ [?c])" "column_unique cp_code (tbl @ [?c])" by simp_all
    moreover have "coupon_create now d tbl = Inr (tbl @ [?c])"
      using False s(1) by (simp add: coupon_create_run [OF True] image_iff)
    moreover have "cp_value ?c = given_or (cpd_value d) 0" by (simp add: made_coupon_def)
    ultimately show ?thesis using True s(1) by simp
  qed
qed (simp add: coupon_create_def)

definition coupon_body :: "string \<Rightarrow> coupon_data" where
  "coupon_body code =
     \<lparr>cpd_code = Some code, cpd_name = None, cpd_kind = Some ''percent'', cpd_value = Some 25000,
      cpd_min_subtotal = None, cpd_max_discount = Some None, cpd_max_uses = None, cpd_per_user_limit = None,
      cpd_starts_at = None, cpd_ends_at = None, cpd_is_active = None\<rparr>"

theorem coupon_create_exact_witness:
  "\<exists>tbl' c. coupon_create 9 (coupon_body ''sale10'') [demo_coupon ''SALE10'' PERCENT 1000 None] = Inr tbl' \<and>
     tbl' = [demo_coupon ''SALE10'' PERCENT 1000 None, c] \<and> cp_code c = ''sale10'' \<and> cp_value c = 25000"
proof -
  let ?tbl = "[demo_coupon ''SALE10'' PERCENT 1000 None]"
  have ok: "distinct_pks ?tbl" "column_unique cp_code ?tbl" by (simp_all add: distinct_pks_def column_unique_def)
  have "is_ok (coupon_create 9 (coupon_body ''sale10'') ?tbl)" by code_simp
  then obtain tbl' where r: "coupon_create 9 (coupon_body ''sale10'') ?tbl = Inr tbl'" by (auto simp: is_ok_iff)
  have "strip ''sale10'' = ''sale10''" by code_simp
  with coupon_create_exact [where now = 9 and d = "coupon_body ''sale10''", OF ok] r show ?thesis
    by (auto simp: coupon_body_def)
qed

text \<open>
  C36. Two coupons whose codes differ in case switch each other off. Codes are compared exactly when a
  coupon is created and without regard to case when one is redeemed. So once staff has created a coupon
  whose code spells a living coupon's in another case, every spelling of either code raises
  MultipleObjectsReturned: a checkout that names it is neither an order nor refused as a checkout, and the staff
  endpoint that validates a code fails the same way.
\<close>

theorem twin_codes_block_checkout:
  assumes "c \<in> set tbl" "is_alive c" "coupon_create t0 d tbl = Inr tbl'"
    and "map_option (lower \<circ> strip) (cpd_code d) = Some (lower (cp_code c))"
    and "lower code = lower (cp_code c)" "coupon_tbl db = tbl'" "ck_coupon_code p = code"
    and "items_of (pk ct) (cart_db db) \<noteq> []"
  shows "create_order_from_cart now number ct usr p db = Inl (MultipleObjectsReturned ''Coupon'') \<and>
    validate_code now isotime code tbl' = Inl (MultipleObjectsReturned ''Coupon'')"
proof -
  have e: "coupon_errors False None d tbl = []" using assms(3) by (auto simp: coupon_create_def split: if_splits)
  then obtain s where s: "cpd_code d = Some s" "strip s \<noteq> ''''" by (rule coupon_errors_nil)
  let ?c = "made_coupon t0 d (fresh_pk tbl)"
  have tbl': "tbl' = tbl @ [?c]" using assms(3) by (auto simp: coupon_create_run [OF e] split: if_splits)
  have "pk c \<noteq> pk ?c" using assms(1) fresh_pk_notin [of tbl] by (metis image_eqI made_coupon_columns(1))
  then have g: "get_coupon code tbl' = Inl (MultipleObjectsReturned ''Coupon'')"
    using assms(1,2,4,5) s by (intro twins_unreadable [of c _ ?c]) (simp_all add: tbl')
  have "code \<noteq> ''''" using assms(4,5) s lower_Nil by (metis comp_apply option.map(2) option.inject)
  with g assms(6-8) show ?thesis
    by (simp add: create_order_from_cart_def validate_code_def find_coupon_many Let_def)
qed

theorem twin_codes_block_checkout_witness:
  "\<exists>tbl'. coupon_create 9 (coupon_body ''sale10'') [demo_coupon ''SALE10'' PERCENT 1000 None] = Inr tbl' \<and>
     create_order_from_cart 9 ''N1'' (demo_cart 1 (Some 5) '''') (Some 5) (demo_checkout ''Sale10'')
       (idle_shop\<lparr>coupon_tbl := tbl'\<rparr>) = Inl (MultipleObjectsReturned ''Coupon'') \<and>
     is_ok (create_order_from_cart 9 ''N1'' (demo_cart 1 (Some 5) '''') (Some 5) (demo_checkout ''sale10'') idle_shop)"
proof -
  let ?c = "demo_coupon ''SALE10'' PERCENT 1000 None" and ?d = "coupon_body ''sale10''"
  have "is_ok (coupon_create 9 ?d [?c])" by code_simp
  then obtain tbl' where r: "coupon_create 9 ?d [?c] = Inr tbl'" by (auto simp: is_ok_iff)
  have "is_alive ?c" "map_option (lower \<circ> strip) (cpd_code ?d) = Some (lower (cp_code ?c))"
    "lower ''Sale10'' = lower (cp_code ?c)" "ck_coupon_code (demo_checkout ''Sale10'') = ''Sale10''"
    "items_of (pk (demo_cart 1 (Some 5) '''')) (cart_db (idle_shop\<lparr>coupon_tbl := []\<rparr>)) \<noteq> []"
    by code_simp+
  then show ?thesis
    using twin_codes_block_checkout [where c = ?c and tbl = "[?c]" and db = "idle_shop\<lparr>coupon_tbl := tbl'\<rparr>"
        and code = "''Sale10''" and p = "demo_checkout ''Sale10''" and ct = "demo_cart 1 (Some 5) ''''" and usr = "Some 5"
        and number = "''N1''" and now = 9, OF _ _ r] r idle_checkout by simp
qed



text \<open>
  C38. A destroyed warehouse goes on selling and cannot be managed. After staff deletes a
  warehouse, availability and reservations are what they were, units in it included (a reservation looks
  at the warehouse's flag and priority, and the join reads deleted rows); but no stock of it can be adjusted
  any more, and no warehouse can be created under its code.
\<close>

theorem destroyed_warehouse_still_serves:
  assumes "distinct_pks (warehouses db)" "column_unique wh_code (warehouses db)"
    and "warehouse_destroy t k db = Inr db'" "w \<in> set (warehouses db)" "pk w = k"
  shows "get_available v db' = get_available v db \<and>
    reserve_stock now ref v q db' =
      map_sum id (\<lambda>(s, x). (s, x\<lparr>warehouses := warehouses db'\<rparr>)) (reserve_stock now ref v q db) \<and>
    adjust_stock now ex v (wh_code w) delta note db' = Inl (DoesNotExist ''Warehouse'') \<and>
    (map_option strip (wd_code d) = Some (wh_code w) \<longrightarrow> \<not> is_ok (warehouse_create now d db'))"
proof -
  obtain ws where d: "destroy t k (warehouses db) = Inr ws" "db' = db\<lparr>warehouses := ws\<rparr>"
    using assms(3) by (auto simp: warehouse_destroy_def bindE_Inr_iff)
  from destroy_Inr(1) [OF d(1)] have ws: "ws = delete_row t k (warehouses db)" .
  have "get_one ''Warehouse'' (\<lambda>x. wh_code x = wh_code w) ws = Inl (DoesNotExist ''Warehouse'')"
  proof (rule get_one_none)
    fix x assume x: "x \<in> set ws" "is_alive x"
    then have "x \<in> set (warehouses db)" "pk x \<noteq> k"
      unfolding ws by (fact alive_delete_row)+
    with assms(2,4,5) show "wh_code x \<noteq> wh_code w" unfolding column_unique_def by metis
  qed
  then have a: "adjust_stock now ex v (wh_code w) delta note db' = Inl (DoesNotExist ''Warehouse'')"
    by (simp add: adjust_stock_def d(2))
  have "w\<lparr>deleted_at := Some t\<rparr> \<in> set ws"
    using assms(4,5) unfolding ws in_delete_row by blast
  then have "wh_code w \<in> wh_code ` set ws" by (rule rev_image_eqI) simp
  have c: "\<not> is_ok (warehouse_create now d db')" if code: "map_option strip (wd_code d) = Some (wh_code w)"
  proof -
    let ?w = "apply_warehouse d (blank_warehouse (fresh_pk ws))"
    have "pk ?w = fresh_pk ws" "wh_code ?w = wh_code w"
      using code by (auto simp: apply_warehouse_def blank_warehouse_def given_or_def)
    then have "taken wh_code ?w ws" using taken_fresh [of ?w ws wh_code] \<open>wh_code w \<in> wh_code ` set ws\<close> by simp
    then show ?thesis by (simp add: warehouse_create_def warehouse_save_def raised_def d(2))
  qed
  have "get_available v db' = get_available v db" by (simp add: get_available_def d(2))
  with a c reserve_stock_deleted [OF ws] show ?thesis by (simp add: d(2))
qed

theorem destroyed_warehouse_still_serves_witness:
  "\<exists>db'. warehouse_destroy 9 1 demo_ledger = Inr db' \<and> get_available 7 db' = get_available 7 demo_ledger \<and>
     is_ok (reserve_stock 9 ''o1'' 7 30 db') \<and>
     adjust_stock 9 (\<lambda>_. True) 7 ''main'' 5 '''' db' = Inl (DoesNotExist ''Warehouse'')"
proof -
  let ?w = "demo_warehouse 1 ''main'' True 10"
  have "is_ok (warehouse_destroy 9 1 demo_ledger)" "is_ok (reserve_stock 9 ''o1'' 7 30 demo_ledger)" by code_simp+
  then obtain db' r where d: "warehouse_destroy 9 1 demo_ledger = Inr db'" "reserve_stock 9 ''o1'' 7 30 demo_ledger = Inr r"
    by (auto simp: is_ok_iff)
  have "distinct_pks (warehouses demo_ledger)" "column_unique wh_code (warehouses demo_ledger)"
    "?w \<in> set (warehouses demo_ledger)" "pk ?w = 1" "wh_code ?w = ''main''"
    by (simp_all add: demo_ledger_def demo_warehouse_def distinct_pks_def column_unique_def)
  with destroyed_warehouse_still_serves [where w = ?w, OF this(1,2) d(1) this(3,4)] d show ?thesis
    by (auto simp: is_ok_iff)
qed

end
