(* ===== verification/Test_Suite.thy ===== *)
theory Test_Suite
  imports Payment_Races Profile Framework Staff_Writes
begin

text \<open>
  The repository's own tests (\<open>tests\<close>), run on the model: the fixtures of \<open>conftest.py\<close> as concrete
  tables, each test as the boolean it asserts, and the theorem the race-condition tests stand for. The HTTP
  client of a test is the handler behind the URL; the two tests of the login view, which is the JWT library's,
  are left out.
\<close>

section \<open>Fixtures\<close>

definition main_warehouse :: warehouse where
  "main_warehouse = (blank_warehouse 1)\<lparr>wh_code := ''main'', wh_name := ''Main''\<rparr>"

definition seed_brand_row :: brand where
  "seed_brand_row = (blank_brand 1)\<lparr>br_slug := ''nova'', br_name := ''Nova''\<rparr>"

definition seed_category_row :: category where
  "seed_category_row = (blank_category 1)\<lparr>cat_slug := ''apparel'', cat_name := ''Apparel''\<rparr>"

definition seed_product_row :: product where
  "seed_product_row = (blank_product 1)\<lparr>pr_slug := ''nova-tee'', pr_name := ''Nova Tee'', pr_brand := Some 1,
     pr_short_description := ''Soft cotton tee'', pr_status := ACTIVE, pr_categories := [1]\<rparr>"

definition seed_variant_row :: product_variant where
  "seed_variant_row =
     \<lparr>pk = 1, created_at = 0, updated_at = 0, deleted_at = None, pv_product = 1, pv_sku = ''NOVA-TEE-M'',
      pv_barcode = '''', pv_name = ''M'', pv_price = 1999, pv_compare_at_price = Some 2499, pv_cost_price = None,
      pv_currency = ''USD'', pv_weight_g = 0, pv_length_mm = 0, pv_width_mm = 0, pv_height_mm = 0,
      pv_is_default = True, pv_is_active = True,
      pv_attributes_snapshot = JObj [(''size'', JStr ''M''), (''color'', JStr ''black'')]\<rparr>"

definition alice :: user where
  "alice = \<lparr>pk = 1, created_at = 0, updated_at = 0, deleted_at = None, us_email = ''alice@example.com'',
     us_password = '''', us_first_name = ''Alice'', us_last_name = '''', us_phone = '''', us_is_active = True,
     us_is_staff = False, us_is_superuser = False, us_email_verified_at = None,
     us_phone_verified_at = None, us_last_login_ip = None, us_roles = []\<rparr>"

definition catalog_seed :: shop where
  "catalog_seed =
     \<lparr>catalog_db = \<lparr>brands = [seed_brand_row], categories = [seed_category_row], products = [seed_product_row],
                   variants = [seed_variant_row], images = []\<rparr>,
      stock_db = \<lparr>warehouses = [main_warehouse], stocks = [(new_stock 0 1 1 1)\<lparr>on_hand := 50\<rparr>], movements = []\<rparr>,
      coupon_tbl = [], cart_db = \<lparr>carts = [], cart_items = []\<rparr>, orders = [], order_items = [],
      order_events = [], broadcasts = []\<rparr>"

abbreviation seed_stock :: inventory where "seed_stock \<equiv> stock_db catalog_seed"

definition raises :: "(py_error \<Rightarrow> bool) \<Rightarrow> py_error + 'a \<Rightarrow> bool" where
  "raises p r = (case r of Inl e \<Rightarrow> p e | Inr _ \<Rightarrow> False)"

definition holds :: "py_error + 'a \<Rightarrow> ('a \<Rightarrow> bool) \<Rightarrow> bool" where
  "holds r p = (case r of Inl _ \<Rightarrow> False | Inr x \<Rightarrow> p x)"

definition is_out_of_stock :: "py_error \<Rightarrow> bool" where
  "is_out_of_stock e = (case e of OutOfStockError _ \<Rightarrow> True | _ \<Rightarrow> False)"

definition is_checkout_error :: "py_error \<Rightarrow> bool" where
  "is_checkout_error e = (case e of CheckoutError _ \<Rightarrow> True | _ \<Rightarrow> False)"

definition is_value_error :: "py_error \<Rightarrow> bool" where
  "is_value_error e = (case e of ValueError _ \<Rightarrow> True | _ \<Rightarrow> False)"

section \<open>\<open>test_inventory.py\<close> and \<open>test_concurrency.py\<close>\<close>

definition test_reserve_then_commit :: bool where
  "test_reserve_then_commit \<longleftrightarrow>
     get_available 1 seed_stock = 50 \<and>
     holds (reserve_stock 1 ''o1'' 1 3 seed_stock) (\<lambda>(snap, db1).
       snap_reserved snap = 3 \<and> get_available 1 db1 = 47 \<and>
       holds (commit_sale 2 ''o1'' 1 3 db1) (\<lambda>db2. get_available 1 db2 = 47))"

definition test_reserve_then_release :: bool where
  "test_reserve_then_release \<longleftrightarrow>
     holds (reserve_stock 1 '''' 1 5 seed_stock) (\<lambda>(_, db1).
       get_available 1 db1 = 45 \<and>
       holds (release_reservation 2 '''' 1 5 db1) (\<lambda>db2. get_available 1 db2 = 50))"

definition test_oversell_blocked :: bool where
  "test_oversell_blocked \<longleftrightarrow> raises is_out_of_stock (reserve_stock 1 '''' 1 1000 seed_stock)"

text \<open>The loop of the race-condition test: one reservation after the other.\<close>

fun reserve_all :: "int \<Rightarrow> string \<Rightarrow> nat \<Rightarrow> int list \<Rightarrow> inventory \<Rightarrow> py_error + inventory" where
  "reserve_all now ref v [] db = Inr db"
| "reserve_all now ref v (q # qs) db =
     bindE (reserve_stock now ref v q db) (\<lambda>(_, db1). reserve_all now ref v qs db1)"

definition test_reservations_are_exact_under_repeated_calls :: bool where
  "test_reservations_are_exact_under_repeated_calls \<longleftrightarrow>
     (let initial = get_available 1 seed_stock in
      holds (reserve_all 1 '''' 1 (replicate (nat initial) 1) seed_stock) (\<lambda>db1.
        get_available 1 db1 = 0 \<and> raises is_out_of_stock (reserve_stock 2 '''' 1 1 db1)))"

section \<open>\<open>test_coupons.py\<close>\<close>

definition test_percent_coupon_calculation :: bool where
  "test_percent_coupon_calculation \<longleftrightarrow>
     calculate_discount ((blank_coupon 1)\<lparr>cp_code := ''SALE10'', cp_kind := PERCENT, cp_value := 1000, cp_min_subtotal := 0\<rparr>)
       10000 = 1000"

definition test_percent_coupon_caps :: bool where
  "test_percent_coupon_caps \<longleftrightarrow>
     calculate_discount ((blank_coupon 1)\<lparr>cp_code := ''BIG'', cp_kind := PERCENT, cp_value := 5000, cp_min_subtotal := 0,
       cp_max_discount := Some 2000\<rparr>) 10000 = 2000"

definition test_fixed_coupon_capped_to_subtotal :: bool where
  "test_fixed_coupon_capped_to_subtotal \<longleftrightarrow>
     calculate_discount ((blank_coupon 1)\<lparr>cp_code := ''FIVE'', cp_kind := FIXED, cp_value := 500\<rparr>) 300 = 300"

definition test_min_subtotal_block :: bool where
  "test_min_subtotal_block \<longleftrightarrow>
     calculate_discount ((blank_coupon 1)\<lparr>cp_code := ''MIN50'', cp_kind := PERCENT, cp_value := 1000, cp_min_subtotal := 5000\<rparr>)
       1000 = 0"

section \<open>\<open>test_cart.py\<close>\<close>

definition anonymous :: request where
  "anonymous = \<lparr>rq_user = None, rq_session_key = '''', rq_fresh_key = ''key''\<rparr>"

definition signed_in :: request where
  "signed_in = \<lparr>rq_user = Some alice, rq_session_key = '''', rq_fresh_key = ''key''\<rparr>"

definition field :: "string \<Rightarrow> json \<Rightarrow> json" where
  "field k j = (case json_get j k JNull of Inl _ \<Rightarrow> JNull | Inr v \<Rightarrow> v)"

definition items_in :: "json \<Rightarrow> nat" where
  "items_in j = (case field ''items'' j of JList xs \<Rightarrow> length xs | _ \<Rightarrow> 0)"

definition post_item :: "request \<Rightarrow> int \<Rightarrow> shop \<Rightarrow> (py_error + response) \<times> cart_store" where
  "post_item rq q db = cart_add 1 (\<lambda>_. '''') (catalog_db db) (stock_db db) rq 1 (Some q) (cart_db db)"

definition test_anonymous_can_add_to_cart :: bool where
  "test_anonymous_can_add_to_cart \<longleftrightarrow>
     holds (fst (post_item anonymous 2 catalog_seed)) (\<lambda>res. case res of Response status data \<Rightarrow>
       status = 201 \<and> field ''total_items'' data = JInt 2 \<and> items_in data = 1)"

definition test_user_cart_persists :: bool where
  "test_user_cart_persists \<longleftrightarrow>
     holds (fst (cart_list 2 (\<lambda>_. '''') (catalog_db catalog_seed) signed_in (snd (post_item signed_in 1 catalog_seed))))
       (\<lambda>res. case res of Response status data \<Rightarrow> status = 200 \<and> field ''total_items'' data = JInt 1)"

definition test_cart_rejects_oversell :: bool where
  "test_cart_rejects_oversell \<longleftrightarrow>
     holds (fst (post_item anonymous 10000 catalog_seed)) (\<lambda>res. case res of Response status data \<Rightarrow>
       status = 409 \<and> field ''code'' (field ''error'' data) = JStr ''out_of_stock'')"

section \<open>\<open>test_orders.py\<close>\<close>

definition seed_checkout :: "json \<Rightarrow> checkout_input" where
  "seed_checkout address =
     \<lparr>ck_email = us_email alice, ck_phone = ''x'', ck_shipping_address = address, ck_billing_address = JNull,
      ck_coupon_code = '''', ck_shipping_method = ''standard'', ck_notes_customer = ''''\<rparr>"

text \<open>The cart of the user with some units of the variant, turned into an order.\<close>

definition order_of_alice :: "json \<Rightarrow> int \<Rightarrow> py_error + (order \<times> shop)" where
  "order_of_alice address q =
     bindE (get_or_create_cart 1 (Some (pk alice)) ''t'' (cart_db catalog_seed)) (\<lambda>(cart, cs).
     bindE (add_item 1 (catalog_db catalog_seed) seed_stock cart 1 q cs) (\<lambda>(_, cs1).
       create_order_from_cart 2 ''N1'' cart (Some (pk alice)) (seed_checkout address) (catalog_seed\<lparr>cart_db := cs1\<rparr>)))"

definition test_checkout_creates_order :: bool where
  "test_checkout_creates_order \<longleftrightarrow>
     (let db1 = catalog_seed\<lparr>cart_db := snd (post_item signed_in 2 catalog_seed)\<rparr>;
          ser = CheckoutSerializer (\<lambda>_. True) (us_email alice) ''+10000000000''
            (JObj [(''line1'', JStr ''1 Main''), (''city'', JStr ''Tashkent''), (''country'', JStr ''UZ'')]) None None
            (Some ''standard'') None in
      holds (fst (order_checkout 2 (\<lambda>_. '''') ''N1'' signed_in ser db1)) (\<lambda>res. case res of Response status data \<Rightarrow>
        status = 201 \<and> field ''status'' data = JStr (status_value PENDING) \<and> field ''grand_total'' data \<noteq> JNull))"

definition test_status_machine_invalid_transition :: bool where
  "test_status_machine_invalid_transition \<longleftrightarrow>
     holds (order_of_alice (JObj [(''city'', JStr ''x'')]) 1) (\<lambda>(ord, db).
       holds (transition_status 3 (pk ord) PAID None '''' db) (\<lambda>(_, db1).
         raises is_checkout_error (transition_status 4 (pk ord) PENDING None '''' db1)))"

definition test_cancel_order_releases_stock :: bool where
  "test_cancel_order_releases_stock \<longleftrightarrow>
     holds (order_of_alice (JObj [(''city'', JStr ''x'')]) 4) (\<lambda>(ord, db).
       let available_before = get_available 1 (stock_db db) in
       holds (transition_status 3 (pk ord) CANCELLED None '''' db) (\<lambda>(_, db1).
         get_available 1 (stock_db db1) = available_before + 4))"

section \<open>\<open>test_payments.py\<close>\<close>

definition test_manual_provider_creates_charge :: "provider_env \<Rightarrow> (int \<Rightarrow> string) \<Rightarrow> provider_settings \<Rightarrow> bool" where
  "test_manual_provider_creates_charge env status_error cfg \<longleftrightarrow>
     holds (order_of_alice (JObj []) 1) (\<lambda>(ord, db).
       holds (create_payment 3 (get_provider env status_error cfg) ord ''manual'' '''' ''''
                \<lparr>shop_db = db, payments = [], refunds = []\<rparr>) (\<lambda>(payment, _).
         py_status payment = payment_value P_PENDING \<and> startswith ''manual:'' (py_provider_reference payment)))"

definition test_unknown_provider_raises :: "provider_env \<Rightarrow> (int \<Rightarrow> string) \<Rightarrow> provider_settings \<Rightarrow> bool" where
  "test_unknown_provider_raises env status_error cfg \<longleftrightarrow>
     raises is_value_error (get_provider env status_error cfg ''does-not-exist'')"

section \<open>\<open>test_security.py\<close>, \<open>test_auth.py\<close> and \<open>test_health.py\<close>\<close>

definition test_user_cannot_view_others_orders :: bool where
  "test_user_cannot_view_others_orders \<longleftrightarrow>
     holds (order_of_alice (JObj []) 1) (\<lambda>(ord, db).
       raises (\<lambda>e. e \<in> {Http404, PermissionDenied})
         (order_retrieve (\<lambda>_. '''') (alice\<lparr>pk := 2, us_email := ''evil@example.com''\<rparr>) (pk ord) db))"

definition test_protected_endpoints_reject_anonymous :: "environ \<Rightarrow> bool" where
  "test_protected_endpoints_reject_anonymous e \<longleftrightarrow>
     admit (OrderViewSet (REST_FRAMEWORK e) DRF) ''GET'' None idle_accounts = Inl NotAuthenticated"

definition test_register :: "(string \<Rightarrow> string) \<Rightarrow> (string option \<Rightarrow> string) \<Rightarrow> bool" where
  "test_register normal hash \<longleftrightarrow>
     (case RegisterView_create (\<lambda>_. True) (\<lambda>_. True) normal hash 1
        \<lparr>rd_email = Some ''bob@example.com'', rd_password = Some ''Sup3r-Secret-XYZ!'', rd_first_name = Some ''Bob'',
         rd_last_name = None, rd_phone = None\<rparr> \<lparr>roles = [], users = [], addresses = [], wishlists = []\<rparr> of
        Inl _ \<Rightarrow> False | Inr (_, db) \<Rightarrow> normal ''bob@example.com'' \<in> us_email ` set (users db))"

definition test_me_endpoint :: bool where
  "test_me_endpoint \<longleftrightarrow>
     (case me_retrieve (\<lambda>_. '''') alice \<lparr>roles = [], users = [alice], addresses = [], wishlists = []\<rparr> of
        Response status data \<Rightarrow> status = 200 \<and> field ''email'' data = JStr ''alice@example.com'')"

definition test_me_requires_auth :: "environ \<Rightarrow> bool" where
  "test_me_requires_auth e \<longleftrightarrow> admit (MeView (REST_FRAMEWORK e) DRF) ''GET'' None idle_accounts = Inl NotAuthenticated"

definition test_healthz :: bool where
  "test_healthz \<longleftrightarrow> status_code healthz_response = 200 \<and> field ''status'' (resp_body healthz_response) = JStr ''ok''"

section \<open>Lemmas\<close>

lemma inventory_tests: "test_reserve_then_commit" "test_reserve_then_release" "test_oversell_blocked"
  by code_simp+

lemma coupon_tests: "test_percent_coupon_calculation" "test_percent_coupon_caps"
  "test_fixed_coupon_capped_to_subtotal" "test_min_subtotal_block"
  by code_simp+

text \<open>The carts of the two clients, and what is in them.\<close>

definition cart_of :: "request \<Rightarrow> cart" where
  "cart_of rq = (case rq_user rq of
     None \<Rightarrow> new_cart 1 None (rq_fresh_key rq) ''USD'' 1 | Some u \<Rightarrow> new_cart 1 (Some (pk u)) '''' ''USD'' 1)"

definition filled :: "request \<Rightarrow> int \<Rightarrow> cart_store" where
  "filled rq q = \<lparr>carts = [cart_of rq], cart_items = [new_item 1 1 1 q 1999 1]\<rparr>"

lemma clients: "rq \<in> {anonymous, signed_in} \<Longrightarrow>
    resolve_cart 1 rq \<lparr>carts = [], cart_items = []\<rparr> = Inr (cart_of rq, \<lparr>carts = [cart_of rq], cart_items = []\<rparr>) \<and> pk (cart_of rq) = 1"
  by (auto simp: resolve_cart_def get_or_create_cart_def get_or_create_def get_queryset_def cart_of_def new_cart_def
      anonymous_def signed_in_def user_pk_def fresh_pk_def Let_def)

lemma seed_facts:
  "get_active_variant 1 (catalog_db catalog_seed) = Inr seed_variant_row" "get_available 1 seed_stock = 50"
  "AddItemSerializer (catalog_db catalog_seed) 1 (Some q) = (if q < 1 then Inl (ValidationError ''quantity'') else Inr (1, q))"
  "cart_db catalog_seed = \<lparr>carts = [], cart_items = []\<rparr>" "pv_price seed_variant_row = 1999"
  by (code_simp, code_simp, simp_all add: AddItemSerializer_def catalog_seed_def seed_variant_row_def is_alive_def)

lemma add_to_seed:
  assumes "rq \<in> {anonymous, signed_in}" "1 \<le> q"
  shows "add_item 1 (catalog_db catalog_seed) seed_stock (cart_of rq) 1 q \<lparr>carts = [cart_of rq], cart_items = []\<rparr> =
    (if 50 < q then Inl (OutOfStockError (requested_message q 50 (pv_sku seed_variant_row))) else Inr (new_item 1 1 1 q 1999 1, filled rq q))"
  using clients [OF assms(1)] assms(2)
  by (simp del: One_nat_def add: add_item_def seed_facts get_or_create_def get_queryset_def pair_taken_def new_item_def
      save_item_def filled_def fresh_pk_def int4_def Let_def save_row_def)

lemma post_to_seed:
  assumes "rq \<in> {anonymous, signed_in}" "1 \<le> q"
  shows "post_item rq q catalog_seed =
    (if 50 < q then (Inr (error_response 409 ''out_of_stock'' (requested_message q 50 (pv_sku seed_variant_row))),
                     \<lparr>carts = [cart_of rq], cart_items = []\<rparr>)
     else (Inr (Response 201 (CartSerializer (\<lambda>_. '''') (catalog_db catalog_seed) (filled rq q) (cart_of rq))), filled rq q))"
  using clients [OF assms(1)] assms(2) add_to_seed [OF assms]
  by (simp del: One_nat_def add: post_item_def cart_add_def seed_facts)

lemma cart_fields:
  "field ''total_items'' (CartSerializer isotime cat db c) = JInt (total_items c db)"
  "items_in (CartSerializer isotime cat db c) = length (items_of (pk c) db)"
  "pk (cart_of rq) = 1" "items_of 1 (filled rq q) = [new_item 1 1 1 q 1999 1]" "total_items (cart_of rq) (filled rq q) = q"
  by (simp_all add: field_def items_in_def CartSerializer_def cart_of_def new_cart_def items_of_def filled_def new_item_def
      get_queryset_def total_items_def split: option.splits)

lemma cart_tests: "test_anonymous_can_add_to_cart" "test_cart_rejects_oversell"
  by (simp_all add: test_anonymous_can_add_to_cart_def test_cart_rejects_oversell_def post_to_seed holds_def cart_fields
      error_response_def del: One_nat_def) (simp_all add: field_def)

lemma kept_cart: "resolve_cart 2 signed_in (filled signed_in q) = Inr (cart_of signed_in, filled signed_in q)"
  by (simp add: resolve_cart_def get_or_create_cart_def get_or_create_def get_queryset_def filled_def cart_of_def new_cart_def
      signed_in_def user_pk_def)

lemma persistence_test: "test_user_cart_persists"
  by (simp add: test_user_cart_persists_def post_to_seed cart_list_def kept_cart holds_def cart_fields del: One_nat_def)

lemma order_of_alice_is:
  assumes "1 \<le> q" "q \<le> 50"
  shows "order_of_alice address q = create_order_from_cart 2 ''N1'' (cart_of signed_in) (Some (pk alice))
    (seed_checkout address) (catalog_seed\<lparr>cart_db := filled signed_in q\<rparr>)"
proof -
  have "get_or_create_cart 1 (Some (pk alice)) ''t'' (cart_db catalog_seed) =
      Inr (cart_of signed_in, \<lparr>carts = [cart_of signed_in], cart_items = []\<rparr>)"
    using clients [of signed_in] by (simp add: resolve_cart_def user_pk_def signed_in_def seed_facts get_or_create_cart_def)
  with add_to_seed [of signed_in q] assms show ?thesis by (simp add: order_of_alice_def)
qed

lemma orders_made: "is_ok (order_of_alice (JObj []) 1)"
  "is_ok (create_order_from_cart 2 ''N1'' (cart_of signed_in) (Some (pk alice))
     \<lparr>ck_email = us_email alice, ck_phone = ''+10000000000'', ck_shipping_address = j, ck_billing_address = JNull,
      ck_coupon_code = '''', ck_shipping_method = ''standard'', ck_notes_customer = ''''\<rparr> (catalog_seed\<lparr>cart_db := filled signed_in 2\<rparr>))"
  by (simp only: order_of_alice_is, code_simp, code_simp)

lemma order_tests: "test_status_machine_invalid_transition" "test_cancel_order_releases_stock"
  by code_simp+

lemma order_fields [simp]:
  "field ''status'' (OrderSerializer isotime db ord) = JStr (status_value (od_status ord))"
  "field ''grand_total'' (OrderSerializer isotime db ord) \<noteq> JNull"
  by (simp_all add: field_def OrderSerializer_def Let_def)

lemma checkout_test: "test_checkout_creates_order"
proof -
  let ?address = "JObj [(''line1'', JStr ''1 Main''), (''city'', JStr ''Tashkent''), (''country'', JStr ''UZ'')]"
  have ser: "CheckoutSerializer (\<lambda>_. True) (us_email alice) ''+10000000000'' ?address None None (Some ''standard'') None =
      Inr \<lparr>ck_email = us_email alice, ck_phone = ''+10000000000'', ck_shipping_address = ?address,
           ck_billing_address = JNull, ck_coupon_code = '''', ck_shipping_method = ''standard'', ck_notes_customer = ''''\<rparr>"
    (is "_ = Inr ?p") by (simp add: CheckoutSerializer_def Let_def)
  from orders_made(2) [of ?address] obtain ord db2 where o: "create_order_from_cart 2 ''N1'' (cart_of signed_in) (Some (pk alice)) ?p
      (catalog_seed\<lparr>cart_db := filled signed_in 2\<rparr>) = Inr (ord, db2)" by (auto simp: is_ok_iff)
  then have "od_status ord = PENDING" by (cases rule: create_order_Inr) simp
  moreover have "get_or_create_cart 2 (Some (pk alice)) (rq_session_key signed_in) (filled signed_in 2) =
      Inr (cart_of signed_in, filled signed_in 2)"
    using kept_cart [of 2] by (simp add: resolve_cart_def user_pk_def signed_in_def get_or_create_cart_def)
  ultimately show ?thesis
    using o ser by (simp del: One_nat_def add: test_checkout_creates_order_def post_to_seed order_checkout_def Let_def holds_def)
      (simp add: signed_in_def order_checkout_def holds_def)
qed

lemma intruder_test: "test_user_cannot_view_others_orders"
proof -
  from orders_made(1) obtain ord db where r: "order_of_alice (JObj []) 1 = Inr (ord, db)" by (auto simp: is_ok_iff)
  then have "create_order_from_cart 2 ''N1'' (cart_of signed_in) (Some (pk alice)) (seed_checkout (JObj []))
      (catalog_seed\<lparr>cart_db := filled signed_in 1\<rparr>) = Inr (ord, db)" by (simp add: order_of_alice_is)
  then have "orders db = [ord] \<and> od_user ord = Some (pk alice)"
    by (cases rule: create_order_Inr) (simp add: catalog_seed_def new_order_def Let_def)
  then have "order_queryset (alice\<lparr>pk := 2, us_email := ''evil@example.com''\<rparr>) db = []"
    by (auto simp: order_queryset_def alice_def filter_empty_conv get_queryset_def)
  then show ?thesis
    by (simp add: test_user_cannot_view_others_orders_def r holds_def raises_def order_retrieve_def get_order_def)
qed

lemma profile_test: "test_me_endpoint" "test_healthz"
  by code_simp+

lemma payment_tests: "test_manual_provider_creates_charge env status_error cfg" "test_unknown_provider_raises env status_error cfg"
proof -
  from orders_made(1) obtain ord db where r: "order_of_alice (JObj []) 1 = Inr (ord, db)" by (auto simp: is_ok_iff)
  show "test_manual_provider_creates_charge env status_error cfg"
    by (simp add: test_manual_provider_creates_charge_def r holds_def create_payment_def get_provider_def REGISTRY_def
        manual_create_charge_def result_fits_def intent_of_def length_uuid_str startswith_def Let_def)
  show "test_unknown_provider_raises env status_error cfg"
    by (simp add: test_unknown_provider_raises_def raises_def is_value_error_def get_provider_def REGISTRY_def)
qed

lemma access_tests: "test_protected_endpoints_reject_anonymous e" "test_me_requires_auth e"
  by (simp_all add: test_protected_endpoints_reject_anonymous_def test_me_requires_auth_def admit_def view_defs
      REST_FRAMEWORK_def IsAuthenticated_def)

lemma register_test: "test_register (\<lambda>s. s) hash"
  by code_simp

text \<open>A variant all of whose living rows are in active warehouses: then availability is what can be reserved.\<close>

definition all_open :: "nat \<Rightarrow> inventory \<Rightarrow> bool" where
  "all_open v db \<longleftrightarrow> list_all (\<lambda>s. is_alive s \<and> st_variant s = v \<longrightarrow> in_active_warehouse db s) (stocks db)"

lemma all_open_reservable: "all_open v db \<Longrightarrow> reservable v db = get_available v db"
  by (auto simp: reservable_def get_available_def all_open_def list_all_iff get_queryset_def is_alive_def
      intro!: arg_cong [of _ _ sum_list] map_cong filter_cong)

lemma all_open_apply_write:
  assumes "all_open v db"
  shows "all_open v (apply_write now R ref s t db)"
proof -
  have "in_active_warehouse (apply_write now R ref s t db) (row_write R t now r) = in_active_warehouse db r"
    "in_active_warehouse (apply_write now R ref s t db) r = in_active_warehouse db r" for r
    by (simp_all add: in_active_warehouse_def warehouse_of_def)
  with assms show ?thesis by (auto simp: all_open_def list_all_iff set_save_row)
qed

lemma all_open_writes: "stock_writes v R ref n db db' \<Longrightarrow> all_open w db \<Longrightarrow> all_open w db'"
  by (induction rule: stock_writes.induct) (auto intro: all_open_apply_write)

lemma reserve_once:
  assumes "inventory_ok db" "all_open v db" "0 < q"
  shows "case reserve_stock now ref v q db of
      Inl e \<Rightarrow> get_available v db < q \<and> is_out_of_stock e
    | Inr (_, db1) \<Rightarrow> q \<le> get_available v db \<and> get_available v db1 = get_available v db - q \<and>
        inventory_ok db1 \<and> all_open v db1"
proof (cases "reserve_stock now ref v q db")
  case (Inl e)
  with reserve_stock_Inl [OF assms(1) Inl] assms(3) all_open_reservable [OF assms(2)] show ?thesis
    by (auto simp: is_out_of_stock_def)
next
  case (Inr r)
  obtain snap db1 where r: "r = (snap, db1)" by (cases r)
  from reserve_stock_Inr [OF assms(1) Inr [unfolded r]]
  have w: "q \<le> reservable v db" "stock_writes v RESERVATION ref q db db1" by blast+
  from stock_writes_available [OF w(2) assms(1)] have "get_available v db1 = get_available v db - q"
    by (simp add: avail_delta_def)
  with Inr r w all_open_reservable [OF assms(2)] all_open_writes [OF w(2) assms(2)] stock_writes_ok [OF w(2) assms(1)]
  show ?thesis by simp
qed

lemma reserve_all_exact:
  assumes "inventory_ok db" "all_open v db" "list_all (\<lambda>q. 0 < q) qs"
  shows "case reserve_all now ref v qs db of
      Inl e \<Rightarrow> get_available v db < sum_list qs \<and> is_out_of_stock e
    | Inr db' \<Rightarrow> sum_list qs \<le> get_available v db \<and> get_available v db' = get_available v db - sum_list qs \<and>
        inventory_ok db' \<and> all_open v db'"
  using assms
proof (induction qs arbitrary: db)
  case Nil
  have "0 \<le> get_available v db" using sum_available_nonneg by (simp add: get_available_def)
  then show ?case using Nil.prems by simp
next
  case (Cons q qs)
  have q: "0 < q" "list_all (\<lambda>q. 0 < q) qs" "0 \<le> sum_list qs"
    using Cons.prems(3) by (auto simp: list_all_iff intro!: sum_list_nonneg)
  show ?case
  proof (cases "reserve_stock now ref v q db")
    case (Inl e)
    with reserve_once [OF Cons.prems(1,2) q(1), of now ref] q(3) show ?thesis by simp
  next
    case (Inr r)
    obtain snap db1 where r: "r = (snap, db1)" by (cases r)
    from reserve_once [OF Cons.prems(1,2) q(1), of now ref] have one: "get_available v db1 = get_available v db - q"
      "inventory_ok db1" "all_open v db1" by (simp_all add: Inr r)
    from Cons.IH [OF one(2,3) q(2)] one(1) Inr r show ?thesis by (auto split: sum.splits)
  qed
qed

lemma seed_stock_ok: "inventory_ok seed_stock" "all_open 1 seed_stock"
  by (simp_all add: inventory_ok_def catalog_seed_def main_warehouse_def blank_warehouse_def new_stock_def distinct_pks_def
      unique_variant_warehouse_def row_ok_def all_open_def in_active_warehouse_def warehouse_of_def find_pk_def)

lemma concurrency_test: "test_reservations_are_exact_under_repeated_calls"
proof -
  have 50: "sum_list (replicate 50 (1::int)) = 50" "list_all (\<lambda>q. 0 < q) (replicate 50 (1::int))"
    by (simp_all add: sum_list_replicate list_all_length)
  have exact: "case reserve_all 1 '''' 1 (replicate 50 1) seed_stock of Inl e \<Rightarrow> False
      | Inr db1 \<Rightarrow> get_available 1 db1 = 0 \<and> inventory_ok db1 \<and> all_open 1 db1"
    using reserve_all_exact [OF seed_stock_ok 50(2), of 1 "''''"] unfolding 50(1) seed_facts(2) by (simp split: sum.splits)
  then obtain db1 where r: "reserve_all 1 '''' 1 (replicate 50 1) seed_stock = Inr db1" "get_available 1 db1 = 0"
    "inventory_ok db1" "all_open 1 db1" by (auto split: sum.splits)
  have "raises is_out_of_stock (reserve_stock 2 '''' 1 1 db1)"
    using reserve_once [OF r(3,4), of 1 2 "''''"] r(2) by (auto simp: raises_def split: sum.splits)
  moreover have "nat (get_available 1 seed_stock) = 50" by (simp only: seed_facts(2))
  ultimately show ?thesis
    unfolding test_reservations_are_exact_under_repeated_calls_def Let_def using r(1,2) by (simp only: holds_def sum.case)
qed


section \<open>Properties\<close>

text \<open>
  C7. Reservations are exact. Over a sound ledger whose warehouses with the variant are open, a sequence of
  reservations of positive quantities goes through exactly if their sum is available, however the units lie in the
  warehouses and in whatever order they are asked for; afterwards that sum less is available. If
  it is not available, OutOfStockError ends the sequence. (The race-condition test of the repository asks this of
  single units of one row.)
\<close>

theorem reservations_are_exact:
  assumes "inventory_ok db" "all_open v db" "list_all (\<lambda>q. 0 < q) qs"
  shows "case reserve_all now ref v qs db of
      Inl e \<Rightarrow> get_available v db < sum_list qs \<and> is_out_of_stock e
    | Inr db' \<Rightarrow> sum_list qs \<le> get_available v db \<and> get_available v db' = get_available v db - sum_list qs"
  using reserve_all_exact [OF assms, of now ref] by (simp split: sum.splits)

theorem reservations_are_exact_witness:
  "\<exists>db'. reserve_all 1 '''' 1 [20, 25, 5] seed_stock = Inr db' \<and> get_available 1 db' = 0 \<and>
     \<not> is_ok (reserve_all 1 '''' 1 [20, 31] seed_stock)"
proof -
  have "is_ok (reserve_all 1 '''' 1 [20, 25, 5] seed_stock)" by code_simp
  then obtain db' where r: "reserve_all 1 '''' 1 [20, 25, 5] seed_stock = Inr db'" by (auto simp: is_ok_iff)
  with reservations_are_exact [where qs = "[20, 25, 5]" and now = 1 and ref = "''''", OF seed_stock_ok]
    reservations_are_exact [where qs = "[20, 31]" and now = 1 and ref = "''''", OF seed_stock_ok] seed_facts(2)
  show ?thesis by (auto simp del: One_nat_def simp: is_ok_iff split: sum.splits)
qed


end
